(* ===== verification/Prelude.thy ===== *)
theory Prelude
  imports Complex_Main "HOL-Library.AList" "HOL-Library.Char_ord" "HOL-Library.List_Lexorder"
    "HOL-Library.Word"
begin

text \<open>
  Shared vocabulary of the development: Python exceptions as values, pure computations that may
  raise (\<open>exn + 'a\<close>), effectful computations over a world (\<open>('w, 'a) prog\<close>) with \<open>try\<close>/\<open>except\<close>/
  \<open>finally\<close> and loops, a small Hoare calculus for them, the fragment of \<open>str\<close>, \<open>datetime\<close> and
  \<open>timedelta\<close> the package uses, and list and association-list lemmas.

  Text is a \<^typ>\<open>string\<close> whose characters are the code points 0 to 255; instants are integers
  counting microseconds since 0001-01-01T00:00:00Z and durations are integers counting microseconds.
\<close>

named_theorems prog_simps \<open>how each program combinator runs\<close>
named_theorems wp \<open>Hoare rules of the program combinators\<close>

section \<open>Exceptions\<close>

text \<open>
  The error hierarchy of the Core package (\<open>meridian_storage\<close>) is a dependency: a Meridian error
  is known by its base class, its own class, its code and message, and by the \<open>retryable\<close> flag its
  constructor was given (\<open>None\<close> when the call leaves the base class's default).  Any other
  \<open>Exception\<close> carries its module, its qualified name and its text.  \<open>ExitError\<close> stands for a
  \<open>BaseException\<close> that \<open>except Exception\<close> does not catch (a process being killed).
\<close>

datatype meridian_base = ValidationError | ConflictError | CorruptionError | LifecycleError
  | TransientError | UnavailableError | NotFoundError | OtherMeridianError string

datatype exn =
    PyError (exn_module: string) (exn_name: string) (exn_text: string)
  | MeridianError (exn_base: meridian_base) (exn_class: string) (exn_code: string)
      (exn_message: string) (exn_retry: "bool option")
  | ExitError (exit_name: string)

text \<open>What the package reads of a Core error and cannot see in its own source: \<open>str(error)\<close> and
  the \<open>retryable\<close> default of each base class.\<close>

record core_errors =
  ce_str :: "exn \<Rightarrow> string"
  ce_retryable :: "meridian_base \<Rightarrow> bool"

abbreviation ValueError :: "string \<Rightarrow> exn" where
  "ValueError m \<equiv> PyError ''builtins'' ''ValueError'' m"
abbreviation TypeError :: "string \<Rightarrow> exn" where
  "TypeError m \<equiv> PyError ''builtins'' ''TypeError'' m"
abbreviation KeyError :: "string \<Rightarrow> exn" where
  "KeyError m \<equiv> PyError ''builtins'' ''KeyError'' m"
abbreviation RuntimeError :: "string \<Rightarrow> exn" where
  "RuntimeError m \<equiv> PyError ''builtins'' ''RuntimeError'' m"
abbreviation AssertionError :: "string \<Rightarrow> exn" where
  "AssertionError m \<equiv> PyError ''builtins'' ''AssertionError'' m"
abbreviation OverflowError :: "string \<Rightarrow> exn" where
  "OverflowError m \<equiv> PyError ''builtins'' ''OverflowError'' m"

fun is_exception :: "exn \<Rightarrow> bool" where
  "is_exception (ExitError _) = False"
| "is_exception _ = True"

fun is_meridian_error :: "exn \<Rightarrow> bool" where
  "is_meridian_error (MeridianError _ _ _ _ _) = True"
| "is_meridian_error _ = False"

text \<open>\<open>isinstance(error, MeridianError) and error.retryable\<close>.\<close>

fun retryable_error :: "core_errors \<Rightarrow> exn \<Rightarrow> bool" where
  "retryable_error ce (MeridianError b _ _ _ (Some r)) = r"
| "retryable_error ce (MeridianError b _ _ _ None) = ce_retryable ce b"
| "retryable_error ce _ = False"

text \<open>\<open>type(error).__name__\<close>.\<close>

fun type_name :: "exn \<Rightarrow> string" where
  "type_name (PyError _ n _) = n"
| "type_name (MeridianError _ c _ _ _) = c"
| "type_name (ExitError n) = n"

section \<open>Pure computations that may raise\<close>

definition ebind :: "exn + 'a \<Rightarrow> ('a \<Rightarrow> exn + 'b) \<Rightarrow> exn + 'b" where
  "ebind r f = (case r of Inl e \<Rightarrow> Inl e | Inr x \<Rightarrow> f x)"

lemma ebind_simps [simp]: "ebind (Inl e) f = Inl e" "ebind (Inr x) f = f x"
  by (simp_all add: ebind_def)

lemma ebind_eq_Inr [simp]: "ebind r f = Inr y \<longleftrightarrow> (\<exists>x. r = Inr x \<and> f x = Inr y)"
  by (cases r) auto

lemma ebind_eq_Inl: "ebind r f = Inl e \<longleftrightarrow> r = Inl e \<or> (\<exists>x. r = Inr x \<and> f x = Inl e)"
  by (cases r) auto

text \<open>\<open>if c: raise e\<close>.\<close>

definition guard :: "bool \<Rightarrow> exn \<Rightarrow> exn + unit" where
  "guard ok e = (if ok then Inr () else Inl e)"

lemma guard_eq_Inr [simp]: "guard ok e = Inr u \<longleftrightarrow> ok"
  by (simp add: guard_def)

lemma guard_eq_Inl [simp]: "guard ok e = Inl e' \<longleftrightarrow> \<not> ok \<and> e' = e"
  by (auto simp: guard_def)

lemma guard_True [simp]: "guard True e = Inr ()" and guard_False [simp]: "guard False e = Inl e"
  by (simp_all add: guard_def)

fun emap :: "('a \<Rightarrow> exn + 'b) \<Rightarrow> 'a list \<Rightarrow> exn + 'b list" where
  "emap f [] = Inr []"
| "emap f (x # xs) = ebind (f x) (\<lambda>y. ebind (emap f xs) (\<lambda>ys. Inr (y # ys)))"

lemma emap_all_Inr: "(\<And>x. x \<in> set xs \<Longrightarrow> f x = Inr (g x)) \<Longrightarrow> emap f xs = Inr (map g xs)"
  by (induction xs) auto

section \<open>Effectful computations\<close>

text \<open>
  A program reads and changes a world of any type; what it changed before an exception stays
  changed.  Injected hooks (adapters, sinks, clocks) are programs over the same world.
\<close>

type_synonym ('w, 'a) prog = "'w \<Rightarrow> (exn + 'a) \<times> 'w"

definition pret :: "'a \<Rightarrow> ('w, 'a) prog" where
  "pret x w = (Inr x, w)"

definition praise :: "exn \<Rightarrow> ('w, 'a) prog" where
  "praise e w = (Inl e, w)"

definition plift :: "exn + 'a \<Rightarrow> ('w, 'a) prog" where
  "plift r w = (r, w)"

definition pbind :: "('w, 'a) prog \<Rightarrow> ('a \<Rightarrow> ('w, 'b) prog) \<Rightarrow> ('w, 'b) prog" where
  "pbind m f w = (case m w of (Inl e, w') \<Rightarrow> (Inl e, w') | (Inr x, w') \<Rightarrow> f x w')"

text \<open>\<open>try: m except Exception as e: h(e)\<close>.\<close>

definition pcatch :: "('w, 'a) prog \<Rightarrow> (exn \<Rightarrow> ('w, 'a) prog) \<Rightarrow> ('w, 'a) prog" where
  "pcatch m h w =
     (case m w of (Inl e, w') \<Rightarrow> if is_exception e then h e w' else (Inl e, w') | (Inr x, w') \<Rightarrow> (Inr x, w'))"

text \<open>\<open>try: m finally: f\<close>: an exception of \<open>f\<close> replaces the outcome of \<open>m\<close>.\<close>

definition pfinally :: "('w, 'a) prog \<Rightarrow> ('w, unit) prog \<Rightarrow> ('w, 'a) prog" where
  "pfinally m f w =
     (case m w of (r, w') \<Rightarrow> (case f w' of (Inl e, w'') \<Rightarrow> (Inl e, w'') | (Inr _, w'') \<Rightarrow> (r, w'')))"

text \<open>\<open>for x in xs: f(x)\<close>.\<close>

fun pfor :: "('a \<Rightarrow> ('w, unit) prog) \<Rightarrow> 'a list \<Rightarrow> ('w, unit) prog" where
  "pfor f [] = pret ()"
| "pfor f (x # xs) = pbind (f x) (\<lambda>_. pfor f xs)"

text \<open>\<open>for x in xs: acc = f(x, acc)\<close>, for loops whose local variables die with an exception.\<close>

fun pfold :: "('a \<Rightarrow> 's \<Rightarrow> ('w, 's) prog) \<Rightarrow> 'a list \<Rightarrow> 's \<Rightarrow> ('w, 's) prog" where
  "pfold f [] s = pret s"
| "pfold f (x # xs) s = pbind (f x s) (pfold f xs)"

text \<open>An iterable an injected hook returns: the pulls that each produce an item, and the pull that ends
  it.\<close>

type_synonym ('w, 'b) pulls = "('w, 'b) prog list \<times> ('w, unit) prog"

text \<open>Local variables of a method beside the world: they keep their value when an exception is
  raised inside a \<open>try\<close>, as the variables of the code do.\<close>

definition on_world :: "('w, 'a) prog \<Rightarrow> ('w \<times> 'l, 'a) prog" where
  "on_world m s = (case m (fst s) of (r, w) \<Rightarrow> (r, (w, snd s)))"

definition get_locals :: "('w \<times> 'l, 'l) prog" where
  "get_locals s = (Inr (snd s), s)"

definition set_locals :: "('l \<Rightarrow> 'l) \<Rightarrow> ('w \<times> 'l, unit) prog" where
  "set_locals f s = (Inr (), (fst s, f (snd s)))"

definition with_locals :: "'l \<Rightarrow> ('w \<times> 'l, 'a) prog \<Rightarrow> ('w, 'a \<times> 'l) prog" where
  "with_locals l m w =
     (case m (w, l) of (Inl e, (w', _)) \<Rightarrow> (Inl e, w') | (Inr x, (w', l')) \<Rightarrow> (Inr (x, l'), w'))"

lemma pret_run [simp, prog_simps]: "pret x w = (Inr x, w)" by (simp add: pret_def)
lemma praise_run [simp, prog_simps]: "praise e w = (Inl e, w)" by (simp add: praise_def)
lemma plift_run [simp, prog_simps]: "plift r w = (r, w)" by (simp add: plift_def)

lemma pbind_Inl: "m w = (Inl e, w') \<Longrightarrow> pbind m f w = (Inl e, w')"
  by (simp add: pbind_def)
lemma pbind_Inr: "m w = (Inr x, w') \<Longrightarrow> pbind m f w = f x w'"
  by (simp add: pbind_def)
lemma pcatch_Inr: "m w = (Inr x, w') \<Longrightarrow> pcatch m h w = (Inr x, w')"
  by (simp add: pcatch_def)
lemma pcatch_Inl: "m w = (Inl e, w') \<Longrightarrow> is_exception e \<Longrightarrow> pcatch m h w = h e w'"
  by (simp add: pcatch_def)

lemmas prog_runs = pbind_Inl pbind_Inr pcatch_Inr pcatch_Inl

lemma pbind_eq_Inr:
  "pbind m f w = (Inr y, w'') \<longleftrightarrow> (\<exists>x w'. m w = (Inr x, w') \<and> f x w' = (Inr y, w''))"
  by (auto simp: pbind_def split: prod.splits sum.splits)

lemma pbind_eq_Inl:
  "pbind m f w = (Inl e, w'') \<longleftrightarrow>
     m w = (Inl e, w'') \<or> (\<exists>x w'. m w = (Inr x, w') \<and> f x w' = (Inl e, w''))"
  by (auto simp: pbind_def split: prod.splits sum.splits)

lemma pbind_plift [simp]: "pbind (plift (Inr x)) f = f x" "pbind (plift (Inl e)) f = praise e"
  by (auto simp: pbind_def fun_eq_iff)

lemma pbind_pret [simp]: "pbind (pret x) f = f x"
  by (auto simp: pbind_def fun_eq_iff)

lemma pbind_praise [simp]: "pbind (praise e) f = praise e"
  by (auto simp: pbind_def fun_eq_iff)

lemma on_world_eq: "on_world m (w, l) = (r, s) \<longleftrightarrow> (\<exists>w'. m w = (r, w') \<and> s = (w', l))"
  by (auto simp: on_world_def split: prod.splits)

lemma set_locals_run [simp, prog_simps]: "set_locals f (w, l) = (Inr (), (w, f l))"
  by (simp add: set_locals_def)

lemma get_locals_run [simp, prog_simps]: "get_locals (w, l) = (Inr l, (w, l))"
  by (simp add: get_locals_def)

lemma with_locals_Inr:
  "with_locals l m w = (Inr (x, l'), w') \<longleftrightarrow> m (w, l) = (Inr x, (w', l'))"
  by (auto simp: with_locals_def split: prod.splits sum.splits)

lemma with_locals_Inl:
  "with_locals l m w = (Inl e, w') \<longleftrightarrow> (\<exists>l'. m (w, l) = (Inl e, (w', l')))"
  by (auto simp: with_locals_def split: prod.splits sum.splits)

lemma pcatch_eq_Inr:
  "pcatch m h w = (Inr x, w'') \<longleftrightarrow> m w = (Inr x, w'') \<or>
     (\<exists>e w'. m w = (Inl e, w') \<and> is_exception e \<and> h e w' = (Inr x, w''))"
  by (auto simp: pcatch_def split: prod.splits sum.splits if_splits)

lemma pcatch_eq_Inl:
  "pcatch m h w = (Inl e, w'') \<longleftrightarrow> m w = (Inl e, w'') \<and> \<not> is_exception e \<or>
     (\<exists>e' w'. m w = (Inl e', w') \<and> is_exception e' \<and> h e' w' = (Inl e, w''))"
  by (auto simp: pcatch_def split: prod.splits sum.splits if_splits)

lemma pfor_append: "pfor f (xs @ ys) = pbind (pfor f xs) (\<lambda>_. pfor f ys)"
  by (induction xs) (auto simp: fun_eq_iff pbind_def split: prod.splits sum.splits)

subsection \<open>Hoare triples\<close>

text \<open>\<open>triple P m Q E\<close>: from a world satisfying \<open>P\<close>, the program either returns with \<open>Q\<close> or raises
  with \<open>E\<close>.  Programs are total functions, so this is total correctness.\<close>

definition triple ::
  "('w \<Rightarrow> bool) \<Rightarrow> ('w, 'a) prog \<Rightarrow> ('a \<Rightarrow> 'w \<Rightarrow> bool) \<Rightarrow> (exn \<Rightarrow> 'w \<Rightarrow> bool) \<Rightarrow> bool"
where
  "triple P m Q E \<longleftrightarrow>
     (\<forall>w. P w \<longrightarrow> (case m w of (Inr x, w') \<Rightarrow> Q x w' | (Inl e, w') \<Rightarrow> E e w'))"

lemma tripleI:
  assumes "\<And>w x w'. P w \<Longrightarrow> m w = (Inr x, w') \<Longrightarrow> Q x w'"
    and "\<And>w e w'. P w \<Longrightarrow> m w = (Inl e, w') \<Longrightarrow> E e w'"
  shows "triple P m Q E"
  using assms by (auto simp: triple_def split: prod.splits sum.splits)

lemma triple_Inr: "triple P m Q E \<Longrightarrow> P w \<Longrightarrow> m w = (Inr x, w') \<Longrightarrow> Q x w'"
  by (force simp: triple_def)

lemma triple_Inl: "triple P m Q E \<Longrightarrow> P w \<Longrightarrow> m w = (Inl e, w') \<Longrightarrow> E e w'"
  by (force simp: triple_def)

lemma triple_conseq:
  assumes "triple P m Q E" and "\<And>w. P' w \<Longrightarrow> P w"
    and "\<And>x w. Q x w \<Longrightarrow> Q' x w" and "\<And>e w. E e w \<Longrightarrow> E' e w"
  shows "triple P' m Q' E'"
  using assms by (intro tripleI) (blast dest: triple_Inr triple_Inl)+

lemma triple_pre: "triple P m Q E \<Longrightarrow> (\<And>w. P' w \<Longrightarrow> P w) \<Longrightarrow> triple P' m Q E"
  by (erule triple_conseq) auto

lemma triple_pret [wp]: "(\<And>w. P w \<Longrightarrow> Q x w) \<Longrightarrow> triple P (pret x) Q E"
  by (simp add: triple_def)

lemma triple_praise [wp]: "(\<And>w. P w \<Longrightarrow> E e w) \<Longrightarrow> triple P (praise e) Q E"
  by (simp add: triple_def)

lemma triple_plift [wp]:
  "(\<And>w x. P w \<Longrightarrow> r = Inr x \<Longrightarrow> Q x w) \<Longrightarrow> (\<And>w e. P w \<Longrightarrow> r = Inl e \<Longrightarrow> E e w) \<Longrightarrow>
   triple P (plift r) Q E"
  by (auto simp: triple_def split: sum.splits)

lemma triple_pbind:
  assumes "triple P m R E" and "\<And>x. triple (R x) (f x) Q E"
  shows "triple P (pbind m f) Q E"
  using assms by (fastforce simp: triple_def pbind_def split: prod.splits sum.splits)

lemma triple_pcatch:
  assumes "triple P m Q (\<lambda>e w. if is_exception e then R e w else E e w)"
    and "\<And>e. is_exception e \<Longrightarrow> triple (R e) (h e) Q E"
  shows "triple P (pcatch m h) Q E"
  using assms
  by (fastforce simp: triple_def pcatch_def split: prod.splits sum.splits if_splits)

lemma triple_pfinally:
  assumes "triple P m R S" and "\<And>x. triple (R x) f (\<lambda>_. Q x) E"
    and "\<And>e. triple (S e) f (\<lambda>_. E e) E"
  shows "triple P (pfinally m f) Q E"
  using assms by (fastforce simp: triple_def pfinally_def split: prod.splits sum.splits)

lemma triple_pfor:
  assumes "\<And>x. x \<in> set xs \<Longrightarrow> triple I (f x) (\<lambda>_. I) E"
  shows "triple I (pfor f xs) (\<lambda>_. I) E"
  using assms by (induction xs) (auto intro: triple_pret triple_pbind)

section \<open>Text\<close>

text \<open>\<open>str.isspace\<close> and the regular-expression class \<open>\s\<close> on code points below 256.\<close>

definition is_space :: "char \<Rightarrow> bool" where
  "is_space c = (let n = of_char c :: nat in
     9 \<le> n \<and> n \<le> 13 \<or> 28 \<le> n \<and> n \<le> 32 \<or> n = 133 \<or> n = 160)"

definition strip :: "string \<Rightarrow> string" where
  "strip s = rev (dropWhile is_space (rev (dropWhile is_space s)))"

definition lower_char :: "char \<Rightarrow> char" where
  "lower_char c = (let n = of_char c :: nat in if 65 \<le> n \<and> n \<le> 90 then char_of (n + 32) else c)"

definition hex_digit :: "nat \<Rightarrow> char" where
  "hex_digit n = ''0123456789abcdef'' ! (n mod 16)"

text \<open>\<open>repr\<close> of a \<open>str\<close>, as \<open>!r\<close> writes it into messages.\<close>

definition repr_char :: "char \<Rightarrow> char \<Rightarrow> string" where
  "repr_char q c = (let n = of_char c :: nat in
     if c = q \<or> n = 92 then [char_of (92::nat), c]
     else if n = 9 then [char_of (92::nat), CHR ''t'']
     else if n = 10 then [char_of (92::nat), CHR ''n'']
     else if n = 13 then [char_of (92::nat), CHR ''r'']
     else if n < 32 \<or> 127 \<le> n \<and> n \<le> 160 \<or> n = 173
       then [char_of (92::nat), CHR ''x'', hex_digit (n div 16), hex_digit n]
     else [c])"

definition py_repr :: "string \<Rightarrow> string" where
  "py_repr s = (let sq = char_of (39::nat); dq = char_of (34::nat);
       q = (if sq \<in> set s \<and> dq \<notin> set s then dq else sq)
     in [q] @ concat (map (repr_char q) s) @ [q])"

text \<open>\<open>str\<close> of an \<open>int\<close>, and a decimal padded with zeros to a width.\<close>

fun nat_digits :: "nat \<Rightarrow> string" where
  "nat_digits n = (if n < 10 then [char_of (48 + n)]
                   else nat_digits (n div 10) @ [char_of (48 + n mod 10)])"

declare nat_digits.simps [simp del]

definition int_text :: "int \<Rightarrow> string" where
  "int_text i = (if i < 0 then CHR ''-'' # nat_digits (nat (- i)) else nat_digits (nat i))"

definition zero_pad :: "nat \<Rightarrow> string \<Rightarrow> string" where
  "zero_pad w s = replicate (w - length s) (CHR ''0'') @ s"

section \<open>Lists and association lists\<close>

text \<open>A \<open>dict\<close> is the list of its items in insertion order; \<open>d[k] = v\<close> is \<^const>\<open>AList.update\<close> and
  \<open>d.get(k)\<close> is \<^const>\<open>map_of\<close>.\<close>

type_synonym ('k, 'v) dict = "('k \<times> 'v) list"

lemma map_of_update [simp]: "map_of (AList.update k v d) = (map_of d)(k \<mapsto> v)"
  by (simp add: update_conv')

lemma keys_update_mem: "k \<in> fst ` set d \<Longrightarrow> map fst (AList.update k v d) = map fst d"
  by (induction d) auto

lemma distinct_keys_update [intro]:
  "distinct (map fst d) \<Longrightarrow> distinct (map fst (AList.update k v d))"
  by (rule distinct_update)

lemma update_notin: "k \<notin> fst ` set d \<Longrightarrow> AList.update k v d = d @ [(k, v)]"
  by (induction d) auto

lemma set_update_distinct:
  assumes "distinct (map fst d)"
  shows "set (AList.update k v d) = insert (k, v) {p \<in> set d. fst p \<noteq> k}"
  using assms by (induction d) (auto simp: image_iff)

lemma map_of_eq_Some_distinct:
  "distinct (map fst d) \<Longrightarrow> map_of d k = Some v \<longleftrightarrow> (k, v) \<in> set d"
  by (rule map_of_eq_Some_iff)

end
