(* ===== verification/Canonical.thy ===== *)
theory Canonical
  imports Sha256 "HOL-Library.Multiset"
begin

text \<open>
  Model of \<open>_canonical.py\<close>: aware timestamps and their normalisation to UTC, the RFC 3339 text, the
  conversion of Python values to JSON data, the canonical serialisation with sorted keys, SHA-256
  digests of it and the check of a prefixed digest.  \<open>pyval\<close> is a Python value as far as
  \<open>_json_value\<close> tells values apart, \<open>json\<close> is \<open>JsonValue\<close>.  The lemmas show that the conversion
  yields well-formed objects and is idempotent, that the order in which a mapping was built does
  not change its bytes, and that every digest passes \<open>require_sha256\<close>.
\<close>

section \<open>Timestamps\<close>

text \<open>A \<open>datetime\<close>: its wall clock reading and its UTC offset, \<open>None\<close> when it is naive.\<close>

datatype datetime = DateTime (dt_wall: int) (dt_offset: "int option")

definition max_instant :: int where
  "max_instant = 3652059 * 86400000000 - 1"

definition valid_instant :: "int \<Rightarrow> bool" where
  "valid_instant u \<longleftrightarrow> 0 \<le> u \<and> u \<le> max_instant"

abbreviation utc_datetime :: "int \<Rightarrow> datetime" where
  "utc_datetime u \<equiv> DateTime u (Some 0)"

definition ensure_utc :: "datetime \<Rightarrow> string \<Rightarrow> exn + int" where
  "ensure_utc value field = (case dt_offset value of
       None \<Rightarrow> Inl (ValueError (field @ '' must be timezone-aware''))
     | Some off \<Rightarrow>
         if valid_instant (dt_wall value - off) then Inr (dt_wall value - off)
         else Inl (OverflowError ''date value out of range''))"

text \<open>\<open>datetime + timedelta\<close>, which leaves the supported range with an exception.\<close>

definition add_duration :: "int \<Rightarrow> int \<Rightarrow> exn + int" where
  "add_duration u d =
     (if valid_instant (u + d) then Inr (u + d) else Inl (OverflowError ''date value out of range''))"

definition days_before_month :: "int list" where
  "days_before_month = [0, 0, 31, 59, 90, 120, 151, 181, 212, 243, 273, 304, 334]"

definition days_in_month :: "int list" where
  "days_in_month = [0, 31, 28, 31, 30, 31, 30, 31, 31, 30, 31, 30, 31]"

text \<open>Year, month and day of a day number, day 0 being 0001-01-01 (\<open>date.fromordinal\<close>).\<close>

definition civil_of_days :: "int \<Rightarrow> int \<times> int \<times> int" where
  "civil_of_days days =
     (let n400 = days div 146097; r400 = days mod 146097;
          n100 = r400 div 36524; r100 = r400 mod 36524;
          n4 = r100 div 1461; r4 = r100 mod 1461;
          n1 = r4 div 365; n = r4 mod 365;
          year = n400 * 400 + 1 + n100 * 100 + n4 * 4 + n1;
          leap = (n1 = 3 \<and> (n4 \<noteq> 24 \<or> n100 = 3));
          m = (n + 50) div 32;
          prec = days_before_month ! nat m + (if m > 2 \<and> leap then 1 else 0)
      in if n1 = 4 \<or> n100 = 4 then (year - 1, 12, 31)
         else if prec > n then
           (year, m - 1,
            n - (prec - days_in_month ! nat (m - 1) - (if m - 1 = 2 \<and> leap then 1 else 0)) + 1)
         else (year, m, n - prec + 1))"

definition iso_utc :: "int \<Rightarrow> string" where
  "iso_utc u =
     (let (y, mo, d) = civil_of_days (u div 86400000000); t = u mod 86400000000;
          num = (\<lambda>w i. zero_pad w (nat_digits (nat i)))
      in num 4 y @ ''-'' @ num 2 mo @ ''-'' @ num 2 d @ ''T'' @
         num 2 (t div 3600000000) @ '':'' @ num 2 (t div 60000000 mod 60) @ '':'' @
         num 2 (t div 1000000 mod 60) @ ''.'' @ num 6 (t mod 1000000) @ ''Z'')"

definition rfc3339 :: "datetime \<Rightarrow> exn + string" where
  "rfc3339 value = ebind (ensure_utc value ''timestamp'') (\<lambda>u. Inr (iso_utc u))"

section \<open>Python values and JSON data\<close>

text \<open>A finite float is known by its \<open>repr\<close>, which is also how \<open>json.dumps\<close> writes it.  \<open>PStr\<close>
  covers \<open>str\<close> and its subclasses (\<open>StrEnum\<close> members); \<open>PEnum\<close> is an \<open>Enum\<close> member that is
  neither \<open>int\<close> nor \<open>str\<close>; \<open>PObject\<close> is any other type, by name.\<close>

datatype pyfloat = FiniteFloat string | NonFiniteFloat

datatype pyval = PNone | PBool bool | PInt int | PFloat pyfloat | PStr string
  | PDateTime datetime | PEnum pyval | PDataclass "(string \<times> pyval) list"
  | PMapping "(pyval \<times> pyval) list" | PSequence "pyval list" | PBytes "byte list" | PObject string

datatype json = JNull | JBool bool | JInt int | JFloat string | JStr string
  | JList "json list" | JObj "(string \<times> json) list"

fun json_value :: "pyval \<Rightarrow> exn + json"
  and json_fields :: "(string \<times> pyval) list \<Rightarrow> (string, json) dict \<Rightarrow> exn + (string, json) dict"
  and json_items :: "(pyval \<times> pyval) list \<Rightarrow> (string, json) dict \<Rightarrow> exn + (string, json) dict"
  and json_elements :: "pyval list \<Rightarrow> exn + json list" where
  "json_value PNone = Inr JNull"
| "json_value (PBool b) = Inr (JBool b)"
| "json_value (PInt i) = Inr (JInt i)"
| "json_value (PStr s) = Inr (JStr s)"
| "json_value (PFloat f) = (case f of FiniteFloat r \<Rightarrow> Inr (JFloat r)
     | NonFiniteFloat \<Rightarrow> Inl (ValueError ''non-finite floating-point values are not canonical JSON''))"
| "json_value (PDateTime d) = ebind (rfc3339 d) (\<lambda>t. Inr (JStr t))"
| "json_value (PEnum v) = json_value v"
| "json_value (PDataclass fs) = ebind (json_fields fs []) (\<lambda>d. Inr (JObj d))"
| "json_value (PMapping kvs) = ebind (json_items kvs []) (\<lambda>d. Inr (JObj d))"
| "json_value (PSequence vs) = ebind (json_elements vs) (\<lambda>js. Inr (JList js))"
| "json_value (PBytes _) = Inl (TypeError ''unsupported canonical JSON value: bytes'')"
| "json_value (PObject t) = Inl (TypeError (''unsupported canonical JSON value: '' @ t))"
| "json_fields [] d = Inr d"
| "json_fields (kv # kvs) d =
     ebind (json_value (snd kv)) (\<lambda>j. json_fields kvs (AList.update (fst kv) j d))"
| "json_items [] d = Inr d"
| "json_items (kv # kvs) d = (case fst kv of
       PStr k \<Rightarrow> ebind (json_value (snd kv)) (\<lambda>j. json_items kvs (AList.update k j d))
     | _ \<Rightarrow> Inl (TypeError ''canonical JSON object keys must be strings''))"
| "json_elements [] = Inr []"
| "json_elements (v # vs) = ebind (json_value v) (\<lambda>j. ebind (json_elements vs) (\<lambda>js. Inr (j # js)))"

definition to_json_value :: "pyval \<Rightarrow> exn + json" where
  "to_json_value v = json_value v"

text \<open>A deeply immutable copy has the value of the JSON data it copies.\<close>

definition immutable_value :: "pyval \<Rightarrow> exn + json" where
  "immutable_value v = json_value v"

definition immutable_mapping :: "pyval \<Rightarrow> exn + json" where
  "immutable_mapping v = immutable_value v"

text \<open>JSON data is itself a Python value.\<close>

fun json_val :: "json \<Rightarrow> pyval" where
  "json_val JNull = PNone"
| "json_val (JBool b) = PBool b"
| "json_val (JInt i) = PInt i"
| "json_val (JFloat r) = PFloat (FiniteFloat r)"
| "json_val (JStr s) = PStr s"
| "json_val (JList js) = PSequence (map json_val js)"
| "json_val (JObj kvs) = PMapping (map (\<lambda>kv. (PStr (fst kv), json_val (snd kv))) kvs)"

fun wf_json :: "json \<Rightarrow> bool" where
  "wf_json (JList js) \<longleftrightarrow> (\<forall>j \<in> set js. wf_json j)"
| "wf_json (JObj kvs) \<longleftrightarrow> distinct (map fst kvs) \<and> (\<forall>kv \<in> set kvs. wf_json (snd kv))"
| "wf_json _ \<longleftrightarrow> True"

section \<open>Canonical bytes and digests\<close>

definition escape_char :: "char \<Rightarrow> string" where
  "escape_char c = (let n = of_char c :: nat; bs = char_of (92::nat) in
     if n = 34 \<or> n = 92 then [bs, c]
     else if n = 8 then [bs, CHR ''b''] else if n = 12 then [bs, CHR ''f'']
     else if n = 10 then [bs, CHR ''n''] else if n = 13 then [bs, CHR ''r'']
     else if n = 9 then [bs, CHR ''t'']
     else if n < 32 then [bs, CHR ''u'', CHR ''0'', CHR ''0'', hex_digit (n div 16), hex_digit n]
     else [c])"

definition quoted :: "string \<Rightarrow> string" where
  "quoted s = [char_of (34::nat)] @ concat (map escape_char s) @ [char_of (34::nat)]"

fun join_commas :: "string list \<Rightarrow> string" where
  "join_commas [] = []"
| "join_commas [s] = s"
| "join_commas (s # ss) = s @ '','' @ join_commas ss"

text \<open>\<open>json.dumps(..., ensure_ascii=False, sort_keys=True, separators=(",", ":"))\<close>.\<close>

fun json_text :: "json \<Rightarrow> string" where
  "json_text JNull = ''null''"
| "json_text (JBool b) = (if b then ''true'' else ''false'')"
| "json_text (JInt i) = int_text i"
| "json_text (JFloat r) = r"
| "json_text (JStr s) = quoted s"
| "json_text (JList js) = ''['' @ join_commas (map json_text js) @ '']''"
| "json_text (JObj kvs) = ''{'' @ join_commas (map (\<lambda>kt. quoted (fst kt) @ '':'' @ snd kt)
     (sort_key fst (map (\<lambda>kv. (fst kv, json_text (snd kv))) kvs))) @ ''}''"

definition utf8_char :: "char \<Rightarrow> byte list" where
  "utf8_char c = (let n = of_char c :: nat in
     if n < 128 then [of_nat n] else [of_nat (192 + n div 64), of_nat (128 + n mod 64)])"

definition utf8 :: "string \<Rightarrow> byte list" where
  "utf8 s = concat (map utf8_char s)"

definition canonical_json :: "json \<Rightarrow> byte list" where
  "canonical_json j = utf8 (json_text j)"

definition canonical_json_bytes :: "pyval \<Rightarrow> exn + byte list" where
  "canonical_json_bytes v = ebind (json_value v) (\<lambda>j. Inr (canonical_json j))"

definition json_digest :: "json \<Rightarrow> string" where
  "json_digest j = ''sha256:'' @ hexdigest (canonical_json j)"

definition sha256_digest :: "pyval \<Rightarrow> exn + string" where
  "sha256_digest v = ebind (canonical_json_bytes v) (\<lambda>b. Inr (''sha256:'' @ hexdigest b))"

definition is_sha256 :: "string \<Rightarrow> bool" where
  "is_sha256 s \<longleftrightarrow> length s = 71 \<and> take 7 s = ''sha256:'' \<and> (\<forall>c \<in> set (drop 7 s). is_hex c)"

definition require_sha256 :: "string \<Rightarrow> string \<Rightarrow> exn + string" where
  "require_sha256 value field =
     (if is_sha256 value then Inr value
      else Inl (ValueError (field @ '' must use the sha256:<lowercase hex> form'')))"

text \<open>What \<open>json.loads\<close> reads back from the canonical bytes: the same data with the keys of every object in
  order.\<close>

fun sorted_json :: "json \<Rightarrow> json" where
  "sorted_json (JList js) = JList (map sorted_json js)"
| "sorted_json (JObj kvs) = JObj (sort_key fst (map (\<lambda>kv. (fst kv, sorted_json (snd kv))) kvs))"
| "sorted_json j = j"

section \<open>Facts\<close>

lemma ensure_utc_utc [simp]: "valid_instant u \<Longrightarrow> ensure_utc (utc_datetime u) f = Inr u"
  by (simp add: ensure_utc_def)

lemma ensure_utc_valid: "ensure_utc d f = Inr u \<Longrightarrow> valid_instant u"
  by (auto simp: ensure_utc_def split: option.splits if_splits)

lemma add_duration_eq_Inr [simp]: "add_duration u d = Inr v \<longleftrightarrow> v = u + d \<and> valid_instant (u + d)"
  by (auto simp: add_duration_def)

lemma require_sha256_eq_Inr [simp]: "require_sha256 v f = Inr x \<longleftrightarrow> is_sha256 v \<and> x = v"
  by (auto simp: require_sha256_def)

lemma is_sha256_nonempty: "is_sha256 s \<Longrightarrow> s \<noteq> []"
  by (auto simp: is_sha256_def)

lemma is_sha256_hexdigest: "is_sha256 (''sha256:'' @ hexdigest b)"
  using is_hex_hexdigest by (simp add: is_sha256_def)

lemma is_sha256_json_digest [simp]: "is_sha256 (json_digest j)"
  unfolding json_digest_def by (rule is_sha256_hexdigest)

lemma json_digest_nonempty [simp]: "json_digest j \<noteq> []"
  using is_sha256_json_digest by (rule is_sha256_nonempty)

lemma json_value_wf:
  "json_value v = Inr j \<Longrightarrow> wf_json j"
  "json_fields fs d = Inr d' \<Longrightarrow> wf_json (JObj d) \<Longrightarrow> wf_json (JObj d')"
  "json_items kvs d = Inr d' \<Longrightarrow> wf_json (JObj d) \<Longrightarrow> wf_json (JObj d')"
  "json_elements vs = Inr js \<Longrightarrow> \<forall>j \<in> set js. wf_json j"
proof (induction v and fs d and kvs d and vs arbitrary: j and d' and d' and js
    rule: json_value_json_fields_json_items_json_elements.induct)
qed (fastforce simp: set_update_distinct distinct_keys_update
      split: pyfloat.splits pyval.splits)+

subsection \<open>The conversion is idempotent\<close>

lemma json_items_embed:
  assumes "\<And>kv. kv \<in> set kvs \<Longrightarrow> json_value (json_val (snd kv)) = Inr (snd kv)"
    and "distinct (map fst (d @ kvs))"
  shows "json_items (map (\<lambda>kv. (PStr (fst kv), json_val (snd kv))) kvs) d = Inr (d @ kvs)"
  using assms
proof (induction kvs arbitrary: d)
  case (Cons kv kvs)
  have "AList.update (fst kv) (snd kv) d = d @ [kv]"
    using Cons.prems(2) by (cases kv) (force intro: update_notin)
  with Cons show ?case by simp
qed simp

lemma json_elements_embed:
  assumes "\<And>j. j \<in> set js \<Longrightarrow> json_value (json_val j) = Inr j"
  shows "json_elements (map json_val js) = Inr js"
  using assms by (induction js) auto

lemma json_value_json_val [simp]: "wf_json j \<Longrightarrow> json_value (json_val j) = Inr j"
  by (induction j rule: json_val.induct) (auto simp: json_items_embed json_elements_embed)

lemma json_value_idem: "json_value v = Inr j \<Longrightarrow> json_value (json_val j) = Inr j"
  by (simp add: json_value_wf)

lemma ensure_utc_idem: "ensure_utc d f = Inr u \<Longrightarrow> ensure_utc (utc_datetime u) g = Inr u"
  by (simp add: ensure_utc_valid)

lemma sha256_digest_json_val: "wf_json j \<Longrightarrow> sha256_digest (json_val j) = Inr (json_digest j)"
  by (simp add: sha256_digest_def canonical_json_bytes_def json_digest_def)

subsection \<open>Key order does not matter\<close>

lemma json_items_list_all2:
  assumes "distinct (map fst kvs)" and "\<And>k. PStr k \<in> fst ` set kvs \<Longrightarrow> k \<notin> fst ` set d"
  shows "json_items kvs d = Inr d' \<longleftrightarrow>
    (\<exists>e. d' = d @ e \<and> list_all2 (\<lambda>kv kj. fst kv = PStr (fst kj) \<and> json_value (snd kv) = Inr (snd kj)) kvs e)"
  using assms
proof (induction kvs arbitrary: d)
  case (Cons kv kvs)
  show ?case
  proof (cases "fst kv")
    case (PStr k)
    have new: "AList.update k j d = d @ [(k, j)]" for j
      using Cons.prems(2) PStr by (intro update_notin) (auto simp: image_iff)
    have IH: "json_items kvs (d @ [(k, j)]) = Inr d' \<longleftrightarrow>
        (\<exists>e. d' = (d @ [(k, j)]) @ e \<and>
          list_all2 (\<lambda>kv kj. fst kv = PStr (fst kj) \<and> json_value (snd kv) = Inr (snd kj)) kvs e)" for j
      using Cons.prems PStr by (intro Cons.IH) (auto simp: image_iff)
    show ?thesis
      using PStr by (auto simp: new IH list_all2_Cons1)
  qed (auto simp: list_all2_Cons1)
qed auto

lemma sort_key_distinct_mset:
  assumes "mset xs = mset ys" and "distinct (map f xs)"
  shows "sort_key f xs = sort_key f ys"
  using assms by (intro sort_key_inj_key_eq) (auto simp: distinct_map)

lemma json_text_mset:
  assumes "mset kvs = mset kvs'" and "distinct (map fst kvs)"
  shows "json_text (JObj kvs) = json_text (JObj kvs')"
proof -
  let ?f = "\<lambda>kv. (fst kv, json_text (snd kv))"
  have "sort_key fst (map ?f kvs) = sort_key fst (map ?f kvs')"
    using assms by (intro sort_key_distinct_mset) (auto simp: comp_def)
  then show ?thesis by simp
qed

lemma distinct_fst_sort: "distinct (map fst (sort_key fst xs)) = distinct (map fst xs)"
  by (simp add: distinct_map)

lemma distinct_fst_mapped: "distinct (map fst (map (\<lambda>kv. (fst kv, f (snd kv))) kvs)) = distinct (map fst kvs)"
  by (simp add: comp_def)

lemma wf_sorted_json: "wf_json j \<Longrightarrow> wf_json (sorted_json j)"
proof (induction j rule: sorted_json.induct)
  case (2 kvs)
  then show ?case by (auto simp only: sorted_json.simps wf_json.simps distinct_fst_sort distinct_fst_mapped) auto
qed auto

lemma json_text_sorted: "wf_json j \<Longrightarrow> json_text (sorted_json j) = json_text j"
proof (induction j rule: sorted_json.induct)
  case (2 kvs)
  let ?f = "\<lambda>kv. (fst kv, sorted_json (snd kv))"
  have d: "distinct (map fst (sort_key fst (map ?f kvs)))"
    using 2(2) by (simp only: wf_json.simps distinct_fst_sort distinct_fst_mapped)
  have "json_text (JObj (sort_key fst (map ?f kvs))) = json_text (JObj (map ?f kvs))"
    by (rule json_text_mset [OF _ d]) simp
  moreover have "map (\<lambda>kv. (fst kv, json_text (snd kv))) (map ?f kvs) = map (\<lambda>kv. (fst kv, json_text (snd kv))) kvs"
    using 2 by auto
  ultimately show ?case by (simp only: sorted_json.simps json_text.simps)
next
  case (1 js)
  then have "map json_text (map sorted_json js) = map json_text js" by auto
  then show ?case by (simp only: sorted_json.simps json_text.simps)
qed simp_all

end
