(* ===== verification/Lifecycle.thy ===== *)
theory Lifecycle
  imports Canonical
begin

text \<open>
  Models of \<open>errors.py\<close> (the package's exceptions over the Core hierarchy), \<open>control.py\<close> (the
  cancellation token) and \<open>evidence.py\<close> (evidence records and sinks).  A constructor of a frozen
  dataclass is a function from its raw arguments to the record \<open>__post_init__\<close> leaves, or to the
  exception it raises.
\<close>

section \<open>Exceptions of the package\<close>

definition DataLifecycleValidationError :: "string \<Rightarrow> exn" where
  "DataLifecycleValidationError m =
     MeridianError ValidationError ''DataLifecycleValidationError'' ''MERIDIAN_LIFECYCLE_INVALID'' m None"

definition LeaseLostError :: "string \<Rightarrow> exn" where
  "LeaseLostError m = MeridianError ConflictError ''LeaseLostError'' ''MERIDIAN_OUTBOX_LEASE_LOST'' m None"

definition CheckpointConflict :: "string \<Rightarrow> exn" where
  "CheckpointConflict m =
     MeridianError ConflictError ''CheckpointConflict'' ''MERIDIAN_CHECKPOINT_CONFLICT'' m None"

definition ProjectionRejected :: "string \<Rightarrow> exn" where
  "ProjectionRejected m =
     MeridianError ValidationError ''ProjectionRejected'' ''MERIDIAN_PROJECTION_REJECTED'' m None"

definition CacheUnavailable :: "string \<Rightarrow> exn" where
  "CacheUnavailable m =
     MeridianError UnavailableError ''CacheUnavailable'' ''MERIDIAN_CACHE_UNAVAILABLE'' m (Some True)"

definition IncompatibleMigration :: "string \<Rightarrow> exn" where
  "IncompatibleMigration m =
     MeridianError ValidationError ''IncompatibleMigration'' ''MERIDIAN_MIGRATION_INCOMPATIBLE'' m None"

definition MigrationConflict :: "string \<Rightarrow> exn" where
  "MigrationConflict m =
     MeridianError ConflictError ''MigrationConflict'' ''MERIDIAN_MIGRATION_CONFLICT'' m None"

definition MigrationFailed :: "string \<Rightarrow> exn" where
  "MigrationFailed m =
     MeridianError LifecycleError ''MigrationFailed'' ''MERIDIAN_MIGRATION_FAILED'' m (Some False)"

definition IntegrityError :: "string \<Rightarrow> exn" where
  "IntegrityError m =
     MeridianError CorruptionError ''IntegrityError'' ''MERIDIAN_PORTABILITY_INTEGRITY'' m None"

definition OperationCancelled :: exn where
  "OperationCancelled = MeridianError TransientError ''OperationCancelled''
     ''MERIDIAN_LIFECYCLE_CANCELLED'' ''lifecycle operation cancelled'' (Some True)"

text \<open>The two Core errors the package raises directly.\<close>

definition NotFound :: "string \<Rightarrow> string \<Rightarrow> exn" where
  "NotFound code m = MeridianError NotFoundError ''NotFoundError'' code m None"

definition Conflict :: "string \<Rightarrow> string \<Rightarrow> exn" where
  "Conflict code m = MeridianError ConflictError ''ConflictError'' code m None"

lemmas package_errors =
  DataLifecycleValidationError_def LeaseLostError_def CheckpointConflict_def ProjectionRejected_def
  CacheUnavailable_def IncompatibleMigration_def MigrationConflict_def MigrationFailed_def
  IntegrityError_def OperationCancelled_def NotFound_def Conflict_def

lemma package_errors_are_exceptions [simp]:
  "is_exception (DataLifecycleValidationError m)" "is_exception (LeaseLostError m)"
  "is_exception (CheckpointConflict m)" "is_exception (ProjectionRejected m)"
  "is_exception (CacheUnavailable m)" "is_exception (IncompatibleMigration m)"
  "is_exception (MigrationConflict m)" "is_exception (MigrationFailed m)"
  "is_exception (IntegrityError m)" "is_exception OperationCancelled"
  "is_exception (NotFound c m)" "is_exception (Conflict c m)"
  by (simp_all add: package_errors)

section \<open>Cancellation\<close>

text \<open>The token is a shared flag any thread may set, so reading it is a program over the world;
  \<open>raise_if_cancelled\<close> is the only way the coordinators use it.\<close>

definition raise_if_cancelled :: "('w, bool) prog \<Rightarrow> ('w, unit) prog" where
  "raise_if_cancelled cancelled =
     pbind cancelled (\<lambda>c. if c then praise OperationCancelled else pret ())"

text \<open>A fresh \<open>CancellationToken()\<close> nobody else holds is never set.\<close>

definition fresh_token :: "('w, bool) prog" where
  "fresh_token = pret False"

text \<open>The token's own event, as the state it keeps: unset at first, set once and for all by \<open>cancel\<close>.\<close>

definition CancellationToken :: bool where
  "CancellationToken = False"

definition cancelled :: "(bool, bool) prog" where
  "cancelled event = (Inr event, event)"

definition cancel :: "(bool, unit) prog" where
  "cancel event = (Inr (), True)"

lemma cancellation_is_observed:
  "raise_if_cancelled cancelled CancellationToken = (Inr (), CancellationToken)"
  "pbind cancel (\<lambda>_. raise_if_cancelled cancelled) event = (Inl OperationCancelled, True)"
  by (simp_all add: raise_if_cancelled_def cancelled_def cancel_def CancellationToken_def pbind_def)

section \<open>Evidence\<close>

record ('v, 't) lifecycle_evidence =
  ev_kind :: string
  ev_subject :: string
  ev_state :: string
  ev_details :: 'v
  ev_occurred_at :: 't
  ev_fingerprint :: string

type_synonym evidence = "(json, int) lifecycle_evidence"

definition LifecycleEvidence :: "(pyval, datetime) lifecycle_evidence \<Rightarrow> exn + evidence" where
  "LifecycleEvidence r =
     ebind (guard (ev_kind r \<noteq> [] \<and> ev_subject r \<noteq> [] \<and> ev_state r \<noteq> [])
         (ValueError ''evidence kind, subject, and state must be non-empty'')) (\<lambda>_.
     ebind (immutable_mapping (ev_details r)) (\<lambda>details.
     ebind (ensure_utc (ev_occurred_at r) ''occurred_at'') (\<lambda>occurred.
     let expected = json_digest (JObj [(''kind'', JStr (ev_kind r)), (''subject'', JStr (ev_subject r)),
           (''state'', JStr (ev_state r)), (''details'', details)])
     in ebind (guard (ev_fingerprint r = [] \<or> ev_fingerprint r = expected)
          (ValueError ''evidence fingerprint does not match canonical content'')) (\<lambda>_.
        Inr \<lparr>ev_kind = ev_kind r, ev_subject = ev_subject r, ev_state = ev_state r,
             ev_details = details, ev_occurred_at = occurred, ev_fingerprint = expected\<rparr>))))"

definition evidence_to_mapping :: "evidence \<Rightarrow> json" where
  "evidence_to_mapping e = JObj [(''kind'', JStr (ev_kind e)), (''subject'', JStr (ev_subject e)),
     (''state'', JStr (ev_state e)), (''details'', ev_details e),
     (''occurredAt'', JStr (iso_utc (ev_occurred_at e))), (''fingerprint'', JStr (ev_fingerprint e))]"

text \<open>An evidence sink is a program per record.  The package ships a no-op sink, an in-memory sink
  and one that appends through the Evidence Catalog, whose surface and execution are the Core's.\<close>

type_synonym 'w evidence_sink = "evidence \<Rightarrow> ('w, unit) prog"

definition null_sink :: "'w evidence_sink" where
  "null_sink e = pret ()"

definition in_memory_sink :: "evidence list evidence_sink" where
  "in_memory_sink e events = (Inr (), events @ [e])"

text \<open>\<open>MeridianEvidenceSink\<close>: \<open>catalog\<close>, \<open>append_op\<close> and \<open>execute\<close> stand for the Core's runtime, \<open>map_data\<close>
  is \<open>evidence_to_mapping\<close> unless the host gives another.\<close>

definition MeridianEvidenceSink :: "string \<Rightarrow> exn + unit" where
  "MeridianEvidenceSink resource = guard (resource \<noteq> []) (ValueError ''evidence resource must be non-empty'')"

definition meridian_sink ::
  "(string \<Rightarrow> ('w, 's) prog) \<Rightarrow> ('s \<Rightarrow> string \<Rightarrow> json \<Rightarrow> ('w, 'x) prog) \<Rightarrow> ('x \<Rightarrow> ('w, 'r) prog)
   \<Rightarrow> string \<Rightarrow> (evidence \<Rightarrow> ('w, json) prog) option \<Rightarrow> 'w evidence_sink" where
  "meridian_sink catalog append_op execute resource map_data e =
     pbind (catalog ''evidence'') (\<lambda>surface.
     pbind (case map_data of Some f \<Rightarrow> f e | None \<Rightarrow> pret (evidence_to_mapping e)) (\<lambda>data.
     pbind (append_op surface resource data) (\<lambda>expression.
     pbind (execute expression) (\<lambda>_. pret ()))))"

text \<open>\<open>self._evidence.record(LifecycleEvidence(...))\<close> with a mapping of strings as details.\<close>

definition record_evidence ::
  "'w evidence_sink \<Rightarrow> string \<Rightarrow> string \<Rightarrow> string \<Rightarrow> json \<Rightarrow> datetime \<Rightarrow> ('w, unit) prog" where
  "record_evidence sink kind subject state details occurred =
     pbind (plift (LifecycleEvidence \<lparr>ev_kind = kind, ev_subject = subject, ev_state = state,
        ev_details = json_val details, ev_occurred_at = occurred, ev_fingerprint = []\<rparr>)) sink"

lemma LifecycleEvidence_fingerprint:
  assumes "LifecycleEvidence r = Inr e"
  shows "is_sha256 (ev_fingerprint e)" and "valid_instant (ev_occurred_at e)"
    and "ev_kind e = ev_kind r" and "ev_state e = ev_state r" and "ev_subject e = ev_subject r"
  using assms by (auto simp: LifecycleEvidence_def Let_def dest: ensure_utc_valid)

text \<open>A constructed record passes its own constructor again: its fingerprint is the one it checks.\<close>

lemma LifecycleEvidence_reconstruct:
  assumes "LifecycleEvidence r = Inr e"
  shows "LifecycleEvidence \<lparr>ev_kind = ev_kind e, ev_subject = ev_subject e, ev_state = ev_state e,
    ev_details = json_val (ev_details e), ev_occurred_at = utc_datetime (ev_occurred_at e),
    ev_fingerprint = ev_fingerprint e\<rparr> = Inr e"
  using assms
  by (auto simp: LifecycleEvidence_def Let_def immutable_mapping_def immutable_value_def
      intro: ensure_utc_idem json_value_idem)

end
