(* ===== verification/Outbox_Model.thy ===== *)
theory Outbox_Model
  imports Lifecycle
begin

text \<open>
  Model of \<open>outbox/model.py\<close>: the immutable projection intent \<open>OutboxDataV1\<close> with its digest and
  partition key, leases, failures, outbox records, checkpoints and the lag report.  A record type
  with type parameters is used twice: over raw arguments (\<open>pyval\<close>, \<open>datetime\<close>) for the constructor
  call and over canonical values (\<open>json\<close>, UTC microseconds) for what \<open>__post_init__\<close> leaves.
  The lemmas give the invariant every constructed value has and show that a constructed intent
  passes its own constructor unchanged.
\<close>

section \<open>Source versions and floating-point seconds\<close>

text \<open>The values a \<open>str | int | None\<close> parameter can hold at run time; \<open>bool\<close> is an \<open>int\<close>.\<close>

datatype version = VNone | VBool bool | VInt int | VStr string

fun version_json :: "version \<Rightarrow> json" where
  "version_json VNone = JNull"
| "version_json (VBool b) = JBool b"
| "version_json (VInt i) = JInt i"
| "version_json (VStr s) = JStr s"

fun is_bool_version :: "version \<Rightarrow> bool" where
  "is_bool_version (VBool _) = True"
| "is_bool_version _ = False"

text \<open>\<open>type(a) is type(b)\<close>, and \<open>a == b\<close> where \<open>True == 1\<close> and \<open>False == 0\<close>.\<close>

fun same_type :: "version \<Rightarrow> version \<Rightarrow> bool" where
  "same_type VNone VNone = True"
| "same_type (VBool _) (VBool _) = True"
| "same_type (VInt _) (VInt _) = True"
| "same_type (VStr _) (VStr _) = True"
| "same_type _ _ = False"

fun version_eq :: "version \<Rightarrow> version \<Rightarrow> bool" where
  "version_eq (VBool a) (VInt i) = (of_bool a = i)"
| "version_eq (VInt i) (VBool a) = (i = of_bool a)"
| "version_eq a b = (a = b)"

lemma same_type_version_eq: "same_type a b \<and> version_eq a b \<longleftrightarrow> a = b"
  by (cases a; cases b) auto

text \<open>A Python \<open>float\<close> where only its order matters: finite values are exact reals.\<close>

datatype num = Fin real | PosInf | NegInf | NaN

fun num_le :: "num \<Rightarrow> num \<Rightarrow> bool" where
  "num_le NaN _ = False" | "num_le _ NaN = False"
| "num_le NegInf _ = True" | "num_le _ PosInf = True"
| "num_le (Fin a) (Fin b) = (a \<le> b)"
| "num_le _ _ = False"

fun num_less :: "num \<Rightarrow> num \<Rightarrow> bool" where
  "num_less NaN _ = False" | "num_less _ NaN = False"
| "num_less NegInf b = (b \<noteq> NegInf)" | "num_less a PosInf = (a \<noteq> PosInf)"
| "num_less (Fin a) (Fin b) = (a < b)"
| "num_less _ _ = False"

text \<open>\<open>timedelta(seconds=x)\<close>: rounded half to even to microseconds, at most 999999999 days.\<close>

definition round_half_even :: "real \<Rightarrow> int" where
  "round_half_even x = (let f = \<lfloor>x\<rfloor>; d = x - real_of_int f
     in if d < 1 / 2 \<or> d = 1 / 2 \<and> even f then f else f + 1)"

fun timedelta_seconds :: "num \<Rightarrow> exn + int" where
  "timedelta_seconds (Fin x) = (let n = round_half_even (x * 1000000); day = 86400 * 1000000
     in if - 999999999 * day \<le> n \<and> n < 1000000000 * day then Inr n
        else Inl (OverflowError ''timedelta out of range''))"
| "timedelta_seconds NaN = Inl (ValueError ''cannot convert float NaN to integer'')"
| "timedelta_seconds _ = Inl (OverflowError ''cannot convert float infinity to integer'')"

section \<open>Outbox data\<close>

definition outbox_format_version :: string where
  "outbox_format_version = ''meridian.outbox.v1''"

text \<open>The five Catalogs of \<open>CatalogName\<close> (README: \<^emph>\<open>exactly five Catalogs\<close>).\<close>

definition catalog_names :: "string list" where
  "catalog_names = [''structured'', ''object'', ''cache'', ''evidence'', ''streaming'']"

datatype outbox_state = PENDING | LEASED | COMPLETED | RETRYABLE | QUARANTINED

fun outbox_state_value :: "outbox_state \<Rightarrow> string" where
  "outbox_state_value PENDING = ''PENDING''"
| "outbox_state_value LEASED = ''LEASED''"
| "outbox_state_value COMPLETED = ''COMPLETED''"
| "outbox_state_value RETRYABLE = ''RETRYABLE''"
| "outbox_state_value QUARANTINED = ''QUARANTINED''"

record ('v, 't) outbox_data =
  od_source_resource :: string
  od_source_schema :: string
  od_source_identity :: 'v
  od_mutation_kind :: string
  od_source_version :: version
  od_payload :: "'v option"
  od_immutable_reference :: "'v option"
  od_target_labels :: "string list"
  od_occurred_at :: 't
  od_operation_context :: 'v
  od_source_catalog :: string
  od_event_id :: string
  od_digest :: string
  od_format_version :: string

type_synonym raw_outbox_data = "(pyval, datetime) outbox_data"
type_synonym odata = "(json, int) outbox_data"

text \<open>\<open>for field_name in (...): if not getattr(self, field_name): raise ValueError(...)\<close>.\<close>

fun require_fields :: "(string \<times> string) list \<Rightarrow> exn + unit" where
  "require_fields [] = Inr ()"
| "require_fields (nv # nvs) =
     ebind (guard (snd nv \<noteq> []) (ValueError (fst nv @ '' must be non-empty''))) (\<lambda>_. require_fields nvs)"

lemma require_fields_eq_Inr [simp]: "require_fields nvs = Inr u \<longleftrightarrow> (\<forall>nv \<in> set nvs. snd nv \<noteq> [])"
  by (induction nvs) auto

fun is_pstr :: "pyval \<Rightarrow> bool" where
  "is_pstr (PStr _) = True"
| "is_pstr _ = False"

fun is_str_mapping :: "pyval \<Rightarrow> bool" where
  "is_str_mapping (PMapping kvs) = (\<forall>kv \<in> set kvs. is_pstr (fst kv) \<and> is_pstr (snd kv))"
| "is_str_mapping _ = False"

fun opt_json :: "json option \<Rightarrow> json" where
  "opt_json None = JNull"
| "opt_json (Some j) = j"

definition digest_material :: "odata \<Rightarrow> json" where
  "digest_material d = JObj
     [(''formatVersion'', JStr (od_format_version d)), (''eventId'', JStr (od_event_id d)),
      (''sourceCatalog'', JStr (od_source_catalog d)), (''sourceResource'', JStr (od_source_resource d)),
      (''sourceSchema'', JStr (od_source_schema d)), (''sourceIdentity'', od_source_identity d),
      (''sourceVersion'', version_json (od_source_version d)),
      (''mutationKind'', JStr (od_mutation_kind d)), (''payload'', opt_json (od_payload d)),
      (''immutableReference'', opt_json (od_immutable_reference d)),
      (''targetLabels'', JList (map JStr (od_target_labels d))),
      (''occurredAt'', JStr (iso_utc (od_occurred_at d))),
      (''operationContext'', od_operation_context d)]"

fun immutable_option :: "pyval option \<Rightarrow> exn + json option" where
  "immutable_option None = Inr None"
| "immutable_option (Some v) = ebind (immutable_mapping v) (\<lambda>j. Inr (Some j))"

definition OutboxDataV1 :: "raw_outbox_data \<Rightarrow> exn + odata" where
  "OutboxDataV1 r =
     ebind (guard (od_format_version r = outbox_format_version)
       (ValueError (''format_version must be '' @ py_repr outbox_format_version))) (\<lambda>_.
     ebind (require_fields [(''source_resource'', od_source_resource r),
       (''source_schema'', od_source_schema r), (''mutation_kind'', od_mutation_kind r),
       (''source_catalog'', od_source_catalog r), (''event_id'', od_event_id r)]) (\<lambda>_.
     ebind (guard (\<not> (od_payload r = None \<and> od_immutable_reference r = None))
       (ValueError ''outbox data requires a payload or immutable reference'')) (\<lambda>_.
     ebind (guard (\<not> (od_payload r \<noteq> None \<and> od_immutable_reference r \<noteq> None))
       (ValueError ''payload and immutable_reference are mutually exclusive'')) (\<lambda>_.
     ebind (guard (distinct (od_target_labels r))
       (ValueError ''target_labels must not contain duplicates'')) (\<lambda>_.
     ebind (guard (od_source_catalog r \<in> set catalog_names)
       (ValueError (''unknown source Catalog '' @ py_repr (od_source_catalog r)))) (\<lambda>_.
     ebind (guard (\<not> is_bool_version (od_source_version r))
       (ValueError ''source_version cannot be boolean'')) (\<lambda>_.
     ebind (guard (is_str_mapping (od_operation_context r))
       (ValueError ''operation_context must contain only string keys and values'')) (\<lambda>_.
     ebind (immutable_value (od_source_identity r)) (\<lambda>identity.
     ebind (ensure_utc (od_occurred_at r) ''occurred_at'') (\<lambda>occurred.
     ebind (immutable_mapping (od_operation_context r)) (\<lambda>ctxt.
     ebind (immutable_option (od_payload r)) (\<lambda>payload.
     ebind (immutable_option (od_immutable_reference r)) (\<lambda>reference.
     let d = \<lparr>od_source_resource = od_source_resource r, od_source_schema = od_source_schema r,
           od_source_identity = identity, od_mutation_kind = od_mutation_kind r,
           od_source_version = od_source_version r, od_payload = payload,
           od_immutable_reference = reference, od_target_labels = od_target_labels r,
           od_occurred_at = occurred, od_operation_context = ctxt,
           od_source_catalog = od_source_catalog r, od_event_id = od_event_id r,
           od_digest = od_digest r, od_format_version = od_format_version r\<rparr>;
         expected = json_digest (digest_material d)
     in ebind (guard (od_digest r = [] \<or> od_digest r = expected)
          (ValueError ''outbox digest does not match canonical content'')) (\<lambda>_.
        Inr (d\<lparr>od_digest := expected\<rparr>)))))))))))))))"

definition partition_key :: "odata \<Rightarrow> string" where
  "partition_key d = json_digest (JObj [(''sourceCatalog'', JStr (od_source_catalog d)),
     (''sourceResource'', JStr (od_source_resource d)), (''sourceIdentity'', od_source_identity d)])"

definition outbox_to_mapping :: "odata \<Rightarrow> json" where
  "outbox_to_mapping d = (case digest_material d of
       JObj kvs \<Rightarrow> JObj (kvs @ [(''digest'', JStr (od_digest d))]) | j \<Rightarrow> j)"

section \<open>Leases, failures, records, checkpoints, lag\<close>

record 't outbox_lease =
  le_owner :: string
  le_acquired_at :: 't
  le_expires_at :: 't
  le_attempt :: int

definition OutboxLease :: "datetime outbox_lease \<Rightarrow> exn + int outbox_lease" where
  "OutboxLease r =
     ebind (guard (le_owner r \<noteq> []) (ValueError ''lease owner must be non-empty'')) (\<lambda>_.
     ebind (guard (1 \<le> le_attempt r) (ValueError ''lease attempt must be positive'')) (\<lambda>_.
     ebind (ensure_utc (le_acquired_at r) ''acquired_at'') (\<lambda>acquired.
     ebind (ensure_utc (le_expires_at r) ''expires_at'') (\<lambda>expires.
     ebind (guard (acquired < expires) (ValueError ''lease expiry must follow acquisition'')) (\<lambda>_.
     Inr \<lparr>le_owner = le_owner r, le_acquired_at = acquired, le_expires_at = expires,
          le_attempt = le_attempt r\<rparr>)))))"

record 't outbox_failure =
  fa_code :: string
  fa_redacted_cause :: string
  fa_failed_at :: 't

definition OutboxFailure :: "datetime outbox_failure \<Rightarrow> exn + int outbox_failure" where
  "OutboxFailure r =
     ebind (guard (fa_code r \<noteq> [] \<and> fa_redacted_cause r \<noteq> [])
       (ValueError ''failure code and redacted cause must be non-empty'')) (\<lambda>_.
     ebind (ensure_utc (fa_failed_at r) ''failed_at'') (\<lambda>failed.
     Inr \<lparr>fa_code = fa_code r, fa_redacted_cause = fa_redacted_cause r, fa_failed_at = failed\<rparr>))"

text \<open>\<open>OutboxRecord\<close> and the store's \<open>_MutableRecord\<close> have the same fields; the completion time was
  normalised by the operation that set it.\<close>

record outbox_record =
  rec_data :: odata
  rec_state :: outbox_state
  rec_attempt_count :: int
  rec_lease :: "int outbox_lease option"
  rec_failure :: "int outbox_failure option"
  rec_target_fingerprint :: "string option"
  rec_completed_at :: "int option"

definition OutboxRecord :: "outbox_record \<Rightarrow> exn + outbox_record" where
  "OutboxRecord r =
     ebind (guard (0 \<le> rec_attempt_count r) (ValueError ''outbox attempt_count cannot be negative'')) (\<lambda>_.
     ebind (guard ((rec_state r = LEASED) = (rec_lease r \<noteq> None))
       (ValueError ''only a LEASED outbox record may contain a lease'')) (\<lambda>_.
     Inr r))"

record checkpoint =
  cp_partition_key :: string
  cp_revision :: int
  cp_event_id :: "string option"
  cp_source_version :: version
  cp_target_fingerprint :: "string option"
  cp_advanced_at :: "int option"

definition Checkpoint :: "checkpoint \<Rightarrow> exn + checkpoint" where
  "Checkpoint c =
     ebind (guard (cp_partition_key c \<noteq> [] \<and> 0 \<le> cp_revision c)
       (ValueError ''checkpoint partition_key and revision are invalid'')) (\<lambda>_. Inr c)"

record projection_lag =
  lag_incomplete_count :: int
  lag_oldest_incomplete_at :: "int option"
  lag_lag_seconds :: num
  lag_target_seconds :: num

definition ProjectionLag :: "projection_lag \<Rightarrow> exn + projection_lag" where
  "ProjectionLag l =
     ebind (guard (\<not> (lag_incomplete_count l < 0 \<or> num_less (lag_lag_seconds l) (Fin 0)
         \<or> num_le (lag_target_seconds l) (Fin 0)))
       (ValueError ''projection lag counts and durations are invalid'')) (\<lambda>_. Inr l)"

definition within_target :: "projection_lag \<Rightarrow> bool" where
  "within_target l = num_le (lag_lag_seconds l) (lag_target_seconds l)"

section \<open>What the constructors establish\<close>

definition wf_odata :: "odata \<Rightarrow> bool" where
  "wf_odata d \<longleftrightarrow> od_format_version d = outbox_format_version \<and> od_source_resource d \<noteq> [] \<and>
     od_source_schema d \<noteq> [] \<and> od_mutation_kind d \<noteq> [] \<and> od_event_id d \<noteq> [] \<and>
     od_source_catalog d \<in> set catalog_names \<and> (od_payload d = None) \<noteq> (od_immutable_reference d = None) \<and>
     distinct (od_target_labels d) \<and> \<not> is_bool_version (od_source_version d) \<and>
     valid_instant (od_occurred_at d) \<and> od_digest d = json_digest (digest_material d)"

lemma digest_material_digest [simp]: "digest_material (d\<lparr>od_digest := x\<rparr>) = digest_material d"
  by (simp add: digest_material_def)

lemma partition_key_nonempty [simp]: "partition_key d \<noteq> []"
  by (simp add: partition_key_def)

lemma immutable_option_None [simp]: "immutable_option v = Inr None \<longleftrightarrow> v = None"
  by (cases v) auto

lemma OutboxLease_eq_Inr:
  "OutboxLease \<lparr>le_owner = ow, le_acquired_at = utc_datetime a, le_expires_at = utc_datetime e,
      le_attempt = n\<rparr> = Inr l \<longleftrightarrow>
   ow \<noteq> [] \<and> 1 \<le> n \<and> a < e \<and> valid_instant a \<and> valid_instant e \<and>
   l = \<lparr>le_owner = ow, le_acquired_at = a, le_expires_at = e, le_attempt = n\<rparr>"
  by (auto simp: OutboxLease_def ensure_utc_def)

lemma OutboxRecord_eq_Inr [simp]:
  "OutboxRecord r = Inr s \<longleftrightarrow>
     s = r \<and> 0 \<le> rec_attempt_count r \<and> (rec_state r = LEASED) = (rec_lease r \<noteq> None)"
  by (auto simp: OutboxRecord_def)

lemma Checkpoint_eq_Inr [simp]:
  "Checkpoint c = Inr c' \<longleftrightarrow> c' = c \<and> cp_partition_key c \<noteq> [] \<and> 0 \<le> cp_revision c"
  by (auto simp: Checkpoint_def)

subsection \<open>A constructed intent passes its constructor\<close>

definition raw_odata :: "odata \<Rightarrow> raw_outbox_data" where
  "raw_odata d = \<lparr>od_source_resource = od_source_resource d, od_source_schema = od_source_schema d,
     od_source_identity = json_val (od_source_identity d), od_mutation_kind = od_mutation_kind d,
     od_source_version = od_source_version d, od_payload = map_option json_val (od_payload d),
     od_immutable_reference = map_option json_val (od_immutable_reference d),
     od_target_labels = od_target_labels d, od_occurred_at = utc_datetime (od_occurred_at d),
     od_operation_context = json_val (od_operation_context d),
     od_source_catalog = od_source_catalog d, od_event_id = od_event_id d, od_digest = od_digest d,
     od_format_version = od_format_version d\<rparr>"

lemma is_pstr_iff: "is_pstr v \<longleftrightarrow> (\<exists>s. v = PStr s)"
  by (cases v) auto

lemma json_items_strings:
  assumes "json_items kvs d = Inr d'" and "distinct (map fst d)"
    and "\<forall>kv \<in> set kvs. is_pstr (fst kv) \<and> is_pstr (snd kv)" and "\<forall>kj \<in> set d. is_pstr (json_val (snd kj))"
  shows "\<forall>kj \<in> set d'. is_pstr (json_val (snd kj))"
  using assms
proof (induction kvs arbitrary: d)
  case (Cons kv kvs)
  then obtain k v where kv: "kv = (PStr k, PStr v)"
    by (cases kv) (auto simp: is_pstr_iff)
  with Cons.prems(1) have "json_items kvs (AList.update k (JStr v) d) = Inr d'" by simp
  then show ?case
    by (rule Cons.IH) (use Cons.prems in \<open>auto simp: set_update_distinct distinct_keys_update\<close>)
qed simp

lemma is_str_mapping_immutable:
  assumes "is_str_mapping v" and "immutable_mapping v = Inr j"
  shows "is_str_mapping (json_val j)"
proof -
  from assms(1) obtain kvs where v: "v = PMapping kvs" by (cases v) auto
  with assms(2) obtain d where d: "json_items kvs [] = Inr d" "j = JObj d"
    by (auto simp: immutable_mapping_def immutable_value_def)
  with assms(1) v have "\<forall>kj \<in> set d. is_pstr (json_val (snd kj))"
    using json_items_strings [of kvs "[]" d] by simp
  with d show ?thesis by simp
qed

lemma immutable_option_idem:
  "immutable_option v = Inr j \<Longrightarrow> immutable_option (map_option json_val j) = Inr j"
  by (cases v) (auto simp: immutable_mapping_def immutable_value_def intro: json_value_idem)

lemma immutable_option_eq_None:
  "immutable_option v = Inr j \<Longrightarrow> j = None \<longleftrightarrow> v = None"
  by (cases v) auto

lemma OutboxDataV1_parts:
  assumes "OutboxDataV1 r = Inr d"
  shows "immutable_value (od_source_identity r) = Inr (od_source_identity d)"
    and "immutable_mapping (od_operation_context r) = Inr (od_operation_context d)"
    and "is_str_mapping (od_operation_context r)"
    and "immutable_option (od_payload r) = Inr (od_payload d)"
    and "immutable_option (od_immutable_reference r) = Inr (od_immutable_reference d)"
    and "ensure_utc (od_occurred_at r) ''occurred_at'' = Inr (od_occurred_at d)"
    and "(od_payload r = None) \<noteq> (od_immutable_reference r = None)"
    and "od_digest d = json_digest (digest_material d)"
    and "od_format_version d = outbox_format_version" and "od_source_catalog d \<in> set catalog_names"
    and "od_source_resource d \<noteq> []" "od_source_schema d \<noteq> []" "od_mutation_kind d \<noteq> []"
      "od_event_id d \<noteq> []"
    and "distinct (od_target_labels d)" and "\<not> is_bool_version (od_source_version d)"
proof -
  have "immutable_value (od_source_identity r) = Inr (od_source_identity d) \<and>
    immutable_mapping (od_operation_context r) = Inr (od_operation_context d) \<and>
    is_str_mapping (od_operation_context r) \<and>
    immutable_option (od_payload r) = Inr (od_payload d) \<and>
    immutable_option (od_immutable_reference r) = Inr (od_immutable_reference d) \<and>
    ensure_utc (od_occurred_at r) ''occurred_at'' = Inr (od_occurred_at d) \<and>
    (od_payload r = None) \<noteq> (od_immutable_reference r = None) \<and>
    od_digest d = json_digest (digest_material d) \<and>
    od_format_version d = outbox_format_version \<and> od_source_catalog d \<in> set catalog_names \<and>
    od_source_resource d \<noteq> [] \<and> od_source_schema d \<noteq> [] \<and> od_mutation_kind d \<noteq> [] \<and>
    od_event_id d \<noteq> [] \<and> distinct (od_target_labels d) \<and> \<not> is_bool_version (od_source_version d)"
    using assms unfolding OutboxDataV1_def Let_def ebind_eq_Inr guard_eq_Inr require_fields_eq_Inr
    by (elim exE conjE) (clarsimp simp: digest_material_def, cases "od_payload r", simp_all)
  then show
    "immutable_value (od_source_identity r) = Inr (od_source_identity d)"
    "immutable_mapping (od_operation_context r) = Inr (od_operation_context d)"
    "is_str_mapping (od_operation_context r)"
    "immutable_option (od_payload r) = Inr (od_payload d)"
    "immutable_option (od_immutable_reference r) = Inr (od_immutable_reference d)"
    "ensure_utc (od_occurred_at r) ''occurred_at'' = Inr (od_occurred_at d)"
    "(od_payload r = None) \<noteq> (od_immutable_reference r = None)"
    "od_digest d = json_digest (digest_material d)"
    "od_format_version d = outbox_format_version" "od_source_catalog d \<in> set catalog_names"
    "od_source_resource d \<noteq> []" "od_source_schema d \<noteq> []" "od_mutation_kind d \<noteq> []"
    "od_event_id d \<noteq> []" "distinct (od_target_labels d)" "\<not> is_bool_version (od_source_version d)"
    by simp_all
qed

lemma OutboxDataV1_wf: "OutboxDataV1 r = Inr d \<Longrightarrow> wf_odata d"
  by (frule OutboxDataV1_parts(7))
     (simp add: wf_odata_def OutboxDataV1_parts(4,5) [THEN immutable_option_eq_None]
        OutboxDataV1_parts(8-) OutboxDataV1_parts(6) [THEN ensure_utc_valid])

lemma OutboxDataV1_reconstructs:
  assumes "OutboxDataV1 r = Inr d"
  shows "OutboxDataV1 (raw_odata d) = Inr d"
proof -
  note parts = OutboxDataV1_parts [OF assms]
  have "immutable_value (json_val (od_source_identity d)) = Inr (od_source_identity d)"
    "immutable_mapping (json_val (od_operation_context d)) = Inr (od_operation_context d)"
    using parts(1,2) by (simp_all add: immutable_value_def immutable_mapping_def json_value_idem)
  moreover have "is_str_mapping (json_val (od_operation_context d))"
    using parts(3,2) by (rule is_str_mapping_immutable)
  moreover note parts(4,5) [THEN immutable_option_idem]
  ultimately show ?thesis using OutboxDataV1_wf [OF assms]
    by (cases d) (auto simp: OutboxDataV1_def raw_odata_def wf_odata_def Let_def digest_material_def
        catalog_names_def)
qed

end
