(* ===== verification/Outbox_Store.thy ===== *)
theory Outbox_Store
  imports Outbox_Model "HOL-Library.Product_Lexorder"
begin

text \<open>
  Model of \<open>outbox/store.py\<close>: the deterministic in-memory store behind \<open>OutboxPort\<close>.  The store is
  a record, every method is a program over it (each runs under the store's lock, so it is one
  atomic step).  A claim that raises inside its loop keeps what it had changed before, as the code
  does.  \<open>wall\<close> is the reading of \<open>utc_now()\<close> that a method takes when it is given no \<open>now\<close>;
  \<open>ce\<close> gives \<open>str(error)\<close> of a Core error.
\<close>

section \<open>The store\<close>

record outbox_store =
  st_poison_threshold :: int
  st_visibility_target_seconds :: num
  st_records :: "(string, outbox_record) dict"
  st_checkpoints :: "(string, checkpoint) dict"

definition InMemoryOutboxStore :: "int \<Rightarrow> num \<Rightarrow> exn + outbox_store" where
  "InMemoryOutboxStore poison_threshold visibility_target_seconds =
     ebind (guard (1 \<le> poison_threshold) (ValueError ''poison_threshold must be positive'')) (\<lambda>_.
     ebind (guard (\<not> num_le visibility_target_seconds (Fin 0))
       (ValueError ''visibility_target_seconds must be positive'')) (\<lambda>_.
     Inr \<lparr>st_poison_threshold = poison_threshold,
          st_visibility_target_seconds = visibility_target_seconds,
          st_records = [], st_checkpoints = []\<rparr>))"

abbreviation event_id :: "outbox_record \<Rightarrow> string" where
  "event_id r \<equiv> od_event_id (rec_data r)"

abbreviation rec_partition :: "outbox_record \<Rightarrow> string" where
  "rec_partition r \<equiv> partition_key (rec_data r)"

abbreviation find_record :: "outbox_store \<Rightarrow> string \<Rightarrow> outbox_record option" where
  "find_record st k \<equiv> map_of (st_records st) k"

abbreviation find_checkpoint :: "outbox_store \<Rightarrow> string \<Rightarrow> checkpoint option" where
  "find_checkpoint st p \<equiv> map_of (st_checkpoints st) p"

definition put_record :: "outbox_record \<Rightarrow> outbox_store \<Rightarrow> outbox_store" where
  "put_record r st = st\<lparr>st_records := AList.update (event_id r) r (st_records st)\<rparr>"

definition put_checkpoint :: "checkpoint \<Rightarrow> outbox_store \<Rightarrow> outbox_store" where
  "put_checkpoint c st = st\<lparr>st_checkpoints := AList.update (cp_partition_key c) c (st_checkpoints st)\<rparr>"

definition new_record :: "odata \<Rightarrow> outbox_record" where
  "new_record d = \<lparr>rec_data = d, rec_state = PENDING, rec_attempt_count = 0, rec_lease = None,
     rec_failure = None, rec_target_fingerprint = None, rec_completed_at = None\<rparr>"

definition snapshot :: "outbox_record \<Rightarrow> exn + outbox_record" where
  "snapshot r = OutboxRecord r"

definition current_time :: "datetime option \<Rightarrow> int \<Rightarrow> exn + int" where
  "current_time now wall =
     ensure_utc (case now of Some d \<Rightarrow> d | None \<Rightarrow> utc_datetime wall) ''now''"

section \<open>Appending\<close>

definition outbox_append :: "odata \<Rightarrow> (outbox_store, unit) prog" where
  "outbox_append d st = (case find_record st (od_event_id d) of
       None \<Rightarrow> (Inr (), put_record (new_record d) st)
     | Some existing \<Rightarrow>
         if od_digest (rec_data existing) \<noteq> od_digest d
         then (Inl (Conflict ''MERIDIAN_OUTBOX_IDEMPOTENCY_CONFLICT''
                 (''event '' @ py_repr (od_event_id d) @ '' already exists with different content'')), st)
         else (Inr (), st))"

definition outbox_append_many :: "odata list \<Rightarrow> (outbox_store, unit) prog" where
  "outbox_append_many ds = pfor outbox_append ds"

section \<open>Claiming\<close>

definition order_key :: "outbox_record \<Rightarrow> int \<times> string" where
  "order_key r = (od_occurred_at (rec_data r), event_id r)"

definition ordered_records :: "outbox_store \<Rightarrow> outbox_record list" where
  "ordered_records st = sort_key order_key (map snd (st_records st))"

datatype claim_outcome = Skipped | Claimed outbox_record | Raised exn

text \<open>One iteration of the loop on the first incomplete record of a partition: the record as the
  iteration leaves it, and whether it was skipped, claimed or an exception escaped.\<close>

definition claim_record :: "string \<Rightarrow> int \<Rightarrow> int \<Rightarrow> outbox_record \<Rightarrow> outbox_record \<times> claim_outcome" where
  "claim_record owner lease_duration current r =
     (case
        (if rec_state r = LEASED then
           (case rec_lease r of
              None \<Rightarrow> Inl (r, Raised (AssertionError []))
            | Some l \<Rightarrow>
                if current < le_expires_at l then Inl (r, Skipped)
                else Inr (r\<lparr>rec_state := RETRYABLE, rec_lease := None\<rparr>))
         else Inr r)
      of Inl out \<Rightarrow> out
       | Inr r1 \<Rightarrow>
           if rec_state r1 \<notin> {PENDING, RETRYABLE} then (r1, Skipped)
           else
             let r2 = r1\<lparr>rec_attempt_count := rec_attempt_count r1 + 1, rec_failure := None,
                         rec_state := LEASED\<rparr>
             in (case ebind (add_duration current lease_duration) (\<lambda>expires.
                        OutboxLease \<lparr>le_owner = owner, le_acquired_at = utc_datetime current,
                          le_expires_at = utc_datetime expires, le_attempt = rec_attempt_count r2\<rparr>)
                 of Inl e \<Rightarrow> (r2, Raised e)
                  | Inr l \<Rightarrow>
                      let r3 = r2\<lparr>rec_lease := Some l\<rparr>
                      in (case snapshot r3 of Inl e \<Rightarrow> (r3, Raised e) | Inr s \<Rightarrow> (r3, Claimed s))))"

fun claim_loop ::
  "string \<Rightarrow> int \<Rightarrow> int \<Rightarrow> int \<Rightarrow> outbox_record list \<Rightarrow> string list \<Rightarrow> outbox_record list
   \<Rightarrow> (outbox_store, outbox_record list) prog"
where
  "claim_loop owner limit lease_duration current [] seen claimed st = (Inr claimed, st)"
| "claim_loop owner limit lease_duration current (r # rs) seen claimed st =
     (if rec_state r = COMPLETED then claim_loop owner limit lease_duration current rs seen claimed st
      else if rec_partition r \<in> set seen
      then claim_loop owner limit lease_duration current rs seen claimed st
      else (case claim_record owner lease_duration current r of (r', outcome) \<Rightarrow>
        (case outcome of
           Skipped \<Rightarrow> claim_loop owner limit lease_duration current rs (rec_partition r # seen) claimed
                        (put_record r' st)
         | Raised e \<Rightarrow> (Inl e, put_record r' st)
         | Claimed s \<Rightarrow>
             if int (length (claimed @ [s])) = limit then (Inr (claimed @ [s]), put_record r' st)
             else claim_loop owner limit lease_duration current rs (rec_partition r # seen)
                    (claimed @ [s]) (put_record r' st))))"

definition atomic_claim ::
  "string \<Rightarrow> int \<Rightarrow> int \<Rightarrow> datetime option \<Rightarrow> int \<Rightarrow> (outbox_store, outbox_record list) prog" where
  "atomic_claim owner limit lease_duration now wall =
     pbind (plift (guard (owner \<noteq> []) (ValueError ''owner must be non-empty''))) (\<lambda>_.
     pbind (plift (guard (1 \<le> limit) (ValueError ''limit must be positive''))) (\<lambda>_.
     pbind (plift (guard (0 < lease_duration) (ValueError ''lease_duration must be positive''))) (\<lambda>_.
     pbind (plift (current_time now wall)) (\<lambda>current.
     \<lambda>st. claim_loop owner limit lease_duration current (ordered_records st) [] [] st))))"

section \<open>Completion and release\<close>

definition leased_record :: "string \<Rightarrow> string \<Rightarrow> int \<Rightarrow> outbox_store \<Rightarrow> exn + outbox_record" where
  "leased_record eid owner now st = (case find_record st eid of
       None \<Rightarrow> Inl (NotFound ''MERIDIAN_OUTBOX_NOT_FOUND'' (''outbox event '' @ py_repr eid @ '' was not found''))
     | Some r \<Rightarrow>
         (case rec_lease r of
            None \<Rightarrow> Inl (LeaseLostError (''outbox event '' @ py_repr eid @ '' is not leased''))
          | Some lease \<Rightarrow>
              if rec_state r \<noteq> LEASED
              then Inl (LeaseLostError (''outbox event '' @ py_repr eid @ '' is not leased''))
              else if le_owner lease \<noteq> owner
              then Inl (LeaseLostError (''outbox event '' @ py_repr eid @ '' is leased by another owner''))
              else if le_expires_at lease \<le> now
              then Inl (LeaseLostError (''lease for outbox event '' @ py_repr eid @ '' has expired''))
              else Inr r))"

definition outbox_complete ::
  "string \<Rightarrow> string \<Rightarrow> version \<Rightarrow> string \<Rightarrow> datetime option \<Rightarrow> int \<Rightarrow> (outbox_store, checkpoint) prog" where
  "outbox_complete eid owner acknowledged_source_version target_fingerprint now wall =
     pbind (plift (require_sha256 target_fingerprint ''target_fingerprint'')) (\<lambda>_.
     pbind (plift (current_time now wall)) (\<lambda>current.
     \<lambda>st. (case leased_record eid owner current st of
         Inl e \<Rightarrow> (Inl e, st)
       | Inr r \<Rightarrow>
           if \<not> same_type acknowledged_source_version (od_source_version (rec_data r))
              \<or> \<not> version_eq acknowledged_source_version (od_source_version (rec_data r))
           then (Inl (CheckpointConflict
                   ''target acknowledgement does not match the exact source version''), st)
           else
             let st1 = put_record (r\<lparr>rec_state := COMPLETED, rec_lease := None, rec_failure := None,
                   rec_target_fingerprint := Some target_fingerprint,
                   rec_completed_at := Some current\<rparr>) st;
                 part = rec_partition r
             in (case Checkpoint \<lparr>cp_partition_key = part,
                   cp_revision = (case find_checkpoint st1 part of
                       None \<Rightarrow> 1 | Some previous \<Rightarrow> cp_revision previous + 1),
                   cp_event_id = Some eid, cp_source_version = od_source_version (rec_data r),
                   cp_target_fingerprint = Some target_fingerprint,
                   cp_advanced_at = Some current\<rparr>
                 of Inl e \<Rightarrow> (Inl e, st1) | Inr c \<Rightarrow> (Inr c, put_checkpoint c st1)))))"

text \<open>\<open>_SENSITIVE_VALUE.sub(r"\1=<redacted>", ...)\<close>: the keyword alternatives, the separators and
  the value class are pairwise disjoint, so the expression has one match per position.\<close>

definition sensitive_words :: "string list" where
  "sensitive_words = [''password'', ''secret'', ''token'', ''credential'', ''endpoint'']"

definition value_char :: "char \<Rightarrow> bool" where
  "value_char c \<longleftrightarrow> \<not> is_space c \<and> c \<noteq> CHR '','' \<and> c \<noteq> CHR '';''"

definition match_sensitive :: "string \<Rightarrow> (string \<times> string) option" where
  "match_sensitive s =
     (case find (\<lambda>w. map lower_char (take (length w) s) = w) sensitive_words of
        None \<Rightarrow> None
      | Some w \<Rightarrow>
          (case dropWhile is_space (drop (length w) s) of
             [] \<Rightarrow> None
           | c # rest \<Rightarrow>
               if c \<noteq> CHR '':'' \<and> c \<noteq> CHR ''='' then None
               else let v = dropWhile is_space rest
                    in if takeWhile value_char v = [] then None
                       else Some (take (length w) s, dropWhile value_char v)))"

lemma match_sensitive_shorter: "match_sensitive s = Some (kw, rest) \<Longrightarrow> length rest < length s"
proof -
  assume "match_sensitive s = Some (kw, rest)"
  then obtain w :: string and c t where "dropWhile is_space (drop (length w) s) = c # t"
    and rest: "rest = dropWhile value_char (dropWhile is_space t)"
    by (auto simp: match_sensitive_def Let_def split: option.splits list.splits if_splits)
  then have "length t < length (dropWhile is_space (drop (length w) s))" by simp
  also have "\<dots> \<le> length s"
    using length_dropWhile_le [of is_space "drop (length w) s"] by simp
  finally have "length t < length s" .
  then show ?thesis
    using rest length_dropWhile_le [of is_space t]
      length_dropWhile_le [of value_char "dropWhile is_space t"] by simp
qed

function redact :: "string \<Rightarrow> string" where
  "redact s = (case s of [] \<Rightarrow> [] | c # cs \<Rightarrow>
     (case match_sensitive s of
        Some (kw, rest) \<Rightarrow> kw @ ''=<redacted>'' @ redact rest
      | None \<Rightarrow> c # redact cs))"
  by pat_completeness auto
termination
  by (relation "measure length") (auto dest: match_sensitive_shorter)

declare redact.simps [simp del]

fun error_code :: "exn \<Rightarrow> string" where
  "error_code (MeridianError _ _ code _ _) = code"
| "error_code (PyError m n _) = m @ ''.'' @ n"
| "error_code (ExitError n) = ''builtins.'' @ n"

definition redacted_failure :: "core_errors \<Rightarrow> exn \<Rightarrow> int \<Rightarrow> exn + int outbox_failure" where
  "redacted_failure ce error failed_at =
     (let cause = strip (redact (ce_str ce error))
      in OutboxFailure \<lparr>fa_code = error_code error,
           fa_redacted_cause = take 512 (if cause = [] then type_name error else cause),
           fa_failed_at = utc_datetime failed_at\<rparr>)"

definition outbox_release ::
  "core_errors \<Rightarrow> string \<Rightarrow> string \<Rightarrow> exn \<Rightarrow> bool \<Rightarrow> datetime option \<Rightarrow> int
   \<Rightarrow> (outbox_store, outbox_record) prog" where
  "outbox_release ce eid owner error retryable now wall =
     pbind (plift (current_time now wall)) (\<lambda>current.
     \<lambda>st. (case leased_record eid owner current st of
         Inl e \<Rightarrow> (Inl e, st)
       | Inr r \<Rightarrow>
           (case redacted_failure ce error current of
              Inl e \<Rightarrow> (Inl e, st)
            | Inr failure \<Rightarrow>
                let r' = r\<lparr>rec_failure := Some failure, rec_lease := None,
                       rec_state := (if \<not> retryable \<or> st_poison_threshold st \<le> rec_attempt_count r
                                     then QUARANTINED else RETRYABLE)\<rparr>
                in (snapshot r', put_record r' st))))"

definition operator_retry :: "string \<Rightarrow> string \<Rightarrow> (outbox_store, outbox_record) prog" where
  "operator_retry eid reason =
     pbind (plift (guard (strip reason \<noteq> []) (ValueError ''operator retry reason must be non-empty''))) (\<lambda>_.
     \<lambda>st. (case find_record st eid of
         None \<Rightarrow> (Inl (NotFound ''MERIDIAN_OUTBOX_NOT_FOUND''
                    (''outbox event '' @ py_repr eid @ '' was not found'')), st)
       | Some r \<Rightarrow>
           if rec_state r \<noteq> QUARANTINED
           then (Inl (Conflict ''MERIDIAN_OUTBOX_STATE_CONFLICT''
                   (''outbox event '' @ py_repr eid @ '' is not quarantined'')), st)
           else let r' = r\<lparr>rec_state := RETRYABLE, rec_failure := None\<rparr>
                in (snapshot r', put_record r' st)))"

section \<open>Checkpoints and inspection\<close>

definition compare_and_set_checkpoint :: "checkpoint \<Rightarrow> int \<Rightarrow> (outbox_store, checkpoint) prog" where
  "compare_and_set_checkpoint c expected_revision st =
     (let revision = (case find_checkpoint st (cp_partition_key c) of
                        None \<Rightarrow> 0 | Some current \<Rightarrow> cp_revision current)
      in if revision \<noteq> expected_revision
         then (Inl (CheckpointConflict (''checkpoint revision '' @ int_text revision @
                 '' does not match '' @ int_text expected_revision)), st)
         else if cp_revision c \<noteq> expected_revision + 1
         then (Inl (CheckpointConflict ''new checkpoint revision must increment by one''), st)
         else (Inr c, put_checkpoint c st))"

definition checkpoint_of :: "string \<Rightarrow> (outbox_store, checkpoint) prog" where
  "checkpoint_of part =
     pbind (plift (Checkpoint \<lparr>cp_partition_key = part, cp_revision = 0, cp_event_id = None,
        cp_source_version = VNone, cp_target_fingerprint = None, cp_advanced_at = None\<rparr>)) (\<lambda>fresh.
     \<lambda>st. (Inr (case find_checkpoint st part of None \<Rightarrow> fresh | Some c \<Rightarrow> c), st))"

definition get_record :: "string \<Rightarrow> (outbox_store, outbox_record) prog" where
  "get_record eid st = (case find_record st eid of
       None \<Rightarrow> (Inl (NotFound ''MERIDIAN_OUTBOX_NOT_FOUND''
                  (''outbox event '' @ py_repr eid @ '' was not found'')), st)
     | Some r \<Rightarrow> (snapshot r, st))"

definition outbox_records :: "(outbox_store, outbox_record list) prog" where
  "outbox_records st = (emap snapshot (ordered_records st), st)"

text \<open>\<open>total_seconds()\<close> is exact here; the code rounds the quotient to a double.\<close>

definition outbox_lag :: "datetime option \<Rightarrow> int \<Rightarrow> (outbox_store, projection_lag) prog" where
  "outbox_lag now wall =
     pbind (plift (current_time now wall)) (\<lambda>current.
     \<lambda>st. (let incomplete = map (\<lambda>r. od_occurred_at (rec_data r))
                  (filter (\<lambda>r. rec_state r \<noteq> COMPLETED) (map snd (st_records st)));
              oldest = (if incomplete = [] then None else Some (Min (set incomplete)))
          in (ProjectionLag \<lparr>lag_incomplete_count = int (length incomplete),
                lag_oldest_incomplete_at = oldest,
                lag_lag_seconds = Fin (case oldest of None \<Rightarrow> 0
                    | Some t \<Rightarrow> max 0 (real_of_int (current - t) / 1000000)),
                lag_target_seconds = st_visibility_target_seconds st\<rparr>, st)))"

end
