(* ===== verification/Outbox_Claim.thy ===== *)
theory Outbox_Claim
  imports Outbox_Store
begin

text \<open>
  What the store's operations do, as equations.  \<open>store_inv\<close> is the well-formedness of a store;
  under it a claim returns exactly the first \<open>limit\<close> claimable partition heads in
  (\<open>occurred_at\<close>, \<open>event_id\<close>) order, leased, and changes nothing else; completion and release succeed
  exactly for the unexpired lease of the caller and change one record and one checkpoint.
\<close>

section \<open>Well-formed stores\<close>

definition record_inv :: "outbox_record \<Rightarrow> bool" where
  "record_inv r \<longleftrightarrow> 0 \<le> rec_attempt_count r \<and> (rec_state r = LEASED \<longleftrightarrow> rec_lease r \<noteq> None) \<and>
     (\<forall>l. rec_lease r = Some l \<longrightarrow> le_owner l \<noteq> [] \<and> le_acquired_at l < le_expires_at l \<and>
        le_attempt l = rec_attempt_count r \<and> 1 \<le> le_attempt l) \<and>
     (rec_state r = COMPLETED \<longleftrightarrow> rec_completed_at r \<noteq> None) \<and>
     (rec_state r = COMPLETED \<longleftrightarrow> rec_target_fingerprint r \<noteq> None) \<and>
     (\<forall>f. rec_target_fingerprint r = Some f \<longrightarrow> is_sha256 f) \<and>
     (rec_state r = PENDING \<longrightarrow> rec_attempt_count r = 0) \<and>
     (rec_state r = QUARANTINED \<longrightarrow> rec_failure r \<noteq> None) \<and>
     (rec_failure r \<noteq> None \<longrightarrow> rec_state r \<in> {RETRYABLE, QUARANTINED}) \<and> wf_odata (rec_data r)"

definition checkpoint_inv :: "string \<Rightarrow> checkpoint \<Rightarrow> bool" where
  "checkpoint_inv p c \<longleftrightarrow> cp_partition_key c = p \<and> p \<noteq> [] \<and> 1 \<le> cp_revision c"

definition store_inv :: "outbox_store \<Rightarrow> bool" where
  "store_inv st \<longleftrightarrow> 1 \<le> st_poison_threshold st \<and> \<not> num_le (st_visibility_target_seconds st) (Fin 0) \<and>
     distinct (map fst (st_records st)) \<and> distinct (map fst (st_checkpoints st)) \<and>
     (\<forall>kr \<in> set (st_records st). fst kr = event_id (snd kr) \<and> record_inv (snd kr)) \<and>
     (\<forall>kc \<in> set (st_checkpoints st). checkpoint_inv (fst kc) (snd kc))"

lemma store_inv_find:
  assumes "store_inv st" and "find_record st k = Some r"
  shows "event_id r = k" and "record_inv r"
proof -
  have "(k, r) \<in> set (st_records st)" using assms(2) by (rule map_of_SomeD)
  with assms(1) show "event_id r = k" "record_inv r" by (auto simp: store_inv_def)
qed

lemma store_inv_checkpoint:
  assumes "store_inv st" and "find_checkpoint st p = Some c"
  shows "checkpoint_inv p c"
proof -
  have "(p, c) \<in> set (st_checkpoints st)" using assms(2) by (rule map_of_SomeD)
  with assms(1) show ?thesis by (auto simp: store_inv_def)
qed

lemma store_inv_distinct:
  "store_inv st \<Longrightarrow> distinct (map fst (st_records st))"
  "store_inv st \<Longrightarrow> distinct (map fst (st_checkpoints st))"
  by (simp_all add: store_inv_def)

lemma store_inv_member:
  assumes "store_inv st"
  shows "r \<in> snd ` set (st_records st) \<longleftrightarrow> find_record st (event_id r) = Some r"
  using assms by (force simp: store_inv_def)

lemma find_record_put [simp]:
  "find_record (put_record r st) k = (if k = event_id r then Some r else find_record st k)"
  "find_checkpoint (put_record r st) p = find_checkpoint st p"
  "st_checkpoints (put_record r st) = st_checkpoints st"
  "st_poison_threshold (put_record r st) = st_poison_threshold st"
  "st_visibility_target_seconds (put_record r st) = st_visibility_target_seconds st"
  by (simp_all add: put_record_def)

lemma find_checkpoint_put [simp]:
  "find_checkpoint (put_checkpoint c st) p =
     (if p = cp_partition_key c then Some c else find_checkpoint st p)"
  "find_record (put_checkpoint c st) k = find_record st k"
  "st_records (put_checkpoint c st) = st_records st"
  "st_poison_threshold (put_checkpoint c st) = st_poison_threshold st"
  "st_visibility_target_seconds (put_checkpoint c st) = st_visibility_target_seconds st"
  by (simp_all add: put_checkpoint_def)

lemma put_record_same: "find_record st (event_id r) = Some r \<Longrightarrow> put_record r st = st"
proof -
  have "map_of d k = Some v \<Longrightarrow> AList.update k v d = d" for d :: "(string, outbox_record) dict" and k v
    by (induction d) (auto split: if_splits)
  then show "find_record st (event_id r) = Some r \<Longrightarrow> put_record r st = st"
    by (simp add: put_record_def)
qed

lemma store_inv_put_record [intro]:
  "store_inv st \<Longrightarrow> record_inv r \<Longrightarrow> store_inv (put_record r st)"
  by (auto simp: store_inv_def put_record_def set_update_distinct distinct_keys_update)

lemma store_inv_put_checkpoint [intro]:
  "store_inv st \<Longrightarrow> checkpoint_inv (cp_partition_key c) c \<Longrightarrow> store_inv (put_checkpoint c st)"
  by (auto simp: store_inv_def put_checkpoint_def set_update_distinct distinct_keys_update)

lemma InMemoryOutboxStore_inv: "InMemoryOutboxStore n v = Inr st \<Longrightarrow> store_inv st"
  by (auto simp: InMemoryOutboxStore_def store_inv_def)

section \<open>Claims\<close>

definition claimable :: "int \<Rightarrow> outbox_record \<Rightarrow> bool" where
  "claimable current r \<longleftrightarrow> rec_state r \<in> {PENDING, RETRYABLE} \<or>
     (\<exists>l. rec_state r = LEASED \<and> rec_lease r = Some l \<and> le_expires_at l \<le> current)"

text \<open>The record a successful claim leaves.\<close>

definition lease_to :: "string \<Rightarrow> int \<Rightarrow> int \<Rightarrow> outbox_record \<Rightarrow> outbox_record" where
  "lease_to owner lease_duration current r =
     r\<lparr>rec_state := LEASED, rec_attempt_count := rec_attempt_count r + 1, rec_failure := None,
       rec_lease := Some \<lparr>le_owner = owner, le_acquired_at = current,
         le_expires_at = current + lease_duration, le_attempt = rec_attempt_count r + 1\<rparr>\<rparr>"

text \<open>The first incomplete record of every partition not yet seen, in order.\<close>

fun heads :: "string list \<Rightarrow> outbox_record list \<Rightarrow> outbox_record list" where
  "heads seen [] = []"
| "heads seen (r # rs) =
     (if rec_state r = COMPLETED \<or> rec_partition r \<in> set seen then heads seen rs
      else r # heads (rec_partition r # seen) rs)"

lemma lease_to_data [simp]:
  "rec_data (lease_to ow dur cur r) = rec_data r" "rec_state (lease_to ow dur cur r) = LEASED"
  "rec_lease (lease_to ow dur cur r) = Some \<lparr>le_owner = ow, le_acquired_at = cur,
     le_expires_at = cur + dur, le_attempt = rec_attempt_count r + 1\<rparr>"
  "rec_attempt_count (lease_to ow dur cur r) = rec_attempt_count r + 1"
  by (simp_all add: lease_to_def)

lemma record_inv_lease_to:
  assumes "record_inv r" and "claimable cur r" and "ow \<noteq> []" and "0 < dur"
  shows "record_inv (lease_to ow dur cur r)"
  using assms by (auto simp: record_inv_def claimable_def lease_to_def)

lemma claim_record_eq:
  assumes "record_inv r" and "rec_state r \<noteq> COMPLETED" and "ow \<noteq> []" and "0 < dur"
    and "valid_instant cur" and "valid_instant (cur + dur)"
  shows "claim_record ow dur cur r =
    (if claimable cur r then (lease_to ow dur cur r, Claimed (lease_to ow dur cur r)) else (r, Skipped))"
proof -
  have lease: "OutboxLease \<lparr>le_owner = ow, le_acquired_at = utc_datetime cur,
      le_expires_at = utc_datetime (cur + dur), le_attempt = n\<rparr> =
    Inr \<lparr>le_owner = ow, le_acquired_at = cur, le_expires_at = cur + dur, le_attempt = n\<rparr>"
    if "1 \<le> n" for n
    using assms that by (simp add: OutboxLease_eq_Inr)
  have add: "add_duration cur dur = Inr (cur + dur)" using assms by simp
  show ?thesis
    using assms
    by (cases r; cases "rec_state r"; cases "rec_lease r")
       (auto simp: claim_record_def claimable_def lease_to_def record_inv_def lease add
          snapshot_def OutboxRecord_def Let_def)
qed

lemma find_record_fold_put:
  assumes "distinct (map event_id rs)"
  shows "find_record (fold put_record rs st) k =
    (case find (\<lambda>r. event_id r = k) rs of Some r \<Rightarrow> Some r | None \<Rightarrow> find_record st k)"
  using assms
proof (induction rs arbitrary: st)
  case (Cons r rs)
  have "find (\<lambda>r'. event_id r' = event_id r) rs = None"
    using Cons.prems by (auto simp: find_None_iff image_iff)
  with Cons show ?case by (auto split: option.splits)
qed simp

lemma set_heads: "set (heads seen rs) \<subseteq> set rs"
  by (induction seen rs rule: heads.induct) auto

lemma distinct_heads: "distinct (map f rs) \<Longrightarrow> distinct (map f (heads seen rs))"
proof (induction seen rs rule: heads.induct)
  case (2 seen r rs)
  then show ?case using set_heads [of "rec_partition r # seen" rs] by auto
qed simp

lemma put_record_keeps_others:
  assumes "\<forall>r \<in> set rs. find_record st (event_id r) = Some r" and "event_id s \<notin> event_id ` set rs"
  shows "\<forall>r \<in> set rs. find_record (put_record s st) (event_id r) = Some r"
proof
  fix r assume r: "r \<in> set rs"
  with assms(2) have "event_id r \<noteq> event_id s" by (metis imageI)
  with r assms(1) show "find_record (put_record s st) (event_id r) = Some r" by simp
qed

text \<open>The leases that a pass over the remaining candidates adds.\<close>

abbreviation new_claims :: "string \<Rightarrow> nat \<Rightarrow> int \<Rightarrow> int \<Rightarrow> string list \<Rightarrow> outbox_record list \<Rightarrow> outbox_record list" where
  "new_claims ow n dur cur seen rs \<equiv> map (lease_to ow dur cur) (take n (filter (claimable cur) (heads seen rs)))"

lemma claim_loop_eq:
  assumes "\<forall>r \<in> set rs. record_inv r \<and> find_record st (event_id r) = Some r"
    and "distinct (map event_id rs)" and "ow \<noteq> []" and "0 < dur" and "valid_instant cur"
    and "valid_instant (cur + dur)" and "int (length claimed) < limit"
  shows "claim_loop ow limit dur cur rs seen claimed st =
    (let new = new_claims ow (nat limit - length claimed) dur cur seen rs
     in (Inr (claimed @ new), fold put_record new st))"
  using assms
proof (induction rs arbitrary: seen claimed st)
  case (Cons r rs)
  let ?l = "lease_to ow dur cur r"
  have IH: "claim_loop ow limit dur cur rs seen' claimed' st' =
      (let new = new_claims ow (nat limit - length claimed') dur cur seen' rs
       in (Inr (claimed' @ new), fold put_record new st'))"
    if "\<forall>r \<in> set rs. find_record st' (event_id r) = Some r" and "int (length claimed') < limit"
    for seen' claimed' st'
    using Cons.prems that by (intro Cons.IH) auto
  consider (passed) "rec_state r = COMPLETED \<or> rec_partition r \<in> set seen"
    | (head) "\<not> (rec_state r = COMPLETED \<or> rec_partition r \<in> set seen)" by blast
  then show ?case
  proof cases
    case passed
    then show ?thesis using IH [of st claimed seen] Cons.prems by auto
  next
    case head
    with Cons.prems have visit: "claim_record ow dur cur r =
        (if claimable cur r then (?l, Claimed ?l) else (r, Skipped))"
      by (intro claim_record_eq) auto
    consider (blocked) "\<not> claimable cur r" | (full) "claimable cur r" "int (length (claimed @ [?l])) = limit"
      | (more) "claimable cur r" "int (length (claimed @ [?l])) < limit"
      using Cons.prems(7) by fastforce
    then show ?thesis
    proof cases
      case blocked
      then show ?thesis
        using head visit put_record_same [of st r] Cons.prems IH [of st claimed "rec_partition r # seen"] by simp
    next
      case full
      then have "nat limit - length claimed = Suc 0" by simp
      with full head visit show ?thesis by simp
    next
      case more
      have "\<forall>r \<in> set rs. find_record (put_record ?l st) (event_id r) = Some r"
        using Cons.prems(1,2) by (intro put_record_keeps_others) auto
      moreover have "nat limit - length claimed = Suc (nat limit - Suc (length claimed))" using more(2) by simp
      ultimately show ?thesis
        using IH [OF _ more(2), of "put_record ?l st" "rec_partition r # seen"] more head visit by (simp add: Let_def)
    qed
  qed
qed simp

lemma set_ordered_records [simp]: "set (ordered_records st) = snd ` set (st_records st)"
  by (simp add: ordered_records_def)

lemma sorted_ordered_records [simp]: "sorted (map order_key (ordered_records st))"
  by (simp add: ordered_records_def)

lemma distinct_ordered_records:
  assumes "store_inv st"
  shows "distinct (map event_id (ordered_records st))"
proof -
  have "map event_id (map snd (st_records st)) = map fst (st_records st)"
    using assms by (auto simp: store_inv_def)
  then have "distinct (map event_id (map snd (st_records st)))"
    using assms by (simp add: store_inv_def del: map_map)
  moreover have "mset (map event_id (ordered_records st)) = mset (map event_id (map snd (st_records st)))"
    unfolding ordered_records_def mset_map by (simp only: mset_sort mset_map)
  ultimately show ?thesis by (metis distinct_count_atmost_1 set_mset_mset)
qed

text \<open>The records a claim hands out.\<close>

definition claim_result :: "string \<Rightarrow> int \<Rightarrow> int \<Rightarrow> int \<Rightarrow> outbox_store \<Rightarrow> outbox_record list" where
  "claim_result owner limit lease_duration current st =
     map (lease_to owner lease_duration current)
       (take (nat limit) (filter (claimable current) (heads [] (ordered_records st))))"

lemma atomic_claim_eq:
  assumes "store_inv st" and "ow \<noteq> []" and "1 \<le> limit" and "0 < dur"
    and "current_time now wall = Inr cur" and "valid_instant (cur + dur)"
  shows "atomic_claim ow limit dur now wall st =
    (Inr (claim_result ow limit dur cur st), fold put_record (claim_result ow limit dur cur st) st)"
proof -
  have "valid_instant cur"
    using assms(5) by (auto simp: current_time_def intro: ensure_utc_valid)
  moreover have "\<forall>r \<in> set (ordered_records st). record_inv r \<and> find_record st (event_id r) = Some r"
    using assms(1) by (auto simp: store_inv_member store_inv_def)
  ultimately have "claim_loop ow limit dur cur (ordered_records st) [] [] st =
    (Inr (claim_result ow limit dur cur st), fold put_record (claim_result ow limit dur cur st) st)"
    using assms distinct_ordered_records [OF assms(1)]
    by (subst claim_loop_eq) (auto simp: claim_result_def Let_def)
  with assms show ?thesis by (simp add: atomic_claim_def)
qed

text \<open>A lease that cannot be represented is only noticed when there is something to claim.\<close>

lemma claim_record_overflow:
  assumes "record_inv r" and "rec_state r \<noteq> COMPLETED" and "\<not> valid_instant (cur + dur)"
  shows "claimable cur r \<Longrightarrow> \<exists>r' e. claim_record ow dur cur r = (r', Raised e)"
    and "\<not> claimable cur r \<Longrightarrow> claim_record ow dur cur r = (r, Skipped)"
  using assms
  by (cases r; cases "rec_state r"; cases "rec_lease r";
      auto simp: claim_record_def claimable_def record_inv_def add_duration_def Let_def)+

lemma claim_loop_overflow:
  assumes "\<forall>r \<in> set rs. record_inv r \<and> find_record st (event_id r) = Some r"
    and "\<not> valid_instant (cur + dur)" and "claim_loop ow limit dur cur rs seen claimed st = (Inr out, st')"
  shows "out = claimed \<and> st' = st \<and> filter (claimable cur) (heads seen rs) = []"
  using assms
proof (induction rs arbitrary: seen)
  case (Cons r rs)
  show ?case
  proof (cases "rec_state r = COMPLETED \<or> rec_partition r \<in> set seen")
    case True
    then have "claim_loop ow limit dur cur rs seen claimed st = (Inr out, st')"
      using Cons.prems(3) by (cases "rec_state r = COMPLETED") simp_all
    with True show ?thesis using Cons.IH [of seen] Cons.prems(1,2) by simp
  next
    case False
    have "\<not> claimable cur r"
      using claim_record_overflow(1) [of r cur dur ow] Cons.prems False by auto
    moreover from this have "claim_record ow dur cur r = (r, Skipped)"
      using claim_record_overflow(2) [of r cur dur ow] Cons.prems False by simp
    ultimately show ?thesis
      using Cons.IH [of "rec_partition r # seen"] Cons.prems False put_record_same [of st r] by auto
  qed
qed simp

lemma atomic_claim_Inr:
  assumes "store_inv st" and "atomic_claim ow limit dur now wall st = (Inr rs, st')"
  obtains cur where "current_time now wall = Inr cur" and "ow \<noteq> []" and "1 \<le> limit" and "0 < dur"
    and "rs = claim_result ow limit dur cur st" and "st' = fold put_record rs st"
    and "rs \<noteq> [] \<Longrightarrow> valid_instant (cur + dur)"
proof -
  from assms(2) obtain cur where cur: "current_time now wall = Inr cur" "ow \<noteq> []" "1 \<le> limit" "0 < dur"
    and loop: "claim_loop ow limit dur cur (ordered_records st) [] [] st = (Inr rs, st')"
    by (auto simp: atomic_claim_def pbind_eq_Inr)
  show thesis
  proof (cases "valid_instant (cur + dur)")
    case True
    then show ?thesis using that cur assms(2) atomic_claim_eq [OF assms(1) cur(2-4,1)] by auto
  next
    case False
    have "\<forall>r \<in> set (ordered_records st). record_inv r \<and> find_record st (event_id r) = Some r"
      using assms(1) by (auto simp: store_inv_member store_inv_def)
    from claim_loop_overflow [OF this False loop] that cur show ?thesis
      by (simp add: claim_result_def)
  qed
qed

lemma atomic_claim_rejects:
  assumes "ow = [] \<or> limit < 1 \<or> dur \<le> 0 \<or> (\<exists>e. current_time now wall = Inl e)"
  shows "\<exists>e. atomic_claim ow limit dur now wall st = (Inl e, st)"
  using assms by (auto simp: atomic_claim_def guard_def)

subsection \<open>Partition heads\<close>

definition partition_head :: "outbox_store \<Rightarrow> outbox_record \<Rightarrow> bool" where
  "partition_head st r \<longleftrightarrow> find_record st (event_id r) = Some r \<and> rec_state r \<noteq> COMPLETED \<and>
     (\<forall>kr \<in> set (st_records st). rec_state (snd kr) \<noteq> COMPLETED \<and> rec_partition (snd kr) = rec_partition r
        \<longrightarrow> order_key r \<le> order_key (snd kr))"

lemma mem_heads:
  assumes "sorted (map order_key rs)" and "distinct (map order_key rs)"
  shows "r \<in> set (heads seen rs) \<longleftrightarrow> r \<in> set rs \<and> rec_state r \<noteq> COMPLETED \<and> rec_partition r \<notin> set seen \<and>
    (\<forall>r' \<in> set rs. rec_state r' \<noteq> COMPLETED \<and> rec_partition r' = rec_partition r \<longrightarrow> order_key r \<le> order_key r')"
  using assms
proof (induction seen rs rule: heads.induct)
  case (2 seen x rs)
  have less: "order_key x < order_key y" if "y \<in> set rs" for y
    using 2(3,4) that by (auto simp: less_le image_iff)
  show ?case
  proof (cases "rec_state x = COMPLETED \<or> rec_partition x \<in> set seen")
    case True
    have "r \<in> set (heads seen rs) \<longleftrightarrow> r \<in> set rs \<and> rec_state r \<noteq> COMPLETED \<and> rec_partition r \<notin> set seen \<and>
        (\<forall>r' \<in> set rs. rec_state r' \<noteq> COMPLETED \<and> rec_partition r' = rec_partition r \<longrightarrow> order_key r \<le> order_key r')"
      using 2 True by simp
    with True show ?thesis by auto
  next
    case False
    have "r \<in> set (heads (rec_partition x # seen) rs) \<longleftrightarrow> r \<in> set rs \<and> rec_state r \<noteq> COMPLETED \<and>
        rec_partition r \<notin> set (rec_partition x # seen) \<and>
        (\<forall>r' \<in> set rs. rec_state r' \<noteq> COMPLETED \<and> rec_partition r' = rec_partition r \<longrightarrow> order_key r \<le> order_key r')"
      using 2 False by simp
    then show ?thesis
      using False less by (auto simp: less_le_not_le dest: less)
  qed
qed simp

lemma distinct_partitions_heads:
  "distinct (map rec_partition (heads seen rs)) \<and> set (map rec_partition (heads seen rs)) \<inter> set seen = {}"
  by (induction seen rs rule: heads.induct) auto

lemma mem_heads_ordered:
  assumes "store_inv st"
  shows "r \<in> set (heads [] (ordered_records st)) \<longleftrightarrow> partition_head st r"
proof -
  have "distinct (map order_key (ordered_records st))"
    using distinct_ordered_records [OF assms]
    by (auto simp: distinct_map order_key_def inj_on_def)
  then show ?thesis
    using assms by (subst mem_heads) (auto simp: partition_head_def store_inv_member)
qed

lemma claim_result_member:
  assumes "store_inv st" and "s \<in> set (claim_result ow limit dur cur st)"
  obtains r where "partition_head st r" and "claimable cur r" and "s = lease_to ow dur cur r"
proof -
  from assms(2) obtain r where r: "s = lease_to ow dur cur r"
    and "r \<in> set (take (nat limit) (filter (claimable cur) (heads [] (ordered_records st))))"
    by (auto simp: claim_result_def)
  then have "r \<in> set (heads [] (ordered_records st))" "claimable cur r"
    by (auto dest: in_set_takeD)
  with that r show thesis by (simp add: mem_heads_ordered [OF assms(1)])
qed

lemma claim_result_distinct:
  assumes "store_inv st"
  shows "distinct (map event_id (claim_result ow limit dur cur st))"
    and "distinct (map rec_partition (claim_result ow limit dur cur st))"
proof -
  have "distinct (map f (take n (filter P xs)))" if "distinct (map f xs)" for f :: "outbox_record \<Rightarrow> string" and n P xs
    using that by (metis distinct_map_filter distinct_take take_map)
  then show "distinct (map event_id (claim_result ow limit dur cur st))"
    "distinct (map rec_partition (claim_result ow limit dur cur st))"
    using distinct_heads [OF distinct_ordered_records [OF assms], of "[]"] distinct_partitions_heads [of "[]"]
    by (simp_all add: claim_result_def comp_def)
qed

lemma length_claim_result: "length (claim_result ow limit dur cur st) \<le> nat limit"
  by (simp add: claim_result_def)

lemma sorted_heads: "sorted (map order_key rs) \<Longrightarrow> sorted (map order_key (heads seen rs))"
proof (induction seen rs rule: heads.induct)
  case (2 seen r rs)
  then show ?case using set_heads [of "rec_partition r # seen" rs] by auto
qed simp

lemma sorted_claim_result: "sorted (map order_key (claim_result ow limit dur cur st))"
proof -
  have key: "order_key (lease_to ow dur cur r) = order_key r" for r by (simp add: order_key_def)
  have "sorted (map order_key (filter (claimable cur) (heads [] (ordered_records st))))"
    by (intro sorted_filter sorted_heads) simp
  then show ?thesis
    by (simp add: claim_result_def comp_def key flip: take_map)
qed

lemma claim_result_complete:
  assumes "store_inv st" and "length (claim_result ow limit dur cur st) < nat limit"
    and "partition_head st r" and "claimable cur r"
  shows "lease_to ow dur cur r \<in> set (claim_result ow limit dur cur st)"
proof -
  have "r \<in> set (filter (claimable cur) (heads [] (ordered_records st)))"
    using assms by (simp add: mem_heads_ordered)
  moreover have "length (filter (claimable cur) (heads [] (ordered_records st))) \<le> nat limit"
    using assms(2) by (simp add: claim_result_def)
  ultimately show ?thesis by (simp add: claim_result_def)
qed

lemma find_claim_result:
  assumes "store_inv st"
  shows "find_record (fold put_record (claim_result ow limit dur cur st) st) k =
    (case find (\<lambda>r. event_id r = k) (claim_result ow limit dur cur st) of
       Some r \<Rightarrow> Some r | None \<Rightarrow> find_record st k)"
  using claim_result_distinct(1) [OF assms] by (rule find_record_fold_put)

lemma fold_put_record_frame [simp]:
  "st_checkpoints (fold put_record rs st) = st_checkpoints st"
  "st_poison_threshold (fold put_record rs st) = st_poison_threshold st"
  "st_visibility_target_seconds (fold put_record rs st) = st_visibility_target_seconds st"
  by (induction rs arbitrary: st) auto

lemma store_inv_fold_put: "store_inv st \<Longrightarrow> \<forall>r \<in> set rs. record_inv r \<Longrightarrow> store_inv (fold put_record rs st)"
  by (induction rs arbitrary: st) auto

lemma store_inv_claim:
  assumes "store_inv st" and "ow \<noteq> []" and "0 < dur"
  shows "store_inv (fold put_record (claim_result ow limit dur cur st) st)"
proof (intro store_inv_fold_put ballI assms(1))
  fix s assume "s \<in> set (claim_result ow limit dur cur st)"
  then obtain r where "partition_head st r" "claimable cur r" "s = lease_to ow dur cur r"
    by (rule claim_result_member [OF assms(1)])
  with assms show "record_inv s"
    by (auto simp: partition_head_def intro!: record_inv_lease_to dest: store_inv_find)
qed

end
