(* ===== verification/Outbox_Steps.thy ===== *)
theory Outbox_Steps
  imports Outbox_Claim
begin

text \<open>
  The effect of completion, release, retry and append on a well-formed store, and the store as a
  state machine: \<open>outbox_step\<close> has one rule per method (whatever it returns or raises) and
  \<open>outbox_run\<close> is its reflexive closure.  The invariants are proved for every run: the store stays
  well-formed, a completed record never changes, no record disappears or changes its data,
  checkpoint revisions only grow and count the completed events of their partition.
\<close>

section \<open>Effects of the single-record operations\<close>

definition holds_lease :: "outbox_store \<Rightarrow> string \<Rightarrow> string \<Rightarrow> int \<Rightarrow> outbox_record \<Rightarrow> bool" where
  "holds_lease st eid owner now r \<longleftrightarrow> find_record st eid = Some r \<and> rec_state r = LEASED \<and>
     (\<exists>l. rec_lease r = Some l \<and> le_owner l = owner \<and> now < le_expires_at l)"

lemma leased_record_eq_Inr: "leased_record eid ow now st = Inr r \<longleftrightarrow> holds_lease st eid ow now r"
  by (auto simp: leased_record_def holds_lease_def split: option.splits if_splits)

lemma leased_record_Inl_code:
  assumes "leased_record eid ow now st = Inl e" and "find_record st eid = Some r"
  shows "\<exists>m. e = LeaseLostError m"
  using assms by (auto simp: leased_record_def split: option.splits if_splits)

definition completed_record :: "string \<Rightarrow> int \<Rightarrow> outbox_record \<Rightarrow> outbox_record" where
  "completed_record fingerprint now r = r\<lparr>rec_state := COMPLETED, rec_lease := None,
     rec_failure := None, rec_target_fingerprint := Some fingerprint, rec_completed_at := Some now\<rparr>"

definition revision_of :: "outbox_store \<Rightarrow> string \<Rightarrow> int" where
  "revision_of st p = (case find_checkpoint st p of None \<Rightarrow> 0 | Some c \<Rightarrow> cp_revision c)"

definition next_checkpoint :: "outbox_store \<Rightarrow> string \<Rightarrow> int \<Rightarrow> outbox_record \<Rightarrow> checkpoint" where
  "next_checkpoint st fingerprint now r = \<lparr>cp_partition_key = rec_partition r,
     cp_revision = revision_of st (rec_partition r) + 1, cp_event_id = Some (event_id r),
     cp_source_version = od_source_version (rec_data r), cp_target_fingerprint = Some fingerprint,
     cp_advanced_at = Some now\<rparr>"

lemma revision_of_nonneg: "store_inv st \<Longrightarrow> 0 \<le> revision_of st p"
  by (auto simp: revision_of_def checkpoint_inv_def dest: store_inv_checkpoint split: option.splits)

lemma completed_record_simps [simp]:
  "rec_data (completed_record f n r) = rec_data r" "rec_state (completed_record f n r) = COMPLETED"
  "rec_target_fingerprint (completed_record f n r) = Some f"
  "rec_completed_at (completed_record f n r) = Some n" "rec_lease (completed_record f n r) = None"
  by (simp_all add: completed_record_def)

lemma outbox_complete_ok:
  assumes "store_inv st" and "current_time now wall = Inr cur" and "is_sha256 fp"
    and "holds_lease st eid ow cur r" and "ver = od_source_version (rec_data r)"
  shows "outbox_complete eid ow ver fp now wall st = (Inr (next_checkpoint st fp cur r),
    put_checkpoint (next_checkpoint st fp cur r) (put_record (completed_record fp cur r) st))"
proof -
  have "event_id r = eid" using assms(1,4) by (auto simp: holds_lease_def dest: store_inv_find)
  moreover have "0 \<le> revision_of st (rec_partition r) + 1"
    using revision_of_nonneg [OF assms(1), of "rec_partition r"] by simp
  moreover have "(case find_checkpoint st (rec_partition r) of None \<Rightarrow> 1
      | Some previous \<Rightarrow> cp_revision previous + 1) = revision_of st (rec_partition r) + 1"
    by (simp add: revision_of_def split: option.split)
  moreover have "same_type ver (od_source_version (rec_data r)) \<and>
      version_eq ver (od_source_version (rec_data r))"
    using assms(5) by (simp add: same_type_version_eq)
  ultimately show ?thesis
    using assms by (simp add: outbox_complete_def require_sha256_def next_checkpoint_def
        completed_record_def Checkpoint_def Let_def leased_record_eq_Inr [symmetric])
qed

lemma outbox_complete_cases:
  assumes "store_inv st" and "outbox_complete eid ow ver fp now wall st = (res, st')"
  shows "(\<exists>cur r. current_time now wall = Inr cur \<and> is_sha256 fp \<and> holds_lease st eid ow cur r \<and>
            ver = od_source_version (rec_data r) \<and> res = Inr (next_checkpoint st fp cur r) \<and>
            st' = put_checkpoint (next_checkpoint st fp cur r) (put_record (completed_record fp cur r) st))
       \<or> (\<exists>e. res = Inl e \<and> st' = st)"
proof (cases "is_sha256 fp \<and> (\<exists>cur. current_time now wall = Inr cur)")
  case False
  then show ?thesis
    using assms(2)
    by (cases "current_time now wall") (auto simp: outbox_complete_def require_sha256_def split: if_splits)
next
  case True
  then obtain cur where fp: "is_sha256 fp" and cur: "current_time now wall = Inr cur" by blast
  show ?thesis
  proof (cases "leased_record eid ow cur st")
    case (Inl e)
    with assms(2) fp cur show ?thesis by (auto simp: outbox_complete_def require_sha256_def)
  next
    case (Inr r)
    then have lease: "holds_lease st eid ow cur r" by (simp add: leased_record_eq_Inr)
    show ?thesis
    proof (cases "ver = od_source_version (rec_data r)")
      case False
      with assms(2) fp cur Inr same_type_version_eq [of ver "od_source_version (rec_data r)"]
      show ?thesis by (auto simp: outbox_complete_def require_sha256_def)
    next
      case True
      with assms fp cur lease outbox_complete_ok [OF assms(1) cur fp lease True] show ?thesis by auto
    qed
  qed
qed

definition released_state :: "outbox_store \<Rightarrow> bool \<Rightarrow> outbox_record \<Rightarrow> outbox_state" where
  "released_state st retryable r =
     (if \<not> retryable \<or> st_poison_threshold st \<le> rec_attempt_count r then QUARANTINED else RETRYABLE)"

definition released_record :: "outbox_store \<Rightarrow> bool \<Rightarrow> int outbox_failure \<Rightarrow> outbox_record \<Rightarrow> outbox_record" where
  "released_record st retryable f r =
     r\<lparr>rec_failure := Some f, rec_lease := None, rec_state := released_state st retryable r\<rparr>"

lemma released_record_simps [simp]:
  "rec_data (released_record st b f r) = rec_data r"
  "rec_state (released_record st b f r) = released_state st b r"
  "rec_lease (released_record st b f r) = None"
  "rec_failure (released_record st b f r) = Some f"
  by (simp_all add: released_record_def)

lemma released_state_cases: "released_state st b r \<in> {QUARANTINED, RETRYABLE}"
  by (simp add: released_state_def)

lemma record_inv_released:
  assumes "record_inv r" and "rec_state r = LEASED"
  shows "record_inv (released_record st b f r)"
  using assms by (auto simp: record_inv_def released_record_def released_state_def)

lemma outbox_release_ok:
  assumes "store_inv st" and "current_time now wall = Inr cur" and "holds_lease st eid ow cur r"
    and "redacted_failure ce err cur = Inr f"
  shows "outbox_release ce eid ow err b now wall st =
    (Inr (released_record st b f r), put_record (released_record st b f r) st)"
proof -
  have "record_inv r" "rec_state r = LEASED"
    using assms(1,3) by (auto simp: holds_lease_def dest: store_inv_find)
  then have "snapshot (released_record st b f r) = Inr (released_record st b f r)"
    using record_inv_released [of r st b f] by (auto simp: snapshot_def OutboxRecord_def record_inv_def)
  then show ?thesis
    using assms by (simp add: outbox_release_def released_record_def released_state_def Let_def
        leased_record_eq_Inr [symmetric])
qed

lemma outbox_release_cases:
  assumes "store_inv st" and "outbox_release ce eid ow err b now wall st = (res, st')"
  shows "(\<exists>cur r f. current_time now wall = Inr cur \<and> holds_lease st eid ow cur r \<and>
            redacted_failure ce err cur = Inr f \<and> res = Inr (released_record st b f r) \<and>
            st' = put_record (released_record st b f r) st)
       \<or> (\<exists>e. res = Inl e \<and> st' = st)"
proof (cases "current_time now wall")
  case (Inl e)
  with assms(2) show ?thesis by (auto simp: outbox_release_def)
next
  case cur: (Inr cur)
  show ?thesis
  proof (cases "leased_record eid ow cur st")
    case (Inl e)
    with assms(2) cur have "res = Inl e \<and> st' = st" by (simp add: outbox_release_def)
    then show ?thesis by blast
  next
    case (Inr r)
    then have lease: "holds_lease st eid ow cur r" by (simp add: leased_record_eq_Inr)
    show ?thesis
    proof (cases "redacted_failure ce err cur")
      case (Inl e)
      with assms(2) cur \<open>leased_record eid ow cur st = Inr r\<close> show ?thesis
        by (auto simp: outbox_release_def)
    next
      case (Inr f)
      with assms cur lease outbox_release_ok [OF assms(1) cur lease Inr] show ?thesis by auto
    qed
  qed
qed

lemma operator_retry_cases:
  assumes "store_inv st" and "operator_retry eid reason st = (res, st')"
  shows "(\<exists>r. find_record st eid = Some r \<and> rec_state r = QUARANTINED \<and> strip reason \<noteq> [] \<and>
            res = Inr (r\<lparr>rec_state := RETRYABLE, rec_failure := None\<rparr>) \<and>
            st' = put_record (r\<lparr>rec_state := RETRYABLE, rec_failure := None\<rparr>) st)
       \<or> (\<exists>e. res = Inl e \<and> st' = st)"
proof (cases "find_record st eid")
  case None
  with assms(2) show ?thesis by (auto simp: operator_retry_def guard_def split: if_splits)
next
  case (Some r)
  then have "record_inv r" using assms(1) by (rule store_inv_find [rotated])
  then have "rec_state r = QUARANTINED \<Longrightarrow> snapshot (r\<lparr>rec_state := RETRYABLE, rec_failure := None\<rparr>)
      = Inr (r\<lparr>rec_state := RETRYABLE, rec_failure := None\<rparr>)"
    by (simp add: snapshot_def OutboxRecord_def record_inv_def)
  with Some assms(2) show ?thesis
    by (auto simp: operator_retry_def guard_def Let_def split: if_splits)
qed

lemma outbox_append_cases:
  assumes "outbox_append d st = (res, st')"
  shows "(res = Inr () \<and> find_record st (od_event_id d) = None \<and> st' = put_record (new_record d) st)
       \<or> (st' = st \<and> (\<exists>r. find_record st (od_event_id d) = Some r \<and>
            (res = Inr () \<longleftrightarrow> od_digest (rec_data r) = od_digest d)))"
  using assms by (auto simp: outbox_append_def split: option.splits if_splits)

section \<open>The store as a state machine\<close>

text \<open>One call of a method, whatever it returns or raises.  A claim's lease must end inside the
  range of \<open>datetime\<close>; see \<open>overflowing_claim_breaks_the_record\<close> below for what happens otherwise.
  The direct checkpoint hook is a rule of its own.\<close>

inductive port_step :: "outbox_store \<Rightarrow> outbox_store \<Rightarrow> bool" where
  append_step: "wf_odata d \<Longrightarrow> outbox_append d st = (res, st') \<Longrightarrow> port_step st st'"
| claim_step: "atomic_claim ow limit dur now wall st = (res, st') \<Longrightarrow>
    (\<And>cur. current_time now wall = Inr cur \<Longrightarrow> valid_instant (cur + dur)) \<Longrightarrow> port_step st st'"
| complete_step: "outbox_complete eid ow ver fp now wall st = (res, st') \<Longrightarrow> port_step st st'"
| release_step: "outbox_release ce eid ow err b now wall st = (res, st') \<Longrightarrow> port_step st st'"
| retry_step: "operator_retry eid reason st = (res, st') \<Longrightarrow> port_step st st'"

inductive outbox_step :: "outbox_store \<Rightarrow> outbox_store \<Rightarrow> bool" where
  port: "port_step st st' \<Longrightarrow> outbox_step st st'"
| cas: "cp_partition_key c \<noteq> [] \<Longrightarrow> compare_and_set_checkpoint c n st = (res, st') \<Longrightarrow> outbox_step st st'"

inductive outbox_run :: "outbox_store \<Rightarrow> outbox_store \<Rightarrow> bool" where
  refl: "outbox_run st st"
| step: "outbox_run st st' \<Longrightarrow> outbox_step st' st'' \<Longrightarrow> outbox_run st st''"

inductive port_run :: "outbox_store \<Rightarrow> outbox_store \<Rightarrow> bool" where
  refl: "port_run st st"
| step: "port_run st st' \<Longrightarrow> port_step st' st'' \<Longrightarrow> port_run st st''"

lemma outbox_run_trans: "outbox_run st' st'' \<Longrightarrow> outbox_run st st' \<Longrightarrow> outbox_run st st''"
  by (induction rule: outbox_run.induct) (auto intro: outbox_run.step)

lemma outbox_run_single: "outbox_step st st' \<Longrightarrow> outbox_run st st'"
  by (blast intro: outbox_run.intros)

text \<open>What a step can do to a well-formed store: nothing, or one of five changes.\<close>

inductive store_effect :: "outbox_store \<Rightarrow> outbox_store \<Rightarrow> bool" for st where
  idle: "store_effect st st"
| appended: "wf_odata d \<Longrightarrow> find_record st (od_event_id d) = None \<Longrightarrow>
    store_effect st (put_record (new_record d) st)"
| claimed: "ow \<noteq> [] \<Longrightarrow> 0 < dur \<Longrightarrow>
    store_effect st (fold put_record (claim_result ow limit dur cur st) st)"
| completed: "holds_lease st eid ow cur r \<Longrightarrow> is_sha256 fp \<Longrightarrow>
    store_effect st (put_checkpoint (next_checkpoint st fp cur r) (put_record (completed_record fp cur r) st))"
| released: "holds_lease st eid ow cur r \<Longrightarrow> store_effect st (put_record (released_record st b f r) st)"
| retried: "find_record st eid = Some r \<Longrightarrow> rec_state r = QUARANTINED \<Longrightarrow>
    store_effect st (put_record (r\<lparr>rec_state := RETRYABLE, rec_failure := None\<rparr>) st)"

lemma atomic_claim_effect:
  assumes "store_inv st" and "atomic_claim ow limit dur now wall st = (res, st')"
    and "\<And>cur. current_time now wall = Inr cur \<Longrightarrow> valid_instant (cur + dur)"
  shows "store_effect st st'"
proof (cases "ow = [] \<or> limit < 1 \<or> dur \<le> 0 \<or> (\<exists>e. current_time now wall = Inl e)")
  case True
  then show ?thesis using atomic_claim_rejects [of ow limit dur now wall st] assms(2)
    by (auto intro: idle)
next
  case False
  then obtain cur where "current_time now wall = Inr cur" by (cases "current_time now wall") auto
  with False assms have "st' = fold put_record (claim_result ow limit dur cur st) st"
    using atomic_claim_eq [of st ow limit dur now wall cur] by auto
  with False show ?thesis by (auto intro: claimed)
qed

lemma port_step_effect:
  assumes "store_inv st" and "port_step st st'"
  shows "store_effect st st'"
  using assms(2,1)
proof (induction rule: port_step.induct)
  case (append_step d st res st')
  then show ?case using outbox_append_cases [of d st res st'] by (auto intro: store_effect.intros)
next
  case (claim_step ow limit dur now wall st res st')
  then show ?case by (intro atomic_claim_effect)
next
  case (complete_step eid ow ver fp now wall st res st')
  then show ?case using outbox_complete_cases [of st eid ow ver fp now wall res st']
    by (auto intro: store_effect.intros)
next
  case (release_step ce eid ow err b now wall st res st')
  then show ?case using outbox_release_cases [of st ce eid ow err b now wall res st']
    by (auto intro: store_effect.intros)
next
  case (retry_step eid reason st res st')
  then show ?case using operator_retry_cases [of st eid reason res st']
    by (auto intro: store_effect.intros)
qed

section \<open>The invariant\<close>

lemma record_inv_new: "wf_odata d \<Longrightarrow> record_inv (new_record d)"
  by (simp add: record_inv_def new_record_def)

lemma record_inv_completed:
  "record_inv r \<Longrightarrow> is_sha256 fp \<Longrightarrow> record_inv (completed_record fp cur r)"
  by (auto simp: record_inv_def completed_record_def)

lemma record_inv_retried:
  "record_inv r \<Longrightarrow> rec_state r = QUARANTINED \<Longrightarrow>
   record_inv (r\<lparr>rec_state := RETRYABLE, rec_failure := None\<rparr>)"
  by (auto simp: record_inv_def)

lemma checkpoint_inv_next:
  "store_inv st \<Longrightarrow> checkpoint_inv (cp_partition_key (next_checkpoint st fp cur r)) (next_checkpoint st fp cur r)"
  using revision_of_nonneg [of st "rec_partition r"] by (simp add: checkpoint_inv_def next_checkpoint_def)

lemma holds_lease_inv:
  assumes "store_inv st" and "holds_lease st eid ow cur r"
  shows "record_inv r" and "event_id r = eid" and "rec_state r = LEASED"
    and "find_record st (event_id r) = Some r"
  using assms by (auto simp: holds_lease_def dest: store_inv_find)

lemma checkpoint_inv_next_put:
  "store_inv st \<Longrightarrow> record_inv r' \<Longrightarrow>
   store_inv (put_checkpoint (next_checkpoint st fp cur r) (put_record r' st))"
  by (rule store_inv_put_checkpoint) (auto intro: checkpoint_inv_next)

lemma store_effect_inv:
  assumes "store_effect st st'" and "store_inv st"
  shows "store_inv st'"
  using assms
proof cases
  case (retried eid r)
  with assms(2) show ?thesis by (auto intro!: record_inv_retried dest: store_inv_find)
qed (auto intro!: store_inv_claim store_inv_put_record record_inv_new record_inv_released
      checkpoint_inv_next_put record_inv_completed dest: holds_lease_inv)

lemma outbox_step_inv:
  assumes "outbox_step st st'" and "store_inv st"
  shows "store_inv st'"
  using assms
proof (induction rule: outbox_step.induct)
  case (port st st')
  then show ?case using port_step_effect store_effect_inv by blast
next
  case (cas c n st res st')
  then have "1 \<le> cp_revision c" if "st' \<noteq> st"
    using that revision_of_nonneg [of st "cp_partition_key c"]
    by (auto simp: compare_and_set_checkpoint_def revision_of_def Let_def split: if_splits option.splits)
  with cas show ?case
    by (cases "st' = st")
       (auto simp: compare_and_set_checkpoint_def checkpoint_inv_def Let_def split: if_splits)
qed

lemma outbox_run_inv: "outbox_run st st' \<Longrightarrow> store_inv st \<Longrightarrow> store_inv st'"
  by (induction rule: outbox_run.induct) (auto intro: outbox_step_inv)

lemma port_run_inv: "port_run st st' \<Longrightarrow> store_inv st \<Longrightarrow> store_inv st'"
  by (induction rule: port_run.induct) (auto intro: outbox_step_inv outbox_step.port)

end
