(* ===== verification/Outbox_Properties.thy ===== *)
theory Outbox_Properties
  imports Outbox_Steps
begin

text \<open>
  Properties of the outbox store over arbitrary sequences of calls: how single records move, that
  completion is final, that checkpoints count completions, that claims serialise every partition,
  and what a lease that overflows \<open>datetime\<close> does to the store.
\<close>

section \<open>How one effect moves one record\<close>

lemma find_by_id:
  assumes "distinct (map event_id rs)"
  shows "find (\<lambda>r. event_id r = k) rs = Some s \<longleftrightarrow> s \<in> set rs \<and> event_id s = k"
  using assms by (induction rs) (auto simp: image_iff)

lemma find_after_claim:
  assumes "store_inv st"
  shows "find_record (fold put_record (claim_result ow limit dur cur st) st) k = Some s \<longleftrightarrow>
    (s \<in> set (claim_result ow limit dur cur st) \<and> event_id s = k) \<or>
    (find_record st k = Some s \<and> k \<notin> event_id ` set (claim_result ow limit dur cur st))"
proof -
  let ?cs = "claim_result ow limit dur cur st"
  note found = find_by_id [OF claim_result_distinct(1) [OF assms], of k ow limit dur cur]
  have none: "find (\<lambda>r. event_id r = k) ?cs = None \<longleftrightarrow> k \<notin> event_id ` set ?cs"
    by (auto simp: find_None_iff)
  show ?thesis
  proof (cases "find (\<lambda>r. event_id r = k) ?cs")
    case None
    with none found [of s] show ?thesis by (auto simp: find_claim_result [OF assms])
  next
    case (Some t)
    with found [of t] found [of s] show ?thesis
      by (auto simp: find_claim_result [OF assms])
  qed
qed

text \<open>The transitions of \<open>OutboxState\<close>; only entering \<open>LEASED\<close> counts an attempt.\<close>

definition state_moves :: "(outbox_state \<times> outbox_state) list" where
  "state_moves = [(PENDING, LEASED), (RETRYABLE, LEASED), (LEASED, LEASED), (LEASED, COMPLETED),
     (LEASED, RETRYABLE), (LEASED, QUARANTINED), (QUARANTINED, RETRYABLE)]"

definition record_moves :: "outbox_record \<Rightarrow> outbox_record \<Rightarrow> bool" where
  "record_moves r r' \<longleftrightarrow> r' = r \<or> rec_data r' = rec_data r \<and>
     (rec_state r, rec_state r') \<in> set state_moves \<and>
     rec_attempt_count r' = rec_attempt_count r + (if rec_state r' = LEASED then 1 else 0)"

lemma record_moves_refl [simp]: "record_moves r r"
  by (simp add: record_moves_def)

lemma record_moves_lease: "claimable cur r \<Longrightarrow> record_moves r (lease_to ow dur cur r)"
  by (auto simp: record_moves_def claimable_def state_moves_def)

lemma record_moves_completed: "rec_state r = LEASED \<Longrightarrow> record_moves r (completed_record fp cur r)"
  by (simp add: record_moves_def state_moves_def completed_record_def)

lemma record_moves_released: "rec_state r = LEASED \<Longrightarrow> record_moves r (released_record st b f r)"
  by (auto simp: record_moves_def state_moves_def released_record_def released_state_def)

lemma claim_moves:
  assumes "store_inv st" and "find_record st k = Some r"
  shows "\<exists>r'. find_record (fold put_record (claim_result ow limit dur cur st) st) k = Some r' \<and>
    record_moves r r'"
proof (cases "k \<in> event_id ` set (claim_result ow limit dur cur st)")
  case False
  with assms show ?thesis by (auto simp: find_after_claim)
next
  case True
  then obtain s where s: "s \<in> set (claim_result ow limit dur cur st)" "event_id s = k" by blast
  then obtain h where "partition_head st h" "claimable cur h" "s = lease_to ow dur cur h"
    using claim_result_member [OF assms(1)] by metis
  with s assms have "record_moves r s" by (auto simp: partition_head_def intro: record_moves_lease)
  with s assms show ?thesis by (auto simp: find_after_claim)
qed

lemma store_effect_moves:
  assumes "store_effect st st'" and "store_inv st" and "find_record st k = Some r"
  shows "\<exists>r'. find_record st' k = Some r' \<and> record_moves r r'"
  using assms(1)
proof cases
  case (claimed ow dur limit cur)
  with assms claim_moves show ?thesis by simp
next
  case (completed eid ow cur r0 fp)
  with assms holds_lease_inv [OF assms(2) completed(2)] show ?thesis
    by (auto intro: record_moves_completed)
next
  case (released eid ow cur r0 b f)
  with assms holds_lease_inv [OF assms(2) released(2)] show ?thesis
    by (auto intro: record_moves_released)
next
  case (retried eid r0)
  with assms store_inv_find [OF assms(2) retried(2)] show ?thesis
    by (auto simp: record_moves_def state_moves_def)
qed (use assms in \<open>auto simp: new_record_def\<close>)

lemma outbox_step_records:
  assumes "outbox_step st st'" and "store_inv st"
  obtains "store_effect st st'" | "st_records st' = st_records st"
  using assms
  by cases (auto simp: compare_and_set_checkpoint_def Let_def split: if_splits intro: port_step_effect)

lemma outbox_step_moves:
  assumes "outbox_step st st'" and "store_inv st" and "find_record st k = Some r"
  shows "\<exists>r'. find_record st' k = Some r' \<and> record_moves r r'"
  using assms(1,2) by (rule outbox_step_records) (use assms store_effect_moves in auto)

lemma record_moves_facts:
  assumes "record_moves r r'"
  shows "rec_data r' = rec_data r" and "rec_attempt_count r \<le> rec_attempt_count r'"
    and "rec_state r = COMPLETED \<Longrightarrow> r' = r"
  using assms by (auto simp: record_moves_def state_moves_def)


lemma outbox_run_moves:
  assumes "outbox_run st st'" and "store_inv st" and "find_record st k = Some r"
  shows "\<exists>r'. find_record st' k = Some r' \<and> rec_data r' = rec_data r \<and>
    rec_attempt_count r \<le> rec_attempt_count r' \<and> (rec_state r = COMPLETED \<longrightarrow> r' = r)"
  using assms
proof (induction rule: outbox_run.induct)
  case (step st st' st'')
  then obtain r1 where r1: "find_record st' k = Some r1" "rec_data r1 = rec_data r"
    "rec_attempt_count r \<le> rec_attempt_count r1" "rec_state r = COMPLETED \<longrightarrow> r1 = r" by blast
  have "store_inv st'" using step outbox_run_inv by blast
  with step r1 obtain r2 where "find_record st'' k = Some r2" "record_moves r1 r2"
    using outbox_step_moves by blast
  with r1 show ?case by (auto simp: record_moves_facts dest: record_moves_facts)
qed simp

section \<open>Checkpoints count completions\<close>

definition completed_events :: "outbox_store \<Rightarrow> string \<Rightarrow> string set" where
  "completed_events st p = fst ` set (filter (\<lambda>kr. rec_state (snd kr) = COMPLETED \<and>
     rec_partition (snd kr) = p) (st_records st))"

lemma finite_completed_events [simp]: "finite (completed_events st p)"
  by (simp add: completed_events_def)

lemma mem_completed_events:
  assumes "store_inv st"
  shows "k \<in> completed_events st p \<longleftrightarrow>
    (\<exists>r. find_record st k = Some r \<and> rec_state r = COMPLETED \<and> rec_partition r = p)"
  using store_inv_distinct(1) [OF assms]
  by (force simp: completed_events_def map_of_eq_Some_distinct)

lemma completed_events_unchanged:
  assumes "store_inv st" and "store_inv st'"
    and "\<And>k r. find_record st k = Some r \<Longrightarrow> rec_state r = COMPLETED \<Longrightarrow> find_record st' k = Some r"
    and "\<And>k r. find_record st' k = Some r \<Longrightarrow> rec_state r = COMPLETED \<Longrightarrow> find_record st k = Some r"
  shows "completed_events st' p = completed_events st p"
proof (rule set_eqI)
  fix k show "k \<in> completed_events st' p \<longleftrightarrow> k \<in> completed_events st p"
    unfolding mem_completed_events [OF assms(1)] mem_completed_events [OF assms(2)]
    using assms(3,4) by metis
qed

lemma claim_result_leased: "s \<in> set (claim_result ow limit dur cur st) \<Longrightarrow> rec_state s = LEASED"
  by (auto simp: claim_result_def)

lemma claim_keeps_completed:
  assumes "store_inv st"
  shows "rec_state r = COMPLETED \<Longrightarrow>
    find_record (fold put_record (claim_result ow limit dur cur st) st) k = Some r \<longleftrightarrow> find_record st k = Some r"
proof -
  assume final: "rec_state r = COMPLETED"
  have "k \<notin> event_id ` set (claim_result ow limit dur cur st)" if "find_record st k = Some r"
  proof
    assume "k \<in> event_id ` set (claim_result ow limit dur cur st)"
    then obtain s where "s \<in> set (claim_result ow limit dur cur st)" "event_id s = k" by blast
    then obtain h where "partition_head st h" "s = lease_to ow dur cur h" "event_id s = k"
      using claim_result_member [OF assms] by metis
    with that final show False by (auto simp: partition_head_def)
  qed
  with final show ?thesis using claim_result_leased by (auto simp: find_after_claim [OF assms])
qed

lemma completed_events_complete:
  assumes "store_inv st" and "holds_lease st eid ow cur r" and "is_sha256 fp"
  shows "completed_events (put_checkpoint c (put_record (completed_record fp cur r) st)) p =
      (if p = rec_partition r then insert eid (completed_events st p) else completed_events st p)"
    and "eid \<notin> completed_events st p"
proof -
  note r = holds_lease_inv [OF assms(1,2)]
  let ?st = "put_record (completed_record fp cur r) st"
  have inv: "store_inv ?st" using assms r by (auto intro: record_inv_completed)
  have "completed_events (put_checkpoint c ?st) p = completed_events ?st p"
    by (simp add: completed_events_def)
  moreover have "k \<in> completed_events ?st p \<longleftrightarrow>
      k \<in> (if p = rec_partition r then insert eid (completed_events st p) else completed_events st p)" for k
    using r by (cases "k = event_id r")
      (simp_all add: mem_completed_events [OF assms(1)] mem_completed_events [OF inv])
  ultimately show "completed_events (put_checkpoint c ?st) p =
      (if p = rec_partition r then insert eid (completed_events st p) else completed_events st p)"
    by blast
  show "eid \<notin> completed_events st p"
    using r by (auto simp: mem_completed_events [OF assms(1)])
qed

text \<open>How the checkpoint revision of a partition and its completed events move together.\<close>

lemma store_effect_revision:
  assumes "store_effect st st'" and "store_inv st"
    and "revision_of st p = int (card (completed_events st p))"
  shows "revision_of st' p = int (card (completed_events st' p))"
  using assms(1)
proof cases
  case (claimed ow dur limit cur)
  have inv: "store_inv st'" using assms store_effect_inv by blast
  have "completed_events st' p = completed_events st p"
    by (rule completed_events_unchanged [OF assms(2) inv])
       (simp_all add: claimed(1) claim_keeps_completed [OF assms(2)])
  with assms(3) claimed(1) show ?thesis by (simp add: revision_of_def)
next
  case (completed eid ow cur r fp)
  have "revision_of st' p = (if p = rec_partition r then revision_of st p + 1 else revision_of st p)"
    by (simp add: completed(1) revision_of_def next_checkpoint_def)
  with assms(3) completed(1) completed_events_complete [OF assms(2) completed(2,3)] show ?thesis
    by auto
next
  case (appended d)
  have inv: "store_inv st'" using assms store_effect_inv by blast
  have "completed_events st' p = completed_events st p"
    by (rule completed_events_unchanged [OF assms(2) inv]) (use appended in \<open>auto simp: new_record_def split: if_splits\<close>)
  with assms(3) appended show ?thesis by (simp add: revision_of_def)
next
  case (released eid ow cur r b f)
  have inv: "store_inv st'" using assms store_effect_inv by blast
  note r = holds_lease_inv [OF assms(2) released(2)]
  have "completed_events st' p = completed_events st p"
    by (rule completed_events_unchanged [OF assms(2) inv])
       (use released r released_state_cases [of st b r] in \<open>auto split: if_splits\<close>)
  with assms(3) released show ?thesis by (simp add: revision_of_def)
next
  case (retried eid r)
  have inv: "store_inv st'" using assms store_effect_inv by blast
  have "event_id r = eid" using retried assms(2) store_inv_find by blast
  then have "completed_events st' p = completed_events st p"
    by (intro completed_events_unchanged [OF assms(2) inv]) (use retried in \<open>auto split: if_splits\<close>)
  with assms(3) retried show ?thesis by (simp add: revision_of_def)
qed (use assms in simp)

lemma port_run_revision:
  assumes "port_run st st'" and "store_inv st"
    and "revision_of st p = int (card (completed_events st p))"
  shows "revision_of st' p = int (card (completed_events st' p))"
  using assms
  by (induction rule: port_run.induct) (auto intro: store_effect_revision port_step_effect port_run_inv)


section \<open>One lease per partition\<close>

text \<open>Appends in order: no new event precedes an incomplete event of its partition.\<close>

definition in_order :: "outbox_store \<Rightarrow> outbox_store \<Rightarrow> bool" where
  "in_order st st' \<longleftrightarrow> (\<forall>kr \<in> set (st_records st'). fst kr \<notin> fst ` set (st_records st) \<longrightarrow>
     (\<forall>kr0 \<in> set (st_records st). rec_state (snd kr0) \<noteq> COMPLETED \<and>
        rec_partition (snd kr0) = rec_partition (snd kr) \<longrightarrow> order_key (snd kr0) \<le> order_key (snd kr)))"

lemma in_orderD:
  assumes "in_order st st'" and "find_record st' j = Some t" and "find_record st j = None"
    and "find_record st k = Some s" and "rec_state s \<noteq> COMPLETED" and "rec_partition s = rec_partition t"
  shows "order_key s \<le> order_key t"
proof -
  have "(j, t) \<in> set (st_records st')" "(k, s) \<in> set (st_records st)"
    using assms(2,4) by (auto dest: map_of_SomeD)
  moreover have "j \<notin> fst ` set (st_records st)" using assms(3) by (simp add: map_of_eq_None_iff)
  ultimately show ?thesis using assms(1,5,6) unfolding in_order_def by (metis fst_conv snd_conv)
qed

inductive ordered_run :: "outbox_store \<Rightarrow> outbox_store \<Rightarrow> bool" where
  refl: "ordered_run st st"
| step: "ordered_run st st' \<Longrightarrow> port_step st' st'' \<Longrightarrow> in_order st' st'' \<Longrightarrow> ordered_run st st''"

lemma ordered_run_port: "ordered_run st st' \<Longrightarrow> port_run st st'"
  by (induction rule: ordered_run.induct) (auto intro: port_run.intros)

lemma partition_head_find:
  assumes "store_inv st"
  shows "partition_head st r \<longleftrightarrow> find_record st (event_id r) = Some r \<and> rec_state r \<noteq> COMPLETED \<and>
     (\<forall>k r'. find_record st k = Some r' \<and> rec_state r' \<noteq> COMPLETED \<and> rec_partition r' = rec_partition r
        \<longrightarrow> order_key r \<le> order_key r')"
  using store_inv_distinct(1) [OF assms]
  by (auto simp: partition_head_def map_of_eq_Some_distinct)

definition leased_heads :: "outbox_store \<Rightarrow> bool" where
  "leased_heads st \<longleftrightarrow> (\<forall>kr \<in> set (st_records st). rec_state (snd kr) = LEASED \<longrightarrow> partition_head st (snd kr))"

lemma leased_heads_find:
  assumes "store_inv st"
  shows "leased_heads st \<longleftrightarrow> (\<forall>k r. find_record st k = Some r \<and> rec_state r = LEASED \<longrightarrow> partition_head st r)"
  using store_inv_distinct(1) [OF assms] by (auto simp: leased_heads_def map_of_eq_Some_distinct)

text \<open>A step that only moves records, adding none, keeps heads: the incomplete events of a
  partition can only shrink.\<close>

lemma partition_head_mono:
  assumes "store_inv st" and "store_inv st'" and "partition_head st r" and "rec_data r' = rec_data r"
    and "find_record st' (event_id r) = Some r'" and "rec_state r' \<noteq> COMPLETED"
    and "\<And>k s'. find_record st' k = Some s' \<Longrightarrow> rec_state s' \<noteq> COMPLETED \<Longrightarrow>
      (\<exists>s. find_record st k = Some s \<and> rec_data s = rec_data s' \<and> rec_state s \<noteq> COMPLETED)
      \<or> (rec_partition s' = rec_partition r \<longrightarrow> order_key r \<le> order_key s')"
  shows "partition_head st' r'"
proof -
  have same: "order_key s = order_key s' \<and> rec_partition s = rec_partition s'" if "rec_data s = rec_data s'" for s s'
    using that by (simp add: order_key_def)
  have "order_key r' \<le> order_key s'" if "find_record st' k = Some s'" "rec_state s' \<noteq> COMPLETED"
    "rec_partition s' = rec_partition r'" for k s'
    using assms(7) [OF that(1,2)] assms(3,4) that(3) same partition_head_find [OF assms(1)] by metis
  with assms(4-6) show ?thesis by (auto simp: partition_head_find [OF assms(2)])
qed


lemma store_effect_new:
  assumes "store_effect st st'" and "store_inv st" and "find_record st k = None"
    and "find_record st' k = Some s"
  shows "rec_state s = PENDING"
  using assms(1)
proof cases
  case (claimed ow dur limit cur)
  with assms have "s \<in> set (claim_result ow limit dur cur st)" "event_id s = k"
    by (auto simp: find_after_claim)
  then obtain h where "partition_head st h" "s = lease_to ow dur cur h" "event_id s = k"
    using claim_result_member [OF assms(2)] by metis
  with assms(3) show ?thesis by (simp add: partition_head_def)
next
  case (completed eid ow cur r fp)
  with assms(3,4) holds_lease_inv [OF assms(2) completed(2)] show ?thesis by (simp split: if_splits)
next
  case (released eid ow cur r b f)
  with assms(3,4) holds_lease_inv [OF assms(2) released(2)] show ?thesis by (simp split: if_splits)
next
  case (retried eid r)
  with assms(3,4) store_inv_find [OF assms(2) retried(2)] show ?thesis by (simp split: if_splits)
qed (use assms in \<open>auto simp: new_record_def split: if_splits\<close>)

lemma store_effect_leases_heads:
  assumes "store_effect st st'" and "store_inv st" and "find_record st k = Some s"
    and "find_record st' k = Some s'" and "rec_state s' = LEASED" and "rec_state s \<noteq> LEASED"
  shows "partition_head st s"
  using assms(1)
proof cases
  case (claimed ow dur limit cur)
  with assms have "s' \<in> set (claim_result ow limit dur cur st)" "event_id s' = k"
    by (auto simp: find_after_claim)
  then obtain h where "partition_head st h" "s' = lease_to ow dur cur h" "event_id s' = k"
    using claim_result_member [OF assms(2)] by metis
  with assms(3) show ?thesis by (simp add: partition_head_def)
next
  case (released eid ow cur r b f)
  with assms holds_lease_inv [OF assms(2) released(2)] show ?thesis
    using released_state_cases [of st b r] by (auto split: if_splits)
qed (use assms in \<open>auto simp: new_record_def split: if_splits\<close>)

lemma leased_heads_effect:
  assumes "store_effect st st'" and "store_inv st" and "leased_heads st" and "in_order st st'"
  shows "leased_heads st'"
proof -
  have inv: "store_inv st'" using assms store_effect_inv by blast
  have "partition_head st' s'" if s': "find_record st' k = Some s'" "rec_state s' = LEASED" for k s'
  proof -
    obtain s where s: "find_record st k = Some s"
      using store_effect_new [OF assms(1,2) _ s'(1)] s'(2) by fastforce
    then have moved: "record_moves s s'"
      using store_effect_moves [OF assms(1,2)] s'(1) by fastforce
    have head: "partition_head st s"
      using s s' assms(3) store_effect_leases_heads [OF assms(1,2)] leased_heads_find [OF assms(2)] by blast
    show ?thesis
    proof (rule partition_head_mono [OF assms(2) inv head])
      show "rec_data s' = rec_data s" using moved by (rule record_moves_facts)
      show "find_record st' (event_id s) = Some s'" using s s'(1) store_inv_find [OF assms(2)] by blast
      show "rec_state s' \<noteq> COMPLETED" using s'(2) by simp
    next
      fix j t' assume t': "find_record st' j = Some t'" "rec_state t' \<noteq> COMPLETED"
      show "(\<exists>t. find_record st j = Some t \<and> rec_data t = rec_data t' \<and> rec_state t \<noteq> COMPLETED) \<or>
        (rec_partition t' = rec_partition s \<longrightarrow> order_key s \<le> order_key t')"
      proof (cases "find_record st j")
        case None
        with in_orderD [OF assms(4) t'(1) _ s] head show ?thesis by (simp add: partition_head_def)
      next
        case (Some t)
        then have "record_moves t t'" using store_effect_moves [OF assms(1,2)] t'(1) by fastforce
        then have "rec_data t = rec_data t' \<and> rec_state t \<noteq> COMPLETED"
          using record_moves_facts t'(2) by metis
        with Some show ?thesis by simp
      qed
    qed
  qed
  then show ?thesis by (auto simp: leased_heads_find [OF inv])
qed

lemma ordered_run_leased_heads:
  assumes "ordered_run st st'" and "store_inv st" and "leased_heads st"
  shows "leased_heads st'"
  using assms
  by (induction rule: ordered_run.induct)
     (auto intro: leased_heads_effect port_step_effect port_run_inv ordered_run_port)

lemma partition_head_unique:
  assumes "store_inv st" and "partition_head st r" and "partition_head st s"
    and "rec_partition r = rec_partition s"
  shows "r = s"
proof -
  from assms have "order_key r = order_key s" by (force simp: partition_head_find [OF assms(1)])
  then show ?thesis using assms(2,3) by (simp add: order_key_def partition_head_def)
qed

end
