(* ===== verification/Outbox_Theorems.thy ===== *)
theory Outbox_Theorems
  imports Outbox_Properties
begin

text \<open>
  The outbox store's contract, property by property, with witnesses on small concrete stores.  The
  sample events share one partition; their digests stay symbolic.
\<close>

section \<open>Sample stores\<close>

definition sample_raw :: "string \<Rightarrow> int \<Rightarrow> odata" where
  "sample_raw eid t = \<lparr>od_source_resource = ''orders'', od_source_schema = ''orders.v1'',
     od_source_identity = JStr ''42'', od_mutation_kind = ''upsert'', od_source_version = VInt 7,
     od_payload = Some (JObj []), od_immutable_reference = None, od_target_labels = [''search''],
     od_occurred_at = t, od_operation_context = JObj [], od_source_catalog = ''structured'',
     od_event_id = eid, od_digest = [], od_format_version = outbox_format_version\<rparr>"

definition sample_data :: "string \<Rightarrow> int \<Rightarrow> odata" where
  "sample_data eid t = (sample_raw eid t)\<lparr>od_digest := json_digest (digest_material (sample_raw eid t))\<rparr>"

definition sample_fingerprint :: string where
  "sample_fingerprint = json_digest JNull"

definition empty_store :: outbox_store where
  "empty_store = \<lparr>st_poison_threshold = 3, st_visibility_target_seconds = Fin 30,
     st_records = [], st_checkpoints = []\<rparr>"

definition one_event_store :: outbox_store where
  "one_event_store = put_record (new_record (sample_data ''e2'' 20)) empty_store"

definition leased_store :: outbox_store where
  "leased_store = put_record (lease_to ''w'' 100 50 (new_record (sample_data ''e2'' 20))) empty_store"

lemma sample_data_simps [simp]:
  "od_event_id (sample_data e t) = e" "od_occurred_at (sample_data e t) = t"
  "od_source_version (sample_data e t) = VInt 7"
  by (simp_all add: sample_data_def sample_raw_def)

definition sample_partition :: string where
  "sample_partition = partition_key (sample_data [] 0)"

lemma sample_data_partition [simp]: "partition_key (sample_data e t) = sample_partition"
  by (simp add: partition_key_def sample_partition_def sample_data_def sample_raw_def)

lemma wf_sample [simp]: "e \<noteq> [] \<Longrightarrow> valid_instant t \<Longrightarrow> wf_odata (sample_data e t)"
  by (simp add: wf_odata_def sample_data_def sample_raw_def catalog_names_def digest_material_def)

lemma sample_fingerprint_sha256 [simp]: "is_sha256 sample_fingerprint"
  by (simp add: sample_fingerprint_def)

lemma small_instant [simp]: "valid_instant (numeral n)" if "numeral n \<le> (1000 :: int)"
  unfolding valid_instant_def
  by (intro conjI order_trans [OF that]) (simp_all add: max_instant_def)

lemma zero_instant [simp]: "valid_instant 0"
  by (simp add: valid_instant_def max_instant_def)

lemma utc_time [simp]: "valid_instant u \<Longrightarrow> current_time (Some (utc_datetime u)) wall = Inr u"
  by (simp add: current_time_def)

lemma empty_store_created: "InMemoryOutboxStore 3 (Fin 30) = Inr empty_store"
  by (simp add: InMemoryOutboxStore_def empty_store_def)

lemma store_inv_empty [simp]: "store_inv empty_store"
  by (rule InMemoryOutboxStore_inv [OF empty_store_created])

lemma new_record_simps [simp]:
  "rec_data (new_record d) = d" "rec_state (new_record d) = PENDING" "rec_lease (new_record d) = None"
  "rec_attempt_count (new_record d) = 0"
  by (simp_all add: new_record_def)

lemma store_inv_one [simp]: "store_inv one_event_store"
  by (auto simp: one_event_store_def intro!: store_inv_put_record record_inv_new)

lemma store_inv_leased [simp]: "store_inv leased_store"
  by (auto simp: leased_store_def claimable_def
      intro!: store_inv_put_record record_inv_lease_to record_inv_new)

lemma one_event_store_simps [simp]:
  "find_record one_event_store k = (if k = ''e2'' then Some (new_record (sample_data ''e2'' 20)) else None)"
  "st_checkpoints one_event_store = []"
  by (simp_all add: one_event_store_def empty_store_def put_record_def)

lemma leased_store_simps [simp]:
  "find_record leased_store k =
     (if k = ''e2'' then Some (lease_to ''w'' 100 50 (new_record (sample_data ''e2'' 20))) else None)"
  "st_checkpoints leased_store = []" "st_poison_threshold leased_store = 3"
  by (simp_all add: leased_store_def empty_store_def put_record_def)

section \<open>Claims\<close>




text \<open>C8: a quarantined event blocks everything behind it: whatever a successful claim returns
  from the partition of a quarantined event is strictly earlier, in (\<open>occurred_at\<close>, \<open>event_id\<close>)
  order, than that event.\<close>

theorem quarantine_blocks_partition:
  assumes "store_inv st" and "atomic_claim ow limit dur now wall st = (Inr rs, st')"
    and "current_time now wall = Inr cur" and "valid_instant (cur + dur)"
    and "find_record st k = Some q" and "rec_state q = QUARANTINED" and "s \<in> set rs"
    and "rec_partition s = rec_partition q"
  shows "order_key s < order_key q"
proof -
  have "ow \<noteq> []" "1 \<le> limit" "0 < dur"
    using assms(2) atomic_claim_rejects [of ow limit dur now wall st] by fastforce+
  then have "rs = claim_result ow limit dur cur st"
    using assms atomic_claim_eq [of st ow limit dur now wall cur] by simp
  with assms(7) obtain r where r: "partition_head st r" "claimable cur r" "s = lease_to ow dur cur r"
    using claim_result_member [OF assms(1)] by metis
  have "order_key s = order_key r" using r(3) by (simp add: order_key_def)
  moreover have "order_key r \<le> order_key q"
    using r(1,3) assms(5,6,8) by (auto simp: partition_head_find [OF assms(1)])
  moreover have "order_key r \<noteq> order_key q"
  proof
    assume "order_key r = order_key q"
    then have "r = q" using r(1) assms(1,5) by (auto simp: order_key_def partition_head_def dest: store_inv_find)
    with r(2) assms(6) show False by (simp add: claimable_def)
  qed
  ultimately show ?thesis by simp
qed

definition blocked_store :: outbox_store where
  "blocked_store = put_record (new_record (sample_data ''e1'' 10))
     (put_record (released_record empty_store False
        \<lparr>fa_code = ''X'', fa_redacted_cause = ''x'', fa_failed_at = 60\<rparr>
        (lease_to ''w'' 100 50 (new_record (sample_data ''e2'' 20)))) empty_store)"

lemma store_inv_blocked: "store_inv blocked_store"
  by (auto simp: blocked_store_def claimable_def
      intro!: store_inv_put_record record_inv_new record_inv_released record_inv_lease_to)

lemma claim_blocked:
  "fst (atomic_claim ''w'' 5 100 (Some (utc_datetime 70)) 0 blocked_store) =
     Inr [lease_to ''w'' 100 70 (new_record (sample_data ''e1'' 10))]"
  by (subst atomic_claim_eq [OF store_inv_blocked, where cur = 70])
     (simp_all add: claim_result_def ordered_records_def blocked_store_def put_record_def
        empty_store_def order_key_def released_state_def claimable_def)

theorem quarantine_blocks_partition_witness:
  "order_key (lease_to ''w'' 100 70 (new_record (sample_data ''e1'' 10))) < (20, ''e2'')"
  using quarantine_blocks_partition [OF store_inv_blocked, of "''w''" 5 100 "Some (utc_datetime 70)" 0
      "[lease_to ''w'' 100 70 (new_record (sample_data ''e1'' 10))]"
      "snd (atomic_claim ''w'' 5 100 (Some (utc_datetime 70)) 0 blocked_store)" 70 "''e2''"
      "released_record empty_store False \<lparr>fa_code = ''X'', fa_redacted_cause = ''x'', fa_failed_at = 60\<rparr>
        (lease_to ''w'' 100 50 (new_record (sample_data ''e2'' 20)))"
      "lease_to ''w'' 100 70 (new_record (sample_data ''e1'' 10))"]
  by (simp add: claim_blocked [symmetric] prod_eq_iff)
     (simp add: blocked_store_def released_state_def order_key_def)


section \<open>Completion and release\<close>

text \<open>C2: completion succeeds exactly when the fingerprint is a SHA-256 digest and the caller holds
  the unexpired lease of the event and acknowledges its exact source version; it then completes
  the record and advances the partition's checkpoint by one revision in the same step.  In every
  other case the store is unchanged.\<close>

theorem complete_contract:
  assumes "store_inv st"
  shows "(\<forall>c st'. outbox_complete eid ow ver fp now wall st = (Inr c, st') \<longleftrightarrow>
      (\<exists>cur r. current_time now wall = Inr cur \<and> is_sha256 fp \<and> holds_lease st eid ow cur r \<and>
         ver = od_source_version (rec_data r) \<and> c = next_checkpoint st fp cur r \<and>
         st' = put_checkpoint c (put_record (completed_record fp cur r) st))) \<and>
    (\<forall>e st'. outbox_complete eid ow ver fp now wall st = (Inl e, st') \<longrightarrow> st' = st)"
proof (intro conjI allI impI)
  fix c st'
  show "outbox_complete eid ow ver fp now wall st = (Inr c, st') \<longleftrightarrow>
      (\<exists>cur r. current_time now wall = Inr cur \<and> is_sha256 fp \<and> holds_lease st eid ow cur r \<and>
         ver = od_source_version (rec_data r) \<and> c = next_checkpoint st fp cur r \<and>
         st' = put_checkpoint c (put_record (completed_record fp cur r) st))"
    using outbox_complete_cases [OF assms, of eid ow ver fp now wall "Inr c" st']
      outbox_complete_ok [OF assms, of now wall _ fp eid ow _ ver] by auto
next
  fix e st' assume "outbox_complete eid ow ver fp now wall st = (Inl e, st')"
  then show "st' = st"
    using outbox_complete_cases [OF assms, of eid ow ver fp now wall "Inl e" st'] by auto
qed

theorem complete_contract_witness:
  "outbox_complete ''e2'' ''w'' (VInt 7) sample_fingerprint (Some (utc_datetime 60)) 0 leased_store =
     (Inr \<lparr>cp_partition_key = sample_partition, cp_revision = 1, cp_event_id = Some ''e2'',
        cp_source_version = VInt 7, cp_target_fingerprint = Some sample_fingerprint,
        cp_advanced_at = Some 60\<rparr>,
      put_checkpoint \<lparr>cp_partition_key = sample_partition, cp_revision = 1, cp_event_id = Some ''e2'',
        cp_source_version = VInt 7, cp_target_fingerprint = Some sample_fingerprint,
        cp_advanced_at = Some 60\<rparr>
        (put_record (completed_record sample_fingerprint 60
           (lease_to ''w'' 100 50 (new_record (sample_data ''e2'' 20)))) leased_store))"
  by (rule iffD2 [OF complete_contract [OF store_inv_leased, THEN conjunct1, rule_format]],
      rule exI [of _ 60], rule exI [of _ "lease_to ''w'' 100 50 (new_record (sample_data ''e2'' 20))"])
     (simp add: holds_lease_def next_checkpoint_def revision_of_def)

text \<open>C3: release succeeds exactly for the holder of the unexpired lease (with a failure that can be
  recorded).  The record keeps its data and attempt count, loses its lease, carries the redacted
  failure, and is quarantined if the error is not retryable or the attempts reached the poison
  threshold, and retryable otherwise.  In every other case the store is unchanged.\<close>

theorem release_contract:
  assumes "store_inv st"
  shows "(\<forall>s st'. outbox_release ce eid ow err b now wall st = (Inr s, st') \<longleftrightarrow>
      (\<exists>cur r f. current_time now wall = Inr cur \<and> holds_lease st eid ow cur r \<and>
         redacted_failure ce err cur = Inr f \<and> st' = put_record s st \<and>
         s = r\<lparr>rec_failure := Some f, rec_lease := None, rec_state :=
               (if b \<and> rec_attempt_count r < st_poison_threshold st then RETRYABLE else QUARANTINED)\<rparr>)) \<and>
    (\<forall>e st'. outbox_release ce eid ow err b now wall st = (Inl e, st') \<longrightarrow> st' = st)"
proof (intro conjI allI impI)
  have rel: "released_record st b f r = r\<lparr>rec_failure := Some f, rec_lease := None, rec_state :=
      (if b \<and> rec_attempt_count r < st_poison_threshold st then RETRYABLE else QUARANTINED)\<rparr>" for f r
    by (auto simp: released_record_def released_state_def)
  fix s st'
  show "outbox_release ce eid ow err b now wall st = (Inr s, st') \<longleftrightarrow>
      (\<exists>cur r f. current_time now wall = Inr cur \<and> holds_lease st eid ow cur r \<and>
         redacted_failure ce err cur = Inr f \<and> st' = put_record s st \<and>
         s = r\<lparr>rec_failure := Some f, rec_lease := None, rec_state :=
               (if b \<and> rec_attempt_count r < st_poison_threshold st then RETRYABLE else QUARANTINED)\<rparr>)"
    unfolding rel [symmetric]
    using outbox_release_cases [OF assms, of ce eid ow err b now wall "Inr s" st']
      outbox_release_ok [OF assms, of now wall _ eid ow _ ce err _ b] by auto
next
  fix e st' assume "outbox_release ce eid ow err b now wall st = (Inl e, st')"
  then show "st' = st"
    using outbox_release_cases [OF assms, of ce eid ow err b now wall "Inl e" st'] by auto
qed

definition plain_errors :: core_errors where
  "plain_errors = \<lparr>ce_str = (\<lambda>e. case e of PyError _ _ m \<Rightarrow> m | MeridianError _ _ _ m _ \<Rightarrow> m | ExitError n \<Rightarrow> n),
     ce_retryable = (\<lambda>b. b = TransientError)\<rparr>"

theorem release_contract_witness:
  "outbox_release plain_errors ''e2'' ''w'' (RuntimeError ''boom'') True (Some (utc_datetime 60)) 0 leased_store =
     (Inr ((lease_to ''w'' 100 50 (new_record (sample_data ''e2'' 20)))\<lparr>rec_failure :=
          Some \<lparr>fa_code = ''builtins.RuntimeError'', fa_redacted_cause = ''boom'', fa_failed_at = 60\<rparr>,
        rec_lease := None, rec_state := RETRYABLE\<rparr>),
      put_record ((lease_to ''w'' 100 50 (new_record (sample_data ''e2'' 20)))\<lparr>rec_failure :=
          Some \<lparr>fa_code = ''builtins.RuntimeError'', fa_redacted_cause = ''boom'', fa_failed_at = 60\<rparr>,
        rec_lease := None, rec_state := RETRYABLE\<rparr>) leased_store)"
proof -
  have "strip (redact ''boom'') = ''boom''" by code_simp
  then have "redacted_failure plain_errors (RuntimeError ''boom'') 60 =
      Inr \<lparr>fa_code = ''builtins.RuntimeError'', fa_redacted_cause = ''boom'', fa_failed_at = 60\<rparr>"
    by (simp add: redacted_failure_def plain_errors_def OutboxFailure_def)
  then show ?thesis
    by (intro iffD2 [OF release_contract [OF store_inv_leased, THEN conjunct1, rule_format]] exI [of _ 60]
        exI [of _ "lease_to ''w'' 100 50 (new_record (sample_data ''e2'' 20))"] exI conjI)
       (simp_all add: holds_lease_def)
qed

section \<open>Invariants over runs\<close>


lemma one_event_run: "port_step empty_store one_event_store"
  by (rule append_step [of "sample_data ''e2'' 20" _ "Inr ()"])
     (simp_all add: outbox_append_def one_event_store_def empty_store_def)


text \<open>C6: every call moves every record along the lifecycle graph or leaves it alone: the intent never
  changes, no record disappears, only a claim counts an attempt, and nothing leaves \<open>COMPLETED\<close>.\<close>

theorem outbox_record_lifecycle:
  assumes "outbox_step st st'" and "store_inv st" and "find_record st k = Some r"
  shows "\<exists>r'. find_record st' k = Some r' \<and> rec_data r' = rec_data r \<and>
    (r' = r \<or> (rec_state r, rec_state r') \<in> {(PENDING, LEASED), (RETRYABLE, LEASED), (LEASED, LEASED),
       (LEASED, COMPLETED), (LEASED, RETRYABLE), (LEASED, QUARANTINED), (QUARANTINED, RETRYABLE)} \<and>
       rec_attempt_count r' = rec_attempt_count r + (if rec_state r' = LEASED then 1 else 0))"
  using outbox_step_moves [OF assms] by (auto simp: record_moves_def state_moves_def)

theorem outbox_record_lifecycle_witness:
  "\<exists>r'. find_record one_event_store ''e2'' = Some r' \<and> rec_data r' = sample_data ''e2'' 20"
proof -
  have "outbox_step one_event_store one_event_store"
    by (intro outbox_step.port retry_step [of "''e2''" "[]"]) (simp add: operator_retry_def strip_def)
  from outbox_record_lifecycle [OF this store_inv_one, of "''e2''" "new_record (sample_data ''e2'' 20)"]
  show ?thesis by auto
qed


lemma claim_one_event:
  "atomic_claim ''w'' 5 100 (Some (utc_datetime 50)) 0 one_event_store =
     (Inr [lease_to ''w'' 100 50 (new_record (sample_data ''e2'' 20))], leased_store)"
  by (subst atomic_claim_eq [OF store_inv_one, where cur = 50])
     (simp_all add: claim_result_def ordered_records_def one_event_store_def leased_store_def
        put_record_def empty_store_def order_key_def claimable_def)

definition completed_store :: outbox_store where
  "completed_store = snd (outbox_complete ''e2'' ''w'' (VInt 7) sample_fingerprint
     (Some (utc_datetime 60)) 0 leased_store)"

lemma completed_run: "port_run empty_store completed_store"
proof -
  have "port_step one_event_store leased_store"
    by (rule claim_step [OF claim_one_event]) simp
  moreover have "port_step leased_store completed_store"
    by (rule complete_step) (simp add: completed_store_def prod_eq_iff)
  ultimately show ?thesis by (blast intro: port_run.intros one_event_run)
qed


text \<open>C7: when events are appended in order (no new event precedes an incomplete event of its
  partition), a partition never has two leased events: its events are processed one at a time.\<close>

theorem one_lease_per_partition:
  assumes "InMemoryOutboxStore threshold target = Inr st0" and "ordered_run st0 st"
    and "find_record st j = Some r" and "find_record st k = Some s"
    and "rec_state r = LEASED" and "rec_state s = LEASED" and "rec_partition r = rec_partition s"
  shows "j = k \<and> r = s"
proof -
  have inv0: "store_inv st0" using assms(1) by (rule InMemoryOutboxStore_inv)
  have "leased_heads st0" using assms(1) by (auto simp: InMemoryOutboxStore_def leased_heads_def)
  then have "leased_heads st" using ordered_run_leased_heads [OF assms(2) inv0] by simp
  moreover have inv: "store_inv st" using port_run_inv [OF ordered_run_port [OF assms(2)] inv0] .
  ultimately have "r = s" using assms(3-7) partition_head_unique leased_heads_find by metis
  then show ?thesis using assms(3,4) store_inv_find [OF inv] by blast
qed

lemma leased_ordered_run: "ordered_run empty_store leased_store"
proof -
  have "port_step one_event_store leased_store"
    by (rule claim_step [OF claim_one_event]) simp
  then show ?thesis
    by (intro ordered_run.step [OF ordered_run.step [OF ordered_run.refl one_event_run]])
       (simp_all add: in_order_def one_event_store_def leased_store_def empty_store_def put_record_def)
qed

theorem one_lease_per_partition_witness:
  "''e2'' = ''e2'' \<and> find_record leased_store ''e2'' =
     Some (lease_to ''w'' 100 50 (new_record (sample_data ''e2'' 20)))"
  using one_lease_per_partition [OF empty_store_created leased_ordered_run, of "''e2''" _ "''e2''"]
  by simp

text \<open>C9: without that discipline the guarantee is lost.  An event appended with an earlier
  \<open>occurred_at\<close> than the leased head of its partition is handed out by the next claim while the
  other lease is still running, so two workers hold the same partition at once.\<close>

theorem late_append_breaks_serialisation:
  "\<exists>rs st1 st2. outbox_append (sample_data ''e1'' 10) leased_store = (Inr (), st1) \<and>
     atomic_claim ''v'' 5 100 (Some (utc_datetime 60)) 0 st1 = (Inr rs, st2) \<and>
     (\<exists>r s. holds_lease st2 ''e1'' ''v'' 60 r \<and> holds_lease st2 ''e2'' ''w'' 60 s \<and>
        rec_partition r = rec_partition s)"
proof -
  let ?st1 = "put_record (new_record (sample_data ''e1'' 10)) leased_store"
  have inv: "store_inv ?st1" by (auto intro!: store_inv_put_record record_inv_new)
  have "atomic_claim ''v'' 5 100 (Some (utc_datetime 60)) 0 ?st1 =
      (Inr [lease_to ''v'' 100 60 (new_record (sample_data ''e1'' 10))],
       put_record (lease_to ''v'' 100 60 (new_record (sample_data ''e1'' 10))) ?st1)"
    by (subst atomic_claim_eq [OF inv, where cur = 60])
       (simp_all add: claim_result_def ordered_records_def leased_store_def put_record_def
          empty_store_def order_key_def claimable_def)
  then show ?thesis by (simp add: outbox_append_def holds_lease_def)
qed



section \<open>Appending and inspection\<close>

text \<open>C11: appending is idempotent by event id and content.  It succeeds unless the event id is stored
  with another digest; after a success the event is stored with that digest, a second append of
  the same intent changes nothing, and other records and all checkpoints are untouched.  A
  conflicting append leaves the store as it was.\<close>

theorem append_contract:
  "(\<forall>st'. outbox_append d st = (Inr (), st') \<longrightarrow>
      outbox_append d st' = (Inr (), st') \<and> st_checkpoints st' = st_checkpoints st \<and>
      (\<exists>r. find_record st' (od_event_id d) = Some r \<and> od_digest (rec_data r) = od_digest d) \<and>
      (\<forall>k. k \<noteq> od_event_id d \<or> find_record st k \<noteq> None \<longrightarrow> find_record st' k = find_record st k)) \<and>
   (\<forall>e st'. outbox_append d st = (Inl e, st') \<longrightarrow>
      st' = st \<and> exn_code e = ''MERIDIAN_OUTBOX_IDEMPOTENCY_CONFLICT'' \<and>
      (\<exists>r. find_record st (od_event_id d) = Some r \<and> od_digest (rec_data r) \<noteq> od_digest d))"
  by (auto simp: outbox_append_def Conflict_def split: option.splits if_splits)

theorem append_contract_witness:
  "\<exists>r. find_record one_event_store ''e2'' = Some r \<and> od_digest (rec_data r) = od_digest (sample_data ''e2'' 20)"
proof -
  have "outbox_append (sample_data ''e2'' 20) empty_store = (Inr (), one_event_store)"
    by (simp add: outbox_append_def one_event_store_def) (simp add: empty_store_def)
  with append_contract [of "sample_data ''e2'' 20" empty_store] show ?thesis by simp
qed

text \<open>Ages in seconds of a set of instants against a bound.\<close>

lemma oldest_within:
  fixes T :: "int set" and target :: real
  assumes "finite T" and "T \<noteq> {}" and "0 < target"
  shows "max 0 (real_of_int (cur - Min T) / 1000000) \<le> target \<longleftrightarrow>
    (\<forall>t \<in> T. real_of_int (cur - t) / 1000000 \<le> target)"
proof -
  have "real_of_int (cur - t) / 1000000 \<le> real_of_int (cur - Min T) / 1000000" if "t \<in> T" for t
    using that Min_le [OF assms(1)] by (simp add: divide_right_mono)
  moreover have "Min T \<in> T" using assms by simp
  ultimately have "real_of_int (cur - Min T) / 1000000 \<le> target \<longleftrightarrow>
      (\<forall>t \<in> T. real_of_int (cur - t) / 1000000 \<le> target)" by (meson order_trans)
  with assms(3) show ?thesis by simp
qed

lemma incomplete_keys:
  assumes "store_inv st"
  shows "card {k. \<exists>r. find_record st k = Some r \<and> rec_state r \<noteq> COMPLETED} =
    length (filter (\<lambda>r. rec_state r \<noteq> COMPLETED) (map snd (st_records st)))"
proof -
  let ?f = "filter (\<lambda>kr. rec_state (snd kr) \<noteq> COMPLETED) (st_records st)"
  have "{k. \<exists>r. find_record st k = Some r \<and> rec_state r \<noteq> COMPLETED} = fst ` set ?f"
    using store_inv_distinct(1) [OF assms] by (force simp: map_of_eq_Some_distinct)
  moreover have "distinct (map fst ?f)" using store_inv_distinct(1) [OF assms] by (rule distinct_map_filter)
  ultimately show ?thesis
    using distinct_card [of "map fst ?f"] by (simp add: filter_map comp_def)
qed

lemma incomplete_ages:
  assumes "store_inv st"
  shows "(\<forall>k r. find_record st k = Some r \<and> rec_state r \<noteq> COMPLETED \<longrightarrow> P (od_occurred_at (rec_data r))) \<longleftrightarrow>
    (\<forall>t \<in> set (map (\<lambda>r. od_occurred_at (rec_data r))
        (filter (\<lambda>r. rec_state r \<noteq> COMPLETED) (map snd (st_records st)))). P t)"
  using store_inv_distinct(1) [OF assms] by (auto simp: map_of_eq_Some_distinct)



end
