(* ===== verification/Runner.thy ===== *)
theory Runner
  imports Outbox_Properties
begin

text \<open>
  Model of \<open>runner/runner.py\<close>: the projection runner over an outbox port.  The port, the projector,
  the source loader, the acknowledgement extractor, the Core runtime, the evidence sink and the
  clock are fields of the runner; each is a program over a world \<open>'w\<close>, so a hook may do anything,
  other workers' calls on the same outbox included.
\<close>

section \<open>Projection specifications\<close>

record projection_spec =
  ps_name :: string
  ps_source_catalog :: string
  ps_source :: string
  ps_target_catalog :: string
  ps_target :: string
  ps_source_schema :: string
  ps_target_schema :: string
  ps_target_labels :: "string list"
  ps_eventual_visibility_seconds :: num

fun is_finite :: "num \<Rightarrow> bool" where
  "is_finite (Fin _) = True"
| "is_finite _ = False"

definition ProjectionSpec :: "projection_spec \<Rightarrow> exn + projection_spec" where
  "ProjectionSpec s =
     ebind (require_fields [(''name'', ps_name s), (''source_catalog'', ps_source_catalog s),
       (''source'', ps_source s), (''target_catalog'', ps_target_catalog s), (''target'', ps_target s),
       (''source_schema'', ps_source_schema s), (''target_schema'', ps_target_schema s)]) (\<lambda>_.
     ebind (guard (ps_source_catalog s \<in> set catalog_names)
       (ValueError (''unknown source Catalog '' @ py_repr (ps_source_catalog s)))) (\<lambda>_.
     ebind (guard (ps_target_catalog s \<in> set catalog_names)
       (ValueError (''unknown target Catalog '' @ py_repr (ps_target_catalog s)))) (\<lambda>_.
     ebind (guard (is_finite (ps_eventual_visibility_seconds s)
         \<and> \<not> num_le (ps_eventual_visibility_seconds s) (Fin 0))
       (ValueError ''eventual_visibility_seconds must be positive'')) (\<lambda>_.
     ebind (guard (distinct (ps_target_labels s))
       (ValueError ''target_labels must not contain duplicates'')) (\<lambda>_. Inr s)))))"

text \<open>\<open>number\<close> is how \<open>json.dumps\<close> writes the visibility target, an \<open>int\<close> or the \<open>repr\<close> of a \<open>float\<close>.\<close>

definition spec_to_mapping :: "(num \<Rightarrow> json) \<Rightarrow> projection_spec \<Rightarrow> json" where
  "spec_to_mapping number s = JObj [(''name'', JStr (ps_name s)), (''sourceCatalog'', JStr (ps_source_catalog s)), (''source'', JStr (ps_source s)),
     (''targetCatalog'', JStr (ps_target_catalog s)), (''target'', JStr (ps_target s)), (''sourceSchema'', JStr (ps_source_schema s)),
     (''targetSchema'', JStr (ps_target_schema s)), (''targetLabels'', JList (map JStr (ps_target_labels s))),
     (''eventualVisibilitySeconds'', number (ps_eventual_visibility_seconds s))]"

record projection_context =
  pc_projection :: string
  pc_event_id :: string
  pc_source_catalog :: string
  pc_source_resource :: string
  pc_source_schema :: string
  pc_source_identity :: json
  pc_source_version :: version
  pc_mutation_kind :: string
  pc_occurred_at :: int
  pc_operation_context :: json

record projection_run =
  run_claimed :: int
  run_completed :: int
  run_retryable :: int
  run_quarantined :: int

definition empty_run :: projection_run where
  "empty_run = \<lparr>run_claimed = 0, run_completed = 0, run_retryable = 0, run_quarantined = 0\<rparr>"

definition run_add :: "projection_run \<Rightarrow> projection_run \<Rightarrow> projection_run" where
  "run_add a b = \<lparr>run_claimed = run_claimed a + run_claimed b,
     run_completed = run_completed a + run_completed b,
     run_retryable = run_retryable a + run_retryable b,
     run_quarantined = run_quarantined a + run_quarantined b\<rparr>"

section \<open>Values of the Core runtime\<close>

text \<open>What the runner reads of an \<open>Expression\<close> and of an \<open>OperationResult\<close>.\<close>

record expression =
  ex_catalog :: string
  ex_arguments :: "(string, pyval) dict"

record operation_result =
  or_data :: pyval
  or_operation_fingerprint :: "string option"

text \<open>\<open>mapping.get(key)\<close>.\<close>

definition mapping_get :: "(pyval \<times> pyval) list \<Rightarrow> string \<Rightarrow> pyval option" where
  "mapping_get kvs key = map_of kvs (PStr key)"

text \<open>A candidate that is a \<open>str\<close> or an \<open>int\<close> but not a \<open>bool\<close>.\<close>

fun version_candidate :: "pyval option \<Rightarrow> version option" where
  "version_candidate (Some (PStr s)) = Some (VStr s)"
| "version_candidate (Some (PInt i)) = Some (VInt i)"
| "version_candidate _ = None"

fun first_candidate :: "(pyval \<times> pyval) list \<Rightarrow> string list \<Rightarrow> version" where
  "first_candidate kvs [] = VNone"
| "first_candidate kvs (k # ks) =
     (case version_candidate (mapping_get kvs k) of Some v \<Rightarrow> v | None \<Rightarrow> first_candidate kvs ks)"

definition default_acknowledgement :: "operation_result \<Rightarrow> odata \<Rightarrow> exn + version \<times> string" where
  "default_acknowledgement result source =
     (let acknowledged = (case or_data result of
            PMapping kvs \<Rightarrow> first_candidate kvs
              [''acknowledgedSourceVersion'', ''acknowledged_source_version'', ''sourceVersion'']
          | _ \<Rightarrow> VNone)
      in ebind (if od_source_version source = VNone then Inr VNone
                else if acknowledged = VNone
                then Inl (ProjectionRejected ''target result did not acknowledge the source version'')
                else Inr acknowledged) (\<lambda>v.
         ebind (case or_operation_fingerprint result of
                  Some f \<Rightarrow> if f = [] then sha256_digest (or_data result) else Inr f
                | None \<Rightarrow> sha256_digest (or_data result)) (\<lambda>fp.
         Inr (v, fp))))"

section \<open>The port and the runner\<close>

record 'w outbox_port =
  port_claim :: "string \<Rightarrow> int \<Rightarrow> int \<Rightarrow> datetime \<Rightarrow> ('w, outbox_record list) prog"
  port_complete :: "string \<Rightarrow> string \<Rightarrow> version \<Rightarrow> string \<Rightarrow> datetime \<Rightarrow> ('w, checkpoint) prog"
  port_release :: "string \<Rightarrow> string \<Rightarrow> exn \<Rightarrow> bool \<Rightarrow> datetime \<Rightarrow> ('w, outbox_record) prog"
  port_lag :: "datetime option \<Rightarrow> ('w, projection_lag) prog"

record 'w runner =
  ru_core :: core_errors
  ru_execute :: "expression \<Rightarrow> ('w, operation_result) prog"
  ru_spec :: projection_spec
  ru_project :: "pyval \<Rightarrow> projection_context \<Rightarrow> ('w, expression) prog"
  ru_outbox :: "'w outbox_port"
  ru_source_loader :: "(json \<Rightarrow> version \<Rightarrow> ('w, pyval) prog) option"
  ru_acknowledgement :: "operation_result \<Rightarrow> odata \<Rightarrow> ('w, version \<times> string) prog"
  ru_evidence :: "'w evidence_sink"
  ru_batch_size :: int
  ru_lease :: int
  ru_worker_id :: string
  ru_clock :: "('w, datetime) prog"

subsection \<open>Binding validation\<close>

text \<open>The Core registry as the constructor reads it: resolving a Catalog, one immutable snapshot and
  the capability manifests.  \<open>'q\<close> are capability requirements, \<open>'m\<close> manifests.\<close>

record schema_ref =
  sc_text :: string
  sc_logical_name :: string
  sc_version :: string
  sc_catalog :: string
  sc_namespace :: string
  sc_name :: string

record 'q core_resource =
  res_schema :: "schema_ref option"
  res_requirements :: 'q

record core_binding =
  bi_binding_id :: string
  bi_adapter_id :: string
  bi_capability_fingerprint :: string

record 'm capability_manifest =
  ma_adapter_id :: string
  ma_fingerprint :: string
  ma_capabilities :: 'm

record ('r, 'q, 'm) core_runtime =
  rt_catalog :: "string \<Rightarrow> exn + unit"
  rt_parse :: "string \<Rightarrow> string \<Rightarrow> exn + 'r"
  rt_is_value_or_type_error :: "exn \<Rightarrow> bool"
  rt_is_key_error :: "exn \<Rightarrow> bool"
  rt_ref_catalog :: "'r \<Rightarrow> string"
  rt_snapshot :: "exn + unit"
  rt_resource :: "'r \<Rightarrow> exn + 'q core_resource"
  rt_schema :: "string \<Rightarrow> string \<Rightarrow> string \<Rightarrow> string \<Rightarrow> exn + unit"
  rt_binding_for :: "'r \<Rightarrow> exn + core_binding"
  rt_manifests :: "string \<Rightarrow> 'm capability_manifest option"
  rt_violations :: "'m capability_manifest \<Rightarrow> 'q \<Rightarrow> string list"

text \<open>\<open>try: r except (kinds): raise e from error\<close>.\<close>

definition translate :: "(exn \<Rightarrow> bool) \<Rightarrow> exn \<Rightarrow> exn + 'a \<Rightarrow> exn + 'a" where
  "translate kind e r = (case r of Inl e' \<Rightarrow> if kind e' then Inl e else Inl e' | Inr x \<Rightarrow> Inr x)"

definition validate_role ::
  "('r, 'q, 'm) core_runtime \<Rightarrow> string \<times> string \<times> string \<times> string \<Rightarrow> exn + unit" where
  "validate_role rt entry = (case entry of (role, catalog, name, schema_name) \<Rightarrow>
     ebind (translate (rt_is_value_or_type_error rt)
       (ProjectionRejected (''invalid '' @ role @ '' Resource reference'')) (rt_parse rt name catalog)) (\<lambda>ref.
     ebind (guard (rt_ref_catalog rt ref = catalog)
       (ProjectionRejected (role @ '' Resource Catalog does not match projection spec''))) (\<lambda>_.
     ebind (rt_resource rt ref) (\<lambda>resource.
     case res_schema resource of
       None \<Rightarrow> Inl (ProjectionRejected (role @ '' Resource Schema does not match projection spec''))
     | Some schema \<Rightarrow>
     ebind (guard (schema_name \<in> {sc_text schema, sc_logical_name schema @ ''@'' @ sc_version schema})
       (ProjectionRejected (role @ '' Resource Schema does not match projection spec''))) (\<lambda>_.
     ebind (rt_schema rt (sc_catalog schema) (sc_namespace schema) (sc_name schema) (sc_version schema)) (\<lambda>_.
     ebind (translate (rt_is_key_error rt)
       (ProjectionRejected (role @ '' Resource has no resolved Binding'')) (rt_binding_for rt ref)) (\<lambda>binding.
     case rt_manifests rt (bi_binding_id binding) of
       None \<Rightarrow> Inl (ProjectionRejected (role @ '' Resource Binding Capability is unresolved''))
     | Some manifest \<Rightarrow>
     ebind (guard (ma_adapter_id manifest = bi_adapter_id binding
         \<and> ma_fingerprint manifest = bi_capability_fingerprint binding)
       (ProjectionRejected (role @ '' Resource Binding Capability is unresolved''))) (\<lambda>_.
     guard (rt_violations rt manifest (res_requirements resource) = [])
       (ProjectionRejected (role @ '' Resource requires unavailable capabilities''))))))))))"

definition validate_bindings :: "('r, 'q, 'm) core_runtime \<Rightarrow> projection_spec \<Rightarrow> exn + unit" where
  "validate_bindings rt s =
     ebind (rt_catalog rt (ps_source_catalog s)) (\<lambda>_.
     ebind (rt_catalog rt (ps_target_catalog s)) (\<lambda>_.
     ebind (rt_snapshot rt) (\<lambda>_.
     ebind (validate_role rt (''source'', ps_source_catalog s, ps_source s, ps_source_schema s)) (\<lambda>_.
     validate_role rt (''target'', ps_target_catalog s, ps_target s, ps_target_schema s)))))"

text \<open>The constructor, given the fields but for the lease; \<open>uuid\<close> is the fresh identifier it draws
  when the host gives no worker id.\<close>

definition ProjectionRunner ::
  "('r, 'q, 'm) core_runtime \<Rightarrow> 'w runner \<Rightarrow> num \<Rightarrow> string option \<Rightarrow> string \<Rightarrow> exn + 'w runner" where
  "ProjectionRunner rt r lease_seconds worker_id uuid =
     ebind (guard (1 \<le> ru_batch_size r) (ValueError ''batch_size must be positive'')) (\<lambda>_.
     ebind (guard (\<not> num_le lease_seconds (Fin 0)) (ValueError ''lease_seconds must be positive'')) (\<lambda>_.
     ebind (timedelta_seconds lease_seconds) (\<lambda>lease.
     ebind (validate_bindings rt (ru_spec r)) (\<lambda>_.
     Inr (r\<lparr>ru_lease := lease, ru_worker_id := (case worker_id of
            Some i \<Rightarrow> if i = [] then ''projection-'' @ uuid else i
          | None \<Rightarrow> ''projection-'' @ uuid)\<rparr>)))))"

section \<open>Validation of records and expressions\<close>

definition runner_source :: "'w runner \<Rightarrow> outbox_record \<Rightarrow> ('w, pyval) prog" where
  "runner_source r rec = (case od_payload (rec_data rec) of
       Some p \<Rightarrow> pret (json_val p)
     | None \<Rightarrow>
         (case od_immutable_reference (rec_data rec) of
            None \<Rightarrow> praise (AssertionError [])
          | Some reference \<Rightarrow>
              (case ru_source_loader r of
                 None \<Rightarrow> praise (ProjectionRejected ''referenced outbox data requires a source version loader'')
               | Some loader \<Rightarrow> loader reference (od_source_version (rec_data rec)))))"

definition runner_context :: "'w runner \<Rightarrow> outbox_record \<Rightarrow> projection_context" where
  "runner_context r rec = (let d = rec_data rec in
     \<lparr>pc_projection = ps_name (ru_spec r), pc_event_id = od_event_id d,
      pc_source_catalog = od_source_catalog d, pc_source_resource = od_source_resource d,
      pc_source_schema = od_source_schema d, pc_source_identity = od_source_identity d,
      pc_source_version = od_source_version d, pc_mutation_kind = od_mutation_kind d,
      pc_occurred_at = od_occurred_at d, pc_operation_context = od_operation_context d\<rparr>)"

definition validate_record :: "projection_spec \<Rightarrow> outbox_record \<Rightarrow> exn + unit" where
  "validate_record s rec = (let d = rec_data rec in
     ebind (guard (od_source_catalog d = ps_source_catalog s)
       (ProjectionRejected ''outbox source Catalog does not match projection spec'')) (\<lambda>_.
     ebind (guard (od_source_resource d = ps_source s)
       (ProjectionRejected ''outbox source Resource does not match projection spec'')) (\<lambda>_.
     ebind (guard (od_source_schema d = ps_source_schema s)
       (ProjectionRejected ''outbox source Schema does not match projection spec'')) (\<lambda>_.
     guard (set (ps_target_labels s) \<subseteq> set (od_target_labels d))
       (ProjectionRejected ''outbox target labels do not match projection spec'')))))"

definition resource_matches :: "projection_spec \<Rightarrow> pyval option \<Rightarrow> bool" where
  "resource_matches s resource = (case resource of
       Some (PStr name) \<Rightarrow> name = ps_target s
     | Some (PMapping kvs) \<Rightarrow>
         (case mapping_get kvs ''catalog'' of None \<Rightarrow> True | Some c \<Rightarrow> c = PStr (ps_target_catalog s)) \<and>
         (case mapping_get kvs ''namespace'' of
            Some (PStr ns) \<Rightarrow>
              (case mapping_get kvs ''name'' of
                 Some (PStr name) \<Rightarrow> ns @ ''.'' @ name = ps_target s | _ \<Rightarrow> False)
          | _ \<Rightarrow> False)
     | _ \<Rightarrow> False)"

definition validate_expression :: "projection_spec \<Rightarrow> expression \<Rightarrow> exn + unit" where
  "validate_expression s x =
     ebind (guard (ex_catalog x = ps_target_catalog s)
       (ProjectionRejected ''projector returned an Expression for the wrong Catalog'')) (\<lambda>_.
     guard (resource_matches s (map_of (ex_arguments x) ''resource''))
       (ProjectionRejected ''projector returned an Expression for the wrong Resource''))"


section \<open>Running\<close>

text \<open>The \<open>try\<close> body up to the completion; it returns the target fingerprint.\<close>

definition project_and_complete :: "'w runner \<Rightarrow> outbox_record \<Rightarrow> ('w, string) prog" where
  "project_and_complete r rec =
     pbind (plift (validate_record (ru_spec r) rec)) (\<lambda>_.
     pbind (runner_source r rec) (\<lambda>source.
     pbind (ru_project r source (runner_context r rec)) (\<lambda>expression.
     pbind (plift (validate_expression (ru_spec r) expression)) (\<lambda>_.
     pbind (ru_execute r expression) (\<lambda>result.
     pbind (ru_acknowledgement r result (rec_data rec)) (\<lambda>(source_version, target_fingerprint).
     pbind (ru_clock r) (\<lambda>now.
     pbind (port_complete (ru_outbox r) (event_id rec) (ru_worker_id r) source_version
              target_fingerprint now) (\<lambda>_.
     pret target_fingerprint))))))))"

definition evidence_completed :: "'w runner \<Rightarrow> outbox_record \<Rightarrow> string \<Rightarrow> ('w, unit) prog" where
  "evidence_completed r rec target_fingerprint =
     pbind (ru_clock r) (\<lambda>occurred.
     record_evidence (ru_evidence r) ''projection'' (ps_name (ru_spec r)) ''COMPLETED''
       (JObj [(''eventId'', JStr (event_id rec)),
              (''sourceVersion'', version_json (od_source_version (rec_data rec))),
              (''targetFingerprint'', JStr target_fingerprint)]) occurred)"

definition release_failed :: "'w runner \<Rightarrow> outbox_record \<Rightarrow> exn \<Rightarrow> ('w, outbox_record) prog" where
  "release_failed r rec error =
     pbind (ru_clock r) (\<lambda>now.
     port_release (ru_outbox r) (event_id rec) (ru_worker_id r) error
       (retryable_error (ru_core r) error) now)"

definition evidence_released :: "'w runner \<Rightarrow> outbox_record \<Rightarrow> outbox_record \<Rightarrow> ('w, unit) prog" where
  "evidence_released r rec released =
     pbind (ru_clock r) (\<lambda>occurred.
     record_evidence (ru_evidence r) ''projection'' (ps_name (ru_spec r))
       (outbox_state_value (rec_state released))
       (JObj [(''eventId'', JStr (event_id rec)),
              (''failureCode'', JStr (case rec_failure released of
                 Some f \<Rightarrow> fa_code f | None \<Rightarrow> ''unknown''))]) occurred)"

text \<open>One iteration of the loop of \<open>run_once\<close>; the counters are its local variables.\<close>

definition process_record :: "'w runner \<Rightarrow> outbox_record \<Rightarrow> ('w \<times> projection_run, unit) prog" where
  "process_record r rec =
     pcatch
       (pbind (on_world (project_and_complete r rec)) (\<lambda>target_fingerprint.
        pbind (set_locals (\<lambda>c. c\<lparr>run_completed := run_completed c + 1\<rparr>)) (\<lambda>_.
        on_world (evidence_completed r rec target_fingerprint))))
       (\<lambda>error.
        pbind (on_world (release_failed r rec error)) (\<lambda>released.
        pbind (set_locals (\<lambda>c. if rec_state released = QUARANTINED
                 then c\<lparr>run_quarantined := run_quarantined c + 1\<rparr>
                 else c\<lparr>run_retryable := run_retryable c + 1\<rparr>)) (\<lambda>_.
        on_world (evidence_released r rec released))))"

definition process_all :: "'w runner \<Rightarrow> outbox_record list \<Rightarrow> ('w, projection_run) prog" where
  "process_all r records =
     pbind (with_locals empty_run (pfor (process_record r) records)) (\<lambda>(_, counts).
     pret (counts\<lparr>run_claimed := int (length records)\<rparr>))"

definition run_once :: "'w runner \<Rightarrow> datetime option \<Rightarrow> ('w, projection_run) prog" where
  "run_once r now =
     pbind (case now of Some d \<Rightarrow> pret d | None \<Rightarrow> ru_clock r) (\<lambda>d.
     pbind (plift (ensure_utc d ''now'')) (\<lambda>claim_time.
     pbind (port_claim (ru_outbox r) (ru_worker_id r) (ru_batch_size r) (ru_lease r)
              (utc_datetime claim_time)) (\<lambda>records.
     process_all r records)))"

fun idle_loop :: "'w runner \<Rightarrow> nat \<Rightarrow> projection_run \<Rightarrow> ('w, projection_run) prog" where
  "idle_loop r 0 acc = praise (RuntimeError ''projection did not become idle within max_cycles'')"
| "idle_loop r (Suc n) acc =
     pbind (run_once r None) (\<lambda>current.
     if run_claimed current = 0 then pret (run_add acc current)
     else idle_loop r n (run_add acc current))"

definition run_until_idle :: "'w runner \<Rightarrow> int \<Rightarrow> ('w, projection_run) prog" where
  "run_until_idle r max_cycles =
     (if max_cycles < 1 then praise (ValueError ''max_cycles must be positive'')
      else idle_loop r (nat max_cycles) empty_run)"

text \<open>\<open>while not stop.is_set()\<close> need not end: \<open>None\<close> is a loop that never returns.  \<open>is_set\<close> and
  \<open>wait\<close> are the methods of the \<open>Event\<close> the host shares with other threads.\<close>

partial_function (option) stop_loop ::
  "'w runner \<Rightarrow> ('w \<Rightarrow> bool \<times> 'w) \<Rightarrow> ('w \<Rightarrow> 'w) \<Rightarrow> projection_run \<Rightarrow> 'w \<Rightarrow> ((exn + projection_run) \<times> 'w) option"
where
  "stop_loop r is_set wait acc w =
     (case is_set w of (stopped, w1) \<Rightarrow>
       if stopped then Some (Inr acc, w1)
       else (case run_once r None w1 of
               (Inl e, w2) \<Rightarrow> Some (Inl e, w2)
             | (Inr current, w2) \<Rightarrow>
                 stop_loop r is_set wait (run_add acc current)
                   (if run_claimed current = 0 then wait w2 else w2)))"

definition run_until_stopped ::
  "'w runner \<Rightarrow> ('w \<Rightarrow> bool \<times> 'w) \<Rightarrow> (num \<Rightarrow> 'w \<Rightarrow> 'w) \<Rightarrow> num \<Rightarrow> 'w \<Rightarrow> ((exn + projection_run) \<times> 'w) option"
where
  "run_until_stopped r is_set wait poll_interval_seconds w =
     (if num_less poll_interval_seconds (Fin 0)
      then Some (Inl (ValueError ''poll_interval_seconds must be non-negative''), w)
      else stop_loop r is_set (wait poll_interval_seconds) empty_run w)"

definition runner_lag :: "'w runner \<Rightarrow> datetime option \<Rightarrow> ('w, projection_lag) prog" where
  "runner_lag r now =
     pbind (port_lag (ru_outbox r) now) (\<lambda>observed.
     plift (ProjectionLag (observed\<lparr>lag_target_seconds := ps_eventual_visibility_seconds (ru_spec r)\<rparr>)))"

end
