(* ===== verification/Runner_Port.thy ===== *)
theory Runner_Port
  imports Runner
begin

text \<open>
  The contract between the runner and its outbox port as a locale, the runner's lemmas proved once
  from it (\<open>Runner_Theorems\<close> interprets it on the in-memory store).  \<open>lookup\<close> is the record stored for an
  event, \<open>ok\<close> the port's invariant and \<open>evolves\<close> the changes that any sequence of port calls, by
  this worker or others, can make.
\<close>

section \<open>Hooks that respect the outbox\<close>

definition calm :: "('w \<Rightarrow> bool) \<Rightarrow> ('w \<Rightarrow> 'w \<Rightarrow> bool) \<Rightarrow> ('w, 'a) prog \<Rightarrow> bool" where
  "calm ok evolves m \<longleftrightarrow> (\<forall>w res w'. ok w \<longrightarrow> m w = (res, w') \<longrightarrow> evolves w w')"

text \<open>The injected hooks of a runner change the outbox, if at all, only through port calls.\<close>

definition calm_hooks :: "('w \<Rightarrow> bool) \<Rightarrow> ('w \<Rightarrow> 'w \<Rightarrow> bool) \<Rightarrow> 'w runner \<Rightarrow> bool" where
  "calm_hooks ok evolves r \<longleftrightarrow>
     (\<forall>x. calm ok evolves (ru_execute r x)) \<and> (\<forall>s c. calm ok evolves (ru_project r s c)) \<and>
     (\<forall>f j v. ru_source_loader r = Some f \<longrightarrow> calm ok evolves (f j v)) \<and>
     (\<forall>res d. calm ok evolves (ru_acknowledgement r res d)) \<and>
     (\<forall>e. calm ok evolves (ru_evidence r e)) \<and> calm ok evolves (ru_clock r)"

lemma calmD: "calm ok evolves m \<Longrightarrow> ok w \<Longrightarrow> m w = (res, w') \<Longrightarrow> evolves w w'"
  by (auto simp: calm_def)

section \<open>The three ways through an iteration\<close>

lemma process_record_cases:
  assumes "process_record r rec (w, c) = (Inr (), (w', c'))"
  obtains (completed) fp w1 where "project_and_complete r rec w = (Inr fp, w1)"
      "evidence_completed r rec fp w1 = (Inr (), w')" "c' = c\<lparr>run_completed := run_completed c + 1\<rparr>"
    | (failed) e w1 s w2 where "project_and_complete r rec w = (Inl e, w1)"
      "release_failed r rec e w1 = (Inr s, w2)" "evidence_released r rec s w2 = (Inr (), w')"
      "c' = (if rec_state s = QUARANTINED then c\<lparr>run_quarantined := run_quarantined c + 1\<rparr>
             else c\<lparr>run_retryable := run_retryable c + 1\<rparr>)"
    | (unrecorded) fp w1 e w2 s w3 where "project_and_complete r rec w = (Inr fp, w1)"
      "evidence_completed r rec fp w1 = (Inl e, w2)" "release_failed r rec e w2 = (Inr s, w3)"
proof -
  let ?handler = "\<lambda>error. pbind (on_world (release_failed r rec error)) (\<lambda>released.
      pbind (set_locals (\<lambda>c. if rec_state released = QUARANTINED
               then c\<lparr>run_quarantined := run_quarantined c + 1\<rparr>
               else c\<lparr>run_retryable := run_retryable c + 1\<rparr>)) (\<lambda>_.
      on_world (evidence_released r rec released)))"
  have handled: "\<exists>s w2. release_failed r rec e w1 = (Inr s, w2) \<and> evidence_released r rec s w2 = (Inr (), w') \<and>
      c' = (if rec_state s = QUARANTINED then c1\<lparr>run_quarantined := run_quarantined c1 + 1\<rparr>
            else c1\<lparr>run_retryable := run_retryable c1 + 1\<rparr>)"
    if "?handler e (w1, c1) = (Inr (), (w', c'))" for e w1 c1
    using that by (fastforce simp: pbind_eq_Inr on_world_eq)
  obtain res1 w1 where p1: "project_and_complete r rec w = (res1, w1)" by (cases "project_and_complete r rec w")
  show thesis
  proof (cases res1)
    case (Inl e)
    then have "?handler e (w1, c) = (Inr (), (w', c'))"
      using assms p1 by (simp add: process_record_def pcatch_def pbind_Inl on_world_def split: if_splits)
    from handled [OF this] Inl p1 show ?thesis using failed by blast
  next
    case (Inr fp)
    obtain res2 w2 where p2: "evidence_completed r rec fp w1 = (res2, w2)"
      by (cases "evidence_completed r rec fp w1")
    let ?c1 = "c\<lparr>run_completed := run_completed c + 1\<rparr>"
    have body: "pbind (on_world (project_and_complete r rec)) (\<lambda>target_fingerprint.
        pbind (set_locals (\<lambda>c. c\<lparr>run_completed := run_completed c + 1\<rparr>)) (\<lambda>_.
        on_world (evidence_completed r rec target_fingerprint))) (w, c) = (res2, (w2, ?c1))"
      using p1 p2 Inr by (simp add: pbind_def on_world_def)
    show ?thesis
    proof (cases res2)
      case ok: (Inr u)
      with assms body have "w2 = w' \<and> ?c1 = c'" by (simp add: process_record_def pcatch_def)
      with completed p1 p2 Inr ok show ?thesis by simp
    next
      case (Inl e)
      with assms body have "?handler e (w2, ?c1) = (Inr (), (w', c'))"
        by (simp add: process_record_def pcatch_def split: if_splits)
      from handled [OF this] Inl p1 p2 \<open>res1 = Inr fp\<close> show ?thesis using unrecorded by blast
    qed
  qed
qed

section \<open>The port contract\<close>

locale outbox_contract =
  fixes port :: "'w outbox_port"
    and ok :: "'w \<Rightarrow> bool"
    and lookup :: "'w \<Rightarrow> string \<Rightarrow> outbox_record option"
    and evolves :: "'w \<Rightarrow> 'w \<Rightarrow> bool"
  assumes evolves_refl: "evolves w w"
    and evolves_trans: "evolves w w' \<Longrightarrow> evolves w' w'' \<Longrightarrow> evolves w w''"
    and evolves_ok: "ok w \<Longrightarrow> evolves w w' \<Longrightarrow> ok w'"
    and evolves_data: "ok w \<Longrightarrow> evolves w w' \<Longrightarrow> lookup w k = Some s \<Longrightarrow>
      \<exists>s'. lookup w' k = Some s' \<and> rec_data s' = rec_data s \<and> (rec_state s = COMPLETED \<longrightarrow> s' = s)"
    and claim_result: "ok w \<Longrightarrow> port_claim port ow limit dur now w = (Inr rs, w') \<Longrightarrow>
      evolves w w' \<and> int (length rs) \<le> limit \<and> distinct (map event_id rs) \<and>
      distinct (map rec_partition rs) \<and> (\<forall>s \<in> set rs. lookup w' (event_id s) = Some s)"
    and complete_calm: "calm ok evolves (port_complete port k ow v fp now)"
    and complete_result: "ok w \<Longrightarrow> port_complete port k ow v fp now w = (Inr c, w') \<Longrightarrow>
      \<exists>s s'. lookup w k = Some s \<and> rec_state s = LEASED \<and> od_source_version (rec_data s) = v \<and>
        is_sha256 fp \<and> lookup w' k = Some s' \<and> rec_state s' = COMPLETED \<and>
        rec_target_fingerprint s' = Some fp"
    and release_calm: "calm ok evolves (port_release port k ow err b now)"
    and release_result: "ok w \<Longrightarrow> port_release port k ow err b now w = (Inr s', w') \<Longrightarrow>
      \<exists>s. lookup w k = Some s \<and> rec_state s = LEASED \<and> rec_state s' \<in> {RETRYABLE, QUARANTINED}"
begin

lemma calm_pret: "calm ok evolves (pret x)"
  by (simp add: calm_def evolves_refl)

lemma calm_plift: "calm ok evolves (plift x)"
  by (simp add: calm_def evolves_refl)

lemma calm_praise: "calm ok evolves (praise e)"
  by (simp add: calm_def evolves_refl)

lemma calm_pbind:
  assumes "calm ok evolves m" and "\<And>x. calm ok evolves (f x)"
  shows "calm ok evolves (pbind m f)"
  unfolding calm_def
proof (intro allI impI)
  fix w res w' assume ok: "ok w" and run: "pbind m f w = (res, w')"
  obtain res1 w1 where m: "m w = (res1, w1)" by (cases "m w")
  with assms(1) ok have "evolves w w1" by (rule calmD)
  with run m ok assms(2) show "evolves w w'"
    by (cases res1) (auto simp: pbind_def dest: calmD evolves_ok intro: evolves_trans)
qed

lemmas calm_rules = calm_pret calm_plift calm_praise calm_pbind

lemma calm_record_evidence:
  "(\<And>e. calm ok evolves (sink e)) \<Longrightarrow> calm ok evolves (record_evidence sink k s st d t)"
  by (auto simp: record_evidence_def intro: calm_rules)

subsection \<open>One record\<close>

lemma calm_runner_source: "calm_hooks ok evolves r \<Longrightarrow> calm ok evolves (runner_source r rec)"
  by (auto simp: runner_source_def calm_hooks_def intro: calm_rules split: option.splits)

lemma calm_attempt:
  assumes "calm_hooks ok evolves r" and "ru_outbox r = port"
  shows "calm ok evolves (project_and_complete r rec)"
proof -
  have "calm ok evolves (port_complete (ru_outbox r) k ow v fp now)" for k ow v fp now
    using complete_calm assms(2) by simp
  then show ?thesis
    using assms(1) calm_runner_source [OF assms(1)]
    by (auto simp: project_and_complete_def calm_hooks_def intro!: calm_rules split: prod.splits)
qed

lemma calm_evidence:
  assumes "calm_hooks ok evolves r"
  shows "calm ok evolves (evidence_completed r rec fp)" "calm ok evolves (evidence_released r rec s)"
  using assms
  by (auto simp: evidence_completed_def evidence_released_def calm_hooks_def
      intro!: calm_pbind calm_record_evidence)

lemma calm_release_failed:
  assumes "calm_hooks ok evolves r" and "ru_outbox r = port"
  shows "calm ok evolves (release_failed r rec e)"
proof -
  have "calm ok evolves (port_release (ru_outbox r) k ow err b now)" for k ow err b now
    using release_calm assms(2) by simp
  then show ?thesis using assms(1) by (auto simp: release_failed_def calm_hooks_def intro!: calm_pbind)
qed

lemma calm_triple: "calm ok evolves m \<Longrightarrow> triple ok m (\<lambda>_. ok) (\<lambda>_ _. True)"
  by (rule tripleI) (auto dest: calmD evolves_ok)

lemmas calm_step = triple_pbind [OF calm_triple]

lemma attempt_completes:
  assumes "calm_hooks ok evolves r" and "ru_outbox r = port"
  shows "triple ok (project_and_complete r rec)
    (\<lambda>fp w. \<exists>s. lookup w (event_id rec) = Some s \<and> rec_state s = COMPLETED \<and> is_sha256 fp \<and>
       rec_target_fingerprint s = Some fp) (\<lambda>_ _. True)"
proof -
  have final: "triple ok (pbind (port_complete (ru_outbox r) (event_id rec) (ru_worker_id r) v fp now)
      (\<lambda>_. pret fp)) (\<lambda>fp w. \<exists>s. lookup w (event_id rec) = Some s \<and> rec_state s = COMPLETED \<and>
        is_sha256 fp \<and> rec_target_fingerprint s = Some fp) (\<lambda>_ _. True)" for v fp now
    unfolding assms(2) by (rule tripleI) (fastforce dest: complete_result simp: pbind_eq_Inr)+
  show ?thesis
    unfolding project_and_complete_def
    using assms(1) calm_runner_source [OF assms(1)]
    by (intro calm_step calm_plift)
       (auto simp: calm_hooks_def split: prod.splits intro!: calm_step final)
qed

lemma release_evolves:
  assumes "calm_hooks ok evolves r" and "ru_outbox r = port" and "ok w1"
    and "release_failed r rec e w1 = (Inr s, w2)" and "evidence_released r rec s w2 = (Inr (), w')"
  shows "evolves w1 w'"
proof -
  have w2: "evolves w1 w2" by (rule calmD [OF calm_release_failed [OF assms(1,2)] assms(3,4)])
  have "evolves w2 w'" by (rule calmD [OF calm_evidence(2) [OF assms(1)] evolves_ok [OF assms(3) w2] assms(5)])
  with w2 show ?thesis by (rule evolves_trans)
qed

text \<open>A completed record has no lease, so that releasing it raises.\<close>

lemma completed_is_not_released:
  assumes "calm_hooks ok evolves r" and "ru_outbox r = port" and "ok w"
    and "lookup w (event_id rec) = Some t" and "rec_state t = COMPLETED"
  shows "release_failed r rec e w \<noteq> (Inr s, w')"
proof
  assume "release_failed r rec e w = (Inr s, w')"
  then obtain now w1 where clock: "ru_clock r w = (Inr now, w1)"
    and rel: "port_release port (event_id rec) (ru_worker_id r) e (retryable_error (ru_core r) e) now w1 = (Inr s, w')"
    using assms(2) by (auto simp: release_failed_def pbind_eq_Inr)
  have "calm ok evolves (ru_clock r)" using assms(1) by (simp add: calm_hooks_def)
  then have w1: "evolves w w1" using assms(3) clock by (rule calmD)
  have "lookup w1 (event_id rec) = Some t" using evolves_data [OF assms(3) w1 assms(4)] assms(5) by blast
  with release_result [OF evolves_ok [OF assms(3) w1] rel] assms(5) show False by simp
qed

text \<open>What one iteration does when it raises nothing: it counts the record exactly once, and a
  record counted as completed is completed.  An evidence failure after the completion is not
  counted twice, because the release it triggers finds no lease and raises.\<close>

lemma process_record_counts:
  assumes "calm_hooks ok evolves r" and "ru_outbox r = port" and "ok w"
    and "process_record r rec (w, c) = (Inr (), (w', c'))"
  shows "evolves w w' \<and>
    (c' = c\<lparr>run_completed := run_completed c + 1\<rparr> \<and>
       (\<exists>s. lookup w' (event_id rec) = Some s \<and> rec_state s = COMPLETED) \<or>
     c' = c\<lparr>run_retryable := run_retryable c + 1\<rparr> \<or> c' = c\<lparr>run_quarantined := run_quarantined c + 1\<rparr>)"
proof -
  note attempt = calm_attempt [OF assms(1,2)] and evidence = calm_evidence [OF assms(1)]
  from assms(4) show ?thesis
  proof (cases rule: process_record_cases)
    case (completed fp w1)
    have w1: "evolves w w1" by (rule calmD [OF attempt assms(3) completed(1)])
    have ok1: "ok w1" using assms(3) w1 by (rule evolves_ok)
    have w': "evolves w1 w'" by (rule calmD [OF evidence(1) ok1 completed(2)])
    obtain s where "lookup w1 (event_id rec) = Some s" "rec_state s = COMPLETED"
      using triple_Inr [OF attempt_completes [OF assms(1,2)] assms(3) completed(1)] by blast
    then have "lookup w' (event_id rec) = Some s" "rec_state s = COMPLETED"
      using evolves_data [OF ok1 w'] by blast+
    with completed(3) evolves_trans [OF w1 w'] show ?thesis by blast
  next
    case (failed e w1 s w2)
    have w1: "evolves w w1" by (rule calmD [OF attempt assms(3) failed(1)])
    have "evolves w1 w'" by (rule release_evolves [OF assms(1,2) evolves_ok [OF assms(3) w1] failed(2,3)])
    with w1 have "evolves w w'" by (rule evolves_trans)
    then show ?thesis unfolding failed(4) by simp
  next
    case (unrecorded fp w1 e w2 s w3)
    have "evolves w w1" by (rule calmD [OF attempt assms(3) unrecorded(1)])
    with assms(3) have ok1: "ok w1" by (rule evolves_ok)
    have w2: "evolves w1 w2" by (rule calmD [OF evidence(1) ok1 unrecorded(2)])
    obtain t where "lookup w1 (event_id rec) = Some t" "rec_state t = COMPLETED"
      using triple_Inr [OF attempt_completes [OF assms(1,2)] assms(3) unrecorded(1)] by blast
    then have "lookup w2 (event_id rec) = Some t" "rec_state t = COMPLETED"
      using evolves_data [OF ok1 w2] by blast+
    from completed_is_not_released [OF assms(1,2) evolves_ok [OF ok1 w2] this] unrecorded(3)
    show ?thesis by blast
  qed
qed

subsection \<open>A batch\<close>

lemma process_batch:
  assumes "calm_hooks ok evolves r" and "ru_outbox r = port" and "ok w" and "distinct (map event_id recs)"
    and "pfor (process_record r) recs (w, c) = (Inr (), (w', c'))"
  shows "evolves w w' \<and> run_completed c' + run_retryable c' + run_quarantined c' =
      run_completed c + run_retryable c + run_quarantined c + int (length recs) \<and>
    (\<exists>D \<subseteq> event_id ` set recs. run_completed c' = run_completed c + int (card D) \<and>
       (\<forall>k \<in> D. \<exists>s. lookup w' k = Some s \<and> rec_state s = COMPLETED))"
  using assms(3-5)
proof (induction recs arbitrary: w c)
  case Nil
  then show ?case by (auto intro: evolves_refl exI [of _ "{}"])
next
  case (Cons rec recs)
  from Cons.prems(3) obtain w1 c1 where step: "process_record r rec (w, c) = (Inr (), (w1, c1))"
    and rest: "pfor (process_record r) recs (w1, c1) = (Inr (), (w', c'))"
    by (auto simp: pbind_eq_Inr)
  note one = process_record_counts [OF assms(1,2) Cons.prems(1) step]
  have "evolves w w1" using one by blast
  then have ok1: "ok w1" using Cons.prems(1) evolves_ok by blast
  note IH = Cons.IH [OF ok1 _ rest]
  then obtain D where D: "D \<subseteq> event_id ` set recs" "run_completed c' = run_completed c1 + int (card D)"
    "\<forall>k \<in> D. \<exists>s. lookup w' k = Some s \<and> rec_state s = COMPLETED"
    and ev: "evolves w1 w'" and sum: "run_completed c' + run_retryable c' + run_quarantined c' =
      run_completed c1 + run_retryable c1 + run_quarantined c1 + int (length recs)"
    using Cons.prems(2) by auto
  have "evolves w w'" using \<open>evolves w w1\<close> ev by (rule evolves_trans)
  moreover have "run_completed c' + run_retryable c' + run_quarantined c' =
      run_completed c + run_retryable c + run_quarantined c + int (length (rec # recs))"
    using one sum by auto
  moreover have "\<exists>D \<subseteq> event_id ` set (rec # recs). run_completed c' = run_completed c + int (card D) \<and>
       (\<forall>k \<in> D. \<exists>s. lookup w' k = Some s \<and> rec_state s = COMPLETED)"
  proof (cases "run_completed c1 = run_completed c + 1")
    case True
    then obtain s where "lookup w1 (event_id rec) = Some s" "rec_state s = COMPLETED" using one by auto
    then have "\<exists>s. lookup w' (event_id rec) = Some s \<and> rec_state s = COMPLETED"
      using evolves_data [OF ok1 ev] by blast
    moreover have "event_id rec \<notin> D" using D(1) Cons.prems(2) by auto
    moreover have "finite D" using D(1) by (rule finite_subset) simp
    ultimately show ?thesis using D True by (intro exI [of _ "insert (event_id rec) D"]) auto
  next
    case False
    then have "run_completed c1 = run_completed c" using one by auto
    with D show ?thesis by (intro exI [of _ D]) auto
  qed
  ultimately show ?case by blast
qed

lemma run_once_counts:
  assumes "calm_hooks ok evolves r" and "ru_outbox r = port" and "ok w"
    and "run_once r now w = (Inr run, w')"
  shows "evolves w w' \<and> run_claimed run = run_completed run + run_retryable run + run_quarantined run \<and>
    run_claimed run \<le> ru_batch_size r \<and>
    (\<exists>D. finite D \<and> run_completed run = int (card D) \<and>
       (\<forall>k \<in> D. \<exists>s. lookup w' k = Some s \<and> rec_state s = COMPLETED))"
proof -
  from assms(4) obtain d w1 t rs w2 counts where clock: "(case now of Some d \<Rightarrow> pret d | None \<Rightarrow> ru_clock r) w = (Inr d, w1)"
    and claim: "port_claim port (ru_worker_id r) (ru_batch_size r) (ru_lease r) (utc_datetime t) w1 = (Inr rs, w2)"
    and batch: "pfor (process_record r) rs (w2, empty_run) = (Inr (), (w', counts))"
    and run: "run = counts\<lparr>run_claimed := int (length rs)\<rparr>"
    using assms(2) by (auto simp: run_once_def process_all_def pbind_eq_Inr with_locals_Inr)
  have "evolves w w1"
    using clock assms(1,3) by (cases now) (auto simp: calm_hooks_def evolves_refl dest: calmD)
  moreover from this have ok1: "ok w1" using assms(3) evolves_ok by blast
  moreover note claimed = claim_result [OF ok1 claim]
  ultimately have ev: "evolves w w2" and ok2: "ok w2" using evolves_trans evolves_ok by blast+
  from process_batch [OF assms(1,2) ok2 _ batch] claimed obtain D where "evolves w2 w'"
    and D: "D \<subseteq> event_id ` set rs" "run_completed counts = int (card D)"
      "\<forall>k \<in> D. \<exists>s. lookup w' k = Some s \<and> rec_state s = COMPLETED"
    and sum: "run_completed counts + run_retryable counts + run_quarantined counts = int (length rs)"
    by (auto simp: empty_run_def)
  then have "evolves w w'" using ev evolves_trans by blast
  moreover have "finite D" using D(1) by (rule finite_subset) simp
  ultimately show ?thesis using D sum run claimed by auto
qed

lemma project_and_complete_acknowledged:
  assumes "calm_hooks ok evolves r" and "ru_outbox r = port" and "ok w"
    and "lookup w (event_id rec) = Some s" and "rec_data s = rec_data rec"
    and "project_and_complete r rec w = (Inr fp, w')"
  shows "validate_record (ru_spec r) rec = Inr () \<and>
    (\<exists>x res w1 w2 w3. validate_expression (ru_spec r) x = Inr () \<and> ru_execute r x w1 = (Inr res, w2) \<and>
       ru_acknowledgement r res (rec_data rec) w2 = (Inr (od_source_version (rec_data rec), fp), w3))"
proof -
  from assms(6) obtain src wa x wb res wc v wd now we c where
    valid: "validate_record (ru_spec r) rec = Inr ()"
    and src: "runner_source r rec w = (Inr src, wa)"
    and proj: "ru_project r src (runner_context r rec) wa = (Inr x, wb)"
    and x: "validate_expression (ru_spec r) x = Inr ()"
    and exec: "ru_execute r x wb = (Inr res, wc)"
    and ack: "ru_acknowledgement r res (rec_data rec) wc = (Inr (v, fp), wd)"
    and clock: "ru_clock r wd = (Inr now, we)"
    and complete: "port_complete port (event_id rec) (ru_worker_id r) v fp now we = (Inr c, w')"
    unfolding project_and_complete_def assms(2) by (auto simp: pbind_eq_Inr)
  note hooks = assms(1) [unfolded calm_hooks_def]
  have a: "evolves w wa" using calm_runner_source [OF assms(1)] assms(3) src by (rule calmD)
  have oka: "ok wa" using assms(3) a by (rule evolves_ok)
  have b: "evolves wa wb" using hooks oka proj by (blast dest: calmD)
  have okb: "ok wb" using oka b by (rule evolves_ok)
  have c: "evolves wb wc" using hooks okb exec by (blast dest: calmD)
  have okc: "ok wc" using okb c by (rule evolves_ok)
  have d: "evolves wc wd" using hooks okc ack by (blast dest: calmD)
  have okd: "ok wd" using okc d by (rule evolves_ok)
  have e: "evolves wd we" using hooks okd clock by (blast dest: calmD)
  have oke: "ok we" using okd e by (rule evolves_ok)
  have "evolves w we" using a b c d e evolves_trans by blast
  then obtain s1 where "lookup we (event_id rec) = Some s1" "rec_data s1 = rec_data rec"
    using evolves_data [OF assms(3) _ assms(4)] assms(5) by metis
  with complete_result [OF oke complete] have "v = od_source_version (rec_data rec)" by auto
  with valid x exec ack show ?thesis by blast
qed

subsection \<open>Repeated runs\<close>

lemma idle_loop_counts:
  assumes "calm_hooks ok evolves r" and "ru_outbox r = port"
    and "ok w" and "idle_loop r n acc w = (Inr run, w')"
    and "run_claimed acc = run_completed acc + run_retryable acc + run_quarantined acc"
  shows "evolves w w' \<and> run_claimed run = run_completed run + run_retryable run + run_quarantined run \<and>
    (\<exists>current w1. ok w1 \<and> run_once r None w1 = (Inr current, w') \<and> run_claimed current = 0)"
  using assms(3-5)
proof (induction n arbitrary: acc w)
  case (Suc n)
  from Suc.prems(2) obtain current w1 where cur: "run_once r None w = (Inr current, w1)"
    and rest: "(if run_claimed current = 0 then pret (run_add acc current)
      else idle_loop r n (run_add acc current)) w1 = (Inr run, w')"
    by (auto simp: pbind_eq_Inr)
  note counts = run_once_counts [OF assms(1,2) Suc.prems(1) cur]
  have sum: "run_claimed (run_add acc current) = run_completed (run_add acc current) +
      run_retryable (run_add acc current) + run_quarantined (run_add acc current)"
    using counts Suc.prems(3) by (simp add: run_add_def)
  show ?case
  proof (cases "run_claimed current = 0")
    case True
    with rest sum counts cur Suc.prems(1) show ?thesis by auto
  next
    case False
    have ok1: "ok w1" using counts Suc.prems(1) evolves_ok by blast
    from Suc.IH [OF ok1 _ sum] rest False counts show ?thesis by (auto intro: evolves_trans)
  qed
qed simp

end

end
