(* ===== verification/Runner_Theorems.thy ===== *)
theory Runner_Theorems
  imports Runner_Port Outbox_Theorems
begin

text \<open>
  The runner over the in-memory store: the port contract holds, so every batch is accounted for,
  completion follows an exact acknowledgement, and an outbox of processable events is drained.
\<close>

section \<open>The in-memory store as a port\<close>

text \<open>The world is the store beside whatever else the hooks use; \<open>wall\<close> reads \<open>utc_now()\<close> from it.\<close>

definition memory_port :: "core_errors \<Rightarrow> ('e \<Rightarrow> int) \<Rightarrow> (outbox_store \<times> 'e) outbox_port" where
  "memory_port ce wall =
     \<lparr>port_claim = (\<lambda>ow limit dur now w. on_world (atomic_claim ow limit dur (Some now) (wall (snd w))) w),
      port_complete = (\<lambda>eid ow v fp now w. on_world (outbox_complete eid ow v fp (Some now) (wall (snd w))) w),
      port_release = (\<lambda>eid ow err b now w. on_world (outbox_release ce eid ow err b (Some now) (wall (snd w))) w),
      port_lag = (\<lambda>now w. on_world (outbox_lag now (wall (snd w))) w)\<rparr>"

definition mem_ok :: "outbox_store \<times> 'e \<Rightarrow> bool" where
  "mem_ok w = store_inv (fst w)"

definition mem_lookup :: "outbox_store \<times> 'e \<Rightarrow> string \<Rightarrow> outbox_record option" where
  "mem_lookup w k = find_record (fst w) k"

definition mem_evolves :: "outbox_store \<times> 'e \<Rightarrow> outbox_store \<times> 'e \<Rightarrow> bool" where
  "mem_evolves w w' = outbox_run (fst w) (fst w')"

lemma memory_port_eqs:
  "port_claim (memory_port ce wall) ow limit dur now (st, e) = (res, w') \<longleftrightarrow>
     (\<exists>st'. atomic_claim ow limit dur (Some now) (wall e) st = (res, st') \<and> w' = (st', e))"
  "port_complete (memory_port ce wall) eid ow v fp now (st, e) = (res2, w') \<longleftrightarrow>
     (\<exists>st'. outbox_complete eid ow v fp (Some now) (wall e) st = (res2, st') \<and> w' = (st', e))"
  "port_release (memory_port ce wall) eid ow err b now (st, e) = (res3, w') \<longleftrightarrow>
     (\<exists>st'. outbox_release ce eid ow err b (Some now) (wall e) st = (res3, st') \<and> w' = (st', e))"
  by (auto simp: memory_port_def on_world_def split: prod.splits)

lemma claim_run:
  assumes "store_inv st" and "atomic_claim ow limit dur now wall st = (Inr rs, st')"
  shows "outbox_run st st'"
proof -
  from atomic_claim_Inr [OF assms] obtain cur where cur: "current_time now wall = Inr cur"
    and st': "st' = fold put_record rs st" and v: "rs \<noteq> [] \<Longrightarrow> valid_instant (cur + dur)" by metis
  show ?thesis
  proof (cases "rs = []")
    case True
    with st' show ?thesis by (simp add: outbox_run.refl)
  next
    case False
    with v cur assms(2) show ?thesis
      by (intro outbox_run_single outbox_step.port claim_step) auto
  qed
qed

lemma mem_claim:
  assumes "mem_ok w" and "port_claim (memory_port ce wall) ow limit dur now w = (Inr rs, w')"
  shows "mem_evolves w w' \<and> int (length rs) \<le> limit \<and> distinct (map event_id rs) \<and>
    distinct (map rec_partition rs) \<and> (\<forall>s \<in> set rs. mem_lookup w' (event_id s) = Some s)"
proof -
  obtain st e where w: "w = (st, e)" by (cases w)
  with assms obtain st' where inv: "store_inv st" and w': "w' = (st', e)"
    and claim: "atomic_claim ow limit dur (Some now) (wall e) st = (Inr rs, st')"
    by (auto simp: memory_port_eqs mem_ok_def)
  from atomic_claim_Inr [OF inv claim] obtain cur where "1 \<le> limit"
    and rs: "rs = claim_result ow limit dur cur st" "st' = fold put_record rs st" by metis
  then have "int (length rs) \<le> limit" using length_claim_result [of ow limit dur cur st] by simp
  moreover have "\<forall>s \<in> set rs. find_record st' (event_id s) = Some s"
    using rs find_after_claim [OF inv, of ow limit dur cur] by auto
  ultimately show ?thesis
    using claim_run [OF inv claim] claim_result_distinct [OF inv] rs(1) w w'
    by (simp add: mem_evolves_def mem_lookup_def)
qed

lemma mem_complete:
  assumes "mem_ok w" and "port_complete (memory_port ce wall) k ow v fp now w = (Inr c, w')"
  shows "\<exists>s s'. mem_lookup w k = Some s \<and> rec_state s = LEASED \<and> od_source_version (rec_data s) = v \<and>
    is_sha256 fp \<and> mem_lookup w' k = Some s' \<and> rec_state s' = COMPLETED \<and> rec_target_fingerprint s' = Some fp"
proof -
  obtain st e where w: "w = (st, e)" by (cases w)
  with assms obtain st' where inv: "store_inv st" and w': "w' = (st', e)"
    and complete: "outbox_complete k ow v fp (Some now) (wall e) st = (Inr c, st')"
    by (auto simp: memory_port_eqs mem_ok_def)
  from outbox_complete_cases [OF inv complete] obtain cur s where "holds_lease st k ow cur s"
    "is_sha256 fp" "v = od_source_version (rec_data s)"
    "st' = put_checkpoint (next_checkpoint st fp cur s) (put_record (completed_record fp cur s) st)" by auto
  moreover from this have "event_id s = k" "find_record st k = Some s" "rec_state s = LEASED"
    using holds_lease_inv [OF inv] by (auto simp: holds_lease_def)
  ultimately show ?thesis using w w' by (simp add: mem_lookup_def)
qed

lemma mem_release:
  assumes "mem_ok w" and "port_release (memory_port ce wall) k ow err b now w = (Inr s', w')"
  shows "\<exists>s. mem_lookup w k = Some s \<and> rec_state s = LEASED \<and> rec_state s' \<in> {RETRYABLE, QUARANTINED}"
proof -
  obtain st e where w: "w = (st, e)" by (cases w)
  with assms obtain st' where inv: "store_inv st"
    and release: "outbox_release ce k ow err b (Some now) (wall e) st = (Inr s', st')"
    by (auto simp: memory_port_eqs mem_ok_def)
  from outbox_release_cases [OF inv release] obtain cur s f where "holds_lease st k ow cur s"
    "s' = released_record st b f s" by auto
  then show ?thesis
    using w released_state_cases [of st b s] by (auto simp: mem_lookup_def holds_lease_def)
qed

interpretation mem: outbox_contract "memory_port ce wall" mem_ok mem_lookup mem_evolves for ce wall
proof (unfold_locales, goal_cases)
  case (1 w) then show ?case by (simp add: mem_evolves_def outbox_run.refl)
next
  case (2 w w' w'') then show ?case by (auto simp: mem_evolves_def intro: outbox_run_trans)
next
  case (3 w w') then show ?case by (auto simp: mem_evolves_def mem_ok_def intro: outbox_run_inv)
next
  case (4 w w' k s)
  then show ?case using outbox_run_moves by (fastforce simp: mem_evolves_def mem_ok_def mem_lookup_def)
next
  case 5 then show ?case by (rule mem_claim)
next
  case 6
  show ?case
    by (auto simp: calm_def mem_evolves_def memory_port_eqs intro!: outbox_run_single outbox_step.port
        intro: complete_step)
next
  case 7 then show ?case by (rule mem_complete)
next
  case 8
  show ?case
    by (auto simp: calm_def mem_evolves_def memory_port_eqs intro!: outbox_run_single outbox_step.port
        intro: release_step)
next
  case 9 then show ?case by (rule mem_release)
qed


section \<open>Properties of a batch\<close>

text \<open>The hooks may interleave any calls on the store (other workers, operators), but touch it in no
  other way.\<close>

definition store_hooks :: "(outbox_store \<times> 'e) runner \<Rightarrow> bool" where
  "store_hooks r = calm_hooks mem_ok mem_evolves r"


text \<open>C17: nothing is marked completed without its effect: when the attempt on a claimed record
  completes it, the record matched the projection, an expression for the target Resource was
  executed, and the result acknowledged exactly the record's source version with the recorded
  fingerprint.\<close>

theorem completion_is_acknowledged:
  assumes "store_hooks r" and "ru_outbox r = memory_port ce wall" and "store_inv (fst w)"
    and "find_record (fst w) (event_id rec) = Some s" and "rec_data s = rec_data rec"
    and "project_and_complete r rec w = (Inr fp, w')"
  shows "validate_record (ru_spec r) rec = Inr () \<and>
    (\<exists>x res w1 w2 w3. validate_expression (ru_spec r) x = Inr () \<and> ru_execute r x w1 = (Inr res, w2) \<and>
       ru_acknowledgement r res (rec_data rec) w2 = (Inr (od_source_version (rec_data rec), fp), w3)) \<and>
    is_sha256 fp \<and> (\<exists>s'. find_record (fst w') (event_id rec) = Some s' \<and> rec_state s' = COMPLETED \<and>
      rec_target_fingerprint s' = Some fp)"
proof -
  note hooks = assms(1) [unfolded store_hooks_def]
  have ok: "mem_ok w" using assms(3) by (simp add: mem_ok_def)
  have "mem_lookup w (event_id rec) = Some s" using assms(4) by (simp add: mem_lookup_def)
  from mem.project_and_complete_acknowledged [OF hooks assms(2) ok this assms(5,6)]
    triple_Inr [OF mem.attempt_completes [OF hooks assms(2)] ok assms(6)]
  show ?thesis by (auto simp: mem_lookup_def)
qed

text \<open>A run until idle that returns ended with a cycle that found nothing to claim, and its totals
  account for every record claimed over all its cycles.\<close>

lemma run_until_idle_accounts:
  assumes "store_hooks r" and "ru_outbox r = memory_port ce wall" and "store_inv (fst w)"
    and "run_until_idle r max_cycles w = (Inr run, w')"
  shows "outbox_run (fst w) (fst w') \<and>
    run_claimed run = run_completed run + run_retryable run + run_quarantined run \<and>
    (\<exists>current w1. run_once r None w1 = (Inr current, w') \<and> run_claimed current = 0)"
proof -
  have "idle_loop r (nat max_cycles) empty_run w = (Inr run, w')"
    using assms(4) by (auto simp: run_until_idle_def split: if_splits)
  from mem.idle_loop_counts [OF assms(1) [unfolded store_hooks_def] assms(2) _ this] assms(3)
  show ?thesis by (auto simp: mem_ok_def mem_evolves_def empty_run_def)
qed

text \<open>C19: when the evidence sink fails after a record was completed, the runner tries to release the
  record it just completed; the release raises \<open>LeaseLostError\<close>, which replaces the sink's error
  and aborts the batch.  The completion stands.\<close>

theorem evidence_failure_aborts_batch:
  assumes "store_hooks r" and "ru_outbox r = memory_port ce wall" and "store_inv (fst w)"
    and "project_and_complete r rec w = (Inr fp, w1)" and "evidence_completed r rec fp w1 = (Inl e, w2)"
    and "is_exception e" and "ru_clock r w2 = (Inr (utc_datetime u), w3)" and "valid_instant u"
  shows "\<exists>c'. pfor (process_record r) (rec # recs) (w, c) =
      (Inl (LeaseLostError (''outbox event '' @ py_repr (event_id rec) @ '' is not leased'')), (w3, c')) \<and>
    (\<exists>s. find_record (fst w3) (event_id rec) = Some s \<and> rec_state s = COMPLETED)"
proof -
  note hooks = assms(1) [unfolded store_hooks_def]
  have ok: "mem_ok w" using assms(3) by (simp add: mem_ok_def)
  have ok1: "mem_ok w1"
    using calmD [OF mem.calm_attempt [OF hooks assms(2)] ok assms(4)] mem.evolves_ok ok by blast
  have ev2: "mem_evolves w1 w2" by (rule calmD [OF mem.calm_evidence(1) [OF hooks] ok1 assms(5)])
  have ok2: "mem_ok w2" using ok1 ev2 by (rule mem.evolves_ok)
  have ev3: "mem_evolves w2 w3" using hooks ok2 assms(7) by (auto simp: calm_hooks_def dest: calmD)
  obtain s where "mem_lookup w1 (event_id rec) = Some s" and final: "rec_state s = COMPLETED"
    using triple_Inr [OF mem.attempt_completes [OF hooks assms(2)] ok assms(4)] by blast
  then have s: "find_record (fst w3) (event_id rec) = Some s"
    using mem.evolves_data [OF ok1 ev2] mem.evolves_data [OF ok2 ev3] by (fastforce simp: mem_lookup_def)
  then have "leased_record (event_id rec) (ru_worker_id r) u (fst w3) =
      Inl (LeaseLostError (''outbox event '' @ py_repr (event_id rec) @ '' is not leased''))"
    using final by (simp add: leased_record_def split: option.split)
  then have "outbox_release ce (event_id rec) (ru_worker_id r) e b (Some (utc_datetime u)) t (fst w3) =
      (Inl (LeaseLostError (''outbox event '' @ py_repr (event_id rec) @ '' is not leased'')), fst w3)" for b t
    using assms(8) by (simp add: outbox_release_def)
  then have "release_failed r rec e w2 =
      (Inl (LeaseLostError (''outbox event '' @ py_repr (event_id rec) @ '' is not leased'')), w3)"
    using assms(2,7) by (simp add: release_failed_def pbind_def memory_port_def on_world_def)
  then show ?thesis
    using s final assms(4-6) by (simp add: process_record_def pcatch_def pbind_def on_world_def set_locals_def)
qed

section \<open>A sample runner\<close>

definition sample_spec :: projection_spec where
  "sample_spec = \<lparr>ps_name = ''search'', ps_source_catalog = ''structured'', ps_source = ''orders'',
     ps_target_catalog = ''cache'', ps_target = ''orders.search'', ps_source_schema = ''orders.v1'',
     ps_target_schema = ''search.v1'', ps_target_labels = [''search''],
     ps_eventual_visibility_seconds = Fin 30\<rparr>"

definition sample_runner :: "(outbox_store \<times> 'e) evidence_sink \<Rightarrow> (outbox_store \<times> 'e) runner" where
  "sample_runner sink = \<lparr>ru_core = plain_errors,
     ru_execute = (\<lambda>x. pret \<lparr>or_data = PMapping [(PStr ''sourceVersion'', PInt 7)],
       or_operation_fingerprint = Some sample_fingerprint\<rparr>),
     ru_spec = sample_spec,
     ru_project = (\<lambda>source ctxt. pret \<lparr>ex_catalog = ''cache'', ex_arguments = [(''resource'', PStr ''orders.search'')]\<rparr>),
     ru_outbox = memory_port plain_errors (\<lambda>_. 0), ru_source_loader = None,
     ru_acknowledgement = (\<lambda>res d. plift (default_acknowledgement res d)),
     ru_evidence = sink, ru_batch_size = 5, ru_lease = 100, ru_worker_id = ''w'',
     ru_clock = pret (utc_datetime 60)\<rparr>"

lemma sample_spec_valid: "ProjectionSpec sample_spec = Inr sample_spec"
  by (simp add: ProjectionSpec_def sample_spec_def catalog_names_def)

lemma sample_hooks:
  assumes "\<And>e w. snd (sink e w) = w"
  shows "store_hooks (sample_runner sink)"
proof -
  have "calm mem_ok mem_evolves (sink e)" for e
    unfolding calm_def mem_evolves_def
  proof (intro allI impI)
    fix w res w' assume "sink e w = (res, w')"
    then have "w' = w" using assms [of e w] by simp
    then show "outbox_run (fst w) (fst w')" by (simp add: outbox_run.refl)
  qed
  then show ?thesis
    by (auto simp: store_hooks_def calm_hooks_def sample_runner_def calm_def mem_evolves_def outbox_run.refl)
qed

lemma sample_spec_simps [simp]:
  "ps_target_catalog sample_spec = ''cache''" "ps_target sample_spec = ''orders.search''"
  "ps_name sample_spec = ''search''"
  by (simp_all add: sample_spec_def)

lemma sample_validate [simp]:
  "rec_data rec = sample_data e t \<Longrightarrow> validate_record sample_spec rec = Inr ()"
  by (simp add: validate_record_def sample_spec_def sample_data_def sample_raw_def)

lemma sample_attempt:
  "project_and_complete (sample_runner sink) (lease_to ''w'' 100 50 (new_record (sample_data ''e2'' 20))) (leased_store, ()) =
     (Inr sample_fingerprint, (completed_store, ()))"
proof -
  have "sample_fingerprint \<noteq> []" using sample_fingerprint_sha256 by (auto simp: is_sha256_def)
  moreover have "outbox_complete ''e2'' ''w'' (VInt 7) sample_fingerprint (Some (utc_datetime 60)) 0 leased_store =
      (Inr (next_checkpoint leased_store sample_fingerprint 60
         (lease_to ''w'' 100 50 (new_record (sample_data ''e2'' 20)))), completed_store)"
    using outbox_complete_ok [OF store_inv_leased, of "Some (utc_datetime 60)" 0 60 sample_fingerprint "''e2''" "''w''"
        "lease_to ''w'' 100 50 (new_record (sample_data ''e2'' 20))" "VInt 7"]
    by (simp add: holds_lease_def completed_store_def)
  moreover have "od_payload (sample_data ''e2'' 20) = Some (JObj [])"
    by (simp add: sample_data_def sample_raw_def)
  ultimately show ?thesis
    by (simp add: project_and_complete_def sample_runner_def runner_source_def validate_expression_def
        resource_matches_def default_acknowledgement_def
        mapping_get_def pbind_def memory_port_def on_world_def)
qed


lemma sample_run_once:
  "run_once (sample_runner null_sink) (Some (utc_datetime 50)) (one_event_store, ()) =
     (Inr \<lparr>run_claimed = 1, run_completed = 1, run_retryable = 0, run_quarantined = 0\<rparr>, (completed_store, ()))"
proof -
  let ?rec = "lease_to ''w'' 100 50 (new_record (sample_data ''e2'' 20))"
  have "evidence_completed (sample_runner null_sink) ?rec sample_fingerprint (completed_store, ()) =
      (Inr (), (completed_store, ()))"
    by (simp add: evidence_completed_def record_evidence_def LifecycleEvidence_def immutable_mapping_def
        immutable_value_def sample_runner_def null_sink_def pbind_def Let_def)
  then have "process_record (sample_runner null_sink) ?rec ((leased_store, ()), empty_run) =
      (Inr (), ((completed_store, ()), empty_run\<lparr>run_completed := 1\<rparr>))"
    using sample_attempt [of null_sink]
    by (simp add: process_record_def pcatch_def pbind_def on_world_def set_locals_def empty_run_def)
  then have "process_all (sample_runner null_sink) [?rec] (leased_store, ()) =
      (Inr \<lparr>run_claimed = 1, run_completed = 1, run_retryable = 0, run_quarantined = 0\<rparr>, (completed_store, ()))"
    by (simp add: process_all_def pbind_def with_locals_def empty_run_def)
  then show ?thesis
    using claim_one_event
    by (simp add: run_once_def pbind_def sample_runner_def memory_port_def on_world_def)
qed



lemma sample_outbox [simp]: "ru_outbox (sample_runner sink) = memory_port plain_errors (\<lambda>_. 0)"
  by (simp add: sample_runner_def)

theorem completion_is_acknowledged_witness:
  "is_sha256 sample_fingerprint \<and> (\<exists>s'. find_record completed_store ''e2'' = Some s' \<and>
     rec_state s' = COMPLETED \<and> rec_target_fingerprint s' = Some sample_fingerprint)"
  using completion_is_acknowledged [OF sample_hooks sample_outbox _ _ _ sample_attempt, of null_sink]
  by (simp add: null_sink_def)

theorem evidence_failure_aborts_batch_witness:
  "\<exists>c'. pfor (process_record (sample_runner (\<lambda>e. praise (RuntimeError ''sink''))))
       [lease_to ''w'' 100 50 (new_record (sample_data ''e2'' 20))] ((leased_store, ()), empty_run) =
      (Inl (LeaseLostError (''outbox event '' @ py_repr ''e2'' @ '' is not leased'')), ((completed_store, ()), c'))"
proof -
  let ?r = "sample_runner (\<lambda>e. praise (RuntimeError ''sink''))"
  have fail: "evidence_completed ?r (lease_to ''w'' 100 50 (new_record (sample_data ''e2'' 20)))
      sample_fingerprint (completed_store, ()) = (Inl (RuntimeError ''sink''), (completed_store, ()))"
    by (simp add: evidence_completed_def record_evidence_def LifecycleEvidence_def immutable_mapping_def
        immutable_value_def sample_runner_def pbind_def Let_def)
  have clock: "ru_clock ?r (completed_store, ()) = (Inr (utc_datetime 60), (completed_store, ()))"
    by (simp add: sample_runner_def)
  from evidence_failure_aborts_batch [OF sample_hooks sample_outbox _ sample_attempt fail _ clock, of "[]" empty_run]
  show ?thesis by simp
qed

end
