(* ===== verification/Runner_Drain.thy ===== *)
theory Runner_Drain
  imports Runner_Theorems
begin

text \<open>
  Liveness of \<open>run_until_idle\<close>: when every hook succeeds and the whole run fits into one lease, an
  outbox whose incomplete events are claimable and processable is drained, within one more cycle
  than there are incomplete events.
\<close>

section \<open>Runs without failures\<close>

text \<open>A hook that returns, with a result satisfying \<open>P\<close>, and does not touch the store.\<close>

definition steady :: "(outbox_store \<times> 'e, 'a) prog \<Rightarrow> ('a \<Rightarrow> bool) \<Rightarrow> bool" where
  "steady m P \<longleftrightarrow> (\<forall>st e. \<exists>x e'. m (st, e) = (Inr x, (st, e')) \<and> P x)"

text \<open>From the source to the acknowledgement.\<close>

definition project_effect :: "'w runner \<Rightarrow> outbox_record \<Rightarrow> ('w, version \<times> string) prog" where
  "project_effect r rec =
     pbind (runner_source r rec) (\<lambda>source.
     pbind (ru_project r source (runner_context r rec)) (\<lambda>expression.
     pbind (plift (validate_expression (ru_spec r) expression)) (\<lambda>_.
     pbind (ru_execute r expression) (\<lambda>result.
     ru_acknowledgement r result (rec_data rec)))))"

definition processable :: "(outbox_store \<times> 'e) runner \<Rightarrow> outbox_record \<Rightarrow> bool" where
  "processable r rec \<longleftrightarrow> validate_record (ru_spec r) rec = Inr () \<and>
     steady (project_effect r rec) (\<lambda>(v, fp). v = od_source_version (rec_data rec) \<and> is_sha256 fp)"

text \<open>The clock stays within \<open>[t0, t1)\<close>, an interval no longer than the lease.\<close>

definition smooth_runner :: "core_errors \<Rightarrow> ('e \<Rightarrow> int) \<Rightarrow> int \<Rightarrow> int \<Rightarrow> (outbox_store \<times> 'e) runner \<Rightarrow> bool" where
  "smooth_runner ce wall t0 t1 r \<longleftrightarrow> ru_outbox r = memory_port ce wall \<and> ru_worker_id r \<noteq> [] \<and>
     1 \<le> ru_batch_size r \<and> 0 < ru_lease r \<and> 0 \<le> t0 \<and> t1 \<le> t0 + ru_lease r \<and>
     t1 + ru_lease r \<le> max_instant \<and> ps_name (ru_spec r) \<noteq> [] \<and>
     steady (ru_clock r) (\<lambda>d. \<exists>u. d = utc_datetime u \<and> t0 \<le> u \<and> u < t1) \<and>
     (\<forall>ev. steady (ru_evidence r ev) (\<lambda>_. True))"

definition incomplete :: "outbox_store \<Rightarrow> string set" where
  "incomplete st = {k. \<exists>s. find_record st k = Some s \<and> rec_state s \<noteq> COMPLETED}"

definition drainable :: "(outbox_store \<times> 'e) runner \<Rightarrow> int \<Rightarrow> outbox_store \<Rightarrow> bool" where
  "drainable r t0 st \<longleftrightarrow> store_inv st \<and> (\<forall>k s. find_record st k = Some s \<and> rec_state s \<noteq> COMPLETED \<longrightarrow>
     claimable t0 s \<and> processable r s)"

lemma finite_incomplete [simp]: "finite (incomplete st)"
proof -
  have "incomplete st \<subseteq> fst ` set (st_records st)" by (force simp: incomplete_def dest: map_of_SomeD)
  then show ?thesis by (rule finite_subset) simp
qed

lemma option_eqI: "(\<And>s. a = Some s \<longleftrightarrow> b = Some s) \<Longrightarrow> a = b"
  by (cases b) auto

lemma steadyD:
  assumes "steady m P"
  obtains x e' where "m (st, e) = (Inr x, (st, e'))" and "P x"
  using assms unfolding steady_def by blast

lemma processable_data:
  assumes "processable r rec" and "rec_data rec' = rec_data rec"
  shows "processable r rec'"
proof -
  have "project_effect r rec' = project_effect r rec"
    by (simp only: project_effect_def runner_source_def runner_context_def assms(2))
  then show ?thesis using assms by (simp add: processable_def validate_record_def)
qed

lemma project_and_complete_effect:
  assumes "validate_record (ru_spec r) rec = Inr ()" and "project_effect r rec w = (Inr (v, fp), w1)"
    and "ru_clock r w1 = (Inr now, w2)"
    and "port_complete (ru_outbox r) (event_id rec) (ru_worker_id r) v fp now w2 = (Inr c, w3)"
  shows "project_and_complete r rec w = (Inr fp, w3)"
  using assms
  by (auto simp: project_effect_def project_and_complete_def pbind_eq_Inr)

lemma record_evidence_steady:
  assumes "\<And>ev. steady (sink ev) (\<lambda>_. True)" and "kind \<noteq> []" and "subject \<noteq> []" and "state \<noteq> []"
    and "immutable_mapping (json_val d) = Inr d'" and "valid_instant u"
  shows "\<exists>e'. record_evidence sink kind subject state d (utc_datetime u) (st, e) = (Inr (), (st, e'))"
proof -
  obtain ev where ev: "LifecycleEvidence \<lparr>ev_kind = kind, ev_subject = subject, ev_state = state,
      ev_details = json_val d, ev_occurred_at = utc_datetime u, ev_fingerprint = []\<rparr> = Inr ev"
    using assms by (auto simp: LifecycleEvidence_def Let_def)
  obtain x e' where "sink ev (st, e) = (Inr x, (st, e'))" using assms(1) by (rule steadyD)
  with ev show ?thesis by (simp add: record_evidence_def)
qed

lemma version_json_immutable: "json_value (json_val (version_json v)) = Inr (version_json v)"
  by (cases v) simp_all

lemma smooth_clock:
  assumes "smooth_runner ce wall t0 t1 r"
  obtains u e' where "ru_clock r (st, e) = (Inr (utc_datetime u), (st, e'))" and "t0 \<le> u" and "u < t1"
    and "valid_instant u" and "valid_instant (u + ru_lease r)"
proof -
  have "steady (ru_clock r) (\<lambda>d. \<exists>u. d = utc_datetime u \<and> t0 \<le> u \<and> u < t1)"
    using assms by (simp add: smooth_runner_def)
  then obtain d e' where "ru_clock r (st, e) = (Inr d, (st, e'))" "\<exists>u. d = utc_datetime u \<and> t0 \<le> u \<and> u < t1"
    by (rule steadyD)
  then show thesis using that assms by (auto simp: smooth_runner_def valid_instant_def)
qed


section \<open>One record\<close>

definition leased_until :: "outbox_store \<Rightarrow> string \<Rightarrow> int \<Rightarrow> outbox_record \<Rightarrow> bool" where
  "leased_until st owner t1 rec \<longleftrightarrow> find_record st (event_id rec) = Some rec \<and> rec_state rec = LEASED \<and>
     (\<exists>l. rec_lease rec = Some l \<and> le_owner l = owner \<and> t1 \<le> le_expires_at l)"

lemma process_record_drains:
  assumes smooth: "smooth_runner ce wall t0 t1 r" and inv: "store_inv st"
    and lease: "leased_until st (ru_worker_id r) t1 rec" and ready: "processable r rec"
  shows "\<exists>fp u e'. is_sha256 fp \<and> process_record r rec ((st, e), c) =
    (Inr (), ((put_checkpoint (next_checkpoint st fp u rec) (put_record (completed_record fp u rec) st), e'),
       c\<lparr>run_completed := run_completed c + 1\<rparr>))"
proof -
  from ready have "steady (project_effect r rec) (\<lambda>(v, fp). v = od_source_version (rec_data rec) \<and> is_sha256 fp)"
    by (simp add: processable_def)
  then obtain x e1 where "project_effect r rec (st, e) = (Inr x, (st, e1))"
    "case x of (v, fp) \<Rightarrow> v = od_source_version (rec_data rec) \<and> is_sha256 fp" by (rule steadyD)
  then obtain fp where eff: "project_effect r rec (st, e) = (Inr (od_source_version (rec_data rec), fp), (st, e1))"
    and fp: "is_sha256 fp" by (cases x) auto
  obtain u e2 where clock: "ru_clock r (st, e1) = (Inr (utc_datetime u), (st, e2))" and u: "u < t1" "valid_instant u"
    using smooth_clock [OF smooth] by metis
  let ?st = "put_checkpoint (next_checkpoint st fp u rec) (put_record (completed_record fp u rec) st)"
  have "holds_lease st (event_id rec) (ru_worker_id r) u rec"
    using lease u(1) by (auto simp: leased_until_def holds_lease_def)
  then have "outbox_complete (event_id rec) (ru_worker_id r) (od_source_version (rec_data rec)) fp
      (Some (utc_datetime u)) (wall e2) st = (Inr (next_checkpoint st fp u rec), ?st)"
    using outbox_complete_ok [OF inv utc_time [OF u(2)] fp] by simp
  then have "port_complete (ru_outbox r) (event_id rec) (ru_worker_id r) (od_source_version (rec_data rec)) fp
      (utc_datetime u) (st, e2) = (Inr (next_checkpoint st fp u rec), (?st, e2))"
    using smooth by (simp add: smooth_runner_def memory_port_eqs)
  then have attempt: "project_and_complete r rec (st, e) = (Inr fp, (?st, e2))"
    using ready eff clock by (intro project_and_complete_effect) (simp_all add: processable_def)
  obtain u2 e3 where clock2: "ru_clock r (?st, e2) = (Inr (utc_datetime u2), (?st, e3))" and "valid_instant u2"
    using smooth_clock [OF smooth] by metis
  then obtain e4 where "evidence_completed r rec fp (?st, e2) = (Inr (), (?st, e4))"
    using record_evidence_steady [of "ru_evidence r" "''projection''" "ps_name (ru_spec r)" "''COMPLETED''"
        "JObj [(''eventId'', JStr (event_id rec)),
              (''sourceVersion'', version_json (od_source_version (rec_data rec))),
              (''targetFingerprint'', JStr fp)]" _ u2 ?st e3] smooth
    by (auto simp: smooth_runner_def evidence_completed_def pbind_Inr [where m = "ru_clock r", OF clock2] immutable_mapping_def
        immutable_value_def version_json_immutable)
  with attempt fp show ?thesis
    by (auto simp: process_record_def pcatch_def pbind_def on_world_def set_locals_def)
qed


section \<open>A batch\<close>

lemma process_batch_drains:
  assumes smooth: "smooth_runner ce wall t0 t1 r" and "store_inv st" and "distinct (map event_id rs)"
    and "\<forall>rec \<in> set rs. leased_until st (ru_worker_id r) t1 rec \<and> processable r rec"
  shows "\<exists>st' e'. pfor (process_record r) rs ((st, e), c) =
      (Inr (), ((st', e'), c\<lparr>run_completed := run_completed c + int (length rs)\<rparr>)) \<and> store_inv st' \<and>
    (\<forall>k. k \<notin> event_id ` set rs \<longrightarrow> find_record st' k = find_record st k) \<and>
    (\<forall>k \<in> event_id ` set rs. \<exists>s. find_record st' k = Some s \<and> rec_state s = COMPLETED)"
  using assms(2-4)
proof (induction rs arbitrary: st e c)
  case (Cons rec rs)
  from Cons.prems obtain fp u e1 where fp: "is_sha256 fp" and step: "process_record r rec ((st, e), c) =
    (Inr (), ((put_checkpoint (next_checkpoint st fp u rec) (put_record (completed_record fp u rec) st), e1),
       c\<lparr>run_completed := run_completed c + 1\<rparr>))"
    using process_record_drains [OF smooth Cons.prems(1), of rec e c] by auto
  let ?st = "put_checkpoint (next_checkpoint st fp u rec) (put_record (completed_record fp u rec) st)"
  have "record_inv rec" using Cons.prems(1,3) store_inv_find by (auto simp: leased_until_def)
  then have inv: "store_inv ?st"
    using Cons.prems(1) fp by (intro checkpoint_inv_next_put record_inv_completed)
  have new: "event_id rec \<notin> event_id ` set rs" using Cons.prems(2) by simp
  have leases: "\<forall>q \<in> set rs. leased_until ?st (ru_worker_id r) t1 q \<and> processable r q"
  proof
    fix q assume q: "q \<in> set rs"
    then have "event_id q \<noteq> event_id rec" using new by (metis image_eqI)
    with q Cons.prems(3) show "leased_until ?st (ru_worker_id r) t1 q \<and> processable r q"
      by (simp add: leased_until_def)
  qed
  define c1 where "c1 = c\<lparr>run_completed := run_completed c + 1\<rparr>"
  have "distinct (map event_id rs)" using Cons.prems(2) by simp
  from Cons.IH [OF inv this leases, of e1 c1]
  obtain st' e' where rest: "pfor (process_record r) rs ((?st, e1), c1) =
      (Inr (), ((st', e'), c1\<lparr>run_completed := run_completed c1 + int (length rs)\<rparr>))" "store_inv st'"
    and frame: "\<forall>k. k \<notin> event_id ` set rs \<longrightarrow> find_record st' k = find_record ?st k"
    and done': "\<forall>k \<in> event_id ` set rs. \<exists>s. find_record st' k = Some s \<and> rec_state s = COMPLETED"
    by blast
  have "pfor (process_record r) (rec # rs) ((st, e), c) =
      (Inr (), ((st', e'), c\<lparr>run_completed := run_completed c + int (length (rec # rs))\<rparr>))"
    using step rest(1) by (simp add: pbind_def add.assoc c1_def)
  moreover have "find_record st' (event_id rec) = Some (completed_record fp u rec)"
    using frame new by simp
  ultimately show ?case using rest(2) frame done' by (intro exI [of _ st'] exI [of _ e']) auto
qed simp

lemma ex_partition_head:
  assumes "store_inv st" and "find_record st k = Some s" and "rec_state s \<noteq> COMPLETED"
  shows "\<exists>h. partition_head st h"
proof -
  let ?S = "{h. find_record st (event_id h) = Some h \<and> rec_state h \<noteq> COMPLETED \<and> rec_partition h = rec_partition s}"
  have "?S \<subseteq> snd ` set (st_records st)" by (force dest: map_of_SomeD)
  then have fin: "finite ?S" by (rule finite_subset) simp
  have "s \<in> ?S" using assms store_inv_find [OF assms(1,2)] by simp
  then have "Min (order_key ` ?S) \<in> order_key ` ?S" using fin by (intro Min_in) auto
  then obtain h where h: "h \<in> ?S" "order_key h = Min (order_key ` ?S)" by force
  have "order_key h \<le> order_key h'" if "find_record st j = Some h'" "rec_state h' \<noteq> COMPLETED"
    "rec_partition h' = rec_partition h" for j h'
    using that h fin store_inv_find [OF assms(1) that(1)] by (intro ord_eq_le_trans [OF h(2) Min_le]) auto
  with h(1) show ?thesis using partition_head_find [OF assms(1)] by blast
qed

lemma claimable_later: "claimable t s \<Longrightarrow> t \<le> u \<Longrightarrow> claimable u s"
  by (auto simp: claimable_def)

lemma claim_result_empty:
  assumes "drainable r t0 st" and "t0 \<le> u" and "1 \<le> limit" and "claim_result ow limit dur u st = []"
  shows "incomplete st = {}"
proof (rule ccontr)
  assume "incomplete st \<noteq> {}"
  then obtain k s where "find_record st k = Some s" "rec_state s \<noteq> COMPLETED" by (auto simp: incomplete_def)
  moreover have inv: "store_inv st" using assms(1) by (simp add: drainable_def)
  ultimately obtain h where h: "partition_head st h" using ex_partition_head by blast
  then have "claimable u h"
    using assms(1,2) by (auto simp: drainable_def partition_head_def intro: claimable_later)
  then have "lease_to ow dur u h \<in> set (claim_result ow limit dur u st)"
    using claim_result_complete [OF inv _ h, of ow limit dur u] assms(3,4) by simp
  with assms(4) show False by simp
qed

text \<open>What a claim hands out, and the store around it.\<close>

lemma claimed_incomplete:
  assumes "store_inv st" and "s \<in> set (claim_result owner limit lease u st)"
  shows "\<exists>h. find_record st (event_id s) = Some h \<and> rec_state h \<noteq> COMPLETED \<and> s = lease_to owner lease u h"
proof -
  from assms(2) obtain h where "partition_head st h" "s = lease_to owner lease u h"
    by (rule claim_result_member [OF assms(1)])
  then show ?thesis by (auto simp: partition_head_def)
qed

lemma claim_frame:
  assumes "store_inv st" and "k \<notin> event_id ` set (claim_result owner limit lease u st)"
  shows "find_record (fold put_record (claim_result owner limit lease u st) st) k = find_record st k"
proof (rule option_eqI)
  fix s show "find_record (fold put_record (claim_result owner limit lease u st) st) k = Some s \<longleftrightarrow> find_record st k = Some s"
    unfolding find_after_claim [OF assms(1)] using assms(2) by blast
qed

lemma claimed_processable:
  assumes smooth: "smooth_runner ce wall t0 t1 r" and drain: "drainable r t0 st" and u: "t0 \<le> u" "u < t1"
    and s: "s \<in> set (claim_result (ru_worker_id r) (ru_batch_size r) (ru_lease r) u st)"
  shows "leased_until (fold put_record (claim_result (ru_worker_id r) (ru_batch_size r) (ru_lease r) u st) st) (ru_worker_id r) t1 s \<and> processable r s"
proof -
  have inv: "store_inv st" using drain by (simp add: drainable_def)
  obtain h where h: "find_record st (event_id s) = Some h" "rec_state h \<noteq> COMPLETED" "s = lease_to (ru_worker_id r) (ru_lease r) u h"
    using claimed_incomplete [OF inv s] by blast
  then have "processable r h" using drain unfolding drainable_def by blast
  then have "processable r s" using h(3) by (auto intro: processable_data)
  moreover have "find_record (fold put_record (claim_result (ru_worker_id r) (ru_batch_size r) (ru_lease r) u st) st) (event_id s) = Some s"
    unfolding find_after_claim [OF inv] using s by blast
  ultimately show ?thesis using h(3) smooth u by (simp add: leased_until_def smooth_runner_def)
qed

lemma incomplete_after:
  assumes "\<forall>k \<in> K. \<exists>s. find_record st' k = Some s \<and> rec_state s = COMPLETED" and "\<And>k. k \<notin> K \<Longrightarrow> find_record st' k = find_record st k"
  shows "incomplete st' = incomplete st - K"
proof (rule set_eqI)
  fix k show "k \<in> incomplete st' \<longleftrightarrow> k \<in> incomplete st - K"
    by (cases "k \<in> K") (use assms in \<open>force simp: incomplete_def\<close>)+
qed

lemma run_once_drains:
  assumes smooth: "smooth_runner ce wall t0 t1 r" and drain: "drainable r t0 st"
  shows "\<exists>rs st' e'. run_once r None (st, e) = (Inr \<lparr>run_claimed = int (length rs),
      run_completed = int (length rs), run_retryable = 0, run_quarantined = 0\<rparr>, (st', e')) \<and>
    drainable r t0 st' \<and> card (incomplete st) = card (incomplete st') + length (rs :: outbox_record list) \<and>
    (rs = [] \<longrightarrow> incomplete st = {})"
proof -
  have inv: "store_inv st" using drain by (simp add: drainable_def)
  note sm = smooth [unfolded smooth_runner_def]
  obtain u e1 where clock: "ru_clock r (st, e) = (Inr (utc_datetime u), (st, e1))" and u: "t0 \<le> u" "u < t1"
    and valid: "valid_instant u" "valid_instant (u + ru_lease r)"
    using smooth_clock [OF smooth] by metis
  define rs where "rs = claim_result (ru_worker_id r) (ru_batch_size r) (ru_lease r) u st"
  let ?st1 = "fold put_record rs st"
  have claim: "port_claim (ru_outbox r) (ru_worker_id r) (ru_batch_size r) (ru_lease r) (utc_datetime u) (st, e1) =
      (Inr rs, (?st1, e1))"
    using atomic_claim_eq [OF inv, of "ru_worker_id r" "ru_batch_size r" "ru_lease r" "Some (utc_datetime u)" "wall e1" u]
      sm valid by (simp add: memory_port_eqs rs_def)
  have inv1: "store_inv ?st1" using store_inv_claim [OF inv] sm by (simp add: rs_def)
  have distinct: "distinct (map event_id rs)" using claim_result_distinct(1) [OF inv] by (simp add: rs_def)
  note member = claimed_incomplete [OF inv, of _ "ru_worker_id r" "ru_batch_size r" "ru_lease r" u, folded rs_def]
  have "leased_until ?st1 (ru_worker_id r) t1 s \<and> processable r s" if "s \<in> set rs" for s
    using claimed_processable [OF smooth drain u] that by (simp add: rs_def)
  then obtain st' e' where batch: "pfor (process_record r) rs ((?st1, e1), empty_run) =
      (Inr (), ((st', e'), empty_run\<lparr>run_completed := run_completed empty_run + int (length rs)\<rparr>))" "store_inv st'"
    and frame: "\<forall>k. k \<notin> event_id ` set rs \<longrightarrow> find_record st' k = find_record ?st1 k"
    and comp: "\<forall>k \<in> event_id ` set rs. \<exists>s. find_record st' k = Some s \<and> rec_state s = COMPLETED"
    using process_batch_drains [OF smooth inv1 distinct, of e1 empty_run] by blast
  have same: "find_record st' k = find_record st k" if "k \<notin> event_id ` set rs" for k
    using frame that claim_frame [OF inv, of k "ru_worker_id r" "ru_batch_size r" "ru_lease r" u] by (simp add: rs_def)
  have inc: "incomplete st' = incomplete st - event_id ` set rs"
    using comp same by (rule incomplete_after)
  have "event_id ` set rs \<subseteq> incomplete st" using member by (fastforce simp: incomplete_def)
  then have "card (incomplete st) = card (incomplete st') + card (event_id ` set rs)"
    unfolding inc by (simp add: card_Diff_subset card_mono)
  moreover have "card (event_id ` set rs) = length rs" using distinct distinct_card by fastforce
  moreover have "drainable r t0 st'"
    using drain batch(2) same comp unfolding drainable_def by (metis (no_types, lifting) option.inject)
  moreover have "rs = [] \<longrightarrow> incomplete st = {}"
    using claim_result_empty [OF drain u(1)] sm by (auto simp: rs_def)
  moreover have "run_once r None (st, e) = (Inr \<lparr>run_claimed = int (length rs),
      run_completed = int (length rs), run_retryable = 0, run_quarantined = 0\<rparr>, (st', e'))"
    using clock claim batch(1) valid(1)
    by (simp add: run_once_def process_all_def pbind_def with_locals_def empty_run_def)
  ultimately show ?thesis by (intro exI [of _ rs] exI [of _ st'] exI [of _ e']) simp
qed


section \<open>Draining\<close>

lemma idle_loop_drains:
  assumes smooth: "smooth_runner ce wall t0 t1 r" and "drainable r t0 st" and "card (incomplete st) < n"
  shows "\<exists>run st' e'. idle_loop r n acc (st, e) = (Inr run, (st', e')) \<and> store_inv st' \<and>
    incomplete st' = {} \<and> run_completed run = run_completed acc + int (card (incomplete st)) \<and>
    run_retryable run = run_retryable acc \<and> run_quarantined run = run_quarantined acc"
  using assms(2,3)
proof (induction n arbitrary: st e acc)
  case (Suc n)
  from run_once_drains [OF smooth Suc.prems(1), of e] obtain rs st1 e1 where
    once: "run_once r None (st, e) = (Inr \<lparr>run_claimed = int (length rs),
      run_completed = int (length rs), run_retryable = 0, run_quarantined = 0\<rparr>, (st1, e1))"
    and drain: "drainable r t0 st1" and fewer: "card (incomplete st) = card (incomplete st1) + length (rs :: outbox_record list)"
    and none: "rs = [] \<longrightarrow> incomplete st = {}" by blast
  show ?case
  proof (cases "rs = []")
    case True
    then have "incomplete st1 = {}" using fewer none by simp
    with True once none drain show ?thesis by (auto simp: pbind_def run_add_def drainable_def)
  next
    case False
    then have "card (incomplete st1) < n" using fewer Suc.prems(2) by (cases rs) auto
    from Suc.IH [OF drain this, of "run_add acc \<lparr>run_claimed = int (length rs),
      run_completed = int (length rs), run_retryable = 0, run_quarantined = 0\<rparr>" e1] False once fewer
    show ?thesis by (auto simp: pbind_def run_add_def)
  qed
qed simp

text \<open>C18: an outbox of processable events is drained.  If every hook succeeds and acknowledges the
  exact version, the clock stays within one lease, and every incomplete event is claimable, then
  \<open>run_until_idle\<close> with more cycles than there are incomplete events returns, every event is
  completed, and the totals count each of them once and no failure.\<close>

theorem run_until_idle_drains:
  assumes "smooth_runner ce wall t0 t1 r" and "drainable r t0 st"
    and "int (card (incomplete st)) < max_cycles"
  shows "\<exists>run st' e'. run_until_idle r max_cycles (st, e) = (Inr run, (st', e')) \<and>
    (\<forall>k s. find_record st' k = Some s \<longrightarrow> rec_state s = COMPLETED) \<and>
    run_completed run = int (card (incomplete st)) \<and> run_retryable run = 0 \<and> run_quarantined run = 0"
proof -
  have "card (incomplete st) < nat max_cycles" using assms(3) by simp
  from idle_loop_drains [OF assms(1,2) this, of empty_run e] show ?thesis
    using assms(3) by (auto simp: run_until_idle_def empty_run_def incomplete_def)
qed

lemma sample_smooth: "smooth_runner plain_errors (\<lambda>_. 0) 60 61 (sample_runner null_sink)"
proof -
  have "(161 :: int) \<le> max_instant" by (simp add: max_instant_def)
  then show ?thesis
    by (simp add: smooth_runner_def sample_runner_def steady_def null_sink_def)
qed

lemma sample_processable:
  "rec_data rec = sample_data e t \<Longrightarrow> processable (sample_runner sink) rec"
proof -
  assume d: "rec_data rec = sample_data e t"
  have "od_payload (sample_data e t) = Some (JObj [])" by (simp add: sample_data_def sample_raw_def)
  moreover have "sample_fingerprint \<noteq> []" using sample_fingerprint_sha256 by (auto simp: is_sha256_def)
  ultimately show ?thesis
    using d by (simp add: processable_def steady_def project_effect_def sample_runner_def runner_source_def
        validate_expression_def resource_matches_def default_acknowledgement_def mapping_get_def pbind_def)
qed

theorem run_until_idle_drains_witness:
  "\<exists>run st' e'. run_until_idle (sample_runner null_sink) 2 (one_event_store, ()) = (Inr run, (st', e')) \<and>
    run_completed run = 1"
proof -
  have "incomplete one_event_store = {''e2''}" by (auto simp: incomplete_def)
  moreover have "drainable (sample_runner null_sink) 60 one_event_store"
    by (auto simp: drainable_def claimable_def sample_processable)
  ultimately show ?thesis
    using run_until_idle_drains [OF sample_smooth, of one_event_store 2 "()"] by auto
qed

end
