(* ===== verification/Rebuild.thy ===== *)
theory Rebuild
  imports Outbox_Model
begin

text \<open>
  Model of \<open>rebuild/coordinator.py\<close>: the value classes of a projection rebuild and the coordinator,
  whose adapter hooks, evidence sink, clock and cancellation token are programs over a world.
\<close>

section \<open>Value classes\<close>

record rebuild_plan =
  rp_projection :: string
  rp_source_resource :: string
  rp_target_resource :: string
  rp_batch_size :: int
  rp_rollback_interval :: int

definition RebuildPlan :: "rebuild_plan \<Rightarrow> exn + rebuild_plan" where
  "RebuildPlan p =
     ebind (guard (rp_projection p \<noteq> [] \<and> rp_source_resource p \<noteq> [] \<and> rp_target_resource p \<noteq> [])
       (ValueError ''rebuild projection and Resources must be non-empty'')) (\<lambda>_.
     ebind (guard (\<not> (rp_batch_size p < 1 \<or> 10000 < rp_batch_size p))
       (ValueError ''rebuild batch_size must be between 1 and 10000'')) (\<lambda>_.
     ebind (guard (0 < rp_rollback_interval p)
       (ValueError ''rollback_interval must be positive'')) (\<lambda>_. Inr p)))"

record rebuild_boundary =
  rb_boundary_id :: string
  rb_source_fingerprint :: string

definition RebuildBoundary :: "rebuild_boundary \<Rightarrow> exn + rebuild_boundary" where
  "RebuildBoundary b =
     ebind (guard (rb_boundary_id b \<noteq> []) (ValueError ''rebuild boundary_id must be non-empty'')) (\<lambda>_.
     ebind (require_sha256 (rb_source_fingerprint b) ''source_fingerprint'') (\<lambda>_. Inr b))"

record rebuild_generation =
  rg_generation_ref :: string
  rg_previous_generation_ref :: string

definition RebuildGeneration :: "rebuild_generation \<Rightarrow> exn + rebuild_generation" where
  "RebuildGeneration g =
     ebind (guard (rg_generation_ref g \<noteq> [] \<and> rg_previous_generation_ref g \<noteq> [])
       (ValueError ''rebuild generation references must be non-empty'')) (\<lambda>_.
     ebind (guard (rg_generation_ref g \<noteq> rg_previous_generation_ref g)
       (ValueError ''rebuild generation must differ from the previous generation'')) (\<lambda>_. Inr g))"

record rebuild_tail_result =
  rt_applied_events :: int
  rt_final_boundary :: string

definition RebuildTailResult :: "rebuild_tail_result \<Rightarrow> exn + rebuild_tail_result" where
  "RebuildTailResult t =
     ebind (guard (\<not> (rt_applied_events t < 0 \<or> rt_final_boundary t = []))
       (ValueError ''rebuild tail result is invalid'')) (\<lambda>_. Inr t)"

record rebuild_validation =
  rv_passed :: bool
  rv_source_count :: int
  rv_target_count :: int
  rv_sampled_digest :: string
  rv_report_digest :: string

definition RebuildValidation :: "rebuild_validation \<Rightarrow> exn + rebuild_validation" where
  "RebuildValidation v =
     ebind (guard (\<not> (rv_source_count v < 0 \<or> rv_target_count v < 0))
       (ValueError ''rebuild validation counts or state are invalid'')) (\<lambda>_.
     ebind (require_sha256 (rv_sampled_digest v) ''sampled_digest'') (\<lambda>_.
     ebind (require_sha256 (rv_report_digest v) ''report_digest'') (\<lambda>_. Inr v)))"

record rebuild_activation =
  ra_previous_generation_ref :: string
  ra_active_generation_ref :: string
  ra_target_fingerprint :: string

definition RebuildActivation :: "rebuild_activation \<Rightarrow> exn + rebuild_activation" where
  "RebuildActivation a =
     ebind (guard (ra_previous_generation_ref a \<noteq> [] \<and> ra_active_generation_ref a \<noteq> [])
       (ValueError ''rebuild activation generation references must be non-empty'')) (\<lambda>_.
     ebind (require_sha256 (ra_target_fingerprint a) ''target_fingerprint'') (\<lambda>_. Inr a))"

record 't rebuild_evidence =
  re_projection :: string
  re_source_boundary :: string
  re_source_fingerprint :: string
  re_target_fingerprint :: string
  re_previous_generation :: string
  re_active_generation :: string
  re_validation_report_digest :: string
  re_applied_tail_events :: int
  re_rollback_until :: 't
  re_activated_at :: 't
  re_digest :: string

definition rebuild_digest_material :: "int rebuild_evidence \<Rightarrow> (string \<times> json) list" where
  "rebuild_digest_material e =
     [(''projection'', JStr (re_projection e)), (''sourceBoundary'', JStr (re_source_boundary e)),
      (''sourceFingerprint'', JStr (re_source_fingerprint e)),
      (''targetFingerprint'', JStr (re_target_fingerprint e)),
      (''previousGeneration'', JStr (re_previous_generation e)),
      (''activeGeneration'', JStr (re_active_generation e)),
      (''validationReportDigest'', JStr (re_validation_report_digest e)),
      (''appliedTailEvents'', JInt (re_applied_tail_events e)),
      (''rollbackUntil'', JStr (iso_utc (re_rollback_until e))),
      (''activatedAt'', JStr (iso_utc (re_activated_at e)))]"

definition rebuild_to_mapping :: "int rebuild_evidence \<Rightarrow> json" where
  "rebuild_to_mapping e = JObj (rebuild_digest_material e @ [(''digest'', JStr (re_digest e))])"

definition RebuildEvidence :: "datetime rebuild_evidence \<Rightarrow> exn + int rebuild_evidence" where
  "RebuildEvidence e =
     ebind (require_fields [(''projection'', re_projection e), (''source_boundary'', re_source_boundary e),
       (''previous_generation'', re_previous_generation e), (''active_generation'', re_active_generation e)]) (\<lambda>_.
     ebind (require_sha256 (re_source_fingerprint e) ''source_fingerprint'') (\<lambda>_.
     ebind (require_sha256 (re_target_fingerprint e) ''target_fingerprint'') (\<lambda>_.
     ebind (require_sha256 (re_validation_report_digest e) ''validation_report_digest'') (\<lambda>_.
     ebind (guard (0 \<le> re_applied_tail_events e)
       (ValueError ''applied_tail_events cannot be negative'')) (\<lambda>_.
     ebind (ensure_utc (re_rollback_until e) ''rollback_until'') (\<lambda>rollback.
     ebind (ensure_utc (re_activated_at e) ''activated_at'') (\<lambda>activated.
     let d = \<lparr>re_projection = re_projection e, re_source_boundary = re_source_boundary e,
           re_source_fingerprint = re_source_fingerprint e, re_target_fingerprint = re_target_fingerprint e,
           re_previous_generation = re_previous_generation e, re_active_generation = re_active_generation e,
           re_validation_report_digest = re_validation_report_digest e,
           re_applied_tail_events = re_applied_tail_events e, re_rollback_until = rollback,
           re_activated_at = activated, re_digest = re_digest e\<rparr>;
         expected = json_digest (JObj (rebuild_digest_material d))
     in ebind (guard (re_digest e = [] \<or> re_digest e = expected)
          (ValueError ''rebuild evidence digest does not match canonical content'')) (\<lambda>_.
        Inr (d\<lparr>re_digest := expected\<rparr>)))))))))"

section \<open>The coordinator\<close>

text \<open>A scan is an iterable: the pulls that each produce a batch, and the pull that ends it.  Scans
  that never end are not represented.\<close>


record ('w, 'b) rebuild_hooks =
  rh_capture_boundary :: "rebuild_plan \<Rightarrow> ('w, rebuild_boundary) prog"
  rh_create_generation :: "rebuild_plan \<Rightarrow> rebuild_boundary \<Rightarrow> ('w, rebuild_generation) prog"
  rh_scan :: "rebuild_plan \<Rightarrow> rebuild_boundary \<Rightarrow> ('w, ('w, 'b list) pulls) prog"
  rh_write :: "rebuild_plan \<Rightarrow> rebuild_generation \<Rightarrow> 'b list \<Rightarrow> ('w, unit) prog"
  rh_tail :: "rebuild_plan \<Rightarrow> rebuild_generation \<Rightarrow> rebuild_boundary \<Rightarrow> ('w, rebuild_tail_result) prog"
  rh_validate :: "rebuild_plan \<Rightarrow> rebuild_generation \<Rightarrow> rebuild_boundary \<Rightarrow> ('w, rebuild_validation) prog"
  rh_activate :: "rebuild_plan \<Rightarrow> rebuild_generation \<Rightarrow> string \<Rightarrow> ('w, rebuild_activation) prog"
  rh_retain :: "string \<Rightarrow> int \<Rightarrow> ('w, unit) prog"
  rh_discard :: "string \<Rightarrow> ('w, unit) prog"
  rh_evidence :: "'w evidence_sink"
  rh_clock :: "('w, datetime) prog"

definition write_batch ::
  "('w, 'b) rebuild_hooks \<Rightarrow> ('w, bool) prog \<Rightarrow> rebuild_plan \<Rightarrow> rebuild_generation \<Rightarrow> ('w, 'b list) prog
   \<Rightarrow> ('w, unit) prog" where
  "write_batch h token plan generation pull =
     pbind pull (\<lambda>batch.
     pbind (raise_if_cancelled token) (\<lambda>_.
     if rp_batch_size plan < int (length batch)
     then praise (MigrationFailed ''rebuild scan exceeded the configured batch size'')
     else rh_write h plan generation batch))"

definition copy_source ::
  "('w, 'b) rebuild_hooks \<Rightarrow> ('w, bool) prog \<Rightarrow> rebuild_plan \<Rightarrow> rebuild_boundary \<Rightarrow> rebuild_generation
   \<Rightarrow> ('w, unit) prog" where
  "copy_source h token plan boundary generation =
     pbind (rh_scan h plan boundary) (\<lambda>(pulls, final).
     pbind (pfor (write_batch h token plan generation) pulls) (\<lambda>_. final))"

text \<open>From the scan to the accepted validation; it returns the tail and the validation.\<close>

definition build_generation ::
  "('w, 'b) rebuild_hooks \<Rightarrow> ('w, bool) prog \<Rightarrow> rebuild_plan \<Rightarrow> rebuild_boundary \<Rightarrow> rebuild_generation
   \<Rightarrow> ('w, rebuild_tail_result \<times> rebuild_validation) prog" where
  "build_generation h token plan boundary generation =
     pbind (copy_source h token plan boundary generation) (\<lambda>_.
     pbind (raise_if_cancelled token) (\<lambda>_.
     pbind (rh_tail h plan generation boundary) (\<lambda>tail.
     pbind (raise_if_cancelled token) (\<lambda>_.
     pbind (rh_validate h plan generation boundary) (\<lambda>validation.
     if \<not> rv_passed validation \<or> rv_source_count validation \<noteq> rv_target_count validation
     then praise (MigrationFailed ''rebuild validation failed'')
     else pret (tail, validation))))))"

text \<open>From the activation to the recorded evidence.\<close>

definition cut_over ::
  "('w, 'b) rebuild_hooks \<Rightarrow> rebuild_plan \<Rightarrow> rebuild_boundary \<Rightarrow> rebuild_generation
   \<Rightarrow> rebuild_tail_result \<Rightarrow> rebuild_validation \<Rightarrow> ('w, int rebuild_evidence) prog" where
  "cut_over h plan boundary generation tail validation =
     pbind (rh_activate h plan generation (rg_previous_generation_ref generation)) (\<lambda>activation.
     pbind (plift (guard (ra_previous_generation_ref activation = rg_previous_generation_ref generation)
       (MigrationConflict ''rebuild activation replaced an unexpected generation''))) (\<lambda>_.
     pbind (plift (guard (ra_active_generation_ref activation = rg_generation_ref generation)
       (MigrationConflict ''rebuild activation acknowledged the wrong generation''))) (\<lambda>_.
     pbind (rh_clock h) (\<lambda>now.
     pbind (plift (ensure_utc now ''activated_at'')) (\<lambda>activated_at.
     pbind (plift (add_duration activated_at (rp_rollback_interval plan))) (\<lambda>rollback_until.
     pbind (rh_retain h (ra_previous_generation_ref activation) rollback_until) (\<lambda>_.
     pbind (plift (RebuildEvidence \<lparr>re_projection = rp_projection plan,
        re_source_boundary = rt_final_boundary tail,
        re_source_fingerprint = rb_source_fingerprint boundary,
        re_target_fingerprint = ra_target_fingerprint activation,
        re_previous_generation = ra_previous_generation_ref activation,
        re_active_generation = ra_active_generation_ref activation,
        re_validation_report_digest = rv_report_digest validation,
        re_applied_tail_events = rt_applied_events tail,
        re_rollback_until = utc_datetime rollback_until,
        re_activated_at = utc_datetime activated_at, re_digest = []\<rparr>)) (\<lambda>cutover.
     pbind (record_evidence (rh_evidence h) ''projection-rebuild'' (rp_projection plan) ''COMPLETED''
        (rebuild_to_mapping cutover) (utc_datetime activated_at)) (\<lambda>_.
     pret cutover)))))))))"

text \<open>\<open>rebuild\<close>; the local variable is \<open>activation_attempted\<close>.\<close>

definition rebuild ::
  "('w, 'b) rebuild_hooks \<Rightarrow> rebuild_plan \<Rightarrow> ('w, bool) prog \<Rightarrow> ('w, int rebuild_evidence) prog" where
  "rebuild h plan token =
     pbind (raise_if_cancelled token) (\<lambda>_.
     pbind (rh_capture_boundary h plan) (\<lambda>boundary.
     pbind (rh_create_generation h plan boundary) (\<lambda>generation.
     pbind (with_locals False (pfinally
       (pbind (on_world (build_generation h token plan boundary generation)) (\<lambda>(tail, validation).
        pbind (set_locals (\<lambda>_. True)) (\<lambda>_.
        on_world (cut_over h plan boundary generation tail validation))))
       (\<lambda>(w, activation_attempted).
          if activation_attempted then pret () (w, activation_attempted)
          else on_world (rh_discard h (rg_generation_ref generation)) (w, activation_attempted)))) (\<lambda>(cutover, _).
     pret cutover))))"

end
