(* ===== verification/Tracing.thy ===== *)
theory Tracing
  imports Lifecycle
begin

text \<open>
  Recording calls of injected hooks.  A coordinator is run over hooks that append to a trace beside
  their world: \<open>attempt\<close> records a call whatever it returns, \<open>logged\<close> records the result of a call
  that returned.  \<open>returns\<close> is a hook that always returns a given value.
\<close>

definition attempt :: "'c \<Rightarrow> ('w, 'a) prog \<Rightarrow> ('w \<times> 'c list, 'a) prog" where
  "attempt c m s = (case m (fst s) of (r, w) \<Rightarrow> (r, (w, snd s @ [c])))"

definition logged :: "('a \<Rightarrow> 'c) \<Rightarrow> ('w, 'a) prog \<Rightarrow> ('w \<times> 'c list, 'a) prog" where
  "logged f m s = (case m (fst s) of
       (Inr x, w) \<Rightarrow> (Inr x, (w, snd s @ [f x])) | (Inl e, w) \<Rightarrow> (Inl e, (w, snd s)))"

lemma pbind_eq:
  "pbind m f w = (r, w') \<longleftrightarrow> (\<exists>e. m w = (Inl e, w') \<and> r = Inl e) \<or> (\<exists>x w1. m w = (Inr x, w1) \<and> f x w1 = (r, w'))"
  by (cases r) (auto simp: pbind_eq_Inl pbind_eq_Inr)

lemma triple_on_world: "triple (\<lambda>s. P (snd s)) (on_world m) (\<lambda>_ s. P (snd s)) (\<lambda>_ s. P (snd s))"
  by (auto simp: triple_def on_world_def split: prod.splits sum.splits)

lemma triple_attempt: "triple (\<lambda>s. P (snd s @ [c])) (attempt c m) (\<lambda>_ s. P (snd s)) (\<lambda>_ s. P (snd s))"
  by (auto simp: triple_def attempt_def split: prod.splits sum.splits)

lemma triple_logged:
  "triple (\<lambda>s. P (snd s)) (logged f m) (\<lambda>x s. \<exists>tr. P tr \<and> snd s = tr @ [f x]) (\<lambda>_ s. P (snd s))"
  by (auto simp: triple_def logged_def split: prod.splits sum.splits)

lemma triple_cancel:
  "triple (\<lambda>s. P (snd s)) (raise_if_cancelled (on_world token)) (\<lambda>_ s. P (snd s)) (\<lambda>_ s. P (snd s))"
  unfolding raise_if_cancelled_def
  by (rule triple_pbind [OF triple_on_world]) (simp add: triple_def)

lemma attempt_eq: "attempt c m (w, tr) = (r, s) \<longleftrightarrow> (\<exists>w'. m w = (r, w') \<and> s = (w', tr @ [c]))"
  by (auto simp: attempt_def split: prod.splits)

definition returns :: "('w, 'a) prog \<Rightarrow> 'a \<Rightarrow> bool" where
  "returns m x \<longleftrightarrow> (\<forall>w. \<exists>w'. m w = (Inr x, w'))"

lemma on_world_returns: "returns m x \<Longrightarrow> \<exists>w'. on_world m (w, tr) = (Inr x, (w', tr))"
  unfolding returns_def on_world_eq by blast

lemma attempt_returns: "returns m x \<Longrightarrow> \<exists>w'. attempt c m (w, tr) = (Inr x, (w', tr @ [c]))"
  unfolding returns_def attempt_eq by blast

lemma logged_returns: "returns m x \<Longrightarrow> \<exists>w'. logged f m (w, tr) = (Inr x, (w', tr @ [f x]))"
  unfolding returns_def logged_def by (metis (no_types, lifting) case_prod_conv fst_conv snd_conv old.sum.simps(6))

lemma fresh_token_passes [simp]: "raise_if_cancelled (on_world fresh_token) s = (Inr (), s)"
  by (cases s) (simp add: raise_if_cancelled_def fresh_token_def pbind_def on_world_def)

lemma logged_eq:
  "logged f m (w, tr) = (r, s) \<longleftrightarrow>
     (\<exists>w'. m w = (r, w') \<and> s = (w', tr @ (case r of Inl _ \<Rightarrow> [] | Inr x \<Rightarrow> [f x])))"
  by (auto simp: logged_def split: prod.splits sum.splits)

text \<open>A program over a traced world that records nothing.\<close>

definition quiet :: "('w \<times> 'c list, 'a) prog \<Rightarrow> bool" where
  "quiet m \<longleftrightarrow> (\<forall>w tr. \<exists>r w'. m (w, tr) = (r, (w', tr)))"

lemma quietD: "quiet m \<Longrightarrow> \<exists>r w'. m (w, tr) = (r, (w', tr))"
  by (simp add: quiet_def)

lemma quiet_trace: "quiet m \<Longrightarrow> m (w, tr) = (r, (w', tr')) \<Longrightarrow> tr' = tr"
  using quietD [of m w tr] by auto

lemma quiet_basic [simp]: "quiet (pret x)" "quiet (praise e)" "quiet (plift v)" "quiet fresh_token"
  by (simp_all add: quiet_def fresh_token_def)

lemma quiet_on_world: "quiet (on_world m)"
  by (auto simp: quiet_def on_world_def split: prod.splits)

lemma quiet_pbind:
  assumes "quiet m" and "\<And>x. quiet (f x)"
  shows "quiet (pbind m f)"
  unfolding quiet_def
proof (intro allI)
  fix w tr
  obtain r w1 where m: "m (w, tr) = (r, (w1, tr))" using quietD [OF assms(1)] by blast
  show "\<exists>r w'. pbind m f (w, tr) = (r, (w', tr))"
  proof (cases r)
    case (Inr x)
    with m quietD [OF assms(2), of x w1 tr] show ?thesis by (simp add: pbind_def)
  qed (simp add: pbind_def m)
qed

lemma quiet_raise_if_cancelled: "quiet token \<Longrightarrow> quiet (raise_if_cancelled token)"
  unfolding raise_if_cancelled_def by (rule quiet_pbind) auto

end
