(* ===== verification/Rebuild_Theorems.thy ===== *)
theory Rebuild_Theorems
  imports Rebuild Tracing
begin

text \<open>
  What a rebuild does to its adapter, whatever the hooks return or raise.  \<open>traced\<close> wraps any hooks so
  that the calls that matter are recorded; the theorems describe every possible record.
\<close>

section \<open>Recording the calls\<close>

datatype 'b rebuild_call =
    CalledCreate rebuild_generation
  | CalledWrite rebuild_generation "'b list"
  | CalledValidate rebuild_validation
  | CalledActivate rebuild_generation string
  | CalledRetain string int
  | CalledDiscard string
  | CalledEvidence evidence

definition traced :: "('w, 'b) rebuild_hooks \<Rightarrow> ('w \<times> 'b rebuild_call list, 'b) rebuild_hooks" where
  "traced h =
     \<lparr>rh_capture_boundary = (\<lambda>p. on_world (rh_capture_boundary h p)),
      rh_create_generation = (\<lambda>p b. logged CalledCreate (rh_create_generation h p b)),
      rh_scan = (\<lambda>p b. pbind (on_world (rh_scan h p b)) (\<lambda>(pulls, final).
        pret (map on_world pulls, on_world final))),
      rh_write = (\<lambda>p g bs. attempt (CalledWrite g bs) (rh_write h p g bs)),
      rh_tail = (\<lambda>p g b. on_world (rh_tail h p g b)),
      rh_validate = (\<lambda>p g b. logged CalledValidate (rh_validate h p g b)),
      rh_activate = (\<lambda>p g prev. attempt (CalledActivate g prev) (rh_activate h p g prev)),
      rh_retain = (\<lambda>ref u. attempt (CalledRetain ref u) (rh_retain h ref u)),
      rh_discard = (\<lambda>ref. attempt (CalledDiscard ref) (rh_discard h ref)),
      rh_evidence = (\<lambda>ev. attempt (CalledEvidence ev) (rh_evidence h ev)),
      rh_clock = on_world (rh_clock h)\<rparr>"

section \<open>The phases\<close>

abbreviation written :: "'b rebuild_call list \<Rightarrow> rebuild_generation \<Rightarrow> 'b rebuild_call list \<Rightarrow> bool" where
  "written pre g tr \<equiv> \<exists>bs. tr = pre @ map (CalledWrite g) bs"

definition accepted :: "rebuild_validation \<Rightarrow> bool" where
  "accepted v \<longleftrightarrow> rv_passed v \<and> rv_source_count v = rv_target_count v"

lemma write_batch_trace:
  "triple (\<lambda>s. written pre g (snd s)) (write_batch (traced h) (on_world token) plan g (on_world pull))
     (\<lambda>_ s. written pre g (snd s)) (\<lambda>_ s. written pre g (snd s))"
proof -
  have one: "triple (\<lambda>s. written pre g (snd s)) (rh_write (traced h) plan g bs)
      (\<lambda>_ s. written pre g (snd s)) (\<lambda>_ s. written pre g (snd s))" for bs
    unfolding traced_def rebuild_hooks.simps
  proof (rule triple_pre [OF triple_attempt])
    fix s :: "'a \<times> 'b rebuild_call list" assume "written pre g (snd s)"
    then obtain cs where "snd s = pre @ map (CalledWrite g) cs" by blast
    then have "snd s @ [CalledWrite g bs] = pre @ map (CalledWrite g) (cs @ [bs])" by simp
    then show "written pre g (snd s @ [CalledWrite g bs])" by blast
  qed
  show ?thesis
    unfolding write_batch_def
    by (rule triple_pbind [OF triple_on_world], rule triple_pbind [OF triple_cancel])
       (simp add: one, simp add: triple_def)
qed

lemma copy_source_trace:
  "triple (\<lambda>s. written pre g (snd s)) (copy_source (traced h) (on_world token) plan b g)
     (\<lambda>_ s. written pre g (snd s)) (\<lambda>_ s. written pre g (snd s))"
proof -
  have scan: "triple (\<lambda>s. written pre g (snd s)) (rh_scan (traced h) plan b)
      (\<lambda>x s. written pre g (snd s) \<and> (\<exists>pulls final. x = (map on_world pulls, on_world final)))
      (\<lambda>_ s. written pre g (snd s))"
    unfolding traced_def rebuild_hooks.simps
    by (rule triple_pbind [OF triple_on_world]) (auto simp: triple_def)
  have rest: "triple (\<lambda>s. written pre g (snd s)) (pbind (pfor (write_batch (traced h) (on_world token) plan g)
      (map on_world pulls)) (\<lambda>_. on_world final)) (\<lambda>_ s. written pre g (snd s)) (\<lambda>_ s. written pre g (snd s))"
    for pulls and final :: "('a, unit) prog"
    by (rule triple_pbind [OF triple_pfor triple_on_world]) (auto intro: write_batch_trace)
  show ?thesis
    unfolding copy_source_def
  proof (rule triple_pbind [OF scan])
    fix x :: "('a \<times> 'b rebuild_call list, 'b list) pulls"
    show "triple (\<lambda>s. written pre g (snd s) \<and> (\<exists>pulls final. x = (map on_world pulls, on_world final)))
      (case x of (pulls, final) \<Rightarrow> pbind (pfor (write_batch (traced h) (on_world token) plan g) pulls) (\<lambda>_. final))
      (\<lambda>_ s. written pre g (snd s)) (\<lambda>_ s. written pre g (snd s))"
    proof (cases "\<exists>pulls final. x = (map on_world pulls, on_world final)")
      case True
      then obtain pulls final where x: "x = (map on_world pulls, on_world final)" by blast
      show ?thesis unfolding x prod.case by (rule triple_pre [OF rest]) blast
    qed (simp add: triple_def)
  qed
qed


lemma build_generation_trace:
  "triple (\<lambda>s. snd s = pre) (build_generation (traced h) (on_world token) plan b g)
     (\<lambda>(tail, v) s. accepted v \<and> (\<exists>tr. written pre g tr \<and> snd s = tr @ [CalledValidate v]))
     (\<lambda>_ s. written pre g (snd s) \<or>
        (\<exists>tr v. written pre g tr \<and> snd s = tr @ [CalledValidate v] \<and> \<not> accepted v))"
proof -
  let ?E = "\<lambda>(_ :: exn) (s :: 'a \<times> 'b rebuild_call list). written pre g (snd s) \<or>
        (\<exists>tr v. written pre g tr \<and> snd s = tr @ [CalledValidate v] \<and> \<not> accepted v)"
  note weak = triple_conseq [where E' = ?E]
  have start: "triple (\<lambda>s. snd s = pre) (copy_source (traced h) (on_world token) plan b g)
      (\<lambda>_ s. written pre g (snd s)) ?E"
    by (rule weak [OF copy_source_trace]) (auto intro: exI [of _ "[]"])
  have cancel: "triple (\<lambda>s. written pre g (snd s)) (raise_if_cancelled (on_world token))
      (\<lambda>_ s. written pre g (snd s)) ?E"
    by (rule weak [OF triple_cancel [where P = "written pre g"]]) blast+
  have tail: "triple (\<lambda>s. written pre g (snd s)) (rh_tail (traced h) plan g b) (\<lambda>_ s. written pre g (snd s)) ?E"
    unfolding traced_def rebuild_hooks.simps by (rule weak [OF triple_on_world [where P = "written pre g"]]) blast+
  have validate: "triple (\<lambda>s. written pre g (snd s)) (rh_validate (traced h) plan g b)
      (\<lambda>v s. \<exists>tr. written pre g tr \<and> snd s = tr @ [CalledValidate v]) ?E"
    unfolding traced_def rebuild_hooks.simps by (rule weak [OF triple_logged [where P = "written pre g"]]) blast+
  show ?thesis
    unfolding build_generation_def
    by (rule triple_pbind [OF start], rule triple_pbind [OF cancel], rule triple_pbind [OF tail],
        rule triple_pbind [OF cancel], rule triple_pbind [OF validate])
       (auto simp: triple_def accepted_def)
qed


lemma RebuildEvidence_fields:
  assumes "RebuildEvidence e = Inr c"
  shows "re_projection c = re_projection e \<and> re_source_boundary c = re_source_boundary e \<and>
    re_source_fingerprint c = re_source_fingerprint e \<and> re_target_fingerprint c = re_target_fingerprint e \<and>
    re_previous_generation c = re_previous_generation e \<and> re_active_generation c = re_active_generation e \<and>
    re_validation_report_digest c = re_validation_report_digest e \<and>
    re_applied_tail_events c = re_applied_tail_events e \<and>
    ensure_utc (re_rollback_until e) ''rollback_until'' = Inr (re_rollback_until c) \<and>
    ensure_utc (re_activated_at e) ''activated_at'' = Inr (re_activated_at c) \<and>
    re_digest c = json_digest (JObj (rebuild_digest_material c))"
  using assms by (auto simp: RebuildEvidence_def Let_def rebuild_digest_material_def)

definition after_activation :: "rebuild_generation \<Rightarrow> 'b rebuild_call list \<Rightarrow> bool" where
  "after_activation g post \<longleftrightarrow> post = [] \<or> (\<exists>u. post = [CalledRetain (rg_previous_generation_ref g) u]) \<or>
     (\<exists>u ev. post = [CalledRetain (rg_previous_generation_ref g) u, CalledEvidence ev])"

definition cutover_done :: "rebuild_plan \<Rightarrow> rebuild_boundary \<Rightarrow> rebuild_generation \<Rightarrow> rebuild_validation
    \<Rightarrow> int rebuild_evidence \<Rightarrow> 'b rebuild_call list \<Rightarrow> bool" where
  "cutover_done plan b g v c post \<longleftrightarrow>
     re_active_generation c = rg_generation_ref g \<and>
     re_previous_generation c = rg_previous_generation_ref g \<and>
     re_source_fingerprint c = rb_source_fingerprint b \<and>
     re_validation_report_digest c = rv_report_digest v \<and>
     re_rollback_until c = re_activated_at c + rp_rollback_interval plan \<and>
     re_digest c = json_digest (JObj (rebuild_digest_material c)) \<and>
     (\<exists>ev. post = [CalledRetain (rg_previous_generation_ref g) (re_rollback_until c), CalledEvidence ev] \<and>
        ev_state ev = ''COMPLETED'' \<and> ev_subject ev = rp_projection plan)"

lemma cut_over_returns:
  assumes "cut_over (traced h) plan b g tail v (w, pre) = (Inr c, s)"
  shows "\<exists>post. snd s = pre @ [CalledActivate g (rg_previous_generation_ref g)] @ post \<and> cutover_done plan b g v c post"
proof -
  from assms obtain a now t ev where t: "ensure_utc now ''activated_at'' = Inr t"
    and u: "valid_instant (t + rp_rollback_interval plan)"
    and c: "RebuildEvidence \<lparr>re_projection = rp_projection plan, re_source_boundary = rt_final_boundary tail,
        re_source_fingerprint = rb_source_fingerprint b, re_target_fingerprint = a,
        re_previous_generation = rg_previous_generation_ref g, re_active_generation = rg_generation_ref g,
        re_validation_report_digest = rv_report_digest v, re_applied_tail_events = rt_applied_events tail,
        re_rollback_until = utc_datetime (t + rp_rollback_interval plan), re_activated_at = utc_datetime t,
        re_digest = []\<rparr> = Inr c"
    and ev: "LifecycleEvidence \<lparr>ev_kind = ''projection-rebuild'', ev_subject = rp_projection plan,
        ev_state = ''COMPLETED'', ev_details = json_val (rebuild_to_mapping c),
        ev_occurred_at = utc_datetime t, ev_fingerprint = []\<rparr> = Inr ev"
    and s: "snd s = pre @ [CalledActivate g (rg_previous_generation_ref g),
        CalledRetain (rg_previous_generation_ref g) (t + rp_rollback_interval plan), CalledEvidence ev]"
    unfolding cut_over_def traced_def rebuild_hooks.simps record_evidence_def pbind_eq_Inr
    by (auto simp: attempt_eq on_world_eq)
  note f = RebuildEvidence_fields [OF c]
  from t have "valid_instant t" by (rule ensure_utc_valid)
  with u f have "re_rollback_until c = t + rp_rollback_interval plan" "re_activated_at c = t" by simp_all
  with f s LifecycleEvidence_fingerprint [OF ev] show ?thesis by (auto simp: cutover_done_def)
qed

lemma cut_over_raises:
  assumes "cut_over (traced h) plan b g tail v (w, pre) = (Inl e, s)"
  shows "\<exists>post. snd s = pre @ [CalledActivate g (rg_previous_generation_ref g)] @ post \<and> after_activation g post"
  using assms unfolding cut_over_def traced_def rebuild_hooks.simps record_evidence_def pbind_eq_Inl
  by (auto simp: attempt_eq on_world_eq after_activation_def)


section \<open>The whole rebuild\<close>

text \<open>How the guarded part of \<open>rebuild\<close> ends: in a discard, or with the result of the cut-over.\<close>

definition guarded :: "('w, 'b) rebuild_hooks \<Rightarrow> rebuild_plan \<Rightarrow> ('w, bool) prog \<Rightarrow> rebuild_boundary
    \<Rightarrow> rebuild_generation \<Rightarrow> ('w, int rebuild_evidence \<times> bool) prog" where
  "guarded h plan token boundary generation = with_locals False (pfinally
     (pbind (on_world (build_generation h token plan boundary generation)) (\<lambda>(tail, validation).
      pbind (set_locals (\<lambda>_. True)) (\<lambda>_.
      on_world (cut_over h plan boundary generation tail validation))))
     (\<lambda>(w, activation_attempted).
        if activation_attempted then pret () (w, activation_attempted)
        else on_world (rh_discard h (rg_generation_ref generation)) (w, activation_attempted)))"

lemma guarded_discards:
  assumes "build_generation h token plan b g w = (Inl e, w1)"
  shows "\<exists>e'. guarded h plan token b g w = (Inl e', snd (rh_discard h (rg_generation_ref g) w1))"
  using assms
  by (auto simp: guarded_def with_locals_def pfinally_def pbind_def on_world_def split: prod.splits sum.splits)

lemma guarded_cuts_over:
  assumes "build_generation h token plan b g w = (Inr (tail, v), w1)"
  shows "guarded h plan token b g w = (case cut_over h plan b g tail v w1 of
    (Inl e, w2) \<Rightarrow> (Inl e, w2) | (Inr c, w2) \<Rightarrow> (Inr (c, True), w2))"
  using assms
  by (auto simp: guarded_def with_locals_def pfinally_def pbind_def on_world_def set_locals_def
      split: prod.splits sum.splits)

lemma rebuild_guarded:
  "rebuild h plan token =
     pbind (raise_if_cancelled token) (\<lambda>_.
     pbind (rh_capture_boundary h plan) (\<lambda>boundary.
     pbind (rh_create_generation h plan boundary) (\<lambda>generation.
     pbind (guarded h plan token boundary generation) (\<lambda>(cutover, _). pret cutover))))"
  by (simp only: rebuild_def guarded_def)

definition discarded_trace :: "rebuild_generation \<Rightarrow> 'b rebuild_call list \<Rightarrow> bool" where
  "discarded_trace g tr \<longleftrightarrow> (\<exists>bs vs. tr = CalledCreate g # map (CalledWrite g) bs @ vs @ [CalledDiscard (rg_generation_ref g)] \<and>
     (vs = [] \<or> (\<exists>v. vs = [CalledValidate v] \<and> \<not> accepted v)))"

definition activated_trace :: "rebuild_generation \<Rightarrow> rebuild_validation \<Rightarrow> 'b rebuild_call list \<Rightarrow> 'b rebuild_call list \<Rightarrow> bool" where
  "activated_trace g v post tr \<longleftrightarrow> accepted v \<and> (\<exists>bs. tr = CalledCreate g # map (CalledWrite g) bs @
     [CalledValidate v, CalledActivate g (rg_previous_generation_ref g)] @ post)"

lemma discarded_traceI:
  assumes "written [CalledCreate g] g tr1 \<or>
    (\<exists>tr v. written [CalledCreate g] g tr \<and> tr1 = tr @ [CalledValidate v] \<and> \<not> accepted v)"
  shows "discarded_trace g (tr1 @ [CalledDiscard (rg_generation_ref g)])"
  using assms
proof (elim disjE exE conjE)
  fix bs assume "tr1 = [CalledCreate g] @ map (CalledWrite g) bs"
  then show ?thesis by (auto simp: discarded_trace_def)
next
  fix tr0 v bs assume "tr1 = tr0 @ [CalledValidate v]" "\<not> accepted v" "tr0 = [CalledCreate g] @ map (CalledWrite g) bs"
  then show ?thesis
    unfolding discarded_trace_def by (intro exI [of _ bs] exI [of _ "[CalledValidate v]"]) auto
qed

lemma activated_traceI:
  assumes "accepted v \<and> (\<exists>tr. written [CalledCreate g] g tr \<and> tr1 = tr @ [CalledValidate v])"
  shows "activated_trace g v post (tr1 @ [CalledActivate g (rg_previous_generation_ref g)] @ post)"
  using assms by (auto simp: activated_trace_def)

lemma traced_simps [simp]:
  "rh_capture_boundary (traced h) p = on_world (rh_capture_boundary h p)"
  "rh_create_generation (traced h) p b = logged CalledCreate (rh_create_generation h p b)"
  "rh_discard (traced h) r = attempt (CalledDiscard r) (rh_discard h r)"
  by (simp_all add: traced_def)

lemma guarded_trace:
  assumes "guarded (traced h) plan (on_world token) b g (w, [CalledCreate g]) = (res, (w', tr))"
  shows "(\<exists>e. res = Inl e) \<and> discarded_trace g tr \<or>
    (\<exists>v post. activated_trace g v post tr \<and>
       (case res of Inl e \<Rightarrow> after_activation g post | Inr c \<Rightarrow> cutover_done plan b g v (fst c) post))"
proof -
  obtain rb w1 tr1 where build: "build_generation (traced h) (on_world token) plan b g (w, [CalledCreate g]) = (rb, (w1, tr1))"
    by (metis prod_cases3)
  note spec = build_generation_trace [of "[CalledCreate g]" h token plan b g]
  show ?thesis
  proof (cases rb)
    case (Inl e)
    have tr1: "written [CalledCreate g] g tr1 \<or>
        (\<exists>tr v. written [CalledCreate g] g tr \<and> tr1 = tr @ [CalledValidate v] \<and> \<not> accepted v)"
      using triple_Inl [OF spec _ build [unfolded Inl]] by simp
    obtain e' where "guarded (traced h) plan (on_world token) b g (w, [CalledCreate g]) =
        (Inl e', snd (rh_discard (traced h) (rg_generation_ref g) (w1, tr1)))"
      using guarded_discards [OF build [unfolded Inl]] by blast
    then have "res = Inl e'" "tr = tr1 @ [CalledDiscard (rg_generation_ref g)]"
      using assms by (auto simp: attempt_def split: prod.splits)
    with discarded_traceI [OF tr1] show ?thesis by simp
  next
    case (Inr x)
    obtain tail v where x: "x = (tail, v)" by (cases x)
    have tr1: "accepted v \<and> (\<exists>tr. written [CalledCreate g] g tr \<and> tr1 = tr @ [CalledValidate v])"
      using triple_Inr [OF spec _ build [unfolded Inr x]] by simp
    obtain rc s where cut: "cut_over (traced h) plan b g tail v (w1, tr1) = (rc, s)" by (metis prod.exhaust)
    with assms guarded_cuts_over [OF build [unfolded Inr x]]
    have eq: "(case rc of Inl e \<Rightarrow> (Inl e, s) | Inr c \<Rightarrow> (Inr (c, True), s)) = (res, (w', tr))"
      by (cases rc) simp_all
    show ?thesis
    proof (cases rc)
      case (Inl e)
      with eq have "res = Inl e" "s = (w', tr)" by simp_all
      with cut_over_raises [OF cut [unfolded Inl]] tr1 activated_traceI show ?thesis by fastforce
    next
      case (Inr c)
      with eq have "res = Inr (c, True)" "s = (w', tr)" by simp_all
      with cut_over_returns [OF cut [unfolded Inr]] tr1 activated_traceI show ?thesis by fastforce
    qed
  qed
qed

text \<open>C20: whatever the hooks return or raise, a rebuild does one of three things.  It makes no
  generation at all; or it raises having created one generation, written to it only, and discarded
  exactly it, without activating anything, because copying or validation failed; or it activates
  the generation it created, against the generation it replaced, and only after a validation that
  passed with equal counts, and then never discards anything.  It returns only in the last case,
  after the replaced generation was retained until the rollback deadline and the evidence
  recorded.\<close>

theorem rebuild_outcomes:
  assumes "rebuild (traced h) plan (on_world token) (w, []) = (res, (w', tr))"
  shows "(\<exists>e. res = Inl e) \<and> tr = [] \<or>
    (\<exists>e g. res = Inl e \<and> discarded_trace g tr) \<or>
    (\<exists>g v post. activated_trace g v post tr \<and>
       (case res of Inl e \<Rightarrow> after_activation g post | Inr c \<Rightarrow> \<exists>b. cutover_done plan b g v c post))"
proof -
  let ?guarded = "\<lambda>b g. pbind (guarded (traced h) plan (on_world token) b g) (\<lambda>(cutover, _). pret cutover)"
  have "\<exists>r0 w0. raise_if_cancelled (on_world token) (w, [] :: 'b rebuild_call list) = (r0, (w0, []))"
    by (cases "token w"; cases "fst (token w)") (auto simp: raise_if_cancelled_def pbind_def on_world_def)
  then obtain r0 w0 where c0: "raise_if_cancelled (on_world token) (w, [] :: 'b rebuild_call list) = (r0, (w0, []))"
    by blast
  obtain r1 w1 where c1: "rh_capture_boundary h plan w0 = (r1, w1)" by (metis prod.exhaust)
  have "(\<exists>e. res = Inl e) \<and> tr = [] \<or> (\<exists>b g w2. ?guarded b g (w2, [CalledCreate g]) = (res, (w', tr)))"
  proof (cases "\<exists>e. r0 = Inl e \<or> r1 = Inl e")
    case True
    with c0 c1 assms show ?thesis
      by (cases r0) (auto simp: rebuild_guarded pbind_def on_world_def split: prod.splits sum.splits)
  next
    case False
    then obtain b where ok: "r0 = Inr ()" "r1 = Inr b" by (cases r0; cases r1) auto
    obtain r2 w2 where c2: "rh_create_generation h plan b w1 = (r2, w2)" by (metis prod.exhaust)
    show ?thesis
    proof (cases r2)
      case (Inl e)
      with c0 c1 c2 ok assms have "res = Inl e \<and> tr = []"
        by (auto simp: rebuild_guarded pbind_def on_world_def logged_def)
      then show ?thesis by simp
    next
      case (Inr g)
      with c0 c1 c2 ok assms have "?guarded b g (w2, [CalledCreate g]) = (res, (w', tr))"
        by (simp add: rebuild_guarded pbind_def on_world_def logged_def)
      then show ?thesis by blast
    qed
  qed
  then show ?thesis
  proof (elim disjE exE conjE)
    fix b g w2 assume "?guarded b g (w2, [CalledCreate g]) = (res, (w', tr))"
    then obtain rg where g: "guarded (traced h) plan (on_world token) b g (w2, [CalledCreate g]) = (rg, (w', tr))"
      and res: "res = (case rg of Inl e \<Rightarrow> Inl e | Inr c \<Rightarrow> Inr (fst c))"
      by (auto simp: pbind_def split: prod.splits sum.splits)
    from guarded_trace [OF g] res show ?thesis by (cases rg) auto
  qed simp
qed


section \<open>Rebuilds that succeed\<close>

text \<open>Hooks that return: the boundary \<open>b\<close>, a generation \<open>g\<close>, a scan of \<open>batches\<close>, a passing validation,
  an activation of \<open>g\<close> over its predecessor, and a clock at \<open>t\<close>.\<close>

definition succeeding_hooks ::
  "('w, 'b) rebuild_hooks \<Rightarrow> rebuild_plan \<Rightarrow> rebuild_boundary \<Rightarrow> rebuild_generation \<Rightarrow> 'b list list
   \<Rightarrow> rebuild_tail_result \<Rightarrow> rebuild_validation \<Rightarrow> string \<Rightarrow> int \<Rightarrow> bool" where
  "succeeding_hooks h plan b g batches tail v fp t \<longleftrightarrow>
     returns (rh_capture_boundary h plan) b \<and> returns (rh_create_generation h plan b) g \<and>
     returns (rh_scan h plan b) (map pret batches, pret ()) \<and>
     (\<forall>bs \<in> set batches. returns (rh_write h plan g bs) ()) \<and>
     returns (rh_tail h plan g b) tail \<and> returns (rh_validate h plan g b) v \<and>
     returns (rh_activate h plan g (rg_previous_generation_ref g))
       \<lparr>ra_previous_generation_ref = rg_previous_generation_ref g,
        ra_active_generation_ref = rg_generation_ref g, ra_target_fingerprint = fp\<rparr> \<and>
     returns (rh_clock h) (utc_datetime t) \<and> (\<forall>u. returns (rh_retain h (rg_previous_generation_ref g) u) ()) \<and>
     (\<forall>ev. returns (rh_evidence h ev) ())"

lemma write_all_batches:
  assumes "\<forall>bs \<in> set batches. returns (rh_write h plan g bs) () \<and> int (length bs) \<le> rp_batch_size plan"
  shows "\<exists>w'. pfor (write_batch (traced h) (on_world fresh_token) plan g) (map on_world (map pret batches)) (w, tr) =
    (Inr (), (w', tr @ map (CalledWrite g) batches))"
  using assms
proof (induction batches arbitrary: w tr)
  case (Cons bs batches)
  then obtain w1 where "attempt (CalledWrite g bs) (rh_write h plan g bs) (w, tr) = (Inr (), (w1, tr @ [CalledWrite g bs]))"
    using attempt_returns [of "rh_write h plan g bs" "()"] by force
  then have "write_batch (traced h) (on_world fresh_token) plan g (on_world (pret bs)) (w, tr) =
      (Inr (), (w1, tr @ [CalledWrite g bs]))"
    using Cons.prems by (auto simp: write_batch_def pbind_def on_world_def traced_def)
  moreover have "\<forall>bs \<in> set batches. returns (rh_write h plan g bs) () \<and> int (length bs) \<le> rp_batch_size plan"
    using Cons.prems by simp
  then obtain w2 where "pfor (write_batch (traced h) (on_world fresh_token) plan g) (map on_world (map pret batches))
      (w1, tr @ [CalledWrite g bs]) = (Inr (), (w2, (tr @ [CalledWrite g bs]) @ map (CalledWrite g) batches))"
    using Cons.IH by blast
  ultimately show ?case by (simp add: pbind_def del: pret_run)
qed simp

lemma build_generation_returns:
  assumes "succeeding_hooks h plan b g batches tail v fp t" and "accepted v"
    and "\<forall>bs \<in> set batches. int (length bs) \<le> rp_batch_size plan"
  shows "\<exists>w'. build_generation (traced h) (on_world fresh_token) plan b g (w, tr) =
    (Inr (tail, v), (w', tr @ map (CalledWrite g) batches @ [CalledValidate v]))"
proof -
  note hooks = assms(1) [unfolded succeeding_hooks_def]
  obtain w1 where "rh_scan h plan b w = (Inr (map pret batches, pret ()), w1)"
    using hooks unfolding returns_def by blast
  then have scan: "rh_scan (traced h) plan b (w, tr) =
      (Inr (map on_world (map pret batches), on_world (pret ())), (w1, tr))"
    by (simp add: traced_def pbind_def on_world_def del: pret_run) (simp add: pret_def)
  obtain w2 where copy: "pfor (write_batch (traced h) (on_world fresh_token) plan g) (map on_world (map pret batches)) (w1, tr) =
      (Inr (), (w2, tr @ map (CalledWrite g) batches))"
    using write_all_batches [of batches h plan g w1 tr] hooks assms(3) by blast
  have "copy_source (traced h) (on_world fresh_token) plan b g (w, tr) = (Inr (), (w2, tr @ map (CalledWrite g) batches))"
    unfolding copy_source_def pbind_Inr [where m = "rh_scan (traced h) plan b", OF scan] prod.case
    by (subst pbind_Inr, rule copy) (simp add: on_world_def)
  moreover obtain w3 where "rh_tail (traced h) plan g b (w2, tr @ map (CalledWrite g) batches) =
      (Inr tail, (w3, tr @ map (CalledWrite g) batches))"
    using hooks on_world_returns [of "rh_tail h plan g b" tail] by (fastforce simp: traced_def)
  moreover obtain w4 where "rh_validate (traced h) plan g b (w3, tr @ map (CalledWrite g) batches) =
      (Inr v, (w4, (tr @ map (CalledWrite g) batches) @ [CalledValidate v]))"
    using hooks logged_returns [of "rh_validate h plan g b" v CalledValidate w3 "tr @ map (CalledWrite g) batches"]
    by (force simp: traced_def)
  ultimately show ?thesis using assms(2) by (auto simp: build_generation_def pbind_def accepted_def)
qed


definition wf_cutover :: "rebuild_plan \<Rightarrow> rebuild_boundary \<Rightarrow> rebuild_generation \<Rightarrow> rebuild_tail_result
    \<Rightarrow> rebuild_validation \<Rightarrow> string \<Rightarrow> int \<Rightarrow> bool" where
  "wf_cutover plan b g tail v fp t \<longleftrightarrow>
     RebuildPlan plan = Inr plan \<and> RebuildBoundary b = Inr b \<and> RebuildGeneration g = Inr g \<and>
     RebuildTailResult tail = Inr tail \<and> RebuildValidation v = Inr v \<and> is_sha256 fp \<and>
     valid_instant t \<and> valid_instant (t + rp_rollback_interval plan)"

lemma rebuild_mapping_immutable:
  "immutable_mapping (json_val (rebuild_to_mapping c)) = Inr (rebuild_to_mapping c)"
  by (simp add: immutable_mapping_def immutable_value_def rebuild_to_mapping_def rebuild_digest_material_def)

lemma cut_over_completes:
  assumes "succeeding_hooks h plan b g batches tail v fp t" and "wf_cutover plan b g tail v fp t"
  shows "\<exists>c w' tr'. cut_over (traced h) plan b g tail v (w, tr) = (Inr c, (w', tr'))"
proof -
  note hooks = assms(1) [unfolded succeeding_hooks_def] and wf = assms(2) [unfolded wf_cutover_def]
  let ?prev = "rg_previous_generation_ref g" and ?u = "t + rp_rollback_interval plan"
  let ?a = "\<lparr>ra_previous_generation_ref = ?prev, ra_active_generation_ref = rg_generation_ref g, ra_target_fingerprint = fp\<rparr>"
  let ?tr = "tr @ [CalledActivate g ?prev]"
  obtain w1 where a: "rh_activate (traced h) plan g ?prev (w, tr) = (Inr ?a, (w1, ?tr))"
    using hooks attempt_returns [of "rh_activate h plan g ?prev" ?a "CalledActivate g ?prev" w tr] by (auto simp: traced_def)
  obtain w2 where clock: "rh_clock (traced h) (w1, ?tr) = (Inr (utc_datetime t), (w2, ?tr))"
    using hooks on_world_returns [of "rh_clock h" "utc_datetime t" w1 ?tr] by (auto simp: traced_def)
  obtain w3 where retain: "rh_retain (traced h) ?prev ?u (w2, ?tr) = (Inr (), (w3, ?tr @ [CalledRetain ?prev ?u]))"
    using hooks attempt_returns [of "rh_retain h ?prev ?u" "()" "CalledRetain ?prev ?u" w2 ?tr] by (force simp: traced_def)
  obtain c where c: "RebuildEvidence \<lparr>re_projection = rp_projection plan, re_source_boundary = rt_final_boundary tail,
        re_source_fingerprint = rb_source_fingerprint b, re_target_fingerprint = fp,
        re_previous_generation = ?prev, re_active_generation = rg_generation_ref g,
        re_validation_report_digest = rv_report_digest v, re_applied_tail_events = rt_applied_events tail,
        re_rollback_until = utc_datetime ?u, re_activated_at = utc_datetime t, re_digest = []\<rparr> = Inr c"
    using wf by (auto simp: RebuildEvidence_def RebuildPlan_def RebuildBoundary_def RebuildGeneration_def
        RebuildTailResult_def RebuildValidation_def require_sha256_def Let_def split: if_splits)
  have "rp_projection plan \<noteq> []" using wf by (auto simp: RebuildPlan_def)
  then obtain ev where ev: "LifecycleEvidence \<lparr>ev_kind = ''projection-rebuild'', ev_subject = rp_projection plan,
        ev_state = ''COMPLETED'', ev_details = json_val (rebuild_to_mapping c),
        ev_occurred_at = utc_datetime t, ev_fingerprint = []\<rparr> = Inr ev"
    using wf by (auto simp: LifecycleEvidence_def rebuild_mapping_immutable Let_def)
  let ?tr3 = "?tr @ [CalledRetain ?prev ?u]"
  obtain w4 where "rh_evidence (traced h) ev (w3, ?tr3) = (Inr (), (w4, ?tr3 @ [CalledEvidence ev]))"
    using hooks attempt_returns [of "rh_evidence h ev" "()" "CalledEvidence ev" w3 ?tr3] by (force simp: traced_def)
  moreover have dur: "add_duration t (rp_rollback_interval plan) = Inr ?u" using wf by (simp add: add_duration_def)
  ultimately show ?thesis
    using a clock retain c ev wf
    by (simp add: cut_over_def record_evidence_def pbind_def dur)
qed

text \<open>C21: a rebuild whose hooks succeed completes: with a validation that passed, batches within the
  plan's size and a cut-over inside the calendar, it returns the evidence of the activation, having
  written exactly the scanned batches, in scan order, into the new generation.\<close>

theorem rebuild_completes:
  assumes "succeeding_hooks h plan b g batches tail v fp t" and "wf_cutover plan b g tail v fp t"
    and "accepted v" and "\<forall>bs \<in> set batches. int (length bs) \<le> rp_batch_size plan"
  shows "\<exists>c w' post. rebuild (traced h) plan (on_world fresh_token) (w, []) =
      (Inr c, (w', CalledCreate g # map (CalledWrite g) batches @
         [CalledValidate v, CalledActivate g (rg_previous_generation_ref g)] @ post)) \<and>
    cutover_done plan b g v c post"
proof -
  note hooks = assms(1) [unfolded succeeding_hooks_def]
  obtain w1 where b: "rh_capture_boundary (traced h) plan (w, []) = (Inr b, (w1, [] :: 'b rebuild_call list))"
    using hooks on_world_returns [of "rh_capture_boundary h plan" b w "[]"] by auto
  obtain w2 where g: "rh_create_generation (traced h) plan b (w1, []) = (Inr g, (w2, [CalledCreate g]))"
    using hooks logged_returns [of "rh_create_generation h plan b" g CalledCreate w1 "[]"] by auto
  obtain w3 where build: "build_generation (traced h) (on_world fresh_token) plan b g (w2, [CalledCreate g]) =
      (Inr (tail, v), (w3, [CalledCreate g] @ map (CalledWrite g) batches @ [CalledValidate v]))"
    using build_generation_returns [OF assms(1,3,4)] by blast
  obtain c w4 tr where cut: "cut_over (traced h) plan b g tail v
      (w3, [CalledCreate g] @ map (CalledWrite g) batches @ [CalledValidate v]) = (Inr c, (w4, tr))"
    using cut_over_completes [OF assms(1,2)] by blast
  from cut_over_returns [OF cut] obtain post where
    tr: "tr = ([CalledCreate g] @ map (CalledWrite g) batches @ [CalledValidate v]) @
      [CalledActivate g (rg_previous_generation_ref g)] @ post" and post: "cutover_done plan b g v c post" by auto
  have "rebuild (traced h) plan (on_world fresh_token) (w, []) = (Inr c, (w4, tr))"
    using b g cut guarded_cuts_over [OF build] by (simp add: rebuild_guarded pbind_def)
  with tr post show ?thesis by auto
qed


section \<open>Sample rebuilds\<close>

definition sample_digest :: string where
  "sample_digest = json_digest JNull"

definition sample_plan :: rebuild_plan where
  "sample_plan = \<lparr>rp_projection = ''search'', rp_source_resource = ''orders'', rp_target_resource = ''orders.search'',
     rp_batch_size = 2, rp_rollback_interval = 100\<rparr>"

definition sample_generation :: rebuild_generation where
  "sample_generation = \<lparr>rg_generation_ref = ''g2'', rg_previous_generation_ref = ''g1''\<rparr>"

definition sample_validation :: "bool \<Rightarrow> rebuild_validation" where
  "sample_validation ok = \<lparr>rv_passed = ok, rv_source_count = 1, rv_target_count = 1,
     rv_sampled_digest = sample_digest, rv_report_digest = sample_digest\<rparr>"

definition sample_rebuild_hooks :: "bool \<Rightarrow> (unit, nat) rebuild_hooks" where
  "sample_rebuild_hooks ok = \<lparr>
     rh_capture_boundary = (\<lambda>p. pret \<lparr>rb_boundary_id = ''b'', rb_source_fingerprint = sample_digest\<rparr>),
     rh_create_generation = (\<lambda>p b. pret sample_generation),
     rh_scan = (\<lambda>p b. pret (map pret [[1]], pret ())),
     rh_write = (\<lambda>p g bs. pret ()),
     rh_tail = (\<lambda>p g b. pret \<lparr>rt_applied_events = 0, rt_final_boundary = ''b''\<rparr>),
     rh_validate = (\<lambda>p g b. pret (sample_validation ok)),
     rh_activate = (\<lambda>p g prev. pret \<lparr>ra_previous_generation_ref = prev,
       ra_active_generation_ref = rg_generation_ref g, ra_target_fingerprint = sample_digest\<rparr>),
     rh_retain = (\<lambda>ref u. pret ()), rh_discard = (\<lambda>ref. pret ()), rh_evidence = null_sink,
     rh_clock = pret (utc_datetime 60)\<rparr>"

theorem rebuild_completes_witness:
  "\<exists>c w' post. rebuild (traced (sample_rebuild_hooks True)) sample_plan (on_world fresh_token) ((), []) =
      (Inr c, (w', CalledCreate sample_generation # map (CalledWrite sample_generation) [[1]] @
         [CalledValidate (sample_validation True), CalledActivate sample_generation ''g1''] @ post)) \<and>
    cutover_done sample_plan \<lparr>rb_boundary_id = ''b'', rb_source_fingerprint = sample_digest\<rparr>
      sample_generation (sample_validation True) c post"
proof -
  have "succeeding_hooks (sample_rebuild_hooks True) sample_plan
      \<lparr>rb_boundary_id = ''b'', rb_source_fingerprint = sample_digest\<rparr> sample_generation [[1]]
      \<lparr>rt_applied_events = 0, rt_final_boundary = ''b''\<rparr> (sample_validation True) sample_digest 60"
    by (simp add: succeeding_hooks_def returns_def sample_rebuild_hooks_def sample_generation_def null_sink_def)
  moreover have "(160 :: int) \<le> max_instant" by (simp add: max_instant_def)
  then have "wf_cutover sample_plan \<lparr>rb_boundary_id = ''b'', rb_source_fingerprint = sample_digest\<rparr> sample_generation
      \<lparr>rt_applied_events = 0, rt_final_boundary = ''b''\<rparr> (sample_validation True) sample_digest 60"
    by (simp add: wf_cutover_def RebuildPlan_def RebuildBoundary_def RebuildGeneration_def RebuildTailResult_def
        RebuildValidation_def require_sha256_def valid_instant_def sample_plan_def sample_generation_def
        sample_validation_def sample_digest_def)
  moreover have "accepted (sample_validation True)" by (simp add: accepted_def sample_validation_def)
  moreover have "\<forall>bs \<in> set [[1]]. int (length bs) \<le> rp_batch_size sample_plan" by (simp add: sample_plan_def)
  ultimately show ?thesis
    using rebuild_completes [of "sample_rebuild_hooks True" sample_plan
        "\<lparr>rb_boundary_id = ''b'', rb_source_fingerprint = sample_digest\<rparr>" sample_generation "[[1]]"
        "\<lparr>rt_applied_events = 0, rt_final_boundary = ''b''\<rparr>" "sample_validation True" sample_digest 60 "()"]
    by (simp add: sample_generation_def)
qed

theorem rebuild_outcomes_witness:
  "\<exists>g. discarded_trace g (snd (snd (rebuild (traced (sample_rebuild_hooks False)) sample_plan
     (on_world fresh_token) ((), []))))"
proof -
  let ?run = "rebuild (traced (sample_rebuild_hooks False)) sample_plan (on_world fresh_token) ((), [])"
  have run: "?run = (Inl (MigrationFailed ''rebuild validation failed''), ((),
      [CalledCreate sample_generation, CalledWrite sample_generation [1], CalledValidate (sample_validation False),
       CalledDiscard ''g2'']))"
    by (simp add: rebuild_def build_generation_def copy_source_def write_batch_def traced_def sample_rebuild_hooks_def
        pbind_def on_world_def logged_def attempt_def with_locals_def pfinally_def sample_validation_def
        sample_generation_def sample_plan_def)
  from rebuild_outcomes [OF run] show ?thesis
    unfolding run by (auto simp: activated_trace_def Cons_eq_append_conv Cons_eq_map_conv append_eq_Cons_conv)
qed

end
