(* ===== verification/Migration_Model.thy ===== *)
theory Migration_Model
  imports Outbox_Model
begin

text \<open>
  Model of \<open>migration/model.py\<close> and \<open>migration/planner.py\<close>: migration bundles, compiled plans,
  checkpoints, cut-over evidence and the planner.  The Core's \<open>Operation\<close> codec and Schema
  compatibility classification are parameters.
\<close>

section \<open>Enumerations\<close>

definition migration_format_version :: string where
  "migration_format_version = ''meridian.migration-bundle.v1''"

datatype migration_step_kind = ADD_FIELD | BACKFILL | ADD_OR_REPLACE_INDEX | TIGHTEN_CONSTRAINT
  | TRANSFORM_RECORD | ACTIVATE_SCHEMA_VERSION | RETIRE_PHYSICAL_GENERATION

fun step_kind_value :: "migration_step_kind \<Rightarrow> string" where
  "step_kind_value ADD_FIELD = ''add-field''"
| "step_kind_value BACKFILL = ''backfill''"
| "step_kind_value ADD_OR_REPLACE_INDEX = ''add-or-replace-index''"
| "step_kind_value TIGHTEN_CONSTRAINT = ''tighten-constraint''"
| "step_kind_value TRANSFORM_RECORD = ''transform-record''"
| "step_kind_value ACTIVATE_SCHEMA_VERSION = ''activate-schema-version''"
| "step_kind_value RETIRE_PHYSICAL_GENERATION = ''retire-physical-generation''"

datatype lock_class = LOCK_NONE | LOCK_SHARED | LOCK_EXCLUSIVE

fun lock_class_value :: "lock_class \<Rightarrow> string" where
  "lock_class_value LOCK_NONE = ''none''"
| "lock_class_value LOCK_SHARED = ''shared''"
| "lock_class_value LOCK_EXCLUSIVE = ''exclusive''"

datatype reversibility = REVERSIBLE | REACTIVATE_RETAINED_GENERATION | RESTORE_REQUIRED

fun reversibility_value :: "reversibility \<Rightarrow> string" where
  "reversibility_value REVERSIBLE = ''reversible''"
| "reversibility_value REACTIVATE_RETAINED_GENERATION = ''reactivate-retained-generation''"
| "reversibility_value RESTORE_REQUIRED = ''restore-required''"

datatype migration_state = MIG_PLANNED | MIG_APPLYING | MIG_VALIDATING | MIG_ACTIVATING
  | MIG_COMPLETED | MIG_FAILED

fun migration_state_value :: "migration_state \<Rightarrow> string" where
  "migration_state_value MIG_PLANNED = ''PLANNED''"
| "migration_state_value MIG_APPLYING = ''APPLYING''"
| "migration_state_value MIG_VALIDATING = ''VALIDATING''"
| "migration_state_value MIG_ACTIVATING = ''ACTIVATING''"
| "migration_state_value MIG_COMPLETED = ''COMPLETED''"
| "migration_state_value MIG_FAILED = ''FAILED''"

section \<open>Conditions and steps\<close>

record 'v migration_condition =
  mc_name :: string
  mc_operation :: 'v
  mc_expectation :: 'v

text \<open>\<open>Operation.from_mapping\<close>, \<open>to_dict\<close>, and which errors are \<open>TypeError\<close> or \<open>ValueError\<close>.\<close>

record 'o core_operations =
  co_from_mapping :: "pyval \<Rightarrow> exn + 'o"
  co_to_dict :: "'o \<Rightarrow> pyval"
  co_is_type_or_value_error :: "exn \<Rightarrow> bool"

definition MigrationCondition ::
  "'o core_operations \<Rightarrow> pyval migration_condition \<Rightarrow> exn + json migration_condition" where
  "MigrationCondition co c =
     ebind (guard (mc_name c \<noteq> []) (ValueError ''migration condition name must be non-empty'')) (\<lambda>_.
     ebind (case co_from_mapping co (mc_operation c) of
         Inl e \<Rightarrow> Inl (if co_is_type_or_value_error co e
           then ValueError ''migration condition operation must be a serialized Meridian Operation V1'' else e)
       | Inr op \<Rightarrow> Inr op) (\<lambda>op.
     ebind (immutable_mapping (co_to_dict co op)) (\<lambda>operation.
     ebind (immutable_mapping (mc_expectation c)) (\<lambda>expectation.
     Inr \<lparr>mc_name = mc_name c, mc_operation = operation, mc_expectation = expectation\<rparr>))))"

definition condition_to_mapping :: "json migration_condition \<Rightarrow> json" where
  "condition_to_mapping c = JObj [(''name'', JStr (mc_name c)), (''operation'', mc_operation c),
     (''expectation'', mc_expectation c)]"

record 'v migration_step =
  ms_step_id :: string
  ms_kind :: migration_step_kind
  ms_parameters :: 'v
  ms_compiler_requirements :: "string list"
  ms_reversibility :: reversibility

text \<open>\<open>all(requirements)\<close> and no duplicates.\<close>

definition unique_requirements :: "string list \<Rightarrow> bool" where
  "unique_requirements rs \<longleftrightarrow> (\<forall>r \<in> set rs. r \<noteq> []) \<and> distinct rs"

definition MigrationStep :: "pyval migration_step \<Rightarrow> exn + json migration_step" where
  "MigrationStep s =
     ebind (guard (ms_step_id s \<noteq> []) (ValueError ''migration step_id must be non-empty'')) (\<lambda>_.
     ebind (guard (unique_requirements (ms_compiler_requirements s))
       (ValueError ''step compiler requirements must be unique'')) (\<lambda>_.
     ebind (immutable_mapping (ms_parameters s)) (\<lambda>parameters.
     Inr \<lparr>ms_step_id = ms_step_id s, ms_kind = ms_kind s, ms_parameters = parameters,
          ms_compiler_requirements = ms_compiler_requirements s, ms_reversibility = ms_reversibility s\<rparr>)))"

definition step_to_mapping :: "json migration_step \<Rightarrow> json" where
  "step_to_mapping s = JObj [(''stepId'', JStr (ms_step_id s)), (''kind'', JStr (step_kind_value (ms_kind s))),
     (''parameters'', ms_parameters s),
     (''compilerRequirements'', JList (map JStr (ms_compiler_requirements s))),
     (''reversibility'', JStr (reversibility_value (ms_reversibility s)))]"

definition step_digest :: "json migration_step \<Rightarrow> string" where
  "step_digest s = json_digest (step_to_mapping s)"

section \<open>Bundles\<close>

record migration_bundle =
  mb_source_schema_fingerprint :: string
  mb_target_schema_fingerprint :: string
  mb_steps :: "json migration_step list"
  mb_preconditions :: "json migration_condition list"
  mb_validations :: "json migration_condition list"
  mb_postconditions :: "json migration_condition list"
  mb_compiler_requirements :: "string list"
  mb_estimated_lock_class :: lock_class
  mb_reversibility :: reversibility
  mb_bundle_id :: string
  mb_digest :: string
  mb_format_version :: string

definition bundle_digest_material :: "migration_bundle \<Rightarrow> (string \<times> json) list" where
  "bundle_digest_material b =
     [(''formatVersion'', JStr (mb_format_version b)), (''bundleId'', JStr (mb_bundle_id b)),
      (''sourceSchemaFingerprint'', JStr (mb_source_schema_fingerprint b)),
      (''targetSchemaFingerprint'', JStr (mb_target_schema_fingerprint b)),
      (''steps'', JList (map step_to_mapping (mb_steps b))),
      (''preconditions'', JList (map condition_to_mapping (mb_preconditions b))),
      (''validations'', JList (map condition_to_mapping (mb_validations b))),
      (''postconditions'', JList (map condition_to_mapping (mb_postconditions b))),
      (''compilerRequirements'', JList (map JStr (mb_compiler_requirements b))),
      (''estimatedLockClass'', JStr (lock_class_value (mb_estimated_lock_class b))),
      (''reversibility'', JStr (reversibility_value (mb_reversibility b)))]"

definition bundle_to_mapping :: "migration_bundle \<Rightarrow> json" where
  "bundle_to_mapping b = JObj (bundle_digest_material b @ [(''digest'', JStr (mb_digest b))])"

definition MigrationBundleV1 :: "migration_bundle \<Rightarrow> exn + migration_bundle" where
  "MigrationBundleV1 b =
     ebind (guard (mb_format_version b = migration_format_version)
       (ValueError (''format_version must be '' @ py_repr migration_format_version))) (\<lambda>_.
     ebind (require_sha256 (mb_source_schema_fingerprint b) ''source_schema_fingerprint'') (\<lambda>_.
     ebind (require_sha256 (mb_target_schema_fingerprint b) ''target_schema_fingerprint'') (\<lambda>_.
     ebind (guard (mb_bundle_id b \<noteq> [] \<and> mb_steps b \<noteq> [])
       (ValueError ''migration bundle_id and steps must be non-empty'')) (\<lambda>_.
     ebind (guard (distinct (map ms_step_id (mb_steps b)))
       (ValueError ''migration step ids must be unique'')) (\<lambda>_.
     ebind (guard (distinct (map mc_name (mb_preconditions b @ mb_validations b @ mb_postconditions b)))
       (ValueError ''migration condition names must be unique'')) (\<lambda>_.
     ebind (guard (unique_requirements (mb_compiler_requirements b))
       (ValueError ''bundle compiler requirements must be unique'')) (\<lambda>_.
     let expected = json_digest (JObj (bundle_digest_material b))
     in ebind (guard (mb_digest b = [] \<or> mb_digest b = expected)
          (ValueError ''migration bundle digest does not match canonical content'')) (\<lambda>_.
        Inr (b\<lparr>mb_digest := expected\<rparr>)))))))))"

section \<open>Adapter values\<close>

record binding_state_evidence =
  bs_logical_fingerprint :: string
  bs_physical_fingerprint :: string
  bs_active_generation :: string
  bs_revision :: version

definition BindingStateEvidence :: "binding_state_evidence \<Rightarrow> exn + binding_state_evidence" where
  "BindingStateEvidence s =
     ebind (require_sha256 (bs_logical_fingerprint s) ''logical_fingerprint'') (\<lambda>_.
     ebind (require_sha256 (bs_physical_fingerprint s) ''physical_fingerprint'') (\<lambda>_.
     ebind (guard (bs_active_generation s \<noteq> [] \<and> \<not> is_bool_version (bs_revision s))
       (ValueError ''binding state generation and revision are invalid'')) (\<lambda>_. Inr s)))"

record 't migration_lock =
  lk_token :: string
  lk_owner :: string
  lk_bundle_digest :: string
  lk_expires_at :: 't

definition MigrationLock :: "datetime migration_lock \<Rightarrow> exn + int migration_lock" where
  "MigrationLock l =
     ebind (guard (lk_token l \<noteq> [] \<and> lk_owner l \<noteq> [] \<and> lk_bundle_digest l \<noteq> [])
       (ValueError ''migration lock fields must be non-empty'')) (\<lambda>_.
     ebind (require_sha256 (lk_bundle_digest l) ''bundle_digest'') (\<lambda>_.
     ebind (ensure_utc (lk_expires_at l) ''expires_at'') (\<lambda>expires.
     Inr \<lparr>lk_token = lk_token l, lk_owner = lk_owner l, lk_bundle_digest = lk_bundle_digest l,
          lk_expires_at = expires\<rparr>)))"

record 'a compiled_step =
  cs_step_id :: string
  cs_compiler_id :: string
  cs_artifact_digest :: string
  cs_opaque_artifact :: 'a

definition CompiledMigrationStep :: "'a compiled_step \<Rightarrow> exn + 'a compiled_step" where
  "CompiledMigrationStep s =
     ebind (guard (cs_step_id s \<noteq> [] \<and> cs_compiler_id s \<noteq> [] \<and> cs_artifact_digest s \<noteq> [])
       (ValueError ''compiled migration step metadata must be non-empty'')) (\<lambda>_.
     ebind (require_sha256 (cs_artifact_digest s) ''artifact_digest'') (\<lambda>_. Inr s))"

definition compiled_evidence_mapping :: "'a compiled_step \<Rightarrow> json" where
  "compiled_evidence_mapping s = JObj [(''stepId'', JStr (cs_step_id s)),
     (''compilerId'', JStr (cs_compiler_id s)), (''artifactDigest'', JStr (cs_artifact_digest s))]"

record 'a compiled_plan =
  cpl_bundle_digest :: string
  cpl_steps :: "'a compiled_step list"
  cpl_plan_digest :: string

definition plan_digest_of :: "'a compiled_plan \<Rightarrow> string" where
  "plan_digest_of p = json_digest (JObj [(''bundleDigest'', JStr (cpl_bundle_digest p)),
     (''steps'', JList (map compiled_evidence_mapping (cpl_steps p)))])"

definition CompiledMigrationPlan :: "'a compiled_plan \<Rightarrow> exn + 'a compiled_plan" where
  "CompiledMigrationPlan p =
     ebind (guard (cpl_bundle_digest p \<noteq> []) (ValueError ''compiled plan bundle digest must be non-empty'')) (\<lambda>_.
     ebind (require_sha256 (cpl_bundle_digest p) ''bundle_digest'') (\<lambda>_.
     ebind (guard (cpl_plan_digest p = [] \<or> cpl_plan_digest p = plan_digest_of p)
       (ValueError ''compiled migration plan digest is not deterministic'')) (\<lambda>_.
     Inr (p\<lparr>cpl_plan_digest := plan_digest_of p\<rparr>))))"

record applied_step =
  as_step_id :: string
  as_result_fingerprint :: string
  as_checkpoint_token :: string

definition AppliedMigrationStep :: "applied_step \<Rightarrow> exn + applied_step" where
  "AppliedMigrationStep s =
     ebind (guard (as_step_id s \<noteq> [] \<and> as_checkpoint_token s \<noteq> [])
       (ValueError ''applied migration step metadata must be non-empty'')) (\<lambda>_.
     ebind (require_sha256 (as_result_fingerprint s) ''result_fingerprint'') (\<lambda>_. Inr s))"

record validation_outcome =
  vo_name :: string
  vo_passed :: bool
  vo_result_digest :: string
  vo_summary :: string

definition ValidationOutcome :: "validation_outcome \<Rightarrow> exn + validation_outcome" where
  "ValidationOutcome v =
     ebind (guard (vo_name v \<noteq> []) (ValueError ''validation outcome name and passed state are invalid'')) (\<lambda>_.
     ebind (require_sha256 (vo_result_digest v) ''result_digest'') (\<lambda>_. Inr v))"

record 't migration_checkpoint =
  mk_execution_id :: string
  mk_bundle_digest :: string
  mk_state :: migration_state
  mk_sequence :: int
  mk_step_id :: "string option"
  mk_result_fingerprint :: "string option"
  mk_checkpoint_token :: "string option"
  mk_failure_code :: "string option"
  mk_recorded_at :: 't

definition MigrationCheckpoint :: "datetime migration_checkpoint \<Rightarrow> exn + int migration_checkpoint" where
  "MigrationCheckpoint c =
     ebind (guard (mk_execution_id c \<noteq> [] \<and> mk_bundle_digest c \<noteq> [] \<and> 0 \<le> mk_sequence c)
       (ValueError ''invalid migration checkpoint identity or sequence'')) (\<lambda>_.
     ebind (require_sha256 (mk_bundle_digest c) ''bundle_digest'') (\<lambda>_.
     ebind (case mk_result_fingerprint c of None \<Rightarrow> Inr [] | Some f \<Rightarrow> require_sha256 f ''result_fingerprint'') (\<lambda>_.
     ebind (ensure_utc (mk_recorded_at c) ''recorded_at'') (\<lambda>recorded.
     Inr \<lparr>mk_execution_id = mk_execution_id c, mk_bundle_digest = mk_bundle_digest c, mk_state = mk_state c,
          mk_sequence = mk_sequence c, mk_step_id = mk_step_id c,
          mk_result_fingerprint = mk_result_fingerprint c, mk_checkpoint_token = mk_checkpoint_token c,
          mk_failure_code = mk_failure_code c, mk_recorded_at = recorded\<rparr>))))"

record activation_result =
  ar_active_generation :: string
  ar_previous_generation :: string
  ar_target_fingerprint :: string
  ar_source_boundary :: string

definition ActivationResult :: "activation_result \<Rightarrow> exn + activation_result" where
  "ActivationResult a =
     ebind (guard (ar_active_generation a \<noteq> [] \<and> ar_previous_generation a \<noteq> [] \<and> ar_source_boundary a \<noteq> [])
       (ValueError ''activation result fields must be non-empty'')) (\<lambda>_.
     ebind (require_sha256 (ar_target_fingerprint a) ''target_fingerprint'') (\<lambda>_. Inr a))"

record 't cutover_evidence =
  ce_execution_id :: string
  ce_bundle_digest :: string
  ce_source_fingerprint :: string
  ce_target_fingerprint :: string
  ce_source_boundary :: string
  ce_previous_generation :: string
  ce_active_generation :: string
  ce_validation_report_digest :: string
  ce_activated_at :: 't
  ce_digest :: string

definition cutover_digest_material :: "int cutover_evidence \<Rightarrow> (string \<times> json) list" where
  "cutover_digest_material c =
     [(''executionId'', JStr (ce_execution_id c)), (''bundleDigest'', JStr (ce_bundle_digest c)),
      (''sourceFingerprint'', JStr (ce_source_fingerprint c)),
      (''targetFingerprint'', JStr (ce_target_fingerprint c)),
      (''sourceBoundary'', JStr (ce_source_boundary c)),
      (''previousGeneration'', JStr (ce_previous_generation c)),
      (''activeGeneration'', JStr (ce_active_generation c)),
      (''validationReportDigest'', JStr (ce_validation_report_digest c)),
      (''activatedAt'', JStr (iso_utc (ce_activated_at c)))]"

definition cutover_to_mapping :: "int cutover_evidence \<Rightarrow> json" where
  "cutover_to_mapping c = JObj (cutover_digest_material c @ [(''digest'', JStr (ce_digest c))])"

definition CutoverEvidence :: "datetime cutover_evidence \<Rightarrow> exn + int cutover_evidence" where
  "CutoverEvidence c =
     ebind (require_fields [(''execution_id'', ce_execution_id c), (''source_boundary'', ce_source_boundary c),
       (''previous_generation'', ce_previous_generation c), (''active_generation'', ce_active_generation c)]) (\<lambda>_.
     ebind (require_sha256 (ce_bundle_digest c) ''bundle_digest'') (\<lambda>_.
     ebind (require_sha256 (ce_source_fingerprint c) ''source_fingerprint'') (\<lambda>_.
     ebind (require_sha256 (ce_target_fingerprint c) ''target_fingerprint'') (\<lambda>_.
     ebind (require_sha256 (ce_validation_report_digest c) ''validation_report_digest'') (\<lambda>_.
     ebind (ensure_utc (ce_activated_at c) ''activated_at'') (\<lambda>activated.
     let d = \<lparr>ce_execution_id = ce_execution_id c, ce_bundle_digest = ce_bundle_digest c,
           ce_source_fingerprint = ce_source_fingerprint c, ce_target_fingerprint = ce_target_fingerprint c,
           ce_source_boundary = ce_source_boundary c, ce_previous_generation = ce_previous_generation c,
           ce_active_generation = ce_active_generation c,
           ce_validation_report_digest = ce_validation_report_digest c,
           ce_activated_at = activated, ce_digest = ce_digest c\<rparr>;
         expected = json_digest (JObj (cutover_digest_material d))
     in ebind (guard (ce_digest c = [] \<or> ce_digest c = expected)
          (ValueError ''cutover evidence digest does not match canonical content'')) (\<lambda>_.
        Inr (d\<lparr>ce_digest := expected\<rparr>))))))))"

record migration_report =
  mr_execution_id :: string
  mr_state :: migration_state
  mr_bundle_digest :: string
  mr_checkpoints :: "int migration_checkpoint list"
  mr_validations :: "validation_outcome list"
  mr_cutover :: "int cutover_evidence option"
  mr_failure_code :: "string option"

section \<open>The planner\<close>

datatype compatibility_class = BREAKING | CONDITIONAL | OtherCompatibility string

text \<open>\<open>classify\<close> and \<open>fingerprint\<close> are the Core's \<open>classify_compatibility\<close> and \<open>SchemaDocument.fingerprint\<close>.\<close>

record 's schema_core =
  sk_classify :: "'s \<Rightarrow> 's \<Rightarrow> exn + compatibility_class"
  sk_fingerprint :: "'s \<Rightarrow> string"

definition create_bundle ::
  "'s schema_core \<Rightarrow> 's \<Rightarrow> 's \<Rightarrow> json migration_step list \<Rightarrow> json migration_condition list
   \<Rightarrow> json migration_condition list \<Rightarrow> json migration_condition list \<Rightarrow> string list \<Rightarrow> lock_class
   \<Rightarrow> reversibility \<Rightarrow> string \<Rightarrow> exn + migration_bundle" where
  "create_bundle sk source target steps preconditions validations postconditions compiler_requirements
     estimated_lock_class reversibility bundle_id =
     ebind (sk_classify sk source target) (\<lambda>classification.
     let kinds = set (map ms_kind steps) in
     ebind (if classification = BREAKING then
         ebind (guard (TRANSFORM_RECORD \<in> kinds)
           (IncompatibleMigration ''breaking Schema changes require an explicit transform-record step'')) (\<lambda>_.
         guard (preconditions \<noteq> [] \<and> validations \<noteq> [])
           (IncompatibleMigration ''breaking Schema changes require preconditions and validation Operations''))
       else Inr ()) (\<lambda>_.
     ebind (guard (\<not> (classification = CONDITIONAL \<and> compiler_requirements = []))
       (IncompatibleMigration ''conditionally compatible changes require an Adapter compiler requirement'')) (\<lambda>_.
     ebind (guard (ACTIVATE_SCHEMA_VERSION \<in> kinds)
       (IncompatibleMigration ''every migration must explicitly activate the target Schema'')) (\<lambda>_.
     MigrationBundleV1 \<lparr>mb_source_schema_fingerprint = sk_fingerprint sk source,
       mb_target_schema_fingerprint = sk_fingerprint sk target, mb_steps = steps,
       mb_preconditions = preconditions, mb_validations = validations, mb_postconditions = postconditions,
       mb_compiler_requirements = compiler_requirements, mb_estimated_lock_class = estimated_lock_class,
       mb_reversibility = reversibility, mb_bundle_id = bundle_id, mb_digest = [],
       mb_format_version = migration_format_version\<rparr>))))"

end
