(* ===== verification/Migration.thy ===== *)
theory Migration
  imports Migration_Model
begin

text \<open>
  Model of \<open>migration/executor.py\<close>: the in-memory checkpoint recorder and the executor.  The adapter
  hooks, the validation runner, the recorder, the evidence sink and the clock are programs over a
  world; \<open>sequence\<close>, \<open>lock\<close> and \<open>all_validations\<close> are the local variables of \<open>execute\<close>.
\<close>

section \<open>The in-memory recorder\<close>

type_synonym recorder = "(string, int migration_checkpoint list) dict"

definition recorded :: "recorder \<Rightarrow> string \<Rightarrow> int migration_checkpoint list" where
  "recorded rs execution_id = (case map_of rs execution_id of None \<Rightarrow> [] | Some cs \<Rightarrow> cs)"

definition recorder_append :: "int migration_checkpoint \<Rightarrow> (recorder, unit) prog" where
  "recorder_append c rs =
     (let records = recorded rs (mk_execution_id c)
      in if records \<noteq> [] \<and> mk_sequence c \<le> mk_sequence (last records)
         then (Inl (MigrationConflict ''migration checkpoint sequence must increase''), rs)
         else (Inr (), AList.update (mk_execution_id c) (records @ [c]) rs))"

definition recorder_checkpoints :: "string \<Rightarrow> (recorder, int migration_checkpoint list) prog" where
  "recorder_checkpoints execution_id rs = (Inr (recorded rs execution_id), rs)"

section \<open>The executor\<close>

record ('w, 'a) migration_env =
  me_inspect_state :: "string \<Rightarrow> ('w, binding_state_evidence) prog"
  me_acquire_lock :: "string \<Rightarrow> string \<Rightarrow> string \<Rightarrow> int \<Rightarrow> ('w, int migration_lock) prog"
  me_compile :: "migration_bundle \<Rightarrow> ('w, 'a compiled_plan) prog"
  me_apply_step :: "int migration_lock \<Rightarrow> 'a compiled_step \<Rightarrow> string option \<Rightarrow> ('w, applied_step) prog"
  me_activate :: "int migration_lock \<Rightarrow> migration_bundle \<Rightarrow> string \<Rightarrow> ('w, activation_result) prog"
  me_release_lock :: "int migration_lock \<Rightarrow> ('w, unit) prog"
  me_run :: "json migration_condition \<Rightarrow> ('w, validation_outcome) prog"
  me_append :: "int migration_checkpoint \<Rightarrow> ('w, unit) prog"
  me_checkpoints :: "string \<Rightarrow> ('w, int migration_checkpoint list) prog"
  me_evidence :: "'w evidence_sink"
  me_lock_duration :: int
  me_clock :: "('w, datetime) prog"

definition MigrationExecutor :: "('w, 'a) migration_env \<Rightarrow> num \<Rightarrow> exn + ('w, 'a) migration_env" where
  "MigrationExecutor env lock_seconds =
     ebind (guard (\<not> num_le lock_seconds (Fin 0)) (ValueError ''lock_seconds must be positive'')) (\<lambda>_.
     ebind (timedelta_seconds lock_seconds) (\<lambda>duration. Inr (env\<lparr>me_lock_duration := duration\<rparr>)))"

definition write_checkpoint ::
  "('w, 'a) migration_env \<Rightarrow> string \<Rightarrow> migration_bundle \<Rightarrow> migration_state \<Rightarrow> int \<Rightarrow> applied_step option
   \<Rightarrow> string option \<Rightarrow> ('w, int migration_checkpoint) prog" where
  "write_checkpoint env execution_id bundle state sequence step failure_code =
     pbind (me_clock env) (\<lambda>now.
     pbind (plift (MigrationCheckpoint \<lparr>mk_execution_id = execution_id, mk_bundle_digest = mb_digest bundle,
        mk_state = state, mk_sequence = sequence, mk_step_id = map_option as_step_id step,
        mk_result_fingerprint = map_option as_result_fingerprint step,
        mk_checkpoint_token = map_option as_checkpoint_token step, mk_failure_code = failure_code,
        mk_recorded_at = now\<rparr>)) (\<lambda>checkpoint.
     pbind (me_append env checkpoint) (\<lambda>_. pret checkpoint)))"

definition verify_compiled :: "migration_bundle \<Rightarrow> 'a compiled_plan \<Rightarrow> exn + unit" where
  "verify_compiled bundle plan =
     ebind (guard (cpl_bundle_digest plan = mb_digest bundle)
       (MigrationConflict ''compiled plan references a different migration bundle'')) (\<lambda>_.
     ebind (guard (map cs_step_id (cpl_steps plan) = map ms_step_id (mb_steps bundle))
       (MigrationConflict ''compiled plan does not preserve logical step order'')) (\<lambda>_.
     guard (cpl_plan_digest plan = plan_digest_of plan)
       (MigrationConflict ''compiled migration plan is not deterministic'')))"

fun run_conditions ::
  "('w, 'a) migration_env \<Rightarrow> ('w, bool) prog \<Rightarrow> json migration_condition list \<Rightarrow> ('w, validation_outcome list) prog"
where
  "run_conditions env token [] = pret []"
| "run_conditions env token (c # cs) =
     pbind (raise_if_cancelled token) (\<lambda>_.
     pbind (me_run env c) (\<lambda>outcome.
     if \<not> vo_passed outcome
     then praise (MigrationFailed (''migration condition '' @ py_repr (mc_name c) @ '' failed''))
     else pbind (run_conditions env token cs) (\<lambda>outcomes. pret (outcome # outcomes))))"

definition completed_steps :: "int migration_checkpoint list \<Rightarrow> string list" where
  "completed_steps existing = concat (map (\<lambda>c. if mk_state c = MIG_APPLYING
     then (case mk_step_id c of None \<Rightarrow> [] | Some i \<Rightarrow> [i]) else []) existing)"

record migration_locals =
  ml_sequence :: int
  ml_lock :: "int migration_lock option"
  ml_validations :: "validation_outcome list"

definition check_lock :: "('w, 'a) migration_env \<Rightarrow> int migration_lock \<Rightarrow> string \<Rightarrow> ('w, unit) prog" where
  "check_lock env lock message =
     pbind (me_clock env) (\<lambda>d.
     pbind (plift (ensure_utc d ''now'')) (\<lambda>now.
     if lk_expires_at lock \<le> now then praise (MigrationConflict message) else pret ()))"

text \<open>\<open>self._checkpoint(...); sequence += 1\<close>.\<close>

definition checkpoint_next ::
  "('w, 'a) migration_env \<Rightarrow> string \<Rightarrow> migration_bundle \<Rightarrow> migration_state \<Rightarrow> applied_step option
   \<Rightarrow> ('w \<times> migration_locals, unit) prog" where
  "checkpoint_next env run_id bundle state step =
     pbind get_locals (\<lambda>l.
     pbind (on_world (write_checkpoint env run_id bundle state (ml_sequence l) step None)) (\<lambda>_.
     set_locals (\<lambda>l. l\<lparr>ml_sequence := ml_sequence l + 1\<rparr>)))"

definition check_conditions ::
  "('w, 'a) migration_env \<Rightarrow> ('w, bool) prog \<Rightarrow> json migration_condition list
   \<Rightarrow> ('w \<times> migration_locals, unit) prog" where
  "check_conditions env token conditions =
     pbind (on_world (run_conditions env token conditions)) (\<lambda>outcomes.
     set_locals (\<lambda>l. l\<lparr>ml_validations := ml_validations l @ outcomes\<rparr>))"

definition migration_evidence ::
  "('w, 'a) migration_env \<Rightarrow> string \<Rightarrow> migration_state \<Rightarrow> json \<Rightarrow> ('w, unit) prog" where
  "migration_evidence env binding_ref state details =
     pbind (me_clock env) (\<lambda>occurred.
     record_evidence (me_evidence env) ''migration'' binding_ref (migration_state_value state) details occurred)"

text \<open>From the inspection to the planned checkpoint.\<close>

definition plan_migration ::
  "('w, 'a) migration_env \<Rightarrow> string \<Rightarrow> migration_bundle \<Rightarrow> string \<Rightarrow> ('w, bool) prog \<Rightarrow> string
   \<Rightarrow> ('w \<times> migration_locals, binding_state_evidence \<times> int migration_lock \<times> 'a compiled_plan) prog" where
  "plan_migration env binding_ref bundle owner token run_id =
     pbind (on_world (raise_if_cancelled token)) (\<lambda>_.
     pbind (on_world (me_inspect_state env binding_ref)) (\<lambda>state.
     pbind (plift (guard (bs_logical_fingerprint state = mb_source_schema_fingerprint bundle)
       (MigrationConflict ''current logical fingerprint does not match bundle source''))) (\<lambda>_.
     pbind (check_conditions env token (mb_preconditions bundle)) (\<lambda>_.
     pbind (on_world (me_acquire_lock env binding_ref owner (mb_digest bundle) (me_lock_duration env))) (\<lambda>lock.
     pbind (set_locals (\<lambda>l. l\<lparr>ml_lock := Some lock\<rparr>)) (\<lambda>_.
     pbind (plift (guard (lk_owner lock = owner \<and> lk_bundle_digest lock = mb_digest bundle)
       (MigrationConflict ''adapter returned a lock for a different owner or bundle''))) (\<lambda>_.
     pbind (on_world (check_lock env lock ''adapter returned an expired migration lock'')) (\<lambda>_.
     pbind (on_world (me_compile env bundle)) (\<lambda>plan.
     pbind (plift (verify_compiled bundle plan)) (\<lambda>_.
     pbind (checkpoint_next env run_id bundle MIG_PLANNED None) (\<lambda>_.
     pbind (on_world (migration_evidence env binding_ref MIG_PLANNED
        (JObj [(''bundleDigest'', JStr (mb_digest bundle)), (''planDigest'', JStr (cpl_plan_digest plan))]))) (\<lambda>_.
     pret (state, lock, plan)))))))))))))"

definition apply_compiled ::
  "('w, 'a) migration_env \<Rightarrow> migration_bundle \<Rightarrow> ('w, bool) prog \<Rightarrow> string \<Rightarrow> string list \<Rightarrow> int migration_lock
   \<Rightarrow> 'a compiled_step \<Rightarrow> ('w \<times> migration_locals, unit) prog" where
  "apply_compiled env bundle token run_id completed lock compiled =
     pbind (on_world (raise_if_cancelled token)) (\<lambda>_.
     pbind (on_world (check_lock env lock ''migration lock expired while applying the plan'')) (\<lambda>_.
     if cs_step_id compiled \<in> set completed then pret ()
     else
       pbind (on_world (me_apply_step env lock compiled None)) (\<lambda>applied.
       pbind (plift (guard (as_step_id applied = cs_step_id compiled)
         (MigrationConflict ''adapter acknowledged the wrong migration step''))) (\<lambda>_.
       checkpoint_next env run_id bundle MIG_APPLYING (Some applied)))))"

definition activate_migration ::
  "('w, 'a) migration_env \<Rightarrow> migration_bundle \<Rightarrow> ('w, bool) prog \<Rightarrow> binding_state_evidence
   \<Rightarrow> int migration_lock \<Rightarrow> ('w \<times> migration_locals, activation_result) prog" where
  "activate_migration env bundle token state lock =
     pbind (on_world (raise_if_cancelled token)) (\<lambda>_.
     pbind (on_world (check_lock env lock ''migration lock expired before activation'')) (\<lambda>_.
     pbind (on_world (me_activate env lock bundle (bs_active_generation state))) (\<lambda>activation.
     pbind (plift (guard (ar_target_fingerprint activation = mb_target_schema_fingerprint bundle)
       (MigrationConflict ''activation target fingerprint does not match bundle''))) (\<lambda>_.
     pret activation))))"

definition validation_digest :: "validation_outcome list \<Rightarrow> string" where
  "validation_digest vs = json_digest (JList (map (\<lambda>v. JObj [(''name'', JStr (vo_name v)),
     (''passed'', JBool (vo_passed v)), (''resultDigest'', JStr (vo_result_digest v))]) vs))"

text \<open>From the postconditions to the report.  The last checkpoint does not advance \<open>sequence\<close>.\<close>

definition complete_migration ::
  "('w, 'a) migration_env \<Rightarrow> string \<Rightarrow> migration_bundle \<Rightarrow> string \<Rightarrow> activation_result
   \<Rightarrow> ('w \<times> migration_locals, migration_report) prog" where
  "complete_migration env binding_ref bundle run_id activation =
     pbind (check_conditions env fresh_token (mb_postconditions bundle)) (\<lambda>_.
     pbind get_locals (\<lambda>l.
     pbind (on_world (me_clock env)) (\<lambda>now.
     pbind (plift (CutoverEvidence \<lparr>ce_execution_id = run_id, ce_bundle_digest = mb_digest bundle,
        ce_source_fingerprint = mb_source_schema_fingerprint bundle,
        ce_target_fingerprint = mb_target_schema_fingerprint bundle,
        ce_source_boundary = ar_source_boundary activation,
        ce_previous_generation = ar_previous_generation activation,
        ce_active_generation = ar_active_generation activation,
        ce_validation_report_digest = validation_digest (ml_validations l),
        ce_activated_at = now, ce_digest = []\<rparr>)) (\<lambda>cutover.
     pbind (on_world (write_checkpoint env run_id bundle MIG_COMPLETED (ml_sequence l) None None)) (\<lambda>_.
     pbind (on_world (migration_evidence env binding_ref MIG_COMPLETED (cutover_to_mapping cutover))) (\<lambda>_.
     pbind (on_world (me_checkpoints env run_id)) (\<lambda>checkpoints.
     pret \<lparr>mr_execution_id = run_id, mr_state = MIG_COMPLETED, mr_bundle_digest = mb_digest bundle,
       mr_checkpoints = checkpoints, mr_validations = ml_validations l, mr_cutover = Some cutover,
       mr_failure_code = None\<rparr>)))))))"

definition run_migration ::
  "('w, 'a) migration_env \<Rightarrow> string \<Rightarrow> migration_bundle \<Rightarrow> string \<Rightarrow> ('w, bool) prog \<Rightarrow> string \<Rightarrow> string list
   \<Rightarrow> ('w \<times> migration_locals, migration_report) prog" where
  "run_migration env binding_ref bundle owner token run_id completed =
     pbind (plan_migration env binding_ref bundle owner token run_id) (\<lambda>(state, lock, plan).
     pbind (pfor (apply_compiled env bundle token run_id completed lock) (cpl_steps plan)) (\<lambda>_.
     pbind (checkpoint_next env run_id bundle MIG_VALIDATING None) (\<lambda>_.
     pbind (check_conditions env token (mb_validations bundle)) (\<lambda>_.
     pbind (checkpoint_next env run_id bundle MIG_ACTIVATING None) (\<lambda>_.
     pbind (activate_migration env bundle token state lock) (\<lambda>activation.
     complete_migration env binding_ref bundle run_id activation))))))"

fun failure_code :: "exn \<Rightarrow> string" where
  "failure_code (MeridianError _ _ code _ _) = code"
| "failure_code e = type_name e"

text \<open>The \<open>except Exception\<close> clause; the error is raised again.\<close>

definition fail_migration ::
  "('w, 'a) migration_env \<Rightarrow> string \<Rightarrow> migration_bundle \<Rightarrow> string \<Rightarrow> exn
   \<Rightarrow> ('w \<times> migration_locals, 'x) prog" where
  "fail_migration env binding_ref bundle run_id error =
     pbind get_locals (\<lambda>l.
     pbind (on_world (write_checkpoint env run_id bundle MIG_FAILED (ml_sequence l) None (Some (failure_code error)))) (\<lambda>_.
     pbind (on_world (migration_evidence env binding_ref MIG_FAILED
        (JObj [(''bundleDigest'', JStr (mb_digest bundle)), (''failureCode'', JStr (failure_code error))]))) (\<lambda>_.
     praise error)))"

definition release_held_lock :: "('w, 'a) migration_env \<Rightarrow> ('w \<times> migration_locals, unit) prog" where
  "release_held_lock env =
     pbind get_locals (\<lambda>l. case ml_lock l of None \<Rightarrow> pret () | Some lock \<Rightarrow> on_world (me_release_lock env lock))"

definition execute ::
  "('w, 'a) migration_env \<Rightarrow> string \<Rightarrow> migration_bundle \<Rightarrow> string \<Rightarrow> ('w, bool) prog \<Rightarrow> string option \<Rightarrow> string
   \<Rightarrow> ('w, migration_report) prog" where
  "execute env binding_ref bundle owner token execution_id uuid =
     pbind (plift (guard (binding_ref \<noteq> [] \<and> owner \<noteq> [])
       (ValueError ''binding_ref and owner must be non-empty''))) (\<lambda>_.
     pbind (plift (guard (execution_id \<noteq> Some [])
       (ValueError ''execution_id must be non-empty when supplied''))) (\<lambda>_.
     let run_id = (case execution_id of Some i \<Rightarrow> i | None \<Rightarrow> uuid) in
     pbind (me_checkpoints env run_id) (\<lambda>existing.
     pbind (plift (guard (\<forall>c \<in> set existing. mk_bundle_digest c = mb_digest bundle)
       (MigrationConflict ''execution id is already bound to another bundle''))) (\<lambda>_.
     pbind (plift (guard (\<forall>c \<in> set existing. mk_state c \<noteq> MIG_COMPLETED)
       (MigrationConflict ''migration execution is already completed''))) (\<lambda>_.
     pbind (with_locals
       \<lparr>ml_sequence = (if existing = [] then 0 else mk_sequence (last existing) + 1),
        ml_lock = None, ml_validations = []\<rparr>
       (pfinally
         (pcatch (run_migration env binding_ref bundle owner token run_id (completed_steps existing))
           (fail_migration env binding_ref bundle run_id))
         (release_held_lock env))) (\<lambda>(report, _).
     pret report))))))"

end
