(* ===== verification/Migration_Recorder.thy ===== *)
theory Migration_Recorder
  imports Migration Tracing
begin

text \<open>
  The executor over a recorder.  The locale states what the executor relies on: an append extends the
  history of one execution in increasing sequence or changes nothing, and no other hook touches the
  histories.  The in-memory recorder of \<open>executor.py\<close> provides it.
\<close>

section \<open>Programs that keep a property\<close>

definition keeps :: "('w \<Rightarrow> bool) \<Rightarrow> ('w, 'a) prog \<Rightarrow> bool" where
  "keeps J m \<longleftrightarrow> triple J m (\<lambda>_. J) (\<lambda>_. J)"

lemma keepsD: "keeps J m \<Longrightarrow> J w \<Longrightarrow> m w = (r, w') \<Longrightarrow> J w'"
  by (cases r) (auto simp: keeps_def dest: triple_Inr triple_Inl)

lemma keepsI: "(\<And>w r w'. J w \<Longrightarrow> m w = (r, w') \<Longrightarrow> J w') \<Longrightarrow> keeps J m"
  unfolding keeps_def by (rule tripleI) blast+

lemma keeps_pbind: "keeps J m \<Longrightarrow> (\<And>x. keeps J (f x)) \<Longrightarrow> keeps J (pbind m f)"
  unfolding keeps_def by (rule triple_pbind)

lemma keeps_pcatch: "keeps J m \<Longrightarrow> (\<And>e. keeps J (h e)) \<Longrightarrow> keeps J (pcatch m h)"
  unfolding keeps_def by (rule triple_pcatch [where R = "\<lambda>_. J"]) simp_all

lemma keeps_pfinally: "keeps J m \<Longrightarrow> keeps J f \<Longrightarrow> keeps J (pfinally m f)"
  unfolding keeps_def by (rule triple_pfinally [where R = "\<lambda>_. J" and S = "\<lambda>_. J"])

lemma keeps_pfor: "(\<And>x. keeps J (f x)) \<Longrightarrow> keeps J (pfor f xs)"
  unfolding keeps_def by (rule triple_pfor)

lemma keeps_basic [simp]: "keeps J (pret x)" "keeps J (praise e)" "keeps J (plift v)"
  "keeps J' get_locals" "keeps J fresh_token"
  by (auto intro!: keepsI simp: get_locals_def fresh_token_def)

definition in_world :: "('w \<Rightarrow> bool) \<Rightarrow> 'w \<times> 'l \<Rightarrow> bool" where
  "in_world J s \<longleftrightarrow> J (fst s)"

lemma keeps_on_world: "keeps J m \<Longrightarrow> keeps (in_world J) (on_world m)"
  by (auto simp: in_world_def keeps_def triple_def on_world_def split: prod.splits sum.splits)

lemma keeps_set_locals [simp]: "keeps (in_world J) (set_locals f)"
  by (auto intro!: keepsI simp: in_world_def set_locals_def)

lemma keeps_with_locals: "keeps (in_world J) m \<Longrightarrow> keeps J (with_locals l m)"
  unfolding keeps_def triple_def with_locals_def in_world_def by (fastforce split: prod.splits sum.splits)

lemma keeps_if [simp]: "keeps J (if c then m else m') \<longleftrightarrow> (if c then keeps J m else keeps J m')"
  by simp

lemma keeps_raise_if_cancelled: "keeps J token \<Longrightarrow> keeps J (raise_if_cancelled token)"
  unfolding raise_if_cancelled_def by (rule keeps_pbind) auto

lemmas keeps_intros = keeps_pbind keeps_pcatch keeps_pfinally keeps_pfor keeps_with_locals
  keeps_on_world keeps_raise_if_cancelled

section \<open>The contract\<close>

definition in_sequence :: "int migration_checkpoint list \<Rightarrow> bool" where
  "in_sequence cs \<longleftrightarrow> sorted_wrt (<) (map mk_sequence cs)"

lemma in_sequence_snoc:
  assumes "in_sequence cs" and "cs \<noteq> [] \<Longrightarrow> mk_sequence (last cs) < mk_sequence c"
  shows "in_sequence (cs @ [c])"
proof -
  have "mk_sequence x < mk_sequence c" if "x \<in> set cs" for x
  proof -
    from that have "cs \<noteq> []" by auto
    then obtain ys y where cs: "cs = ys @ [y]" by (metis rev_exhaust)
    with assms that show ?thesis by (auto simp: in_sequence_def sorted_wrt_append)
  qed
  with assms(1) show ?thesis by (simp add: in_sequence_def sorted_wrt_append)
qed

text \<open>The history grows by checkpoints of one execution and one bundle, in increasing sequence.\<close>

definition history_grown :: "(string \<Rightarrow> int migration_checkpoint list) \<Rightarrow> string \<Rightarrow> string
    \<Rightarrow> (string \<Rightarrow> int migration_checkpoint list) \<Rightarrow> bool" where
  "history_grown h run_id digest h' \<longleftrightarrow> (\<exists>ext. h' = h(run_id := h run_id @ ext) \<and>
     (\<forall>c \<in> set ext. mk_bundle_digest c = digest \<and> mk_execution_id c = run_id)) \<and> (\<forall>i. in_sequence (h' i))"

locale migration_history =
  fixes env :: "('w, 'a) migration_env" and history :: "'w \<Rightarrow> string \<Rightarrow> int migration_checkpoint list"
  assumes append_returns: "me_append env c w = (Inr u, w') \<Longrightarrow>
      history w' = (history w)(mk_execution_id c := history w (mk_execution_id c) @ [c]) \<and>
      (history w (mk_execution_id c) \<noteq> [] \<longrightarrow> mk_sequence (last (history w (mk_execution_id c))) < mk_sequence c)"
    and append_raises: "me_append env c w = (Inl e, w') \<Longrightarrow> history w' = history w"
    and checkpoints_read: "me_checkpoints env i w = (Inr (history w i), w)"
    and inspect_state_keeps: "keeps (\<lambda>w. history w = h) (me_inspect_state env b)"
    and acquire_lock_keeps: "keeps (\<lambda>w. history w = h) (me_acquire_lock env b ow d t)"
    and compile_keeps: "keeps (\<lambda>w. history w = h) (me_compile env bundle)"
    and apply_step_keeps: "keeps (\<lambda>w. history w = h) (me_apply_step env k s rt)"
    and activate_keeps: "keeps (\<lambda>w. history w = h) (me_activate env k bundle g)"
    and release_lock_keeps: "keeps (\<lambda>w. history w = h) (me_release_lock env k)"
    and run_keeps: "keeps (\<lambda>w. history w = h) (me_run env cond)"
    and evidence_keeps: "keeps (\<lambda>w. history w = h) (me_evidence env ev)"
    and clock_keeps: "keeps (\<lambda>w. history w = h) (me_clock env)"
begin

abbreviation grown :: "(string \<Rightarrow> int migration_checkpoint list) \<Rightarrow> string \<Rightarrow> string \<Rightarrow> 'w \<Rightarrow> bool" where
  "grown h run_id digest w \<equiv> history_grown h run_id digest (history w)"

lemma lift_keeps:
  assumes "\<And>h. keeps (\<lambda>w. history w = h) m"
  shows "keeps (grown h run_id digest) m"
proof (rule keepsI)
  fix w r w' assume "grown h run_id digest w" and "m w = (r, w')"
  with keepsD [OF assms refl] show "grown h run_id digest w'" by auto
qed

lemmas hooks_keep = inspect_state_keeps acquire_lock_keeps compile_keeps apply_step_keeps activate_keeps
  release_lock_keeps run_keeps evidence_keeps clock_keeps

lemmas hooks_keep_grown = hooks_keep [THEN lift_keeps]

lemma append_keeps_grown:
  assumes "mk_execution_id c = run_id" and "mk_bundle_digest c = digest"
  shows "keeps (grown h run_id digest) (me_append env c)"
proof (rule keepsI)
  fix w r w' assume grown: "grown h run_id digest w" and app: "me_append env c w = (r, w')"
  show "grown h run_id digest w'"
  proof (cases r)
    case (Inl e)
    with app grown append_raises show ?thesis by (auto simp: history_grown_def)
  next
    case (Inr u)
    from grown obtain ext where ext: "history w = h(run_id := h run_id @ ext)"
      "\<forall>c \<in> set ext. mk_bundle_digest c = digest \<and> mk_execution_id c = run_id"
      and seq: "\<And>i. in_sequence (history w i)" by (auto simp: history_grown_def)
    from append_returns app Inr assms have h': "history w' = (history w)(run_id := history w run_id @ [c])"
      and last: "history w run_id \<noteq> [] \<Longrightarrow> mk_sequence (last (history w run_id)) < mk_sequence c" by auto
    from h' ext(1) have "history w' = h(run_id := h run_id @ (ext @ [c]))" by (simp add: fun_eq_iff)
    moreover have "in_sequence (history w' i)" for i
      using seq in_sequence_snoc [OF seq last] by (simp add: h')
    ultimately show ?thesis
      unfolding history_grown_def using ext(2) assms by (intro conjI exI [of _ "ext @ [c]"]) auto
  qed
qed

lemma write_checkpoint_keeps: "keeps (grown h run_id (mb_digest bundle)) (write_checkpoint env run_id bundle st n step fc)"
  unfolding write_checkpoint_def
proof (rule keeps_pbind [OF clock_keeps [THEN lift_keeps]])
  fix now :: datetime
  let ?raw = "\<lparr>mk_execution_id = run_id, mk_bundle_digest = mb_digest bundle,
        mk_state = st, mk_sequence = n, mk_step_id = map_option as_step_id step,
        mk_result_fingerprint = map_option as_result_fingerprint step,
        mk_checkpoint_token = map_option as_checkpoint_token step, mk_failure_code = fc, mk_recorded_at = now\<rparr>"
  show "keeps (grown h run_id (mb_digest bundle)) (pbind (plift (MigrationCheckpoint ?raw))
      (\<lambda>c. pbind (me_append env c) (\<lambda>_. pret c)))"
  proof (cases "MigrationCheckpoint ?raw")
    case (Inr c)
    then have "mk_execution_id c = run_id" "mk_bundle_digest c = mb_digest bundle" by (auto simp: MigrationCheckpoint_def)
    with Inr show ?thesis by (simp add: keeps_pbind append_keeps_grown)
  qed simp
qed

lemmas parts_keep = hooks_keep_grown write_checkpoint_keeps

lemma check_lock_keeps: "keeps (grown h run_id d) (check_lock env k m)"
  unfolding check_lock_def by (intro keeps_pbind parts_keep) simp_all

lemma migration_evidence_keeps: "keeps (grown h run_id d) (migration_evidence env b st details)"
  unfolding migration_evidence_def record_evidence_def by (intro keeps_pbind parts_keep) simp_all

lemma run_conditions_keeps:
  "keeps (grown h run_id d) token \<Longrightarrow> keeps (grown h run_id d) (run_conditions env token cs)"
  by (induction cs) (auto intro!: keeps_intros parts_keep)

lemmas phases_keep = parts_keep check_lock_keeps migration_evidence_keeps run_conditions_keeps

lemma plan_migration_keeps:
  "keeps (grown h run_id (mb_digest bundle)) token \<Longrightarrow>
   keeps (in_world (grown h run_id (mb_digest bundle))) (plan_migration env b bundle ow token run_id)"
  unfolding plan_migration_def check_conditions_def checkpoint_next_def
  by (intro keeps_intros; simp add: keeps_intros phases_keep)

lemma apply_compiled_keeps:
  "keeps (grown h run_id (mb_digest bundle)) token \<Longrightarrow>
   keeps (in_world (grown h run_id (mb_digest bundle))) (apply_compiled env bundle token run_id completed k s)"
  unfolding apply_compiled_def checkpoint_next_def
  by (intro keeps_intros; simp add: keeps_intros phases_keep)

lemma activate_migration_keeps:
  "keeps (grown h run_id d) token \<Longrightarrow> keeps (in_world (grown h run_id d)) (activate_migration env bundle token state k)"
  unfolding activate_migration_def by (intro keeps_intros; simp add: keeps_intros phases_keep)

lemma checkpoints_keep: "keeps J (me_checkpoints env i)"
  by (rule keepsI) (simp add: checkpoints_read)

lemma complete_migration_keeps:
  "keeps (in_world (grown h run_id (mb_digest bundle))) (complete_migration env b bundle run_id a)"
  unfolding complete_migration_def check_conditions_def
  by (intro keeps_intros; simp add: keeps_intros phases_keep checkpoints_keep)

lemma run_migration_keeps:
  "keeps (grown h run_id (mb_digest bundle)) token \<Longrightarrow>
   keeps (in_world (grown h run_id (mb_digest bundle))) (run_migration env b bundle ow token run_id completed)"
  unfolding run_migration_def checkpoint_next_def check_conditions_def
  by (intro keeps_intros; simp add: keeps_intros phases_keep split_def
      plan_migration_keeps apply_compiled_keeps activate_migration_keeps complete_migration_keeps)

lemma fail_migration_keeps:
  "keeps (in_world (grown h run_id (mb_digest bundle))) (fail_migration env b bundle run_id e)"
  unfolding fail_migration_def by (intro keeps_intros; simp add: keeps_intros phases_keep)

lemma release_held_lock_keeps: "keeps (in_world (grown h run_id d)) (release_held_lock env)"
  unfolding release_held_lock_def
  by (intro keeps_intros; simp add: keeps_intros phases_keep split: option.split)

lemma execute_keeps:
  assumes "keeps (grown h run_id (mb_digest bundle)) token"
    and "run_id = (case execution_id of Some i \<Rightarrow> i | None \<Rightarrow> uuid)"
  shows "keeps (grown h run_id (mb_digest bundle)) (execute env b bundle ow token execution_id uuid)"
  unfolding execute_def Let_def assms(2) [symmetric]
  by (intro keeps_intros; simp add: keeps_intros checkpoints_keep run_migration_keeps [OF assms(1)] fail_migration_keeps
      release_held_lock_keeps split: prod.split)

lemma execute_grows:
  assumes "execute env b bundle ow token execution_id uuid w = (r, w')"
    and "run_id = (case execution_id of Some i \<Rightarrow> i | None \<Rightarrow> uuid)"
    and "\<And>h. keeps (\<lambda>w. history w = h) token" and "\<forall>i. in_sequence (history w i)"
  shows "history_grown (history w) run_id (mb_digest bundle) (history w')"
proof (rule keepsD [OF execute_keeps [OF lift_keeps [OF assms(3)] assms(2)] _ assms(1)])
  show "grown (history w) run_id (mb_digest bundle) w"
    unfolding history_grown_def using assms(4) by (auto intro: exI [of _ "[]"])
qed

text \<open>A report is returned only with the completion on record.\<close>

lemma write_checkpoint_appends:
  assumes "write_checkpoint env run_id bundle st n step fc w = (Inr c, w')"
  shows "c \<in> set (history w' run_id) \<and> mk_state c = st"
proof -
  from assms obtain w1 where "me_append env c w1 = (Inr (), w')" and "mk_state c = st" "mk_execution_id c = run_id"
    by (auto simp: write_checkpoint_def pbind_eq_Inr MigrationCheckpoint_def)
  with append_returns [of c w1 "()" w'] show ?thesis by simp
qed

lemma evidence_history:
  assumes "migration_evidence env b st d w = (r, w')"
  shows "history w' = history w"
proof -
  have "keeps (\<lambda>w. history w = h) (migration_evidence env b st d)" for h
    unfolding migration_evidence_def record_evidence_def by (intro keeps_pbind hooks_keep) simp_all
  from keepsD [OF this refl assms] show ?thesis .
qed

lemma run_migration_completes:
  assumes "run_migration env b bundle ow token run_id completed (w, l) = (Inr report, (w', l'))"
  shows "mr_checkpoints report = history w' run_id \<and> (\<exists>c \<in> set (history w' run_id). mk_state c = MIG_COMPLETED)"
proof -
  from assms obtain a s where "complete_migration env b bundle run_id a s = (Inr report, (w', l'))"
    unfolding run_migration_def pbind_eq_Inr by (auto simp: pbind_eq_Inr split: prod.splits)
  then obtain c w1 w2 d n where wr: "write_checkpoint env run_id bundle MIG_COMPLETED n None None w1 = (Inr c, w2)"
    and ev: "migration_evidence env b MIG_COMPLETED d w2 = (Inr (), w')"
    and cps: "mr_checkpoints report = history w' run_id"
    unfolding complete_migration_def pbind_eq_Inr
    by (cases s) (auto simp: on_world_eq checkpoints_read)
  with write_checkpoint_appends [OF wr] evidence_history [OF ev] show ?thesis by auto
qed

lemma release_history:
  assumes "release_held_lock env (w, l) = (r, (w', l'))"
  shows "history w' = history w"
proof (cases "ml_lock l")
  case None
  with assms show ?thesis by (auto simp: release_held_lock_def pbind_def)
next
  case (Some k)
  with assms have "me_release_lock env k w = (r, w')" by (auto simp: release_held_lock_def pbind_def on_world_eq)
  from keepsD [OF release_lock_keeps refl this] show ?thesis .
qed

lemma execute_completes:
  assumes "execute env b bundle ow token execution_id uuid w = (Inr report, w')"
    and "run_id = (case execution_id of Some i \<Rightarrow> i | None \<Rightarrow> uuid)"
  shows "mr_checkpoints report = history w' run_id \<and> (\<exists>c \<in> set (history w' run_id). mk_state c = MIG_COMPLETED)"
proof -
  from assms obtain l0 l' completed w0 where "pfinally
      (pcatch (run_migration env b bundle ow token run_id completed) (fail_migration env b bundle run_id))
      (release_held_lock env) (w0, l0) = (Inr report, (w', l'))"
    unfolding execute_def Let_def assms(2) [symmetric] pbind_eq_Inr by (auto simp: with_locals_Inr)
  then obtain w1 l1 where catch: "pcatch (run_migration env b bundle ow token run_id completed)
      (fail_migration env b bundle run_id) (w0, l0) = (Inr report, (w1, l1))"
    and release: "release_held_lock env (w1, l1) = (Inr (), (w', l'))"
    by (auto simp: pfinally_def split: prod.splits sum.splits)
  from catch have "run_migration env b bundle ow token run_id completed (w0, l0) = (Inr report, (w1, l1))"
    by (auto simp: pcatch_eq_Inr fail_migration_def pbind_eq_Inr)
  with run_migration_completes release_history [OF release] show ?thesis by fastforce
qed

lemma execute_rejects_completed:
  assumes "c \<in> set (history w run_id)" and "mk_state c = MIG_COMPLETED" and "run_id \<noteq> []"
  shows "\<exists>e. execute env b bundle ow token (Some run_id) uuid w = (Inl e, w)"
  using assms by (auto simp: execute_def pbind_def checkpoints_read guard_def)

end

section \<open>The in-memory recorder provides it\<close>

definition on_recorder :: "(recorder, 'a) prog \<Rightarrow> ('v \<times> recorder, 'a) prog" where
  "on_recorder m s = (case m (snd s) of (r, rs) \<Rightarrow> (r, (fst s, rs)))"

text \<open>The environment with the in-memory recorder beside the world of the other hooks.\<close>

definition in_memory_migration :: "('v, 'a) migration_env \<Rightarrow> ('v \<times> recorder, 'a) migration_env" where
  "in_memory_migration env =
     \<lparr>me_inspect_state = (\<lambda>b. on_world (me_inspect_state env b)),
      me_acquire_lock = (\<lambda>b ow d t. on_world (me_acquire_lock env b ow d t)),
      me_compile = (\<lambda>b. on_world (me_compile env b)),
      me_apply_step = (\<lambda>k s t. on_world (me_apply_step env k s t)),
      me_activate = (\<lambda>k b g. on_world (me_activate env k b g)),
      me_release_lock = (\<lambda>k. on_world (me_release_lock env k)),
      me_run = (\<lambda>c. on_world (me_run env c)),
      me_append = (\<lambda>c. on_recorder (recorder_append c)),
      me_checkpoints = (\<lambda>i. on_recorder (recorder_checkpoints i)),
      me_evidence = (\<lambda>ev. on_world (me_evidence env ev)),
      me_lock_duration = me_lock_duration env,
      me_clock = on_world (me_clock env)\<rparr>"

lemma in_memory_migration_simps [simp]:
  "me_inspect_state (in_memory_migration env) b = on_world (me_inspect_state env b)"
  "me_acquire_lock (in_memory_migration env) b ow d t = on_world (me_acquire_lock env b ow d t)"
  "me_compile (in_memory_migration env) bu = on_world (me_compile env bu)"
  "me_apply_step (in_memory_migration env) k s tk = on_world (me_apply_step env k s tk)"
  "me_activate (in_memory_migration env) k bu g = on_world (me_activate env k bu g)"
  "me_release_lock (in_memory_migration env) k = on_world (me_release_lock env k)"
  "me_run (in_memory_migration env) c = on_world (me_run env c)"
  "me_append (in_memory_migration env) cp = on_recorder (recorder_append cp)"
  "me_checkpoints (in_memory_migration env) i = on_recorder (recorder_checkpoints i)"
  "me_evidence (in_memory_migration env) ev = on_world (me_evidence env ev)"
  "me_lock_duration (in_memory_migration env) = me_lock_duration env"
  "me_clock (in_memory_migration env) = on_world (me_clock env)"
  by (simp_all add: in_memory_migration_def)

lemma recorded_update: "recorded (AList.update i cs rs) = (recorded rs)(i := cs)"
  by (auto simp: recorded_def fun_eq_iff)

lemma recorder_append_returns:
  assumes "recorder_append c rs = (Inr u, rs')"
  shows "recorded rs' = (recorded rs)(mk_execution_id c := recorded rs (mk_execution_id c) @ [c]) \<and>
    (recorded rs (mk_execution_id c) \<noteq> [] \<longrightarrow> mk_sequence (last (recorded rs (mk_execution_id c))) < mk_sequence c)"
  using assms by (auto simp: recorder_append_def Let_def recorded_update split: if_splits)

lemma recorder_append_raises: "recorder_append c rs = (Inl e, rs') \<Longrightarrow> rs' = rs"
  by (auto simp: recorder_append_def Let_def split: if_splits)

lemma keeps_beside: "keeps (\<lambda>s. recorded (snd s) = h) (on_world m)"
  by (rule keepsI) (auto simp: on_world_def split: prod.splits)

interpretation memory_recorder: migration_history "in_memory_migration env" "\<lambda>s. recorded (snd s)" for env
proof unfold_locales
  fix c and w w' :: "'a \<times> recorder" and u
  assume "me_append (in_memory_migration env) c w = (Inr u, w')"
  then show "recorded (snd w') = (recorded (snd w))(mk_execution_id c := recorded (snd w) (mk_execution_id c) @ [c]) \<and>
      (recorded (snd w) (mk_execution_id c) \<noteq> [] \<longrightarrow>
         mk_sequence (last (recorded (snd w) (mk_execution_id c))) < mk_sequence c)"
    by (auto simp: in_memory_migration_def on_recorder_def split: prod.splits dest!: recorder_append_returns)
next
  fix c and w w' :: "'a \<times> recorder" and e
  assume "me_append (in_memory_migration env) c w = (Inl e, w')"
  then show "recorded (snd w') = recorded (snd w)"
    by (auto simp: in_memory_migration_def on_recorder_def split: prod.splits dest!: recorder_append_raises)
qed (auto simp: in_memory_migration_def on_recorder_def recorder_checkpoints_def keeps_beside)

text \<open>C23: over the in-memory recorder an execution, however it ends, only appends: the checkpoints of its
  own id gain a suffix that carries its bundle's digest, those of every other id stay as they were,
  and every history stays in strictly increasing sequence.\<close>

theorem migration_history_grows:
  assumes "execute (in_memory_migration env) b bundle ow (on_world token) execution_id uuid (v, rs) = (r, (v', rs'))"
    and "\<forall>i. in_sequence (recorded rs i)"
  shows "history_grown (recorded rs) (case execution_id of Some i \<Rightarrow> i | None \<Rightarrow> uuid) (mb_digest bundle) (recorded rs')"
  using memory_recorder.execute_grows [OF assms(1) refl keeps_beside] assms(2) by simp

text \<open>C24: a migration that returned its report never runs again: the report holds the recorded history,
  and every later execution under that id, with whatever adapter, bundle and owner, raises without
  calling anything or recording anything.\<close>

theorem completed_migration_is_final:
  assumes "execute (in_memory_migration env) b bundle ow token execution_id uuid (v, rs) = (Inr report, (v', rs'))"
    and "run_id = (case execution_id of Some i \<Rightarrow> i | None \<Rightarrow> uuid)"
  shows "mr_checkpoints report = recorded rs' run_id \<and>
    (\<exists>e. execute (in_memory_migration env') b' bundle' ow' token' (Some run_id) uuid' (v'', rs') = (Inl e, (v'', rs')))"
proof -
  from memory_recorder.execute_completes [OF assms] obtain c where
    "mr_checkpoints report = recorded rs' run_id" "c \<in> set (recorded rs' run_id)" "mk_state c = MIG_COMPLETED" by auto
  moreover have "\<exists>e. execute (in_memory_migration env') b' bundle' ow' token' (Some []) uuid' (v'', rs') = (Inl e, (v'', rs'))"
    by (auto simp: execute_def guard_def)
  ultimately show ?thesis
    using memory_recorder.execute_rejects_completed [of c "(v'', rs')" run_id env' b' bundle' ow' token' uuid']
    by (cases "run_id = []") auto
qed

end
