(* ===== verification/Migration_Trace.thy ===== *)
theory Migration_Trace
  imports Migration Tracing
begin

text \<open>
  What each phase of a migration does to its adapter, validation runner and recorder, whatever they
  return or raise.  \<open>traced_migration\<close> wraps any environment so that these calls are recorded; a
  phase that returns extends the record by exactly the calls it is meant to make, a phase that raises
  by some of them.
\<close>

section \<open>Recording the calls\<close>

datatype 'a migration_call =
    Checked "json migration_condition" validation_outcome
  | Locked "int migration_lock"
  | Applied "int migration_lock" "'a compiled_step"
  | Activated "int migration_lock" string
  | Recorded "int migration_checkpoint"
  | Unlocked "int migration_lock"

definition traced_migration :: "('w, 'a) migration_env \<Rightarrow> ('w \<times> 'a migration_call list, 'a) migration_env" where
  "traced_migration env =
     \<lparr>me_inspect_state = (\<lambda>b. on_world (me_inspect_state env b)),
      me_acquire_lock = (\<lambda>b ow d t. logged Locked (me_acquire_lock env b ow d t)),
      me_compile = (\<lambda>b. on_world (me_compile env b)),
      me_apply_step = (\<lambda>k s t. attempt (Applied k s) (me_apply_step env k s t)),
      me_activate = (\<lambda>k b g. attempt (Activated k g) (me_activate env k b g)),
      me_release_lock = (\<lambda>k. attempt (Unlocked k) (me_release_lock env k)),
      me_run = (\<lambda>c. logged (Checked c) (me_run env c)),
      me_append = (\<lambda>c. logged (\<lambda>_. Recorded c) (me_append env c)),
      me_checkpoints = (\<lambda>i. on_world (me_checkpoints env i)),
      me_evidence = (\<lambda>ev. on_world (me_evidence env ev)),
      me_lock_duration = me_lock_duration env,
      me_clock = on_world (me_clock env)\<rparr>"

lemma traced_migration_simps [simp]:
  "me_inspect_state (traced_migration env) b = on_world (me_inspect_state env b)"
  "me_acquire_lock (traced_migration env) b ow d t = logged Locked (me_acquire_lock env b ow d t)"
  "me_compile (traced_migration env) bu = on_world (me_compile env bu)"
  "me_apply_step (traced_migration env) k s tk = attempt (Applied k s) (me_apply_step env k s tk)"
  "me_activate (traced_migration env) k bu g = attempt (Activated k g) (me_activate env k bu g)"
  "me_release_lock (traced_migration env) k = attempt (Unlocked k) (me_release_lock env k)"
  "me_run (traced_migration env) c = logged (Checked c) (me_run env c)"
  "me_append (traced_migration env) cp = logged (\<lambda>_. Recorded cp) (me_append env cp)"
  "me_checkpoints (traced_migration env) i = on_world (me_checkpoints env i)"
  "me_evidence (traced_migration env) ev = on_world (me_evidence env ev)"
  "me_lock_duration (traced_migration env) = me_lock_duration env"
  "me_clock (traced_migration env) = on_world (me_clock env)"
  by (simp_all add: traced_migration_def)

section \<open>Programs that record nothing\<close>

lemma quiet_check_lock: "quiet (check_lock (traced_migration env) k m)"
  unfolding check_lock_def by (simp add: quiet_pbind quiet_on_world)

lemma quiet_migration_evidence: "quiet (migration_evidence (traced_migration env) b st d)"
  unfolding migration_evidence_def record_evidence_def by (simp add: quiet_pbind quiet_on_world)

section \<open>Conditions and checkpoints\<close>

definition passed :: "json migration_condition list \<Rightarrow> validation_outcome list \<Rightarrow> bool" where
  "passed cs outs \<longleftrightarrow> length outs = length cs \<and> (\<forall>v \<in> set outs. vo_passed v)"

definition checks :: "json migration_condition list \<Rightarrow> validation_outcome list \<Rightarrow> 'a migration_call list" where
  "checks cs outs = map2 Checked cs outs"

fun is_check :: "'a migration_call \<Rightarrow> bool" where
  "is_check (Checked _ _) = True"
| "is_check _ = False"

fun is_recorded :: "'a migration_call \<Rightarrow> bool" where
  "is_recorded (Recorded _) = True"
| "is_recorded _ = False"

lemma checks_are_checks: "x \<in> set (checks cs outs) \<Longrightarrow> is_check x"
  by (auto simp: checks_def)

lemma run_conditions_trace:
  assumes "run_conditions (traced_migration env) token cs (w, tr) = (r, (w', tr'))" and "quiet token"
  shows "case r of Inr outs \<Rightarrow> passed cs outs \<and> tr' = tr @ checks cs outs
    | Inl e \<Rightarrow> \<exists>post. tr' = tr @ post \<and> (\<forall>c \<in> set post. is_check c)"
  using assms
proof (induction cs arbitrary: w tr r)
  case Nil
  then show ?case by (auto simp: passed_def checks_def)
next
  case (Cons c cs)
  let ?T = "traced_migration env"
  obtain r0 w0 where cancel: "raise_if_cancelled token (w, tr) = (r0, (w0, tr))"
    using quiet_raise_if_cancelled [OF Cons.prems(2)] by (blast dest: quietD)
  obtain r1 w1 where run: "me_run env c w0 = (r1, w1)" by (metis prod.exhaust)
  show ?case
  proof (cases r0)
    case Inl
    with cancel Cons.prems(1) show ?thesis by (auto simp: pbind_def)
  next
    case r0: Inr
    show ?thesis
    proof (cases r1)
      case Inl
      with run cancel r0 Cons.prems(1) show ?thesis by (auto simp: pbind_def logged_def)
    next
      case (Inr v)
      with run cancel r0 Cons.prems(1)
      have rest: "(if \<not> vo_passed v then praise (MigrationFailed (''migration condition '' @ py_repr (mc_name c) @ '' failed''))
          else pbind (run_conditions ?T token cs) (\<lambda>outcomes. pret (v # outcomes)))
            (w1, tr @ [Checked c v]) = (r, (w', tr'))"
        by (simp add: pbind_def logged_def)
      show ?thesis
      proof (cases "vo_passed v")
        case True
        with rest obtain r2 where more: "run_conditions ?T token cs (w1, tr @ [Checked c v]) = (r2, (w', tr'))"
          and r: "r = (case r2 of Inl e \<Rightarrow> Inl e | Inr outs \<Rightarrow> Inr (v # outs))"
          by (auto simp: pbind_def split: prod.splits sum.splits)
        from Cons.IH [OF more Cons.prems(2)] True r show ?thesis
          by (cases r2) (auto simp: passed_def checks_def)
      qed (use rest in auto)
    qed
  qed
qed

lemma check_conditions_trace:
  assumes "check_conditions (traced_migration env) token cs ((w, tr), l) = (r, ((w', tr'), l'))" and "quiet token"
  shows "ml_lock l' = ml_lock l \<and> (case r of
      Inr _ \<Rightarrow> \<exists>outs. passed cs outs \<and> tr' = tr @ checks cs outs \<and> ml_validations l' = ml_validations l @ outs
    | Inl e \<Rightarrow> \<exists>post. tr' = tr @ post \<and> (\<forall>c \<in> set post. is_check c))"
proof -
  obtain r1 w1 tr1 where run: "run_conditions (traced_migration env) token cs (w, tr) = (r1, (w1, tr1))"
    by (metis prod_cases3)
  from run_conditions_trace [OF run assms(2)] run assms(1) show ?thesis
    by (cases r1) (auto simp: check_conditions_def pbind_def on_world_def)
qed

lemma write_checkpoint_trace:
  assumes "write_checkpoint (traced_migration env) run_id bundle st n step fc (w, tr) = (r, (w', tr'))"
  shows "case r of Inr c \<Rightarrow> tr' = tr @ [Recorded c] \<and> mk_state c = st \<and> mk_execution_id c = run_id \<and>
      mk_sequence c = n \<and> mk_step_id c = map_option as_step_id step \<and> mk_failure_code c = fc
    | Inl e \<Rightarrow> tr' = tr"
proof (cases r)
  case (Inl e)
  with assms show ?thesis
    by (auto simp: write_checkpoint_def pbind_eq_Inl on_world_eq logged_eq)
next
  case (Inr c)
  with assms show ?thesis
    by (auto simp: write_checkpoint_def pbind_eq_Inr on_world_eq logged_eq MigrationCheckpoint_def)
qed

lemma checkpoint_next_trace:
  assumes "checkpoint_next (traced_migration env) run_id bundle st step ((w, tr), l) = (r, ((w', tr'), l'))"
  shows "ml_lock l' = ml_lock l \<and> ml_validations l' = ml_validations l \<and> (case r of
      Inr _ \<Rightarrow> \<exists>c. tr' = tr @ [Recorded c] \<and> mk_state c = st \<and> mk_step_id c = map_option as_step_id step
    | Inl e \<Rightarrow> tr' = tr)"
proof -
  obtain r1 w1 tr1 where run: "write_checkpoint (traced_migration env) run_id bundle st (ml_sequence l) step None (w, tr) = (r1, (w1, tr1))"
    by (metis prod_cases3)
  from write_checkpoint_trace [OF run] run assms show ?thesis
    by (cases r1) (auto simp: checkpoint_next_def pbind_def on_world_def)
qed

section \<open>The phases\<close>

lemma traced_bind:
  assumes "pbind m f (s :: ('w \<times> 'c list) \<times> 'l) = (r, s')"
  obtains (raised) e where "m s = (Inl e, s')" "r = Inl e"
    | (returned) x w1 tr1 l1 where "m s = (Inr x, ((w1, tr1), l1))" "f x ((w1, tr1), l1) = (r, s')"
proof -
  obtain v w1 tr1 l1 where m: "m s = (v, ((w1, tr1), l1))" by (metis prod.exhaust)
  with assms raised returned show thesis by (cases v) (auto simp: pbind_def)
qed

lemma quiet_hook_traces:
  "raise_if_cancelled token (w, tr) = (r, (w', tr')) \<Longrightarrow> quiet token \<Longrightarrow> tr' = tr"
  "check_lock (traced_migration env) k m (w, tr) = (r1, (w', tr')) \<Longrightarrow> tr' = tr"
  "migration_evidence (traced_migration env) b st d (w, tr) = (r1, (w', tr')) \<Longrightarrow> tr' = tr"
  by (rule quiet_trace [rotated], assumption, erule quiet_raise_if_cancelled,
      rule quiet_trace [OF quiet_check_lock], assumption, rule quiet_trace [OF quiet_migration_evidence], assumption)

lemmas phase_traces = quiet_hook_traces check_conditions_trace checkpoint_next_trace

text \<open>The calls made under a lock: applications of steps still to do, checks and checkpoints.\<close>

fun under_lock :: "int migration_lock \<Rightarrow> string list \<Rightarrow> 'a migration_call \<Rightarrow> bool" where
  "under_lock k completed (Applied k' s) \<longleftrightarrow> k' = k \<and> cs_step_id s \<notin> set completed"
| "under_lock k completed (Checked _ _) \<longleftrightarrow> True"
| "under_lock k completed (Recorded _) \<longleftrightarrow> True"
| "under_lock k completed _ \<longleftrightarrow> False"

definition locked_trace :: "migration_bundle \<Rightarrow> string list \<Rightarrow> int migration_lock \<Rightarrow> 'a migration_call list \<Rightarrow> bool" where
  "locked_trace bundle completed k tr \<longleftrightarrow> (\<exists>outs post. passed (mb_preconditions bundle) outs \<and>
     tr = checks (mb_preconditions bundle) outs @ [Locked k] @ post \<and> (\<forall>c \<in> set post. under_lock k completed c))"

lemma locked_trace_start:
  "passed (mb_preconditions bundle) outs \<Longrightarrow> locked_trace bundle completed k (checks (mb_preconditions bundle) outs @ [Locked k])"
  unfolding locked_trace_def by fastforce

lemma locked_trace_extend:
  assumes "locked_trace bundle completed k tr" and "\<forall>c \<in> set cs. under_lock k completed c"
  shows "locked_trace bundle completed k (tr @ cs)"
proof -
  obtain outs post where "passed (mb_preconditions bundle) outs" and "\<forall>c \<in> set post. under_lock k completed c"
    and "tr = checks (mb_preconditions bundle) outs @ [Locked k] @ post"
    using assms(1) unfolding locked_trace_def by blast
  with assms(2) show ?thesis
    unfolding locked_trace_def by (intro exI [of _ outs] exI [of _ "post @ cs"]) auto
qed

lemma locked_trace_planned:
  "passed (mb_preconditions bundle) outs \<Longrightarrow>
   locked_trace bundle completed k (checks (mb_preconditions bundle) outs @ [Locked k, Recorded c])"
  using locked_trace_extend [OF locked_trace_start, where cs = "[Recorded c]"] by simp

lemma plan_migration_trace:
  assumes "plan_migration (traced_migration env) b bundle ow token run_id ((w, []), l) = (r, ((w', tr'), l'))"
    and "quiet token" and "ml_lock l = None" and "ml_validations l = []"
  shows "case r of
      Inr (state, k, plan) \<Rightarrow> \<exists>outs c. passed (mb_preconditions bundle) outs \<and>
        tr' = checks (mb_preconditions bundle) outs @ [Locked k, Recorded c] \<and> mk_state c = MIG_PLANNED \<and>
        ml_lock l' = Some k \<and> ml_validations l' = outs \<and> lk_owner k = ow \<and> lk_bundle_digest k = mb_digest bundle \<and>
        map cs_step_id (cpl_steps plan) = map ms_step_id (mb_steps bundle)
    | Inl e \<Rightarrow> ml_lock l' = None \<and> (\<forall>c \<in> set tr'. is_check c) \<or>
        (\<exists>k. ml_lock l' = Some k \<and> locked_trace bundle completed k tr')"
  using assms(1) unfolding plan_migration_def
  by (elim traced_bind)
     (use assms(2-) in \<open>auto simp: on_world_eq logged_eq checks_are_checks verify_compiled_def
        dest!: phase_traces intro: locked_trace_start locked_trace_planned\<close>)

text \<open>The steps a plan still has to apply, each followed by its checkpoint.\<close>

definition todo :: "string list \<Rightarrow> 'a compiled_step list \<Rightarrow> 'a compiled_step list" where
  "todo completed steps = filter (\<lambda>s. cs_step_id s \<notin> set completed) steps"

fun applications :: "int migration_lock \<Rightarrow> 'a compiled_step list \<Rightarrow> 'a migration_call list \<Rightarrow> bool" where
  "applications k [] tr \<longleftrightarrow> tr = []"
| "applications k (s # ss) tr \<longleftrightarrow> (\<exists>c rest. tr = Applied k s # Recorded c # rest \<and>
     mk_state c = MIG_APPLYING \<and> mk_step_id c = Some (cs_step_id s) \<and> applications k ss rest)"

lemma applications_under_lock:
  "applications k (todo completed steps) tr \<Longrightarrow> c \<in> set tr \<Longrightarrow> under_lock k completed c"
  by (induction steps arbitrary: tr) (auto simp: todo_def split: if_splits)

lemma apply_compiled_trace:
  assumes "apply_compiled (traced_migration env) bundle token run_id completed k s ((w, tr), l) = (r, ((w', tr'), l'))"
    and "quiet token"
  shows "ml_lock l' = ml_lock l \<and> ml_validations l' = ml_validations l \<and> (case r of
      Inr _ \<Rightarrow> \<exists>ext. tr' = tr @ ext \<and> applications k (todo completed [s]) ext
    | Inl e \<Rightarrow> \<exists>ext. tr' = tr @ ext \<and> (\<forall>c \<in> set ext. under_lock k completed c))"
  using assms(1) unfolding apply_compiled_def
  by (elim traced_bind)
     (use assms(2) in \<open>auto simp: on_world_eq attempt_eq todo_def elim!: traced_bind dest!: phase_traces
        split: if_splits sum.splits\<close>)

lemma apply_all_trace:
  assumes "pfor (apply_compiled (traced_migration env) bundle token run_id completed k) steps ((w, tr), l) = (r, ((w', tr'), l'))"
    and "quiet token"
  shows "ml_lock l' = ml_lock l \<and> ml_validations l' = ml_validations l \<and> (case r of
      Inr _ \<Rightarrow> \<exists>ext. tr' = tr @ ext \<and> applications k (todo completed steps) ext
    | Inl e \<Rightarrow> \<exists>ext. tr' = tr @ ext \<and> (\<forall>c \<in> set ext. under_lock k completed c))"
  using assms(1)
proof (induction steps arbitrary: w tr l)
  case Nil
  then show ?case by (auto simp: todo_def)
next
  case (Cons s steps)
  from Cons.prems show ?case
    unfolding pfor.simps
  proof (cases rule: traced_bind)
    case (raised e)
    with apply_compiled_trace [OF raised(1) assms(2)] show ?thesis by simp
  next
    case (returned x w1 tr1 l1)
    obtain first where first: "tr1 = tr @ first" "applications k (todo completed [s]) first"
      and l1: "ml_lock l1 = ml_lock l" "ml_validations l1 = ml_validations l"
      using apply_compiled_trace [OF returned(1) assms(2)] by auto
    from first(2) have cons: "applications k (todo completed (s # steps)) (first @ rest)"
      if "applications k (todo completed steps) rest" for rest
      using that by (auto simp: todo_def split: if_splits)
    have under: "\<forall>c \<in> set first. under_lock k completed c" using applications_under_lock [OF first(2)] by blast
    show ?thesis
    proof (cases r)
      case (Inl e)
      with Cons.IH [OF returned(2)] obtain ext where "tr' = tr1 @ ext" "\<forall>c \<in> set ext. under_lock k completed c"
        and "ml_lock l' = ml_lock l1" "ml_validations l' = ml_validations l1" by auto
      with Inl first(1) l1 under show ?thesis by (auto intro: exI [of _ "first @ ext"])
    next
      case (Inr u)
      with Cons.IH [OF returned(2)] obtain ext where "tr' = tr1 @ ext" "applications k (todo completed steps) ext"
        and "ml_lock l' = ml_lock l1" "ml_validations l' = ml_validations l1" by auto
      with Inr first(1) l1 cons show ?thesis by (auto intro: exI [of _ "first @ ext"])
    qed
  qed
qed

lemma activate_migration_trace:
  assumes "activate_migration (traced_migration env) bundle token state k ((w, tr), l) = (r, ((w', tr'), l'))"
    and "quiet token"
  shows "l' = l \<and> (case r of
      Inr a \<Rightarrow> tr' = tr @ [Activated k (bs_active_generation state)] \<and>
        ar_target_fingerprint a = mb_target_schema_fingerprint bundle
    | Inl e \<Rightarrow> tr' = tr \<or> tr' = tr @ [Activated k (bs_active_generation state)])"
  using assms(1) unfolding activate_migration_def
  by (elim traced_bind)
     (use assms(2) in \<open>auto simp: on_world_eq attempt_eq dest!: phase_traces\<close>)

end
