(* ===== verification/Migration_Theorems.thy ===== *)
theory Migration_Theorems
  imports Migration_Trace
begin

text \<open>
  The executor as a whole: what its adapter sees on every exit, when a target is activated, and what
  the in-memory recorder keeps of it.
\<close>

section \<open>Up to and after the activation\<close>

lemma complete_migration_trace:
  assumes "complete_migration (traced_migration env) b bundle run_id a ((w, tr), l) = (r, ((w', tr'), l'))"
  shows "ml_lock l' = ml_lock l \<and> (case r of
      Inr report \<Rightarrow> \<exists>outs c cut. passed (mb_postconditions bundle) outs \<and> mk_state c = MIG_COMPLETED \<and>
        tr' = tr @ checks (mb_postconditions bundle) outs @ [Recorded c] \<and>
        mr_state report = MIG_COMPLETED \<and> mr_validations report = ml_validations l @ outs \<and>
        mr_cutover report = Some cut \<and> ce_active_generation cut = ar_active_generation a \<and>
        ce_validation_report_digest cut = validation_digest (ml_validations l @ outs)
    | Inl e \<Rightarrow> \<exists>ext. tr' = tr @ ext \<and> (\<forall>c \<in> set ext. is_check c \<or> is_recorded c))"
  using assms unfolding complete_migration_def
  by (elim traced_bind)
     (auto simp: on_world_eq checks_are_checks CutoverEvidence_def Let_def
        dest!: phase_traces write_checkpoint_trace)

definition validated_trace :: "migration_bundle \<Rightarrow> validation_outcome list \<Rightarrow> 'a migration_call list \<Rightarrow> bool" where
  "validated_trace bundle outs tr \<longleftrightarrow> (\<exists>validating activating. passed (mb_validations bundle) outs \<and>
     mk_state validating = MIG_VALIDATING \<and> mk_state activating = MIG_ACTIVATING \<and>
     tr = [Recorded validating] @ checks (mb_validations bundle) outs @ [Recorded activating])"

definition ready_trace :: "migration_bundle \<Rightarrow> int migration_lock \<Rightarrow> 'a compiled_step list \<Rightarrow> validation_outcome list
    \<Rightarrow> 'a migration_call list \<Rightarrow> bool" where
  "ready_trace bundle k steps outs tr \<longleftrightarrow> (\<exists>pre val planned apps mid.
     outs = pre @ val \<and> passed (mb_preconditions bundle) pre \<and> mk_state planned = MIG_PLANNED \<and>
     applications k steps apps \<and> validated_trace bundle val mid \<and>
     tr = checks (mb_preconditions bundle) pre @ [Locked k, Recorded planned] @ apps @ mid)"

definition finished_trace :: "migration_bundle \<Rightarrow> validation_outcome list \<Rightarrow> 'a migration_call list \<Rightarrow> bool" where
  "finished_trace bundle outs tr \<longleftrightarrow> (\<exists>c. passed (mb_postconditions bundle) outs \<and> mk_state c = MIG_COMPLETED \<and>
     tr = checks (mb_postconditions bundle) outs @ [Recorded c])"

text \<open>How the body of the \<open>try\<close> ends.\<close>

definition activated_migration :: "migration_bundle \<Rightarrow> string list \<Rightarrow> int migration_lock \<Rightarrow> validation_outcome list
    \<Rightarrow> 'a migration_call list \<Rightarrow> 'a migration_call list \<Rightarrow> bool" where
  "activated_migration bundle completed k outs post tr \<longleftrightarrow> (\<exists>plan gen pre.
     map cs_step_id plan = map ms_step_id (mb_steps bundle) \<and>
     ready_trace bundle k (todo completed plan) outs pre \<and> tr = pre @ [Activated k gen] @ post)"

definition stopped_migration :: "migration_bundle \<Rightarrow> string list \<Rightarrow> int migration_lock option \<Rightarrow> 'a migration_call list \<Rightarrow> bool" where
  "stopped_migration bundle completed held tr \<longleftrightarrow> (case held of
     None \<Rightarrow> \<forall>c \<in> set tr. is_check c \<or> is_recorded c
   | Some k \<Rightarrow> locked_trace bundle completed k tr \<or> (\<exists>outs post.
       activated_migration bundle completed k outs post tr \<and> (\<forall>c \<in> set post. is_check c \<or> is_recorded c)))"

lemma stopped_before_activation:
  "locked_trace bundle completed k tr \<Longrightarrow> \<forall>c \<in> set ext. under_lock k completed c \<Longrightarrow>
   stopped_migration bundle completed (Some k) (tr @ ext)"
  by (simp add: stopped_migration_def locked_trace_extend)

lemma check_is_under_lock: "is_check c \<Longrightarrow> under_lock k completed c"
  by (cases c) auto

lemma validation_phases_trace:
  assumes "checkpoint_next (traced_migration env) run_id bundle MIG_VALIDATING None ((w, tr), l) = (Inr u1, ((w1, tr1), l1))"
    and "check_conditions (traced_migration env) token (mb_validations bundle) ((w1, tr1), l1) = (Inr u2, ((w2, tr2), l2))"
    and "checkpoint_next (traced_migration env) run_id bundle MIG_ACTIVATING None ((w2, tr2), l2) = (Inr u3, ((w3, tr3), l3))"
    and "quiet token"
  obtains val mid where "validated_trace bundle val mid" "tr3 = tr @ mid" "ml_lock l3 = ml_lock l"
    "ml_validations l3 = ml_validations l @ val"
proof -
  obtain c where 1: "tr1 = tr @ [Recorded c]" "mk_state c = MIG_VALIDATING" "ml_lock l1 = ml_lock l"
      "ml_validations l1 = ml_validations l"
    using checkpoint_next_trace [OF assms(1)] by auto
  obtain val where 2: "passed (mb_validations bundle) val" "tr2 = tr1 @ checks (mb_validations bundle) val"
      "ml_lock l2 = ml_lock l1" "ml_validations l2 = ml_validations l1 @ val"
    using check_conditions_trace [OF assms(2,4)] by auto
  obtain c' where 3: "tr3 = tr2 @ [Recorded c']" "mk_state c' = MIG_ACTIVATING" "ml_lock l3 = ml_lock l2"
      "ml_validations l3 = ml_validations l2"
    using checkpoint_next_trace [OF assms(3)] by auto
  from 1 2 3 have "validated_trace bundle val ([Recorded c] @ checks (mb_validations bundle) val @ [Recorded c'])"
    unfolding validated_trace_def by blast
  with 1 2 3 that show thesis by auto
qed

lemma activation_tail_trace:
  assumes "pbind (checkpoint_next (traced_migration env) run_id bundle MIG_VALIDATING None) (\<lambda>_.
      pbind (check_conditions (traced_migration env) token (mb_validations bundle)) (\<lambda>_.
      pbind (checkpoint_next (traced_migration env) run_id bundle MIG_ACTIVATING None) (\<lambda>_.
      pbind (activate_migration (traced_migration env) bundle token state k) (\<lambda>activation.
      complete_migration (traced_migration env) b bundle run_id activation)))) ((w, tr), l) = (r, ((w', tr'), l'))"
    and "quiet token"
  shows "ml_lock l' = ml_lock l \<and> (case r of
      Inr report \<Rightarrow> \<exists>val mid gen outs post. validated_trace bundle val mid \<and> finished_trace bundle outs post \<and>
        tr' = tr @ mid @ [Activated k gen] @ post \<and> mr_state report = MIG_COMPLETED \<and>
        mr_validations report = (ml_validations l @ val) @ outs
    | Inl e \<Rightarrow> (\<exists>ext. tr' = tr @ ext \<and> (\<forall>c \<in> set ext. under_lock k completed c)) \<or>
        (\<exists>val mid gen post. validated_trace bundle val mid \<and> tr' = tr @ mid @ [Activated k gen] @ post \<and>
           (\<forall>c \<in> set post. is_check c \<or> is_recorded c)))"
  using assms(1)
proof (elim traced_bind, goal_cases)
  case (1 e)
  then show ?case by (auto dest!: phase_traces)
next
  case (2 u1 w1 tr1 l1 e)
  then show ?case using assms(2) by (auto simp: check_is_under_lock dest!: phase_traces)
next
  case (3 u1 w1 tr1 l1 u2 w2 tr2 l2 e)
  then show ?case using assms(2) by (auto simp: check_is_under_lock checks_are_checks dest!: phase_traces)
next
  case (4 u1 w1 tr1 l1 u2 w2 tr2 l2 u3 w3 tr3 l3 e)
  obtain val mid where "validated_trace bundle val mid" "tr3 = tr @ mid" "ml_lock l3 = ml_lock l"
    by (rule validation_phases_trace [OF 4(1-3) assms(2)])
  moreover from this(1) have "\<forall>c \<in> set mid. under_lock k completed c"
    by (auto simp: validated_trace_def check_is_under_lock checks_are_checks)
  moreover from activate_migration_trace [OF 4(4) assms(2)] have "l' = l3"
    and "tr' = tr3 \<or> tr' = tr3 @ [Activated k (bs_active_generation state)] @ []" by auto
  ultimately show ?case
    unfolding 4(5) sum.case by (fastforce intro: exI [of _ "[] :: 'b migration_call list"])
next
  case (5 u1 w1 tr1 l1 u2 w2 tr2 l2 u3 w3 tr3 l3 a w4 tr4 l4)
  obtain val mid where mid: "validated_trace bundle val mid" "tr3 = tr @ mid" "ml_lock l3 = ml_lock l"
      "ml_validations l3 = ml_validations l @ val"
    by (rule validation_phases_trace [OF 5(1-3) assms(2)])
  have tr4: "tr4 = tr @ mid @ [Activated k (bs_active_generation state)]" "l4 = l3"
    using activate_migration_trace [OF 5(4) assms(2)] mid(2) by auto
  show ?case
  proof (cases r)
    case (Inl e)
    with complete_migration_trace [OF 5(5)] obtain ext where ext: "tr' = tr4 @ ext"
      "\<forall>c \<in> set ext. is_check c \<or> is_recorded c" and l': "ml_lock l' = ml_lock l4" by auto
    from ext(1) have "tr' = tr @ mid @ [Activated k (bs_active_generation state)] @ ext" by (simp add: tr4)
    with ext(2) mid(1) have "\<exists>val mid gen post. validated_trace bundle val mid \<and>
        tr' = tr @ mid @ [Activated k gen] @ post \<and> (\<forall>c \<in> set post. is_check c \<or> is_recorded c)" by blast
    with Inl l' tr4 mid show ?thesis by simp
  next
    case (Inr report)
    with complete_migration_trace [OF 5(5)] obtain outs post where post: "finished_trace bundle outs post"
      "tr' = tr4 @ post" "mr_state report = MIG_COMPLETED" "mr_validations report = ml_validations l4 @ outs"
      and l': "ml_lock l' = ml_lock l4" unfolding finished_trace_def by auto
    from post(2) have "tr' = tr @ mid @ [Activated k (bs_active_generation state)] @ post" by (simp add: tr4)
    moreover have "mr_validations report = (ml_validations l @ val) @ outs" using post(4) tr4 mid by simp
    moreover have "ml_lock l' = ml_lock l" using l' tr4 mid by simp
    ultimately show ?thesis unfolding Inr sum.case using post mid(1) by blast
  qed
qed

text \<open>The exits of a migration whose steps are applied.\<close>

lemma activation_exit:
  assumes tail: "pbind (checkpoint_next (traced_migration env) run_id bundle MIG_VALIDATING None) (\<lambda>_.
      pbind (check_conditions (traced_migration env) token (mb_validations bundle)) (\<lambda>_.
      pbind (checkpoint_next (traced_migration env) run_id bundle MIG_ACTIVATING None) (\<lambda>_.
      pbind (activate_migration (traced_migration env) bundle token state k) (\<lambda>activation.
      complete_migration (traced_migration env) b bundle run_id activation)))) ((w, tr), l) = (r, ((w', tr'), l'))"
    and quiet: "quiet token" and l: "ml_lock l = Some k" "ml_validations l = pre" and locked: "locked_trace bundle completed k tr"
    and ready: "\<And>val mid gen post. validated_trace bundle val mid \<Longrightarrow>
      activated_migration bundle completed k (pre @ val) post (tr @ mid @ [Activated k gen] @ post)"
  shows "case r of
      Inr report \<Rightarrow> \<exists>k outs outs' post. ml_lock l' = Some k \<and> activated_migration bundle completed k outs post tr' \<and>
        finished_trace bundle outs' post \<and> mr_state report = MIG_COMPLETED \<and> mr_validations report = outs @ outs'
    | Inl e \<Rightarrow> stopped_migration bundle completed (ml_lock l') tr'"
proof (cases r)
  case (Inl e)
  with activation_tail_trace [OF tail quiet, where completed = completed] l
  consider ext where "tr' = tr @ ext" "\<forall>c \<in> set ext. under_lock k completed c" "ml_lock l' = Some k"
    | val mid gen post where "validated_trace bundle val mid" "tr' = tr @ mid @ [Activated k gen] @ post"
      "\<forall>c \<in> set post. is_check c \<or> is_recorded c" "ml_lock l' = Some k"
    by auto
  then show ?thesis
  proof cases
    case 1
    with Inl stopped_before_activation [OF locked 1(2)] show ?thesis by simp
  next
    case 2
    from ready [OF 2(1), of post gen] 2(2,3) have "stopped_migration bundle completed (Some k) tr'"
      unfolding stopped_migration_def by auto
    with Inl 2(4) show ?thesis by simp
  qed
next
  case (Inr report)
  with activation_tail_trace [OF tail quiet] l
  obtain val mid gen outs post where fin: "validated_trace bundle val mid" "finished_trace bundle outs post"
    "tr' = tr @ mid @ [Activated k gen] @ post" "mr_state report = MIG_COMPLETED"
    "mr_validations report = (pre @ val) @ outs" "ml_lock l' = Some k" by auto
  from ready [OF fin(1), of post gen] fin have "activated_migration bundle completed k (pre @ val) post tr'" by simp
  with fin show ?thesis unfolding Inr sum.case by blast
qed

lemma run_migration_trace:
  assumes "run_migration (traced_migration env) b bundle ow token run_id completed ((w, []), l) = (r, ((w', tr'), l'))"
    and "quiet token" and "ml_lock l = None" and "ml_validations l = []"
  shows "case r of
      Inr report \<Rightarrow> \<exists>k outs outs' post. ml_lock l' = Some k \<and> activated_migration bundle completed k outs post tr' \<and>
        finished_trace bundle outs' post \<and> mr_state report = MIG_COMPLETED \<and> mr_validations report = outs @ outs'
    | Inl e \<Rightarrow> stopped_migration bundle completed (ml_lock l') tr'"
  using assms(1) unfolding run_migration_def
proof (cases rule: traced_bind)
  case (raised e)
  with plan_migration_trace [OF raised(1) assms(2-4), where completed = completed] show ?thesis
    by (auto simp: stopped_migration_def split: option.splits)
next
  case (returned x w1 tr1 l1)
  obtain state k plan where x: "x = (state, k, plan)" by (metis prod.exhaust)
  obtain pre planned where pre: "passed (mb_preconditions bundle) pre" "mk_state planned = MIG_PLANNED"
    and tr1: "tr1 = checks (mb_preconditions bundle) pre @ [Locked k, Recorded planned]"
    and l1: "ml_lock l1 = Some k" "ml_validations l1 = pre"
    and ids: "map cs_step_id (cpl_steps plan) = map ms_step_id (mb_steps bundle)"
    using plan_migration_trace [OF returned(1) assms(2-4)] x by auto
  have locked1: "locked_trace bundle completed k tr1" unfolding tr1 by (rule locked_trace_planned [OF pre(1)])
  from returned(2) show ?thesis
    unfolding x prod.case
  proof (cases rule: traced_bind)
    case (raised e)
    with apply_all_trace [OF raised(1) assms(2)] locked1 l1 show ?thesis by (auto intro: stopped_before_activation)
  next
    case (returned u2 w2 tr2 l2)
    obtain apps where tr2: "tr2 = tr1 @ apps" and apps: "applications k (todo completed (cpl_steps plan)) apps"
      and l2: "ml_lock l2 = Some k" "ml_validations l2 = pre"
      using apply_all_trace [OF returned(1) assms(2)] l1 by auto
    have locked2: "locked_trace bundle completed k tr2"
      unfolding tr2 by (rule locked_trace_extend [OF locked1]) (blast intro: applications_under_lock [OF apps])
    have ready: "activated_migration bundle completed k (pre @ val) post (tr2 @ mid @ [Activated k gen] @ post)"
      if "validated_trace bundle val mid" for val mid gen post
    proof -
      have "ready_trace bundle k (todo completed (cpl_steps plan)) (pre @ val) (tr2 @ mid)"
        unfolding ready_trace_def tr1 tr2 append_assoc using that pre apps by blast
      with ids show ?thesis unfolding activated_migration_def by fastforce
    qed
    from activation_exit [OF returned(2) assms(2) l2 locked2 ready] show ?thesis by simp
  qed
qed

section \<open>Every exit of an execution\<close>

lemma fail_migration_trace:
  assumes "fail_migration (traced_migration env) b bundle run_id e ((w, tr), l) = (r, ((w', tr'), l'))"
  shows "l' = l \<and> (\<exists>e'. r = Inl e') \<and> (tr' = tr \<or> (\<exists>c. tr' = tr @ [Recorded c] \<and> mk_state c = MIG_FAILED))"
  using assms unfolding fail_migration_def
  by (elim traced_bind) (auto simp: on_world_eq dest!: phase_traces write_checkpoint_trace)

lemma stopped_migration_extend:
  assumes "stopped_migration bundle completed held tr"
  shows "stopped_migration bundle completed held (tr @ [Recorded c])"
proof (cases held)
  case (Some k)
  show ?thesis
  proof (cases "locked_trace bundle completed k tr")
    case True
    with Some show ?thesis by (simp add: stopped_before_activation)
  next
    case False
    with assms Some obtain outs post where post: "\<forall>c \<in> set post. is_check c \<or> is_recorded c"
      and "activated_migration bundle completed k outs post tr" by (auto simp: stopped_migration_def)
    then have "activated_migration bundle completed k outs (post @ [Recorded c]) (tr @ [Recorded c])"
      unfolding activated_migration_def by fastforce
    with Some post show ?thesis unfolding stopped_migration_def by fastforce
  qed
qed (use assms in \<open>auto simp: stopped_migration_def\<close>)

definition guarded_migration :: "('w, 'a) migration_env \<Rightarrow> string \<Rightarrow> migration_bundle \<Rightarrow> string \<Rightarrow> ('w, bool) prog
    \<Rightarrow> string \<Rightarrow> string list \<Rightarrow> ('w \<times> migration_locals, migration_report) prog" where
  "guarded_migration env b bundle ow token run_id completed =
     pfinally (pcatch (run_migration env b bundle ow token run_id completed) (fail_migration env b bundle run_id))
       (release_held_lock env)"

definition released :: "int migration_lock option \<Rightarrow> 'a migration_call list" where
  "released held = (case held of None \<Rightarrow> [] | Some k \<Rightarrow> [Unlocked k])"

lemma release_held_lock_trace:
  assumes "release_held_lock (traced_migration env) ((w, tr), l) = (r, ((w', tr'), l'))"
  shows "l' = l \<and> tr' = tr @ released (ml_lock l)"
  using assms
  by (cases "ml_lock l") (auto simp: release_held_lock_def released_def pbind_def on_world_eq attempt_eq)

lemma guarded_migration_trace:
  assumes "guarded_migration (traced_migration env) b bundle ow token run_id completed ((w, []), l) = (r, ((w', tr), l'))"
    and "quiet token" and "ml_lock l = None" and "ml_validations l = []"
  shows "\<exists>held tr'. tr = tr' @ released held \<and> (case r of
      Inr report \<Rightarrow> \<exists>k outs outs' post. held = Some k \<and> activated_migration bundle completed k outs post tr' \<and>
        finished_trace bundle outs' post \<and> mr_state report = MIG_COMPLETED \<and> mr_validations report = outs @ outs'
    | Inl e \<Rightarrow> stopped_migration bundle completed held tr')"
proof -
  let ?T = "traced_migration env"
  obtain r1 w1 tr1 l1 where run: "run_migration ?T b bundle ow token run_id completed ((w, []), l) = (r1, ((w1, tr1), l1))"
    by (metis prod.exhaust)
  note body = run_migration_trace [OF run assms(2-4)]
  obtain r2 w2 tr2 l2 where catch: "pcatch (run_migration ?T b bundle ow token run_id completed)
      (fail_migration ?T b bundle run_id) ((w, []), l) = (r2, ((w2, tr2), l2))"
    by (metis prod.exhaust)
  obtain r3 w3 tr3 l3 where release: "release_held_lock ?T ((w2, tr2), l2) = (r3, ((w3, tr3), l3))"
    by (metis prod.exhaust)
  have tr: "tr = tr2 @ released (ml_lock l2)" and r: "r = (case r3 of Inl e \<Rightarrow> Inl e | Inr _ \<Rightarrow> r2)"
    using assms(1) catch release release_held_lock_trace [OF release]
    by (auto simp: guarded_migration_def pfinally_def split: sum.splits)
  show ?thesis
  proof (cases r1)
    case (Inl e)
    have "(\<exists>e'. r2 = Inl e') \<and> stopped_migration bundle completed (ml_lock l2) tr2"
    proof (cases "is_exception e")
      case True
      with catch run Inl have "fail_migration ?T b bundle run_id e ((w1, tr1), l1) = (r2, ((w2, tr2), l2))"
        by (simp add: pcatch_def)
      from fail_migration_trace [OF this] body Inl show ?thesis by (auto simp: stopped_migration_extend)
    next
      case False
      with catch run Inl body show ?thesis by (auto simp: pcatch_def)
    qed
    then show ?thesis
      unfolding tr by (intro exI [of _ "ml_lock l2"] exI [of _ tr2]) (auto simp: r split: sum.splits)
  next
    case (Inr report)
    with catch run have eq: "r2 = Inr report" "tr2 = tr1" "l2 = l1" by (auto simp: pcatch_def)
    from body Inr obtain k outs outs' post where post: "ml_lock l2 = Some k" "finished_trace bundle outs' post"
      "activated_migration bundle completed k outs post tr2" "mr_state report = MIG_COMPLETED"
      "mr_validations report = outs @ outs'" by (auto simp: eq)
    from post(2,3) have "stopped_migration bundle completed (Some k) tr2"
      unfolding stopped_migration_def finished_trace_def by (fastforce dest: checks_are_checks)
    with post show ?thesis
      unfolding tr by (intro exI [of _ "ml_lock l2"] exI [of _ tr2]) (auto simp: r eq split: sum.splits)
  qed
qed

text \<open>C22: whatever the adapter, the validation runner, the recorder and the sink return or raise, a
  migration acquires at most one lock and, once it has it, releases exactly it as its very last call.
  Before the lock only preconditions are checked.  Under it only steps without an applied checkpoint are
  applied.  The target is activated only after every precondition passed, every remaining step of the
  plan was applied and checkpointed in the bundle's order, and every validation passed; afterwards
  nothing is applied or activated again.  A report is returned only when every postcondition passed
  too and the completion was recorded, and it carries exactly the outcomes in order.\<close>

theorem migration_outcomes:
  assumes "execute (traced_migration env) b bundle ow (on_world token) execution_id uuid (w, []) = (r, (w', tr))"
    and "me_checkpoints env (case execution_id of Some i \<Rightarrow> i | None \<Rightarrow> uuid) w = (Inr existing, w0)"
  shows "\<exists>held tr'. tr = tr' @ released held \<and> (case r of
      Inr report \<Rightarrow> \<exists>k outs outs' post. held = Some k \<and>
        activated_migration bundle (completed_steps existing) k outs post tr' \<and> finished_trace bundle outs' post \<and>
        mr_state report = MIG_COMPLETED \<and> mr_validations report = outs @ outs'
    | Inl e \<Rightarrow> stopped_migration bundle (completed_steps existing) held tr')"
proof (cases "tr = [] \<and> (\<exists>e. r = Inl e)")
  case True
  then show ?thesis
    by (intro exI [of _ None] exI [of _ "[]"]) (auto simp: stopped_migration_def released_def)
next
  case False
  let ?l = "\<lparr>ml_sequence = (if existing = [] then 0 else mk_sequence (last existing) + 1), ml_lock = None, ml_validations = []\<rparr>"
  let ?id = "case execution_id of Some i \<Rightarrow> i | None \<Rightarrow> uuid"
  let ?G = "guarded_migration (traced_migration env) b bundle ow (on_world token) ?id (completed_steps existing)"
  obtain r1 w1 tr1 l1 where g: "?G ((w0, []), ?l) = (r1, ((w1, tr1), l1))" by (metis prod.exhaust)
  have "r = r1 \<and> tr = tr1"
    using assms False g
    by (auto simp: execute_def pbind_def on_world_def Let_def guard_def with_locals_def guarded_migration_def [symmetric]
        split: if_splits sum.splits)
  with guarded_migration_trace [OF g quiet_on_world] show ?thesis by simp
qed

end
