(* ===== verification/Migration_Sample.thy ===== *)
theory Migration_Sample
  imports Migration_Recorder Migration_Theorems
begin

text \<open>A one-step migration with an adapter that does as it is asked.\<close>

definition some_digest :: string where
  "some_digest = json_digest JNull"

lemma some_digest_sha256 [simp]: "is_sha256 some_digest" and some_digest_nonempty [simp]: "some_digest \<noteq> []"
  by (simp_all add: some_digest_def)

definition sample_condition :: "json migration_condition" where
  "sample_condition = \<lparr>mc_name = ''rows'', mc_operation = JObj [], mc_expectation = JObj []\<rparr>"

definition sample_bundle :: migration_bundle where
  "sample_bundle = \<lparr>mb_source_schema_fingerprint = some_digest, mb_target_schema_fingerprint = some_digest,
     mb_steps = [\<lparr>ms_step_id = ''s1'', ms_kind = ACTIVATE_SCHEMA_VERSION, ms_parameters = JObj [],
       ms_compiler_requirements = [], ms_reversibility = REVERSIBLE\<rparr>],
     mb_preconditions = [sample_condition], mb_validations = [], mb_postconditions = [],
     mb_compiler_requirements = [], mb_estimated_lock_class = LOCK_NONE, mb_reversibility = REVERSIBLE,
     mb_bundle_id = ''m1'', mb_digest = some_digest, mb_format_version = migration_format_version\<rparr>"

definition sample_compiled :: "unit compiled_step" where
  "sample_compiled = \<lparr>cs_step_id = ''s1'', cs_compiler_id = ''c'', cs_artifact_digest = some_digest, cs_opaque_artifact = ()\<rparr>"

definition sample_migration :: "unit evidence_sink \<Rightarrow> (unit, unit) migration_env" where
  "sample_migration sink = \<lparr>
     me_inspect_state = (\<lambda>b. pret \<lparr>bs_logical_fingerprint = some_digest, bs_physical_fingerprint = some_digest,
       bs_active_generation = ''g1'', bs_revision = VInt 1\<rparr>),
     me_acquire_lock = (\<lambda>b ow d t. pret \<lparr>lk_token = ''t'', lk_owner = ow, lk_bundle_digest = d, lk_expires_at = 100\<rparr>),
     me_compile = (\<lambda>b. pret \<lparr>cpl_bundle_digest = mb_digest b, cpl_steps = [sample_compiled],
       cpl_plan_digest = plan_digest_of \<lparr>cpl_bundle_digest = mb_digest b, cpl_steps = [sample_compiled], cpl_plan_digest = []\<rparr>\<rparr>),
     me_apply_step = (\<lambda>k s t. pret \<lparr>as_step_id = cs_step_id s, as_result_fingerprint = some_digest, as_checkpoint_token = ''k''\<rparr>),
     me_activate = (\<lambda>k b g. pret \<lparr>ar_active_generation = ''g2'', ar_previous_generation = g,
       ar_target_fingerprint = some_digest, ar_source_boundary = ''b''\<rparr>),
     me_release_lock = (\<lambda>k. pret ()),
     me_run = (\<lambda>c. pret \<lparr>vo_name = mc_name c, vo_passed = True, vo_result_digest = some_digest, vo_summary = []\<rparr>),
     me_append = (\<lambda>c. pret ()), me_checkpoints = (\<lambda>i. pret []), me_evidence = sink,
     me_lock_duration = 900, me_clock = pret (utc_datetime 60)\<rparr>"

lemma valid_60 [simp]: "valid_instant 60"
  by (simp add: valid_instant_def max_instant_def)

text \<open>A sink that fails on the evidence of a completion.\<close>

definition failing_sink :: "exn \<Rightarrow> unit evidence_sink" where
  "failing_sink error ev = (if ev_state ev = ''COMPLETED'' then praise error else pret ())"

lemma cutover_mapping_immutable:
  "immutable_mapping (json_val (cutover_to_mapping c)) = Inr (cutover_to_mapping c)"
  by (simp add: immutable_mapping_def immutable_value_def cutover_to_mapping_def cutover_digest_material_def)

lemma sample_migration_simps [simp]:
  "me_inspect_state (sample_migration sink) b = pret \<lparr>bs_logical_fingerprint = some_digest,
     bs_physical_fingerprint = some_digest, bs_active_generation = ''g1'', bs_revision = VInt 1\<rparr>"
  "me_acquire_lock (sample_migration sink) b ow d t = pret \<lparr>lk_token = ''t'', lk_owner = ow, lk_bundle_digest = d, lk_expires_at = 100\<rparr>"
  "me_apply_step (sample_migration sink) k s tk =
     pret \<lparr>as_step_id = cs_step_id s, as_result_fingerprint = some_digest, as_checkpoint_token = ''k''\<rparr>"
  "me_activate (sample_migration sink) k bu g = pret \<lparr>ar_active_generation = ''g2'', ar_previous_generation = g,
     ar_target_fingerprint = some_digest, ar_source_boundary = ''b''\<rparr>"
  "me_release_lock (sample_migration sink) k = pret ()"
  "me_run (sample_migration sink) c = pret \<lparr>vo_name = mc_name c, vo_passed = True, vo_result_digest = some_digest, vo_summary = []\<rparr>"
  "me_evidence (sample_migration sink) = sink" "me_lock_duration (sample_migration sink) = 900"
  "me_clock (sample_migration sink) = pret (utc_datetime 60)"
  by (simp_all add: sample_migration_def)

definition sample_compiled_plan :: "unit compiled_plan" where
  "sample_compiled_plan = \<lparr>cpl_bundle_digest = some_digest, cpl_steps = [sample_compiled],
     cpl_plan_digest = plan_digest_of \<lparr>cpl_bundle_digest = some_digest, cpl_steps = [sample_compiled], cpl_plan_digest = []\<rparr>\<rparr>"

lemma sample_compile [simp]: "me_compile (sample_migration sink) sample_bundle = pret sample_compiled_plan"
  by (simp add: sample_migration_def sample_compiled_plan_def sample_bundle_def)

lemma sample_verified [simp]: "verify_compiled sample_bundle sample_compiled_plan = Inr ()"
  by (simp add: verify_compiled_def sample_compiled_plan_def sample_bundle_def sample_compiled_def plan_digest_of_def)

lemma sample_bundle_simps [simp]:
  "mb_source_schema_fingerprint sample_bundle = some_digest" "mb_target_schema_fingerprint sample_bundle = some_digest"
  "mb_preconditions sample_bundle = [sample_condition]" "mb_validations sample_bundle = []"
  "mb_postconditions sample_bundle = []" "mb_digest sample_bundle = some_digest"
  by (simp_all add: sample_bundle_def)

lemmas run_defs = pbind_def on_world_def on_recorder_def raise_if_cancelled_def fresh_token_def check_lock_def Let_def

abbreviation sample_memory :: "unit evidence_sink \<Rightarrow> (unit \<times> recorder, unit) migration_env" where
  "sample_memory sink \<equiv> in_memory_migration (sample_migration sink)"

abbreviation sample_checkpoint :: "migration_state \<Rightarrow> int \<Rightarrow> applied_step option \<Rightarrow> string option \<Rightarrow> int migration_checkpoint" where
  "sample_checkpoint st n step fc \<equiv> \<lparr>mk_execution_id = ''x'', mk_bundle_digest = some_digest, mk_state = st,
     mk_sequence = n, mk_step_id = map_option as_step_id step, mk_result_fingerprint = map_option as_result_fingerprint step,
     mk_checkpoint_token = map_option as_checkpoint_token step, mk_failure_code = fc, mk_recorded_at = 60\<rparr>"

definition sample_history :: "int migration_checkpoint list \<Rightarrow> recorder" where
  "sample_history cs = (if cs = [] then [] else [(''x'', cs)])"

abbreviation next_sequence :: "int migration_checkpoint list \<Rightarrow> int" where
  "next_sequence cs \<equiv> (if cs = [] then 0 else mk_sequence (last cs) + 1)"

lemma sample_write:
  assumes "cs = [] \<or> mk_sequence (last cs) < n" and "0 \<le> n"
    and "step = None \<or> is_sha256 (as_result_fingerprint (the step))"
  shows "write_checkpoint (sample_memory sink) ''x'' sample_bundle st n step fc ((), sample_history cs) =
    (Inr (sample_checkpoint st n step fc), ((), sample_history (cs @ [sample_checkpoint st n step fc])))"
  using assms
  by (cases step) (auto simp: write_checkpoint_def run_defs recorder_append_def MigrationCheckpoint_def require_sha256_def
      sample_history_def recorded_def)

lemma sample_next:
  assumes "cs = [] \<or> mk_sequence (last cs) < ml_sequence l" and "0 \<le> ml_sequence l"
    and "step = None \<or> is_sha256 (as_result_fingerprint (the step))"
  shows "checkpoint_next (sample_memory sink) ''x'' sample_bundle st step (((), sample_history cs), l) =
    (Inr (), (((), sample_history (cs @ [sample_checkpoint st (ml_sequence l) step None])), l\<lparr>ml_sequence := ml_sequence l + 1\<rparr>))"
  using sample_write [OF assms] by (simp add: checkpoint_next_def pbind_def on_world_def)

lemma sample_conditions:
  assumes "\<And>w. token w = (Inr False, w)"
  shows "\<exists>outs. check_conditions (sample_memory sink) token conds (w, l) =
     (Inr (), (w, l\<lparr>ml_validations := ml_validations l @ outs\<rparr>))"
proof -
  have "\<exists>outs. run_conditions (sample_memory sink) token conds w = (Inr outs, w)"
    by (cases w, induction conds) (auto simp: assms run_defs)
  then show ?thesis by (auto simp: check_conditions_def pbind_def on_world_def)
qed

lemma fresh_tokens: "fresh_token w = (Inr False, w)" "on_world fresh_token s = (Inr False, s)"
  by (simp_all add: fresh_token_def on_world_def)

text \<open>The sink only decides how the evidence of a completion ends.\<close>

definition quiet_until_completion :: "unit evidence_sink \<Rightarrow> bool" where
  "quiet_until_completion sink \<longleftrightarrow> (\<forall>ev. ev_state ev \<noteq> ''COMPLETED'' \<longrightarrow> sink ev () = (Inr (), ()))"

lemma sample_planned_evidence:
  assumes "quiet_until_completion sink"
  shows "migration_evidence (sample_memory sink) ''orders'' MIG_PLANNED (JObj [(''bundleDigest'', JStr d), (''planDigest'', JStr p)])
    ((), rs) = (Inr (), ((), rs))"
  using assms
  by (simp add: migration_evidence_def record_evidence_def LifecycleEvidence_def immutable_mapping_def immutable_value_def
      run_defs quiet_until_completion_def)

abbreviation sample_lock :: "int migration_lock" where
  "sample_lock \<equiv> \<lparr>lk_token = ''t'', lk_owner = ''me'', lk_bundle_digest = some_digest, lk_expires_at = 100\<rparr>"

lemma sample_plan:
  assumes "quiet_until_completion sink" and "ml_sequence l = 0"
  shows "\<exists>state outs. bs_active_generation state = ''g1'' \<and> plan_migration (sample_memory sink) ''orders'' sample_bundle ''me'' (on_world fresh_token) ''x''
      (((), sample_history []), l) = (Inr (state, sample_lock, sample_compiled_plan),
      (((), sample_history [sample_checkpoint MIG_PLANNED 0 None None]),
       l\<lparr>ml_sequence := 1, ml_lock := Some sample_lock, ml_validations := ml_validations l @ outs\<rparr>))"
proof -
  obtain outs where conds: "check_conditions (sample_memory sink) (on_world fresh_token) [sample_condition]
      (((), sample_history []), l) = (Inr (), (((), sample_history []), l\<lparr>ml_validations := ml_validations l @ outs\<rparr>))"
    using sample_conditions [OF fresh_tokens(2)] by blast
  have "checkpoint_next (sample_memory sink) ''x'' sample_bundle MIG_PLANNED None
      (((), sample_history []), l\<lparr>ml_validations := ml_validations l @ outs, ml_lock := Some sample_lock\<rparr>) =
      (Inr (), (((), sample_history [sample_checkpoint MIG_PLANNED 0 None None]),
       l\<lparr>ml_sequence := 1, ml_lock := Some sample_lock, ml_validations := ml_validations l @ outs\<rparr>))"
    by (subst sample_next) (simp_all add: assms(2))
  then show ?thesis
    using conds sample_planned_evidence [OF assms(1)]
    by (auto simp: plan_migration_def run_defs)
qed

abbreviation sample_applied :: applied_step where
  "sample_applied \<equiv> \<lparr>as_step_id = ''s1'', as_result_fingerprint = some_digest, as_checkpoint_token = ''k''\<rparr>"

definition sample_checkpoints :: "int migration_checkpoint list" where
  "sample_checkpoints = [sample_checkpoint MIG_PLANNED 0 None None, sample_checkpoint MIG_APPLYING 1 (Some sample_applied) None,
     sample_checkpoint MIG_VALIDATING 2 None None, sample_checkpoint MIG_ACTIVATING 3 None None]"

lemma sample_apply:
  assumes "ml_sequence l = 1"
  shows "pfor (apply_compiled (sample_memory sink) sample_bundle (on_world fresh_token) ''x'' [] sample_lock)
      (cpl_steps sample_compiled_plan) (((), sample_history [sample_checkpoint MIG_PLANNED 0 None None]), l) =
    (Inr (), (((), sample_history [sample_checkpoint MIG_PLANNED 0 None None, sample_checkpoint MIG_APPLYING 1 (Some sample_applied) None]),
      l\<lparr>ml_sequence := 2\<rparr>))"
  using sample_next [of "[sample_checkpoint MIG_PLANNED 0 None None]" l "Some sample_applied" sink MIG_APPLYING] assms
  by (simp add: sample_compiled_plan_def sample_compiled_def apply_compiled_def run_defs)

lemma sample_validate_activate:
  assumes "ml_sequence l = 2"
  shows "\<exists>a outs. pbind (checkpoint_next (sample_memory sink) ''x'' sample_bundle MIG_VALIDATING None) (\<lambda>_.
      pbind (check_conditions (sample_memory sink) (on_world fresh_token) (mb_validations sample_bundle)) (\<lambda>_.
      pbind (checkpoint_next (sample_memory sink) ''x'' sample_bundle MIG_ACTIVATING None) (\<lambda>_.
      pbind (activate_migration (sample_memory sink) sample_bundle (on_world fresh_token) state sample_lock) f)))
      (((), sample_history [sample_checkpoint MIG_PLANNED 0 None None, sample_checkpoint MIG_APPLYING 1 (Some sample_applied) None]), l) =
    f a (((), sample_history sample_checkpoints), l\<lparr>ml_sequence := 4, ml_validations := ml_validations l @ outs\<rparr>) \<and>
    ar_active_generation a = ''g2'' \<and> ar_source_boundary a = ''b'' \<and> ar_previous_generation a = bs_active_generation state"
proof -
  let ?cs = "[sample_checkpoint MIG_PLANNED 0 None None, sample_checkpoint MIG_APPLYING 1 (Some sample_applied) None]"
  let ?cs' = "?cs @ [sample_checkpoint MIG_VALIDATING 2 None None]"
  let ?l = "l\<lparr>ml_sequence := 3\<rparr>"
  obtain outs where conds: "check_conditions (sample_memory sink) (on_world fresh_token) []
      (((), sample_history ?cs'), ?l) = (Inr (), (((), sample_history ?cs'), ?l\<lparr>ml_validations := ml_validations ?l @ outs\<rparr>))"
    using sample_conditions [OF fresh_tokens(2)] by blast
  have "checkpoint_next (sample_memory sink) ''x'' sample_bundle MIG_VALIDATING None (((), sample_history ?cs), l) =
      (Inr (), (((), sample_history ?cs'), ?l))"
    using assms by (subst sample_next) simp_all
  moreover have "checkpoint_next (sample_memory sink) ''x'' sample_bundle MIG_ACTIVATING None
      (((), sample_history ?cs'), ?l\<lparr>ml_validations := ml_validations ?l @ outs\<rparr>) =
      (Inr (), (((), sample_history sample_checkpoints), l\<lparr>ml_sequence := 4, ml_validations := ml_validations l @ outs\<rparr>))"
    using assms by (subst sample_next) (simp_all add: sample_checkpoints_def)
  ultimately show ?thesis
    using conds by (auto simp: pbind_def activate_migration_def on_world_def check_lock_def raise_if_cancelled_def fresh_token_def)
qed

abbreviation sample_completed :: recorder where
  "sample_completed \<equiv> sample_history (sample_checkpoints @ [sample_checkpoint MIG_COMPLETED 4 None None])"

lemma sample_complete:
  assumes "ml_sequence l = 4" and "ar_active_generation a = ''g2''" "ar_source_boundary a = ''b''"
    "ar_previous_generation a = ''g1''"
  shows "\<exists>ev report outs. ev_state ev = ''COMPLETED'' \<and>
    complete_migration (sample_memory sink) ''orders'' sample_bundle ''x'' a (((), sample_history sample_checkpoints), l) =
      (case sink ev () of (Inl e, _) \<Rightarrow> Inl e | (Inr _, _) \<Rightarrow> Inr report,
       (((), sample_completed), l\<lparr>ml_validations := ml_validations l @ outs\<rparr>))"
proof -
  obtain outs where conds: "check_conditions (sample_memory sink) fresh_token []
      (((), sample_history sample_checkpoints), l) =
      (Inr (), (((), sample_history sample_checkpoints), l\<lparr>ml_validations := ml_validations l @ outs\<rparr>))"
    using sample_conditions [OF fresh_tokens(1)] by blast
  define raw where "raw = \<lparr>ce_execution_id = ''x'', ce_bundle_digest = some_digest, ce_source_fingerprint = some_digest,
      ce_target_fingerprint = some_digest, ce_source_boundary = ''b'',
      ce_previous_generation = ''g1'', ce_active_generation = ''g2'',
      ce_validation_report_digest = validation_digest (ml_validations l @ outs), ce_activated_at = utc_datetime 60, ce_digest = []\<rparr>"
  obtain cut where cut: "CutoverEvidence raw = Inr cut"
    by (auto simp: raw_def CutoverEvidence_def require_sha256_def validation_digest_def Let_def)
  obtain ev where ev: "LifecycleEvidence \<lparr>ev_kind = ''migration'', ev_subject = ''orders'', ev_state = ''COMPLETED'',
      ev_details = json_val (cutover_to_mapping cut), ev_occurred_at = utc_datetime 60, ev_fingerprint = []\<rparr> = Inr ev"
    by (auto simp: LifecycleEvidence_def cutover_mapping_immutable Let_def)
  note w = sample_write [where cs = sample_checkpoints and n = 4 and step = None and sink = sink and st = MIG_COMPLETED and fc = None]
  have last: "mk_sequence (last sample_checkpoints) < 4" by (simp add: sample_checkpoints_def)
  obtain r where r: "sink ev () = (r, ())" by (metis old.unit.exhaust prod.exhaust)
  from LifecycleEvidence_fingerprint(4) [OF ev] have "ev_state ev = ''COMPLETED''" by simp
  with w last conds cut ev r show ?thesis
    by (cases r) (auto simp: complete_migration_def assms pbind_def on_world_def raw_def migration_evidence_def
        record_evidence_def on_recorder_def recorder_checkpoints_def intro!: exI [of _ ev] exI [of _ outs])
qed

lemma sample_run:
  assumes "quiet_until_completion sink" and "ml_sequence l = 0"
  shows "\<exists>ev report outs. ev_state ev = ''COMPLETED'' \<and>
    run_migration (sample_memory sink) ''orders'' sample_bundle ''me'' (on_world fresh_token) ''x'' []
      (((), sample_history []), l) = (case sink ev () of (Inl e, _) \<Rightarrow> Inl e | (Inr _, _) \<Rightarrow> Inr report,
      (((), sample_completed), l\<lparr>ml_sequence := 4, ml_lock := Some sample_lock, ml_validations := outs\<rparr>))"
proof -
  obtain state outs where state: "bs_active_generation state = ''g1''"
    and plan: "plan_migration (sample_memory sink) ''orders'' sample_bundle ''me'' (on_world fresh_token) ''x''
      (((), sample_history []), l) = (Inr (state, sample_lock, sample_compiled_plan),
      (((), sample_history [sample_checkpoint MIG_PLANNED 0 None None]),
       l\<lparr>ml_sequence := 1, ml_lock := Some sample_lock, ml_validations := ml_validations l @ outs\<rparr>))"
    using sample_plan [OF assms] by blast
  let ?l = "l\<lparr>ml_sequence := 2, ml_lock := Some sample_lock, ml_validations := ml_validations l @ outs\<rparr>"
  have seq: "ml_sequence ?l = 2" by simp
  obtain a outs' where a: "ar_active_generation a = ''g2''" "ar_source_boundary a = ''b''" "ar_previous_generation a = ''g1''"
    and mid: "pbind (checkpoint_next (sample_memory sink) ''x'' sample_bundle MIG_VALIDATING None) (\<lambda>_.
      pbind (check_conditions (sample_memory sink) (on_world fresh_token) (mb_validations sample_bundle)) (\<lambda>_.
      pbind (checkpoint_next (sample_memory sink) ''x'' sample_bundle MIG_ACTIVATING None) (\<lambda>_.
      pbind (activate_migration (sample_memory sink) sample_bundle (on_world fresh_token) state sample_lock)
        (complete_migration (sample_memory sink) ''orders'' sample_bundle ''x''))))
      (((), sample_history [sample_checkpoint MIG_PLANNED 0 None None, sample_checkpoint MIG_APPLYING 1 (Some sample_applied) None]), ?l) =
      complete_migration (sample_memory sink) ''orders'' sample_bundle ''x'' a
        (((), sample_history sample_checkpoints), ?l\<lparr>ml_sequence := 4, ml_validations := ml_validations ?l @ outs'\<rparr>)"
    using sample_validate_activate [OF seq] state by metis
  have "run_migration (sample_memory sink) ''orders'' sample_bundle ''me'' (on_world fresh_token) ''x'' []
      (((), sample_history []), l) = complete_migration (sample_memory sink) ''orders'' sample_bundle ''x'' a
        (((), sample_history sample_checkpoints), ?l\<lparr>ml_sequence := 4, ml_validations := ml_validations ?l @ outs'\<rparr>)"
    unfolding run_migration_def mid [symmetric]
    by (subst pbind_Inr, rule plan, unfold prod.case, subst pbind_Inr, rule sample_apply) (cases l, simp_all)+
  moreover obtain ev report outs2 where "ev_state ev = ''COMPLETED''"
    and "complete_migration (sample_memory sink) ''orders'' sample_bundle ''x'' a
        (((), sample_history sample_checkpoints), ?l\<lparr>ml_sequence := 4, ml_validations := ml_validations ?l @ outs'\<rparr>) =
      (case sink ev () of (Inl e, _) \<Rightarrow> Inl e | (Inr _, _) \<Rightarrow> Inr report, (((), sample_completed),
       ?l\<lparr>ml_sequence := 4, ml_validations := (ml_validations ?l @ outs') @ outs2\<rparr>))"
    using sample_complete [OF _ a, of "?l\<lparr>ml_sequence := 4, ml_validations := ml_validations ?l @ outs'\<rparr>" sink] by auto
  ultimately show ?thesis
    by (cases l) (intro exI [of _ ev] exI [of _ report] exI [of _ "ml_validations l @ outs @ outs' @ outs2"], simp)
qed

lemma sample_execute:
  assumes "quiet_until_completion sink"
  shows "\<exists>ev report. ev_state ev = ''COMPLETED'' \<and>
    execute (sample_memory sink) ''orders'' sample_bundle ''me'' (on_world fresh_token) (Some ''x'') [] ((), []) =
      (case sink ev () of
         (Inl e, _) \<Rightarrow> if is_exception e then Inl (MigrationConflict ''migration checkpoint sequence must increase'') else Inl e
       | (Inr _, _) \<Rightarrow> Inr report, ((), sample_completed))"
proof -
  let ?l = "\<lparr>ml_sequence = 0, ml_lock = None, ml_validations = []\<rparr>"
  have "ml_sequence ?l = 0" by simp
  from sample_run [OF assms this] obtain ev report outs where ev: "ev_state ev = ''COMPLETED''"
    and run: "run_migration (sample_memory sink) ''orders'' sample_bundle ''me'' (on_world fresh_token) ''x'' []
      (((), sample_history []), ?l) = (case sink ev () of (Inl e, _) \<Rightarrow> Inl e | (Inr _, _) \<Rightarrow> Inr report,
      (((), sample_completed), ?l\<lparr>ml_sequence := 4, ml_lock := Some sample_lock, ml_validations := outs\<rparr>))" by blast
  have fail: "fail_migration (sample_memory sink) ''orders'' sample_bundle ''x'' e
      (((), sample_completed), ?l\<lparr>ml_sequence := 4, ml_lock := Some sample_lock, ml_validations := outs\<rparr>) =
      (Inl (MigrationConflict ''migration checkpoint sequence must increase''),
       (((), sample_completed), ?l\<lparr>ml_sequence := 4, ml_lock := Some sample_lock, ml_validations := outs\<rparr>))" for e
    by (simp add: fail_migration_def write_checkpoint_def MigrationCheckpoint_def require_sha256_def run_defs
        recorder_append_def recorded_def sample_history_def)
  obtain r where r: "sink ev () = (r, ())" by (metis old.unit.exhaust prod.exhaust)
  note eqs = run [simplified] fail [simplified]
  have empty: "[] = sample_history []" by (simp add: sample_history_def)
  have "execute (sample_memory sink) ''orders'' sample_bundle ''me'' (on_world fresh_token) (Some ''x'') [] ((), sample_history []) =
      (case r of Inl e \<Rightarrow> if is_exception e then Inl (MigrationConflict ''migration checkpoint sequence must increase'') else Inl e
       | Inr _ \<Rightarrow> Inr report, ((), sample_completed))"
    by (cases r) (simp_all add: execute_def pbind_def on_recorder_def recorder_checkpoints_def recorded_def completed_steps_def
        with_locals_def pfinally_def pcatch_def release_held_lock_def on_world_def Let_def
        empty [symmetric], simp_all add: empty eqs r on_world_def)
  with ev r show ?thesis unfolding empty by (intro exI [of _ ev] exI [of _ report]) simp
qed



section \<open>Instances\<close>

lemma sample_returns:
  "\<exists>report. execute (sample_memory null_sink) ''orders'' sample_bundle ''me'' (on_world fresh_token) (Some ''x'') [] ((), []) =
     (Inr report, ((), sample_completed))"
proof -
  have "quiet_until_completion null_sink" by (simp add: quiet_until_completion_def null_sink_def)
  from sample_execute [OF this] show ?thesis by (auto simp: null_sink_def)
qed

theorem migration_history_grows_witness:
  "\<exists>r v rs. execute (in_memory_migration (sample_migration null_sink)) ''orders'' sample_bundle ''me'' (on_world fresh_token)
      (Some ''x'') [] ((), []) = (r, (v, rs)) \<and> history_grown (\<lambda>_. []) ''x'' some_digest (recorded rs)"
proof -
  obtain report where run: "execute (sample_memory null_sink) ''orders'' sample_bundle ''me'' (on_world fresh_token)
      (Some ''x'') [] ((), []) = (Inr report, ((), sample_completed))" using sample_returns by blast
  have "recorded [] = (\<lambda>_. [])" by (simp add: recorded_def fun_eq_iff)
  with migration_history_grows [OF run] have "history_grown (\<lambda>_. []) ''x'' some_digest (recorded sample_completed)"
    by (simp add: in_sequence_def)
  with run show ?thesis by blast
qed

theorem completed_migration_is_final_witness:
  "\<exists>report v rs e. execute (in_memory_migration (sample_migration null_sink)) ''orders'' sample_bundle ''me'' (on_world fresh_token)
      (Some ''x'') [] ((), []) = (Inr report, (v, rs)) \<and> mr_checkpoints report = recorded rs ''x'' \<and>
    execute (in_memory_migration (sample_migration null_sink)) ''stock'' sample_bundle ''you'' (on_world fresh_token)
      (Some ''x'') [] ((), rs) = (Inl e, ((), rs))"
proof -
  obtain report where run: "execute (sample_memory null_sink) ''orders'' sample_bundle ''me'' (on_world fresh_token)
      (Some ''x'') [] ((), []) = (Inr report, ((), sample_completed))" using sample_returns by blast
  from completed_migration_is_final [OF run refl, of "sample_migration null_sink" "''stock''" sample_bundle "''you''"
      "on_world fresh_token" "[]" "()"]
  have "mr_checkpoints report = recorded sample_completed ''x'' \<and>
    (\<exists>e. execute (sample_memory null_sink) ''stock'' sample_bundle ''you'' (on_world fresh_token) (Some ''x'') []
      ((), sample_completed) = (Inl e, ((), sample_completed)))" by simp
  with run show ?thesis by blast
qed

theorem migration_outcomes_witness:
  "\<exists>r w tr held tr'. execute (traced_migration (sample_migration null_sink)) ''orders'' sample_bundle ''me''
      (on_world fresh_token) (Some ''x'') [] ((), []) = (r, (w, tr)) \<and> tr = tr' @ released held \<and>
    (case r of Inr report \<Rightarrow> \<exists>k outs outs' post. held = Some k \<and>
        activated_migration sample_bundle [] k outs post tr' \<and> finished_trace sample_bundle outs' post \<and>
        mr_state report = MIG_COMPLETED \<and> mr_validations report = outs @ outs'
     | Inl e \<Rightarrow> stopped_migration sample_bundle [] held tr')"
proof -
  obtain r w tr where run: "execute (traced_migration (sample_migration null_sink)) ''orders'' sample_bundle ''me''
      (on_world fresh_token) (Some ''x'') [] ((), []) = (r, (w, tr))" by (metis prod.exhaust)
  have "me_checkpoints (sample_migration null_sink) (case Some ''x'' of Some i \<Rightarrow> i | None \<Rightarrow> []) () = (Inr [], ())"
    by (simp add: sample_migration_def)
  note out = migration_outcomes [OF run this]
  have "completed_steps [] = []" by (simp add: completed_steps_def)
  from out [unfolded this] obtain held tr' where "tr = tr' @ released held"
    and "case r of Inr report \<Rightarrow> \<exists>k outs outs' post. held = Some k \<and>
        activated_migration sample_bundle [] k outs post tr' \<and> finished_trace sample_bundle outs' post \<and>
        mr_state report = MIG_COMPLETED \<and> mr_validations report = outs @ outs'
     | Inl e \<Rightarrow> stopped_migration sample_bundle [] held tr'"
    by blast
  with run show ?thesis by blast
qed

end
