(* ===== verification/Migration_Planning.thy ===== *)
theory Migration_Planning
  imports Migration_Model
begin

text \<open>
  Properties of the planner and of migration bundles: when a bundle is created, and that a bundle is
  fixed by its digest.
\<close>

definition lawful_bundle :: "migration_bundle \<Rightarrow> bool" where
  "lawful_bundle b \<longleftrightarrow> mb_format_version b = migration_format_version \<and>
     is_sha256 (mb_source_schema_fingerprint b) \<and> is_sha256 (mb_target_schema_fingerprint b) \<and>
     mb_bundle_id b \<noteq> [] \<and> mb_steps b \<noteq> [] \<and> distinct (map ms_step_id (mb_steps b)) \<and>
     distinct (map mc_name (mb_preconditions b @ mb_validations b @ mb_postconditions b)) \<and>
     unique_requirements (mb_compiler_requirements b)"

definition bundle_digest_of :: "migration_bundle \<Rightarrow> string" where
  "bundle_digest_of b = json_digest (JObj (bundle_digest_material b))"

lemma MigrationBundleV1_eq_Inr:
  "MigrationBundleV1 raw = Inr b \<longleftrightarrow> lawful_bundle raw \<and> (mb_digest raw = [] \<or> mb_digest raw = bundle_digest_of raw) \<and>
     b = raw\<lparr>mb_digest := bundle_digest_of raw\<rparr>"
  by (auto simp: MigrationBundleV1_def lawful_bundle_def bundle_digest_of_def require_sha256_def Let_def)

lemma bundle_digest_ignores_digest: "bundle_digest_of (b\<lparr>mb_digest := d\<rparr>) = bundle_digest_of b"
  by (simp add: bundle_digest_of_def bundle_digest_material_def)

lemma lawful_ignores_digest: "lawful_bundle (b\<lparr>mb_digest := d\<rparr>) = lawful_bundle b"
  by (simp add: lawful_bundle_def)


definition sample_step :: "json migration_step" where
  "sample_step = \<lparr>ms_step_id = ''s1'', ms_kind = ACTIVATE_SCHEMA_VERSION, ms_parameters = JObj [],
     ms_compiler_requirements = [], ms_reversibility = REVERSIBLE\<rparr>"

definition sample_raw_bundle :: "lock_class \<Rightarrow> migration_bundle" where
  "sample_raw_bundle lock = \<lparr>mb_source_schema_fingerprint = json_digest JNull, mb_target_schema_fingerprint = json_digest JNull,
     mb_steps = [sample_step], mb_preconditions = [], mb_validations = [], mb_postconditions = [],
     mb_compiler_requirements = [], mb_estimated_lock_class = lock, mb_reversibility = REVERSIBLE,
     mb_bundle_id = ''m1'', mb_digest = [], mb_format_version = migration_format_version\<rparr>"

lemma sample_raw_bundle_constructs:
  "MigrationBundleV1 (sample_raw_bundle k) = Inr ((sample_raw_bundle k)\<lparr>mb_digest := bundle_digest_of (sample_raw_bundle k)\<rparr>)"
  unfolding MigrationBundleV1_eq_Inr by (simp add: lawful_bundle_def sample_raw_bundle_def unique_requirements_def)


text \<open>What the compatibility class of the change demands of a plan.\<close>

definition demands_met :: "compatibility_class \<Rightarrow> json migration_step list \<Rightarrow> json migration_condition list
    \<Rightarrow> json migration_condition list \<Rightarrow> string list \<Rightarrow> bool" where
  "demands_met c steps preconditions validations requirements \<longleftrightarrow>
     (c = BREAKING \<longrightarrow> TRANSFORM_RECORD \<in> ms_kind ` set steps \<and> preconditions \<noteq> [] \<and> validations \<noteq> []) \<and>
     (c = CONDITIONAL \<longrightarrow> requirements \<noteq> []) \<and> ACTIVATE_SCHEMA_VERSION \<in> ms_kind ` set steps"

text \<open>C27: a plan is turned into a bundle exactly when it meets the demands of the change's compatibility class
  and makes a lawful bundle; the bundle is the plan with its digest.  A plan that falls short of the
  demands is an incompatible migration, whatever else is wrong with it.\<close>

theorem create_bundle_contract:
  assumes "sk_classify sk source target = Inr c"
    and "raw = \<lparr>mb_source_schema_fingerprint = sk_fingerprint sk source, mb_target_schema_fingerprint = sk_fingerprint sk target,
       mb_steps = steps, mb_preconditions = pre, mb_validations = val, mb_postconditions = post,
       mb_compiler_requirements = reqs, mb_estimated_lock_class = lock, mb_reversibility = rv,
       mb_bundle_id = i, mb_digest = [], mb_format_version = migration_format_version\<rparr>"
  shows "case create_bundle sk source target steps pre val post reqs lock rv i of
      Inr b \<Rightarrow> demands_met c steps pre val reqs \<and> lawful_bundle raw \<and> b = raw\<lparr>mb_digest := bundle_digest_of raw\<rparr>
    | Inl e \<Rightarrow> if demands_met c steps pre val reqs then \<not> lawful_bundle raw else \<exists>m. e = IncompatibleMigration m"
proof (cases "demands_met c steps pre val reqs")
  case True
  then have "create_bundle sk source target steps pre val post reqs lock rv i = MigrationBundleV1 raw"
    using assms by (cases c) (auto simp: create_bundle_def demands_met_def guard_def)
  moreover have "\<not> lawful_bundle raw" if "MigrationBundleV1 raw = Inl e" for e
  proof
    assume "lawful_bundle raw"
    then have "MigrationBundleV1 raw = Inr (raw\<lparr>mb_digest := bundle_digest_of raw\<rparr>)"
      by (simp add: MigrationBundleV1_eq_Inr assms(2))
    with that show False by simp
  qed
  ultimately show ?thesis
    using True by (cases "MigrationBundleV1 raw") (auto simp: MigrationBundleV1_eq_Inr)
next
  case False
  then have "\<exists>m. create_bundle sk source target steps pre val post reqs lock rv i = Inl (IncompatibleMigration m)"
    using assms(1) by (cases c) (auto simp: create_bundle_def demands_met_def guard_def)
  with False show ?thesis by auto
qed

definition sample_schemas :: "compatibility_class \<Rightarrow> nat schema_core" where
  "sample_schemas c = \<lparr>sk_classify = (\<lambda>_ _. Inr c), sk_fingerprint = (\<lambda>_. json_digest JNull)\<rparr>"

theorem create_bundle_contract_witness:
  "(\<exists>m. create_bundle (sample_schemas BREAKING) 1 2 [sample_step] [] [] [] [] LOCK_NONE REVERSIBLE ''m1'' =
      Inl (IncompatibleMigration m)) \<and>
   create_bundle (sample_schemas (OtherCompatibility ''additive'')) 1 2 [sample_step] [] [] [] [] LOCK_NONE REVERSIBLE ''m1'' =
      Inr ((sample_raw_bundle LOCK_NONE)\<lparr>mb_digest := bundle_digest_of (sample_raw_bundle LOCK_NONE)\<rparr>)"
proof
  have c: "sk_classify (sample_schemas k) 1 2 = Inr k" for k by (simp add: sample_schemas_def)
  show "\<exists>m. create_bundle (sample_schemas BREAKING) 1 2 [sample_step] [] [] [] [] LOCK_NONE REVERSIBLE ''m1'' =
      Inl (IncompatibleMigration m)"
    using create_bundle_contract [OF c refl, of BREAKING "[sample_step]" "[]" "[]" "[]" "[]" LOCK_NONE REVERSIBLE "''m1''"]
    by (auto simp: demands_met_def split: sum.splits)
  have raw: "sample_raw_bundle LOCK_NONE = \<lparr>mb_source_schema_fingerprint = sk_fingerprint (sample_schemas k) 1,
       mb_target_schema_fingerprint = sk_fingerprint (sample_schemas k) 2,
       mb_steps = [sample_step], mb_preconditions = [], mb_validations = [], mb_postconditions = [],
       mb_compiler_requirements = [], mb_estimated_lock_class = LOCK_NONE, mb_reversibility = REVERSIBLE,
       mb_bundle_id = ''m1'', mb_digest = [], mb_format_version = migration_format_version\<rparr>" for k
    by (simp add: sample_raw_bundle_def sample_schemas_def)
  have "lawful_bundle (sample_raw_bundle LOCK_NONE)"
    using sample_raw_bundle_constructs [of LOCK_NONE] by (simp only: MigrationBundleV1_eq_Inr)
  then show "create_bundle (sample_schemas (OtherCompatibility ''additive'')) 1 2 [sample_step] [] [] [] [] LOCK_NONE REVERSIBLE ''m1'' =
      Inr ((sample_raw_bundle LOCK_NONE)\<lparr>mb_digest := bundle_digest_of (sample_raw_bundle LOCK_NONE)\<rparr>)"
    using create_bundle_contract [OF c raw, of "OtherCompatibility ''additive''"]
    by (auto simp: demands_met_def sample_step_def split: sum.splits)
qed

end
