(* ===== verification/Cache_Model.thy ===== *)
theory Cache_Model
  imports Outbox_Model "HOL-Library.Log_Nat"
begin

text \<open>
  Model of \<open>cache/model.py\<close>: cache policies with their keys, and the values a cache read or an
  invalidation returns.  Durations are microseconds.  Milliseconds are computed by the code in
  double precision, so the rounding of a quotient to a double is written out.  \<open>CacheEntry\<close> is a
  Core class: its fields are a record, its constructor is a parameter of the coordinator.
\<close>

section \<open>Milliseconds in double precision\<close>

text \<open>The nearest integer to \<open>p / q\<close>, ties to even.\<close>

definition div_half_even :: "int \<Rightarrow> int \<Rightarrow> int" where
  "div_half_even p q = (let d = p div q; r = p mod q
     in if 2 * r < q \<or> 2 * r = q \<and> even d then d else d + 1)"

text \<open>A positive rational as a pair, scaled by a power of two, and rounded to 53 significant bits.\<close>

definition scale2 :: "int \<Rightarrow> int \<times> int \<Rightarrow> int \<times> int" where
  "scale2 s r = (fst r * 2 ^ nat s, snd r * 2 ^ nat (- s))"

definition double_shift :: "int \<times> int \<Rightarrow> int" where
  "double_shift r = (let s = 53 - (bitlen (fst r) - bitlen (snd r)); t = scale2 s r
     in if snd t * 2 ^ 53 \<le> fst t then s - 1 else s)"

definition round_double :: "int \<times> int \<Rightarrow> int \<times> int" where
  "round_double r = (if fst r = 0 then (0, 1)
     else let s = double_shift r; t = scale2 s r in scale2 (- s) (div_half_even (fst t) (snd t), 1))"

text \<open>\<open>int(duration.total_seconds() * 1000)\<close> for a duration that is not negative.\<close>

definition total_milliseconds :: "int \<Rightarrow> int" where
  "total_milliseconds d = (let seconds = round_double (d, 1000000);
       ms = round_double (fst seconds * 1000, snd seconds)
     in fst ms div snd ms)"

definition ttl_milliseconds :: "int \<Rightarrow> int" where
  "ttl_milliseconds d = max 1 (total_milliseconds d)"

section \<open>Policies\<close>

datatype source_version_strategy = STRATEGY_NONE | EXACT | AT_LEAST

fun strategy_value :: "source_version_strategy \<Rightarrow> string" where
  "strategy_value STRATEGY_NONE = ''none''"
| "strategy_value EXACT = ''exact''"
| "strategy_value AT_LEAST = ''at-least''"

datatype cache_outcome = HIT | MISS | NEGATIVE_HIT | STALE | BYPASS

record cache_policy =
  po_source_resource :: string
  po_cache_resource :: string
  po_key_fields :: "string list"
  po_serializer_id :: string
  po_schema_fingerprint :: string
  po_default_ttl :: int
  po_maximum_ttl :: int
  po_maximum_staleness :: int
  po_negative_ttl :: "int option"
  po_source_version_strategy :: source_version_strategy
  po_enabled :: bool
  po_fallback_to_authoritative :: bool
  po_maximum_key_bytes :: int

definition CachePolicy :: "cache_policy \<Rightarrow> exn + cache_policy" where
  "CachePolicy p =
     ebind (require_fields [(''source_resource'', po_source_resource p), (''cache_resource'', po_cache_resource p),
       (''serializer_id'', po_serializer_id p), (''schema_fingerprint'', po_schema_fingerprint p)]) (\<lambda>_.
     ebind (guard (po_key_fields p \<noteq> [] \<and> distinct (po_key_fields p))
       (ValueError ''key_fields must be non-empty and unique'')) (\<lambda>_.
     ebind (guard (\<forall>f \<in> set (po_key_fields p). f \<noteq> [])
       (ValueError ''key_fields must contain non-empty strings'')) (\<lambda>_.
     ebind (guard (is_sha256 (po_schema_fingerprint p))
       (ValueError ''schema_fingerprint must use the sha256:<hex> form'')) (\<lambda>_.
     ebind (guard (0 < po_default_ttl p \<and> 0 < po_maximum_ttl p) (ValueError ''cache TTLs must be positive'')) (\<lambda>_.
     ebind (guard (po_default_ttl p \<le> po_maximum_ttl p) (ValueError ''default_ttl cannot exceed maximum_ttl'')) (\<lambda>_.
     ebind (guard (0 \<le> po_maximum_staleness p) (ValueError ''maximum_staleness cannot be negative'')) (\<lambda>_.
     ebind (case po_negative_ttl p of None \<Rightarrow> Inr () | Some t \<Rightarrow>
         ebind (guard (0 < t) (ValueError ''negative_ttl must be positive'')) (\<lambda>_.
         guard (t \<le> po_maximum_ttl p) (ValueError ''negative_ttl cannot exceed maximum_ttl''))) (\<lambda>_.
     ebind (guard (64 \<le> po_maximum_key_bytes p) (ValueError ''maximum_key_bytes must be at least 64'')) (\<lambda>_.
     Inr p)))))))))"

text \<open>\<open>', '.join(names)\<close>.\<close>

fun join_names :: "string list \<Rightarrow> string" where
  "join_names [] = []"
| "join_names [n] = n"
| "join_names (n # ns) = n @ '', '' @ join_names ns"

text \<open>\<open>value is None or isinstance(value, (Mapping, list, tuple, set, bytes, bytearray))\<close>; a sequence value is
  a list or a tuple.\<close>

fun not_scalar :: "pyval \<Rightarrow> bool" where
  "not_scalar PNone = True"
| "not_scalar (PMapping _) = True"
| "not_scalar (PSequence _) = True"
| "not_scalar (PBytes _) = True"
| "not_scalar (PObject t) = (t = ''set'' \<or> t = ''bytearray'')"
| "not_scalar _ = False"

definition policy_key :: "cache_policy \<Rightarrow> (string, pyval) dict \<Rightarrow> exn + pyval" where
  "policy_key p identity =
     (let missing = filter (\<lambda>n. n \<notin> fst ` set identity) (po_key_fields p);
          invalid = filter (\<lambda>n. case map_of identity n of None \<Rightarrow> True | Some v \<Rightarrow> not_scalar v) (po_key_fields p);
          key = PSequence (PStr (po_source_resource p) # map (\<lambda>n. the (map_of identity n)) (po_key_fields p))
      in ebind (guard (missing = []) (ValueError (''cache identity is missing key fields: '' @ join_names missing))) (\<lambda>_.
         ebind (guard (invalid = []) (ValueError (''cache key fields must be non-null scalars: '' @ join_names invalid))) (\<lambda>_.
         ebind (canonical_json_bytes key) (\<lambda>bytes.
         ebind (guard (int (length bytes) \<le> po_maximum_key_bytes p) (ValueError ''cache key exceeds maximum_key_bytes'')) (\<lambda>_.
         Inr key)))))"

definition policy_to_mapping :: "cache_policy \<Rightarrow> json" where
  "policy_to_mapping p = JObj [(''sourceResource'', JStr (po_source_resource p)), (''cacheResource'', JStr (po_cache_resource p)),
     (''keyFields'', JList (map JStr (po_key_fields p))), (''serializerId'', JStr (po_serializer_id p)),
     (''schemaFingerprint'', JStr (po_schema_fingerprint p)),
     (''defaultTtlMs'', JInt (ttl_milliseconds (po_default_ttl p))),
     (''maximumTtlMs'', JInt (ttl_milliseconds (po_maximum_ttl p))),
     (''maximumStalenessMs'', JInt (total_milliseconds (po_maximum_staleness p))),
     (''negativeTtlMs'', case po_negative_ttl p of None \<Rightarrow> JNull | Some t \<Rightarrow> JInt (ttl_milliseconds t)),
     (''sourceVersionStrategy'', JStr (strategy_value (po_source_version_strategy p))),
     (''enabled'', JBool (po_enabled p)), (''fallbackToAuthoritative'', JBool (po_fallback_to_authoritative p)),
     (''maximumKeyBytes'', JInt (po_maximum_key_bytes p))]"

section \<open>Values\<close>

record loaded_value =
  lv_value :: pyval
  lv_source_version :: version

record cache_read =
  cr_value :: pyval
  cr_source_version :: version
  cr_outcome :: cache_outcome
  cr_cache_error :: "string option"

record invalidation_result =
  ir_successful :: bool
  ir_invalidated :: int
  ir_error_code :: "string option"

text \<open>The fields of the Core's \<open>CacheEntry\<close>; a timestamp is a \<open>datetime\<close> or its text.\<close>

datatype timestamp = Stamp datetime | StampText string

record cache_entry =
  ent_key :: json
  ent_value :: json
  ent_serializer_id :: string
  ent_schema_fingerprint :: string
  ent_created_at :: timestamp
  ent_expires_at :: "timestamp option"
  ent_source_version :: version

record versioned_entry =
  ve_entry :: cache_entry
  ve_version :: version

section \<open>Bounds on the milliseconds\<close>

definition ratio :: "int \<times> int \<Rightarrow> real" where
  "ratio r = real_of_int (fst r) / real_of_int (snd r)"

lemma div_half_even_error:
  assumes "0 < q"
  shows "\<bar>real_of_int (div_half_even p q) - real_of_int p / real_of_int q\<bar> \<le> 1 / 2"
proof -
  define r d where "r = p mod q" and "d = p div q"
  have p: "p = d * q + r" by (simp add: r_def d_def)
  have frac: "real_of_int p / real_of_int q = real_of_int d + real_of_int r / real_of_int q"
    using assms by (simp add: p field_simps)
  have "0 \<le> r" "r < q" using assms by (simp_all add: r_def)
  then have bounds: "0 \<le> real_of_int r / real_of_int q" "real_of_int r / real_of_int q < 1"
    using assms by simp_all
  show ?thesis
  proof (cases "2 * r < q \<or> 2 * r = q \<and> even d")
    case True
    then have "real_of_int r / real_of_int q \<le> 1 / 2" using assms by (auto simp: field_simps)
    with True bounds show ?thesis unfolding frac by (simp add: div_half_even_def Let_def r_def d_def)
  next
    case False
    then have "q \<le> 2 * r" by auto
    then have "1 / 2 \<le> real_of_int r / real_of_int q" using assms by (simp add: field_simps)
    moreover from False have "div_half_even p q = d + 1" by (simp add: div_half_even_def Let_def r_def d_def)
    ultimately show ?thesis using bounds unfolding frac by simp
  qed
qed

lemma ratio_scale2: "ratio (scale2 s r) = ratio r * 2 powr real_of_int s"
proof (cases "0 \<le> s")
  case True
  then have "(2 :: real) ^ nat s = 2 powr real_of_int s" by (simp add: powr_realpow [symmetric])
  with True show ?thesis by (simp add: ratio_def scale2_def)
next
  case False
  then have "(2 :: real) ^ nat (- s) = 2 powr (- real_of_int s)" by (simp add: powr_realpow [symmetric])
  then have "2 powr real_of_int s = 1 / 2 ^ nat (- s)" by (simp add: powr_minus_divide)
  with False show ?thesis by (simp add: ratio_def scale2_def)
qed

lemma double_shift_lower:
  assumes "0 < fst r" and "0 < snd r"
  shows "2 ^ 52 \<le> ratio (scale2 (double_shift r) r)"
proof -
  define s where "s = 53 - (bitlen (fst r) - bitlen (snd r))"
  have "2 powr real_of_int (bitlen x - 1) \<le> real_of_int x \<and> real_of_int x < 2 powr real_of_int (bitlen x)" if "0 < x" for x
  proof -
    have one: "1 \<le> bitlen x" using that by (simp add: bitlen_alt_def)
    have "2 ^ nat (bitlen x - 1) \<le> x \<and> x < 2 ^ nat (bitlen x)" using bitlen_bounds [OF that] .
    then have "real_of_int (2 ^ nat (bitlen x - 1)) \<le> real_of_int x \<and> real_of_int x < real_of_int (2 ^ nat (bitlen x))"
      by (simp only: of_int_le_iff of_int_less_iff)
    with one show ?thesis by (simp add: powr_realpow [symmetric])
  qed
  note b = this [OF assms(1)] this [OF assms(2)]
  have "2 powr real_of_int (bitlen (fst r) - 1) / 2 powr real_of_int (bitlen (snd r)) \<le> ratio r"
    unfolding ratio_def using b assms by (intro frac_le) auto
  then have "2 powr real_of_int (bitlen (fst r) - 1 - bitlen (snd r)) * 2 powr real_of_int s \<le> ratio r * 2 powr real_of_int s"
    by (intro mult_right_mono) (simp_all add: powr_diff)
  also have "2 powr real_of_int (bitlen (fst r) - 1 - bitlen (snd r)) * 2 powr real_of_int s = 2 powr 52"
    by (simp add: powr_add [symmetric] s_def)
  finally have low: "2 powr 52 \<le> ratio (scale2 s r)" by (simp add: ratio_scale2)
  show ?thesis
  proof (cases "snd (scale2 s r) * 2 ^ 53 \<le> fst (scale2 s r)")
    case True
    have "0 < snd (scale2 s r)" using assms by (simp add: scale2_def)
    moreover from True have "real_of_int (snd (scale2 s r)) * 2 ^ 53 \<le> real_of_int (fst (scale2 s r))"
      by (metis (mono_tags, lifting) of_int_le_iff of_int_mult of_int_numeral of_int_power)
    ultimately have "2 ^ 53 \<le> ratio (scale2 s r)"
      unfolding ratio_def by (simp add: field_simps)
    moreover have "double_shift r = s - 1" using True by (simp add: double_shift_def s_def Let_def)
    ultimately show ?thesis by (simp add: ratio_scale2 powr_diff)
  next
    case False
    then have "double_shift r = s" by (simp add: double_shift_def s_def Let_def)
    with low show ?thesis by simp
  qed
qed

lemma round_double_error:
  assumes "0 < fst r" and "0 < snd r"
  shows "\<bar>ratio (round_double r) - ratio r\<bar> \<le> ratio r / 2 ^ 53"
proof -
  let ?s = "double_shift r" and ?t = "scale2 (double_shift r) r"
  let ?m = "real_of_int (div_half_even (fst ?t) (snd ?t))" and ?u = "2 powr real_of_int ?s"
  have round: "ratio (round_double r) = ?m / ?u"
    using assms by (simp add: round_double_def Let_def ratio_scale2 powr_minus field_simps) (simp add: ratio_def)
  have "\<bar>?m - ratio ?t\<bar> \<le> 1 / 2"
    unfolding ratio_def using assms by (intro div_half_even_error) (simp add: scale2_def)
  then have "\<bar>?m - ratio r * ?u\<bar> \<le> 1 / 2" by (simp add: ratio_scale2)
  moreover have "ratio (round_double r) - ratio r = (?m - ratio r * ?u) / ?u" by (simp add: round field_simps)
  ultimately have "\<bar>ratio (round_double r) - ratio r\<bar> \<le> 1 / 2 / ?u"
    by (simp add: abs_divide divide_right_mono del: abs_mult) (simp add: field_simps)
  moreover have "2 ^ 52 \<le> ratio r * ?u" using double_shift_lower [OF assms] by (simp add: ratio_scale2)
  then have "1 / 2 / ?u \<le> ratio r / 2 ^ 53" by (simp add: field_simps)
  ultimately show ?thesis by linarith
qed

lemma round_double_pos:
  assumes "0 < fst r" and "0 < snd r"
  shows "0 < fst (round_double r) \<and> 0 < snd (round_double r)"
proof -
  have snd: "0 < snd (round_double r)" using assms by (simp add: round_double_def Let_def scale2_def)
  have "0 < ratio r" using assms by (simp add: ratio_def)
  moreover have "- (ratio (round_double r) - ratio r) \<le> ratio r / 2 ^ 53"
    using round_double_error [OF assms] unfolding abs_le_iff by blast
  ultimately have "0 < ratio (round_double r)" by (simp add: field_simps)
  with snd show ?thesis by (simp add: ratio_def zero_less_divide_iff)
qed

lemma total_milliseconds_error:
  assumes "0 < d" and "d \<le> 2 ^ 50"
  shows "\<exists>ms. total_milliseconds d = \<lfloor>ms\<rfloor> \<and> \<bar>ms - real_of_int d / 1000\<bar> < 1 / 1000"
proof -
  define seconds where "seconds = round_double (d, 1000000)"
  define ms where "ms = round_double (fst seconds * 1000, snd seconds)"
  let ?x = "real_of_int d / 1000000"
  have pos: "0 < fst seconds" "0 < snd seconds" using round_double_pos [of "(d, 1000000)"] assms by (simp_all add: seconds_def)
  have e1: "\<bar>ratio seconds - ?x\<bar> \<le> ?x / 2 ^ 53"
    using round_double_error [of "(d, 1000000)"] assms by (simp add: seconds_def ratio_def)
  have "ratio (fst seconds * 1000, snd seconds) = 1000 * ratio seconds" by (simp add: ratio_def)
  then have e2: "\<bar>ratio ms - 1000 * ratio seconds\<bar> \<le> 1000 * ratio seconds / 2 ^ 53"
    using round_double_error [of "(fst seconds * 1000, snd seconds)"] pos by (simp add: ms_def)
  have x: "0 < ?x" "?x \<le> 2 ^ 50 / 1000000" using assms by (simp_all add: divide_right_mono)
  from e1 have "ratio seconds - ?x \<le> ?x / 2 ^ 53" unfolding abs_le_iff by blast
  then have up: "ratio seconds \<le> 2 * ?x" using x(1) by (simp add: field_simps)
  have "\<bar>m - 1000 * x\<bar> \<le> \<bar>m - 1000 * s\<bar> + 1000 * \<bar>s - x\<bar>" for m s x :: real by (simp add: abs_if)
  then have "\<bar>ratio ms - 1000 * ?x\<bar> \<le> \<bar>ratio ms - 1000 * ratio seconds\<bar> + 1000 * \<bar>ratio seconds - ?x\<bar>" .
  also have "\<dots> \<le> 1000 * (2 * ?x) / 2 ^ 53 + 1000 * (?x / 2 ^ 53)"
    using e1 e2 up by (intro add_mono) auto
  also have "\<dots> = 3000 * ?x / 2 ^ 53" by simp
  also have "\<dots> < 1 / 1000" using x by simp
  finally have "\<bar>ratio ms - real_of_int d / 1000\<bar> < 1 / 1000" by simp
  moreover have "total_milliseconds d = \<lfloor>ratio ms\<rfloor>"
    by (simp add: total_milliseconds_def seconds_def ms_def Let_def ratio_def floor_divide_of_int_eq)
  ultimately show ?thesis by blast
qed



text \<open>A time to live of 1001 milliseconds is handed to the backend, and written into the policy's
  mapping, as 1000.\<close>

lemma ttl_is_one_millisecond_short: "ttl_milliseconds 1001000 = 1000"
  by code_simp

end
