(* ===== verification/Cache_Backend.thy ===== *)
theory Cache_Backend
  imports Cache_Model
begin

text \<open>
  Model of \<open>cache/backends.py\<close>: the in-memory backend as a store with a revision counter, and the
  adapter of the cache Catalog, whose surface, execution and entry class belong to the Core and are
  parameters.  The standard library's ISO 8601 parser is a parameter too: \<open>None\<close> is its \<open>ValueError\<close>.
\<close>

section \<open>Timestamps from text\<close>

definition parse_rfc3339 :: "(string \<Rightarrow> datetime option) \<Rightarrow> string \<Rightarrow> string \<Rightarrow> exn + int" where
  "parse_rfc3339 fromisoformat value field =
     (case fromisoformat (concat (map (\<lambda>c. if c = CHR ''Z'' then ''+00:00'' else [c]) value)) of
        None \<Rightarrow> Inl (ValueError (field @ '' must be an RFC 3339 timestamp''))
      | Some parsed \<Rightarrow> ensure_utc parsed field)"

section \<open>The in-memory backend\<close>

record cache_store =
  st_entries :: "(string \<times> string, versioned_entry) dict"
  st_revision :: int
  st_available :: bool

definition InMemoryCacheBackend :: cache_store where
  "InMemoryCacheBackend = \<lparr>st_entries = [], st_revision = 0, st_available = True\<rparr>"

definition set_available :: "bool \<Rightarrow> (cache_store, unit) prog" where
  "set_available available s = (Inr (), s\<lparr>st_available := available\<rparr>)"

definition require_available :: "(cache_store, unit) prog" where
  "require_available s =
     (if st_available s then Inr () else Inl (RuntimeError ''cache backend unavailable''), s)"

definition next_version :: "(cache_store, int) prog" where
  "next_version s = (Inr (st_revision s + 1), s\<lparr>st_revision := st_revision s + 1\<rparr>)"

definition memory_key :: "string \<Rightarrow> pyval \<Rightarrow> exn + string \<times> string" where
  "memory_key resource key = ebind (sha256_digest key) (\<lambda>d. Inr (resource, d))"

definition store_entry :: "string \<times> string \<Rightarrow> cache_entry \<Rightarrow> int \<Rightarrow> (cache_store, unit) prog" where
  "store_entry k entry version s =
     (Inr (), s\<lparr>st_entries := AList.update k \<lparr>ve_entry = entry, ve_version = VInt version\<rparr> (st_entries s)\<rparr>)"

definition memory_get :: "string \<Rightarrow> pyval \<Rightarrow> (cache_store, versioned_entry option) prog" where
  "memory_get resource key =
     pbind require_available (\<lambda>_.
     pbind (plift (memory_key resource key)) (\<lambda>k.
     \<lambda>s. (Inr (map_of (st_entries s) k), s)))"

definition memory_put :: "string \<Rightarrow> cache_entry \<Rightarrow> int \<Rightarrow> (cache_store, version) prog" where
  "memory_put resource entry ttl_ms =
     pbind require_available (\<lambda>_.
     pbind next_version (\<lambda>version.
     pbind (plift (memory_key resource (json_val (ent_key entry)))) (\<lambda>k.
     pbind (store_entry k entry version) (\<lambda>_. pret (VInt version)))))"

definition memory_put_if_absent :: "string \<Rightarrow> cache_entry \<Rightarrow> int \<Rightarrow> (cache_store, bool) prog" where
  "memory_put_if_absent resource entry ttl_ms =
     pbind require_available (\<lambda>_.
     pbind (plift (memory_key resource (json_val (ent_key entry)))) (\<lambda>k. \<lambda>s.
     if k \<in> fst ` set (st_entries s) then (Inr False, s)
     else pbind next_version (\<lambda>version. pbind (store_entry k entry version) (\<lambda>_. pret True)) s))"

definition memory_compare_and_set :: "string \<Rightarrow> cache_entry \<Rightarrow> version \<Rightarrow> int \<Rightarrow> (cache_store, bool) prog" where
  "memory_compare_and_set resource entry expected_version ttl_ms =
     pbind require_available (\<lambda>_.
     pbind (plift (memory_key resource (json_val (ent_key entry)))) (\<lambda>k. \<lambda>s.
     case map_of (st_entries s) k of
       None \<Rightarrow> (Inr False, s)
     | Some current \<Rightarrow>
         if \<not> version_eq (ve_version current) expected_version then (Inr False, s)
         else pbind next_version (\<lambda>version. pbind (store_entry k entry version) (\<lambda>_. pret True)) s))"

definition memory_delete :: "string \<Rightarrow> pyval \<Rightarrow> (cache_store, bool) prog" where
  "memory_delete resource key =
     pbind require_available (\<lambda>_.
     pbind (plift (memory_key resource key)) (\<lambda>k. \<lambda>s.
     (Inr (k \<in> fst ` set (st_entries s)), s\<lparr>st_entries := AList.delete k (st_entries s)\<rparr>)))"

definition memory_invalidate :: "string \<Rightarrow> (string, pyval) dict \<Rightarrow> (cache_store, int) prog" where
  "memory_invalidate resource selector =
     pbind require_available (\<lambda>_.
     pbind (plift (guard (map_of selector ''all'' = Some (PBool True))
       (ValueError ''in-memory invalidation supports only {'all': true}''))) (\<lambda>_. \<lambda>s.
     (Inr (int (length (filter (\<lambda>e. fst (fst e) = resource) (st_entries s)))),
      s\<lparr>st_entries := filter (\<lambda>e. fst (fst e) \<noteq> resource) (st_entries s)\<rparr>)))"

section \<open>The Catalog backend\<close>

definition cache_envelope_format_version :: string where
  "cache_envelope_format_version = ''meridian.cache-envelope.v1''"

record op_result =
  or_data :: pyval
  or_operation_fingerprint :: string

text \<open>The Core's cache surface, the execution of its expressions, and the entry class: constructor and
  \<open>to_dict\<close>.\<close>

record ('w, 's, 'x) cache_catalog =
  ct_surface :: "('w, 's) prog"
  ct_get :: "'s \<Rightarrow> string \<Rightarrow> pyval \<Rightarrow> ('w, 'x) prog"
  ct_put :: "'s \<Rightarrow> string \<Rightarrow> json \<Rightarrow> json \<Rightarrow> int \<Rightarrow> version \<Rightarrow> ('w, 'x) prog"
  ct_put_if_absent :: "'s \<Rightarrow> string \<Rightarrow> json \<Rightarrow> json \<Rightarrow> int \<Rightarrow> version \<Rightarrow> ('w, 'x) prog"
  ct_compare_and_set :: "'s \<Rightarrow> string \<Rightarrow> json \<Rightarrow> version \<Rightarrow> json \<Rightarrow> int \<Rightarrow> ('w, 'x) prog"
  ct_delete :: "'s \<Rightarrow> string \<Rightarrow> pyval \<Rightarrow> ('w, 'x) prog"
  ct_invalidate :: "'s \<Rightarrow> string \<Rightarrow> (string, pyval) dict \<Rightarrow> ('w, 'x) prog"
  ct_execute :: "'x \<Rightarrow> ('w, op_result) prog"
  ct_entry :: "cache_entry \<Rightarrow> exn + cache_entry"
  ct_to_dict :: "cache_entry \<Rightarrow> (string, json) dict"
  ct_fromisoformat :: "string \<Rightarrow> datetime option"

text \<open>\<open>mapping.get(name)\<close> and \<open>mapping.get(name, default)\<close> on the items of a mapping.\<close>

abbreviation field :: "(pyval \<times> pyval) list \<Rightarrow> string \<Rightarrow> pyval option" where
  "field kvs name \<equiv> map_of kvs (PStr name)"

definition field_or :: "(pyval \<times> pyval) list \<Rightarrow> string \<Rightarrow> pyval \<Rightarrow> pyval" where
  "field_or kvs name d = (case field kvs name of None \<Rightarrow> d | Some v \<Rightarrow> v)"

fun result_mapping :: "pyval \<Rightarrow> exn + (pyval \<times> pyval) list option" where
  "result_mapping PNone = Inr None"
| "result_mapping (PMapping kvs) = Inr (Some kvs)"
| "result_mapping _ = Inl (ValueError ''cache Catalog returned non-mapping Data'')"

definition wire_entry :: "('w, 's, 'x) cache_catalog \<Rightarrow> cache_entry \<Rightarrow> json" where
  "wire_entry ct entry = JObj (fold (\<lambda>(k, v) d. AList.update k v d) (ct_to_dict ct entry)
     [(''formatVersion'', JStr cache_envelope_format_version)])"

fun entry_mapping_of :: "pyval \<Rightarrow> exn + (pyval \<times> pyval) list" where
  "entry_mapping_of (PMapping candidate) =
     (let version = PStr cache_envelope_format_version; nested = field candidate ''value''
      in if field candidate ''formatVersion'' = Some version then Inr candidate
         else case nested of
             Some (PMapping kvs) \<Rightarrow>
               if field kvs ''formatVersion'' = Some version then Inr kvs
               else if field candidate ''serializerId'' \<noteq> None \<and> field candidate ''schemaFingerprint'' \<noteq> None
                 then Inr candidate
               else Inl (ValueError ''cache Catalog result does not contain a Meridian cache envelope'')
           | _ \<Rightarrow>
               if field candidate ''serializerId'' \<noteq> None \<and> field candidate ''schemaFingerprint'' \<noteq> None
                 then Inr candidate
               else Inl (ValueError ''cache Catalog result does not contain a Meridian cache envelope''))"
| "entry_mapping_of _ = Inl (ValueError ''cache entry must be a mapping'')"

definition entry_mapping :: "(pyval \<times> pyval) list \<Rightarrow> exn + (pyval \<times> pyval) list" where
  "entry_mapping value = entry_mapping_of (field_or value ''entry'' (PMapping value))"

text \<open>\<open>None\<close> when the value is not a \<open>str | int | None\<close>, or is a \<open>bool\<close>.\<close>

fun version_of :: "pyval \<Rightarrow> version option" where
  "version_of PNone = Some VNone"
| "version_of (PInt i) = Some (VInt i)"
| "version_of (PStr s) = Some (VStr s)"
| "version_of _ = None"

definition catalog_entry :: "('w, 's, 'x) cache_catalog \<Rightarrow> (pyval \<times> pyval) list \<Rightarrow> exn + cache_entry" where
  "catalog_entry ct value =
     ebind (case field_or value ''createdAt'' PNone of PStr t \<Rightarrow> Inr t
       | _ \<Rightarrow> Inl (ValueError ''cache entry createdAt must be an RFC 3339 string'')) (\<lambda>created.
     ebind (case field_or value ''expiresAt'' PNone of PNone \<Rightarrow> Inr [] | PStr t \<Rightarrow> Inr t
       | _ \<Rightarrow> Inl (ValueError ''cache entry expiresAt must be an RFC 3339 string or null'')) (\<lambda>expires.
     ebind (case (field_or value ''serializerId'' PNone, field_or value ''schemaFingerprint'' PNone) of
         (PStr s, PStr f) \<Rightarrow> Inr (s, f)
       | _ \<Rightarrow> Inl (ValueError ''cache entry serializer and Schema fingerprint are required'')) (\<lambda>(serializer, fingerprint).
     ebind (case version_of (field_or value ''sourceVersion'' PNone) of Some v \<Rightarrow> Inr v
       | None \<Rightarrow> Inl (ValueError ''cache sourceVersion must be a string, integer, or null'')) (\<lambda>source_version.
     ebind (to_json_value (field_or value ''key'' PNone)) (\<lambda>key.
     ebind (to_json_value (field_or value ''value'' PNone)) (\<lambda>payload.
     ebind (parse_rfc3339 (ct_fromisoformat ct) created ''createdAt'') (\<lambda>created_at.
     ebind (if expires = [] then Inr None
       else ebind (parse_rfc3339 (ct_fromisoformat ct) expires ''expiresAt'') (\<lambda>u. Inr (Some (Stamp (utc_datetime u))))) (\<lambda>expires_at.
     ct_entry ct \<lparr>ent_key = key, ent_value = payload, ent_serializer_id = serializer,
       ent_schema_fingerprint = fingerprint, ent_created_at = Stamp (utc_datetime created_at),
       ent_expires_at = expires_at, ent_source_version = source_version\<rparr>))))))))"

definition catalog_version :: "op_result \<Rightarrow> (pyval \<times> pyval) list \<Rightarrow> exn + version" where
  "catalog_version result mapping =
     (let candidate = (case field mapping ''entry'' of Some (PMapping kvs) \<Rightarrow> kvs | _ \<Rightarrow> []);
          version = field_or mapping ''entryVersion'' (field_or mapping ''version''
            (field_or candidate ''entryVersion'' (field_or candidate ''version'' (PStr (or_operation_fingerprint result)))))
      in case version of
           PNone \<Rightarrow> Inl (ValueError ''cache entry version must be a string or integer'')
         | _ \<Rightarrow> (case version_of version of Some v \<Rightarrow> Inr v
             | None \<Rightarrow> Inl (ValueError ''cache entry version must be a string or integer'')))"

definition catalog_get :: "('w, 's, 'x) cache_catalog \<Rightarrow> string \<Rightarrow> pyval \<Rightarrow> ('w, versioned_entry option) prog" where
  "catalog_get ct resource key =
     pbind (ct_surface ct) (\<lambda>surface.
     pbind (ct_get ct surface resource key) (\<lambda>expression.
     pbind (ct_execute ct expression) (\<lambda>result.
     pbind (plift (result_mapping (or_data result))) (\<lambda>m.
     case m of None \<Rightarrow> pret None | Some mapping \<Rightarrow>
       if field mapping ''found'' = Some (PBool False) then pret None
       else
         pbind (plift (catalog_version result mapping)) (\<lambda>version.
         pbind (plift (ebind (entry_mapping mapping) (catalog_entry ct))) (\<lambda>entry.
         pbind (plift (canonical_json_bytes key)) (\<lambda>bytes.
         if canonical_json (ent_key entry) \<noteq> bytes
         then praise (ValueError ''cache Catalog returned an entry for a different key'')
         else pret (Some \<lparr>ve_entry = entry, ve_version = version\<rparr>)))))))) "

text \<open>\<open>not isinstance(result.data, Mapping) or result.data.get(name, True) is True\<close>.\<close>

definition result_flag :: "op_result \<Rightarrow> string \<Rightarrow> bool" where
  "result_flag result name = (case or_data result of
     PMapping kvs \<Rightarrow> field_or kvs name (PBool True) = PBool True | _ \<Rightarrow> True)"

definition result_version :: "op_result \<Rightarrow> version" where
  "result_version result = (case or_data result of
     PMapping kvs \<Rightarrow> (case field_or kvs ''entryVersion'' (field_or kvs ''version'' PNone) of
         PInt i \<Rightarrow> VInt i | PStr s \<Rightarrow> VStr s | _ \<Rightarrow> VStr (or_operation_fingerprint result))
   | _ \<Rightarrow> VStr (or_operation_fingerprint result))"

definition catalog_put :: "('w, 's, 'x) cache_catalog \<Rightarrow> string \<Rightarrow> cache_entry \<Rightarrow> int \<Rightarrow> ('w, version) prog" where
  "catalog_put ct resource entry ttl_ms =
     pbind (ct_surface ct) (\<lambda>surface.
     pbind (ct_put ct surface resource (ent_key entry) (wire_entry ct entry) ttl_ms (ent_source_version entry)) (\<lambda>expression.
     pbind (ct_execute ct expression) (\<lambda>result. pret (result_version result))))"

definition catalog_put_if_absent :: "('w, 's, 'x) cache_catalog \<Rightarrow> string \<Rightarrow> cache_entry \<Rightarrow> int \<Rightarrow> ('w, bool) prog" where
  "catalog_put_if_absent ct resource entry ttl_ms =
     pbind (ct_surface ct) (\<lambda>surface.
     pbind (ct_put_if_absent ct surface resource (ent_key entry) (wire_entry ct entry) ttl_ms (ent_source_version entry)) (\<lambda>expression.
     pbind (ct_execute ct expression) (\<lambda>result. pret (result_flag result ''written''))))"

definition catalog_compare_and_set ::
  "('w, 's, 'x) cache_catalog \<Rightarrow> string \<Rightarrow> cache_entry \<Rightarrow> version \<Rightarrow> int \<Rightarrow> ('w, bool) prog" where
  "catalog_compare_and_set ct resource entry expected_version ttl_ms =
     pbind (ct_surface ct) (\<lambda>surface.
     pbind (ct_compare_and_set ct surface resource (ent_key entry) expected_version (wire_entry ct entry) ttl_ms) (\<lambda>expression.
     pbind (ct_execute ct expression) (\<lambda>result. pret (result_flag result ''swapped''))))"

definition catalog_delete :: "('w, 's, 'x) cache_catalog \<Rightarrow> string \<Rightarrow> pyval \<Rightarrow> ('w, bool) prog" where
  "catalog_delete ct resource key =
     pbind (ct_surface ct) (\<lambda>surface.
     pbind (ct_delete ct surface resource key) (\<lambda>expression.
     pbind (ct_execute ct expression) (\<lambda>result. pret (result_flag result ''deleted''))))"

definition catalog_invalidate :: "('w, 's, 'x) cache_catalog \<Rightarrow> string \<Rightarrow> (string, pyval) dict \<Rightarrow> ('w, int) prog" where
  "catalog_invalidate ct resource selector =
     pbind (ct_surface ct) (\<lambda>surface.
     pbind (ct_invalidate ct surface resource selector) (\<lambda>expression.
     pbind (ct_execute ct expression) (\<lambda>result.
     case or_data result of
       PMapping kvs \<Rightarrow> (case field_or kvs ''invalidated'' (PInt 0) of
           PInt n \<Rightarrow> if 0 \<le> n then pret n
             else praise (ValueError ''cache invalidation count must be a non-negative integer'')
         | _ \<Rightarrow> praise (ValueError ''cache invalidation count must be a non-negative integer''))
     | _ \<Rightarrow> pret 0)))"

end
