(* ===== verification/Cache.thy ===== *)
theory Cache
  imports Cache_Backend
begin

text \<open>
  Model of \<open>cache/coordinator.py\<close>.  The backend, the serializer, the evidence sink, the comparator,
  the wait on another reader's event and the clock are programs over a world.  The table of flights
  is part of the state the readers share, beside that world: any hook may be interleaved with other
  readers, so a hook may change it, and the coordinator itself touches it only in the two sections
  it guards with its lock.
\<close>

section \<open>The coordinator\<close>

record 'w cache_env =
  cv_policy :: cache_policy
  cv_get :: "string \<Rightarrow> pyval \<Rightarrow> ('w, versioned_entry option) prog"
  cv_put :: "string \<Rightarrow> cache_entry \<Rightarrow> int \<Rightarrow> ('w, version) prog"
  cv_put_if_absent :: "string \<Rightarrow> cache_entry \<Rightarrow> int \<Rightarrow> ('w, bool) prog"
  cv_compare_and_set :: "string \<Rightarrow> cache_entry \<Rightarrow> version \<Rightarrow> int \<Rightarrow> ('w, bool) prog"
  cv_delete :: "string \<Rightarrow> pyval \<Rightarrow> ('w, bool) prog"
  cv_invalidate :: "string \<Rightarrow> (string, pyval) dict \<Rightarrow> ('w, int) prog"
  cv_serializer_id :: string
  cv_deterministic :: bool
  cv_encode :: "pyval \<Rightarrow> ('w, pyval) prog"
  cv_decode :: "json \<Rightarrow> ('w, pyval) prog"
  cv_evidence :: "'w evidence_sink"
  cv_version_comparator :: "(version \<Rightarrow> version \<Rightarrow> ('w, bool) prog) option"
  cv_wait :: "string \<Rightarrow> ('w, unit) prog"
  cv_clock :: "('w, datetime) prog"
  cv_entry :: "cache_entry \<Rightarrow> exn + cache_entry"
  cv_fromisoformat :: "string \<Rightarrow> datetime option"

definition CacheCoordinator :: "'w cache_env \<Rightarrow> num \<Rightarrow> exn + 'w cache_env" where
  "CacheCoordinator env singleflight_wait_seconds =
     ebind (guard (cv_deterministic env) (ValueError ''cache serializer must be deterministic'')) (\<lambda>_.
     ebind (guard (cv_serializer_id env = po_serializer_id (cv_policy env))
       (ValueError ''cache serializer id does not match policy'')) (\<lambda>_.
     ebind (guard (\<not> num_less singleflight_wait_seconds (Fin 0))
       (ValueError ''singleflight_wait_seconds cannot be negative'')) (\<lambda>_. Inr env)))"

text \<open>\<open>CanonicalJsonSerializer\<close>.\<close>

definition canonical_encode :: "pyval \<Rightarrow> ('w, pyval) prog" where
  "canonical_encode v = plift (ebind (to_json_value v) (\<lambda>j. Inr (json_val j)))"

definition canonical_decode :: "json \<Rightarrow> ('w, pyval) prog" where
  "canonical_decode j = pret (json_val (sorted_json j))"

fun error_code :: "exn \<Rightarrow> string" where
  "error_code (MeridianError _ _ code _ _) = code"
| "error_code e = type_name e"

definition record_failure :: "'w cache_env \<Rightarrow> string \<Rightarrow> exn \<Rightarrow> int \<Rightarrow> ('w, string) prog" where
  "record_failure env state error now =
     pbind (record_evidence (cv_evidence env) ''cache'' (po_source_resource (cv_policy env)) state
       (JObj [(''errorCode'', JStr (error_code error))]) (utc_datetime now)) (\<lambda>_.
     pret (error_code error))"

text \<open>\<open>isinstance(version, int)\<close>.\<close>

fun int_version :: "version \<Rightarrow> int option" where
  "int_version (VInt i) = Some i"
| "int_version (VBool b) = Some (of_bool b)"
| "int_version _ = None"

definition version_valid :: "'w cache_env \<Rightarrow> version \<Rightarrow> version \<Rightarrow> ('w, bool) prog" where
  "version_valid env cached required =
     (if required = VNone \<or> po_source_version_strategy (cv_policy env) = STRATEGY_NONE then pret True
      else if cached = VNone then pret False
      else if po_source_version_strategy (cv_policy env) = EXACT then pret (version_eq cached required)
      else case cv_version_comparator env of
          Some compare \<Rightarrow> compare cached required
        | None \<Rightarrow> (case (int_version cached, int_version required) of
              (Some c, Some r) \<Rightarrow> pret (r \<le> c)
            | _ \<Rightarrow> pret (version_eq cached required)))"

definition instant_of :: "'w cache_env \<Rightarrow> timestamp \<Rightarrow> string \<Rightarrow> exn + int" where
  "instant_of env stamp name = (case stamp of
     StampText t \<Rightarrow> parse_rfc3339 (cv_fromisoformat env) t name | Stamp d \<Rightarrow> ensure_utc d name)"

definition valid_entry :: "'w cache_env \<Rightarrow> cache_entry \<Rightarrow> version \<Rightarrow> int \<Rightarrow> ('w, bool) prog" where
  "valid_entry env entry required now =
     (if ent_serializer_id entry \<noteq> po_serializer_id (cv_policy env) then pret False
      else if ent_schema_fingerprint entry \<noteq> po_schema_fingerprint (cv_policy env) then pret False
      else
        pbind (plift (instant_of env (ent_created_at entry) ''createdAt'')) (\<lambda>created_at.
        pbind (plift (case ent_expires_at entry of None \<Rightarrow> Inr None
          | Some t \<Rightarrow> ebind (instant_of env t ''expiresAt'') (\<lambda>u. Inr (Some u)))) (\<lambda>expires_at.
        if (case expires_at of None \<Rightarrow> False | Some u \<Rightarrow> u \<le> now) then pret False
        else
          pbind (plift (add_duration created_at (po_maximum_staleness (cv_policy env)))) (\<lambda>limit.
          if limit < now then pret False
          else version_valid env (ent_source_version entry) required))))"

definition value_field :: string where
  "value_field = ''$meridian.cache.value''"

definition negative_field :: string where
  "negative_field = ''$meridian.cache.negative''"

text \<open>\<open>value == {"$meridian.cache.negative": True}\<close>, where \<open>1 == 1.0 == True\<close>.\<close>

fun is_negative :: "json \<Rightarrow> bool" where
  "is_negative (JObj [(k, v)]) = (k = negative_field \<and> (v = JBool True \<or> v = JInt 1 \<or> v = JFloat ''1.0''))"
| "is_negative _ = False"

text \<open>The tagged payload: the mapping has exactly the key of the value.\<close>

fun payload_of :: "json \<Rightarrow> exn + json" where
  "payload_of (JObj [(k, v)]) = (if k = value_field then Inr v
     else Inl (ValueError ''cache value does not contain a tagged payload''))"
| "payload_of _ = Inl (ValueError ''cache value does not contain a tagged payload'')"

definition delete_quietly :: "'w cache_env \<Rightarrow> pyval \<Rightarrow> string \<Rightarrow> int \<Rightarrow> ('w, unit) prog" where
  "delete_quietly env key state now =
     pcatch (pbind (cv_delete env (po_cache_resource (cv_policy env)) key) (\<lambda>_. pret ()))
       (\<lambda>error. pbind (record_failure env state error now) (\<lambda>_. pret ()))"

text \<open>\<open>_cached\<close> once the backend returned an entry.\<close>

definition cached_entry ::
  "'w cache_env \<Rightarrow> pyval \<Rightarrow> cache_entry \<Rightarrow> version \<Rightarrow> int \<Rightarrow> ('w, cache_read option \<times> string option) prog" where
  "cached_entry env key entry required now =
     pbind (valid_entry env entry required now) (\<lambda>valid.
     if \<not> valid then pbind (delete_quietly env key ''STALE_DELETE_FAILED'' now) (\<lambda>_. pret (None, None))
     else if is_negative (ent_value entry)
     then pret (Some \<lparr>cr_value = PNone, cr_source_version = ent_source_version entry,
       cr_outcome = NEGATIVE_HIT, cr_cache_error = None\<rparr>, None)
     else pcatch
       (pbind (pbind (plift (payload_of (ent_value entry))) (cv_decode env)) (\<lambda>value.
        pret (Some \<lparr>cr_value = value, cr_source_version = ent_source_version entry,
          cr_outcome = HIT, cr_cache_error = None\<rparr>, None)))
       (\<lambda>error.
          pbind (delete_quietly env key ''CORRUPT_DELETE_FAILED'' now) (\<lambda>_.
          pbind (record_failure env ''CORRUPT'' error now) (\<lambda>_. pret (None, None)))))"

text \<open>The lookup: \<open>Inl\<close> the error code of a failed read, \<open>Inr\<close> what the backend found.\<close>

definition lookup_entry :: "'w cache_env \<Rightarrow> pyval \<Rightarrow> int \<Rightarrow> ('w, string + versioned_entry option) prog" where
  "lookup_entry env key now =
     pcatch (pbind (cv_get env (po_cache_resource (cv_policy env)) key) (\<lambda>found. pret (Inr found)))
       (\<lambda>error.
          pbind (record_failure env ''READ_FAILED'' error now) (\<lambda>code.
          if \<not> po_fallback_to_authoritative (cv_policy env)
          then praise (CacheUnavailable ''cache read failed and fallback is disabled'')
          else pret (Inl code)))"

definition cached :: "'w cache_env \<Rightarrow> pyval \<Rightarrow> version \<Rightarrow> int \<Rightarrow> ('w, cache_read option \<times> string option) prog" where
  "cached env key required now =
     pbind (lookup_entry env key now) (\<lambda>found. case found of
       Inl code \<Rightarrow> pret (None, Some code)
     | Inr None \<Rightarrow> pret (None, None)
     | Inr (Some v) \<Rightarrow> cached_entry env key (ve_entry v) required now)"

definition make_entry :: "'w cache_env \<Rightarrow> pyval \<Rightarrow> pyval \<Rightarrow> version \<Rightarrow> int \<Rightarrow> int \<Rightarrow> exn + cache_entry" where
  "make_entry env key value source_version now ttl =
     ebind (to_json_value key) (\<lambda>k.
     ebind (to_json_value value) (\<lambda>v.
     ebind (add_duration now ttl) (\<lambda>expires.
     cv_entry env \<lparr>ent_key = k, ent_value = v, ent_serializer_id = po_serializer_id (cv_policy env),
       ent_schema_fingerprint = po_schema_fingerprint (cv_policy env), ent_created_at = Stamp (utc_datetime now),
       ent_expires_at = Some (Stamp (utc_datetime expires)), ent_source_version = source_version\<rparr>)))"

definition new_entry ::
  "'w cache_env \<Rightarrow> pyval \<Rightarrow> loaded_value option \<Rightarrow> int \<Rightarrow> ('w, (cache_entry \<times> int) option) prog" where
  "new_entry env key loaded now = (case loaded of
     None \<Rightarrow> (case po_negative_ttl (cv_policy env) of
         None \<Rightarrow> pret None
       | Some ttl \<Rightarrow>
           pbind (plift (make_entry env key (PMapping [(PStr negative_field, PBool True)]) VNone now ttl)) (\<lambda>entry.
           pret (Some (entry, ttl))))
   | Some lv \<Rightarrow>
       pbind (cv_encode env (lv_value lv)) (\<lambda>encoded.
       pbind (plift (make_entry env key (PMapping [(PStr value_field, encoded)]) (lv_source_version lv) now
         (po_default_ttl (cv_policy env)))) (\<lambda>entry.
       pret (Some (entry, po_default_ttl (cv_policy env))))))"

definition loaded_read :: "loaded_value option \<Rightarrow> cache_outcome \<Rightarrow> string option \<Rightarrow> cache_read" where
  "loaded_read loaded outcome cache_error =
     \<lparr>cr_value = (case loaded of None \<Rightarrow> PNone | Some lv \<Rightarrow> lv_value lv),
      cr_source_version = (case loaded of None \<Rightarrow> VNone | Some lv \<Rightarrow> lv_source_version lv),
      cr_outcome = outcome, cr_cache_error = cache_error\<rparr>"

definition populate :: "'w cache_env \<Rightarrow> (cache_entry \<times> int) option \<Rightarrow> string option \<Rightarrow> int \<Rightarrow> ('w, string option) prog" where
  "populate env entry cache_error now = (case entry of
     None \<Rightarrow> pret cache_error
   | Some (e, ttl) \<Rightarrow> pcatch
       (pbind (cv_put env (po_cache_resource (cv_policy env)) e (ttl_milliseconds ttl)) (\<lambda>_. pret cache_error))
       (\<lambda>error. pbind (record_failure env ''POPULATE_FAILED'' error now) (\<lambda>code. pret (Some code))))"

text \<open>\<open>BYPASS if cache_error\<close>: an empty code counts as none.\<close>

definition load_value ::
  "'w cache_env \<Rightarrow> pyval \<Rightarrow> ('w, loaded_value option) prog \<Rightarrow> string option \<Rightarrow> int \<Rightarrow> ('w, cache_read) prog" where
  "load_value env key loader cache_error now =
     pbind loader (\<lambda>loaded.
     pbind (new_entry env key loaded now) (\<lambda>entry.
     pbind (populate env entry cache_error now) (\<lambda>cache_error.
     pret (loaded_read loaded (if cache_error \<noteq> None \<and> cache_error \<noteq> Some [] then BYPASS else MISS) cache_error))))"

section \<open>Flights\<close>

text \<open>The two sections under \<open>_flights_lock\<close>: joining a flight returns whether the reader leads it.\<close>

definition join_flight :: "string \<Rightarrow> ('w \<times> string list, bool) prog" where
  "join_flight k s = (if k \<in> set (snd s) then (Inr False, s) else (Inr True, (fst s, snd s @ [k])))"

definition finish_flight :: "string \<Rightarrow> ('w \<times> string list, unit) prog" where
  "finish_flight k s =
     (if k \<in> set (snd s) then (Inr (), (fst s, remove1 k (snd s))) else (Inl (KeyError k), s))"

definition current_instant :: "'w cache_env \<Rightarrow> datetime option \<Rightarrow> ('w, int) prog" where
  "current_instant env now =
     pbind (case now of Some d \<Rightarrow> pret d | None \<Rightarrow> cv_clock env) (\<lambda>d. plift (ensure_utc d ''now''))"

text \<open>\<open>follower_error or error_code\<close>.\<close>

definition or_error :: "string option \<Rightarrow> string option \<Rightarrow> string option" where
  "or_error a b = (if a = None \<or> a = Some [] then b else a)"

definition follow ::
  "('v \<times> string list) cache_env \<Rightarrow> pyval \<Rightarrow> string \<Rightarrow> ('v \<times> string list, loaded_value option) prog \<Rightarrow> version
   \<Rightarrow> string option \<Rightarrow> ('v \<times> string list, cache_read) prog" where
  "follow env key flight loader required code =
     pbind (cv_wait env flight) (\<lambda>_.
     pbind (current_instant env None) (\<lambda>now.
     pbind (cached env key required now) (\<lambda>(hit, follower_error). case hit of
       Some r \<Rightarrow> pret r
     | None \<Rightarrow>
         pbind (current_instant env None) (\<lambda>now.
         load_value env key loader (or_error follower_error code) now))))"

definition read ::
  "('v \<times> string list) cache_env \<Rightarrow> (string, pyval) dict \<Rightarrow> ('v \<times> string list, loaded_value option) prog \<Rightarrow> version
   \<Rightarrow> datetime option \<Rightarrow> ('v \<times> string list, cache_read) prog" where
  "read env identity loader required now =
     pbind (current_instant env now) (\<lambda>current.
     if \<not> po_enabled (cv_policy env)
     then pbind loader (\<lambda>loaded. pret (loaded_read loaded BYPASS None))
     else
       pbind (plift (policy_key (cv_policy env) identity)) (\<lambda>key.
       pbind (cached env key required current) (\<lambda>(hit, code). case hit of
         Some r \<Rightarrow> pret r
       | None \<Rightarrow>
           pbind (plift (sha256_digest key)) (\<lambda>flight.
           pbind (join_flight flight) (\<lambda>leader.
           if \<not> leader then follow env key flight loader required code
           else pfinally (load_value env key loader code current) (finish_flight flight))))))"

section \<open>Explicit operations\<close>

definition invalidate_after_commit ::
  "'w cache_env \<Rightarrow> (string, pyval) dict \<Rightarrow> datetime option \<Rightarrow> ('w, invalidation_result) prog" where
  "invalidate_after_commit env selector now =
     pbind (current_instant env now) (\<lambda>current.
     pcatch
       (pbind (cv_invalidate env (po_cache_resource (cv_policy env)) selector) (\<lambda>n.
        pret \<lparr>ir_successful = True, ir_invalidated = n, ir_error_code = None\<rparr>))
       (\<lambda>error. pbind (record_failure env ''INVALIDATION_FAILED'' error current) (\<lambda>code.
        pret \<lparr>ir_successful = False, ir_invalidated = 0, ir_error_code = Some code\<rparr>)))"

text \<open>The entry of an explicit write, with the time to live it is stored for.\<close>

definition explicit_entry ::
  "'w cache_env \<Rightarrow> (string, pyval) dict \<Rightarrow> loaded_value \<Rightarrow> int option \<Rightarrow> datetime option \<Rightarrow> ('w, cache_entry \<times> int) prog" where
  "explicit_entry env identity value ttl now =
     pbind (current_instant env now) (\<lambda>current.
     let selected = (case ttl of Some t \<Rightarrow> t | None \<Rightarrow> po_default_ttl (cv_policy env)) in
     pbind (plift (guard (\<not> (selected \<le> 0 \<or> po_maximum_ttl (cv_policy env) < selected))
       (ValueError ''explicit cache TTL is outside policy bounds''))) (\<lambda>_.
     pbind (plift (policy_key (cv_policy env) identity)) (\<lambda>key.
     pbind (plift (to_json_value key)) (\<lambda>_.
     pbind (cv_encode env (lv_value value)) (\<lambda>encoded.
     pbind (plift (make_entry env key (PMapping [(PStr value_field, encoded)]) (lv_source_version value) current selected)) (\<lambda>entry.
     pret (entry, selected)))))))"

definition unavailable :: "string \<Rightarrow> ('w, 'a) prog \<Rightarrow> ('w, 'a) prog" where
  "unavailable message m = pcatch m (\<lambda>_. praise (CacheUnavailable message))"

definition put_if_absent ::
  "'w cache_env \<Rightarrow> (string, pyval) dict \<Rightarrow> loaded_value \<Rightarrow> int option \<Rightarrow> datetime option \<Rightarrow> ('w, bool) prog" where
  "put_if_absent env identity value ttl now =
     pbind (explicit_entry env identity value ttl now) (\<lambda>(entry, selected).
     unavailable ''put_if_absent failed''
       (cv_put_if_absent env (po_cache_resource (cv_policy env)) entry (ttl_milliseconds selected)))"

definition compare_and_set ::
  "'w cache_env \<Rightarrow> (string, pyval) dict \<Rightarrow> loaded_value \<Rightarrow> version \<Rightarrow> int option \<Rightarrow> datetime option \<Rightarrow> ('w, bool) prog" where
  "compare_and_set env identity value expected_version ttl now =
     pbind (explicit_entry env identity value ttl now) (\<lambda>(entry, selected).
     unavailable ''compare_and_set failed''
       (cv_compare_and_set env (po_cache_resource (cv_policy env)) entry expected_version (ttl_milliseconds selected)))"

definition cache_delete :: "'w cache_env \<Rightarrow> (string, pyval) dict \<Rightarrow> ('w, bool) prog" where
  "cache_delete env identity = unavailable ''cache delete failed''
     (pbind (plift (policy_key (cv_policy env) identity)) (cv_delete env (po_cache_resource (cv_policy env))))"

definition inspect_entry :: "'w cache_env \<Rightarrow> (string, pyval) dict \<Rightarrow> ('w, versioned_entry option) prog" where
  "inspect_entry env identity = unavailable ''cache get failed''
     (pbind (plift (policy_key (cv_policy env) identity)) (cv_get env (po_cache_resource (cv_policy env))))"

end
