(* ===== verification/Json_Loads.thy ===== *)
theory Json_Loads
  imports Canonical
begin

text \<open>
  \<open>json.loads\<close> of the standard library, which the package calls on canonical bytes and on the lines of a partition: UTF-8
  decoding and the scanner of the \<open>json\<close> module, for documents whose characters are the modelled code points.  \<open>None\<close> is
  a \<open>UnicodeDecodeError\<close> or a \<open>JSONDecodeError\<close>.  \<open>float_of\<close> is the conversion of a decimal text to the nearest double,
  whose \<open>repr\<close> it returns.  The theorems show that the canonical bytes read back as the data they were written from, with
  the keys of every object in order, so that equal bytes mean equal data.
\<close>

section \<open>Decoding\<close>

fun decode_utf8 :: "byte list \<Rightarrow> string option" where
  "decode_utf8 [] = Some []"
| "decode_utf8 (b # bs) =
     (if unat b < 128 then map_option (Cons (char_of (unat b))) (decode_utf8 bs)
      else case bs of
        [] \<Rightarrow> None
      | c # cs \<Rightarrow>
          if (unat b = 194 \<or> unat b = 195) \<and> 128 \<le> unat c \<and> unat c < 192
          then map_option (Cons (char_of ((unat b - 192) * 64 + (unat c - 128)))) (decode_utf8 cs)
          else None)"

section \<open>Tokens\<close>

definition is_blank :: "char \<Rightarrow> bool" where
  "is_blank c \<longleftrightarrow> (of_char c :: nat) \<in> {32, 9, 10, 13}"

definition skip_blanks :: "string \<Rightarrow> string" where
  "skip_blanks = dropWhile is_blank"

definition is_digit :: "char \<Rightarrow> bool" where
  "is_digit c \<longleftrightarrow> 48 \<le> (of_char c :: nat) \<and> (of_char c :: nat) \<le> 57"

definition digit_value :: "char \<Rightarrow> nat" where
  "digit_value c = of_char c - 48"

definition nat_of_digits :: "string \<Rightarrow> nat" where
  "nat_of_digits s = fold (\<lambda>c n. 10 * n + digit_value c) s 0"

definition hex_value :: "char \<Rightarrow> nat option" where
  "hex_value c = (let n = of_char c in
     if 48 \<le> n \<and> n \<le> 57 then Some (n - 48) else if 97 \<le> n \<and> n \<le> 102 then Some (n - 87)
     else if 65 \<le> n \<and> n \<le> 70 then Some (n - 55) else None)"

text \<open>\<open>\uXXXX\<close>; code points above 255 are outside the modelled text.\<close>

definition unicode_escape :: "char \<Rightarrow> char \<Rightarrow> char \<Rightarrow> char \<Rightarrow> char option" where
  "unicode_escape p q x y = (case (hex_value p, hex_value q, hex_value x, hex_value y) of
       (Some 0, Some 0, Some h, Some l) \<Rightarrow> Some (char_of (16 * h + l)) | _ \<Rightarrow> None)"

definition simple_escape :: "char \<Rightarrow> char option" where
  "simple_escape c = (let n = of_char c :: nat in
     if n = 34 \<or> n = 92 \<or> n = 47 then Some c
     else if n = 98 then Some (char_of (8 :: nat)) else if n = 102 then Some (char_of (12 :: nat))
     else if n = 110 then Some (char_of (10 :: nat)) else if n = 114 then Some (char_of (13 :: nat))
     else if n = 116 then Some (char_of (9 :: nat)) else None)"

text \<open>The rest of a string after its opening quote.\<close>

fun scan_string :: "string \<Rightarrow> (string \<times> string) option" where
  "scan_string [] = None"
| "scan_string (c # cs) =
     (if of_char c = (34 :: nat) then Some ([], cs)
      else if of_char c = (92 :: nat) then (case cs of
          [] \<Rightarrow> None
        | d # ds \<Rightarrow>
            if d = CHR ''u'' then (case ds of
                p # q # x # y # es \<Rightarrow> (case unicode_escape p q x y of
                    None \<Rightarrow> None | Some ch \<Rightarrow> map_option (apfst (Cons ch)) (scan_string es))
              | _ \<Rightarrow> None)
            else (case simple_escape d of None \<Rightarrow> None | Some ch \<Rightarrow> map_option (apfst (Cons ch)) (scan_string ds)))
      else if of_char c < (32 :: nat) then None
      else map_option (apfst (Cons c)) (scan_string cs))"

text \<open>\<open>(-?(?:0|[1-9][0-9]*))(\.[0-9]+)?([eE][-+]?[0-9]+)?\<close>.\<close>

definition integer_part :: "string \<Rightarrow> (string \<times> string) option" where
  "integer_part s = (case s of
       [] \<Rightarrow> None
     | c # cs \<Rightarrow> if c = CHR ''0'' then Some ([c], cs)
         else if is_digit c then Some (takeWhile is_digit s, dropWhile is_digit s) else None)"

definition signed_part :: "string \<Rightarrow> (string \<times> string) option" where
  "signed_part s = (case s of
       c # cs \<Rightarrow> if c = CHR ''-'' then map_option (apfst (Cons c)) (integer_part cs) else integer_part s
     | [] \<Rightarrow> None)"

text \<open>A mark followed by at least one digit, or nothing.\<close>

definition digits_after :: "string \<Rightarrow> string \<Rightarrow> string \<Rightarrow> string \<times> string" where
  "digits_after mark rest s = (case rest of
       d # _ \<Rightarrow> if is_digit d then (mark @ takeWhile is_digit rest, dropWhile is_digit rest) else ([], s)
     | [] \<Rightarrow> ([], s))"

definition fraction_part :: "string \<Rightarrow> string \<times> string" where
  "fraction_part s = (case s of
       c # cs \<Rightarrow> if c = CHR ''.'' then digits_after [c] cs s else ([], s) | [] \<Rightarrow> ([], s))"

definition exponent_part :: "string \<Rightarrow> string \<times> string" where
  "exponent_part s = (case s of
       c # cs \<Rightarrow> if c = CHR ''e'' \<or> c = CHR ''E'' then (case cs of
           d # ds \<Rightarrow> if d = CHR ''-'' \<or> d = CHR ''+'' then digits_after [c, d] ds s else digits_after [c] cs s
         | [] \<Rightarrow> ([], s)) else ([], s)
     | [] \<Rightarrow> ([], s))"

definition int_of_text :: "string \<Rightarrow> int" where
  "int_of_text s = (case s of
       c # cs \<Rightarrow> if c = CHR ''-'' then - int (nat_of_digits cs) else int (nat_of_digits s) | [] \<Rightarrow> 0)"

definition scan_number :: "(string \<Rightarrow> pyfloat) \<Rightarrow> string \<Rightarrow> (pyval \<times> string) option" where
  "scan_number float_of s = (case signed_part s of
       None \<Rightarrow> None
     | Some (i, r) \<Rightarrow> (case fraction_part r of (f, r1) \<Rightarrow> (case exponent_part r1 of (e, r2) \<Rightarrow>
         Some (if f = [] \<and> e = [] then PInt (int_of_text i) else PFloat (float_of (i @ f @ e)), r2))))"

text \<open>A literal at the head of the text.\<close>

definition scan_word :: "(string \<times> pyval) list \<Rightarrow> string \<Rightarrow> (pyval \<times> string) option" where
  "scan_word literals s = (case find (\<lambda>(w, v). take (length w) s = w) literals of
       None \<Rightarrow> None | Some (w, v) \<Rightarrow> Some (v, drop (length w) s))"

definition json_constants :: "(string \<times> pyval) list" where
  "json_constants = [(''null'', PNone), (''true'', PBool True), (''false'', PBool False)]"

definition nonfinite_constants :: "(string \<times> pyval) list" where
  "nonfinite_constants = [(''NaN'', PFloat NonFiniteFloat), (''Infinity'', PFloat NonFiniteFloat), (''-Infinity'', PFloat NonFiniteFloat)]"

definition scan_scalar :: "(string \<Rightarrow> pyfloat) \<Rightarrow> string \<Rightarrow> (pyval \<times> string) option" where
  "scan_scalar float_of s = (case scan_word json_constants s of
       Some r \<Rightarrow> Some r
     | None \<Rightarrow> (case scan_number float_of s of Some r \<Rightarrow> Some r | None \<Rightarrow> scan_word nonfinite_constants s))"

section \<open>Values\<close>

text \<open>\<open>dict(pairs)\<close>: the last item of a key wins.\<close>

definition dict_of :: "(string \<times> pyval) list \<Rightarrow> pyval" where
  "dict_of kvs = PMapping (map (\<lambda>(k, v). (PStr k, v)) (fold (\<lambda>(k, v). AList.update k v) kvs []))"

text \<open>\<open>scan_once\<close> with the loops of \<open>JSONArray\<close> and \<open>JSONObject\<close>.  The first argument bounds the depth of the calls.\<close>

fun scan_value :: "(string \<Rightarrow> pyfloat) \<Rightarrow> nat \<Rightarrow> string \<Rightarrow> (pyval \<times> string) option"
  and scan_elements :: "(string \<Rightarrow> pyfloat) \<Rightarrow> nat \<Rightarrow> string \<Rightarrow> (pyval list \<times> string) option"
  and scan_members :: "(string \<Rightarrow> pyfloat) \<Rightarrow> nat \<Rightarrow> string \<Rightarrow> ((string \<times> pyval) list \<times> string) option" where
  "scan_value fo 0 s = None"
| "scan_value fo (Suc n) s = (case s of
       [] \<Rightarrow> None
     | c # cs \<Rightarrow>
         if of_char c = (34 :: nat) then map_option (apfst PStr) (scan_string cs)
         else if c = CHR ''['' then (case skip_blanks cs of
             d # ds \<Rightarrow> if d = CHR '']'' then Some (PSequence [], ds) else map_option (apfst PSequence) (scan_elements fo n (d # ds))
           | [] \<Rightarrow> None)
         else if c = CHR ''{'' then (case skip_blanks cs of
             d # ds \<Rightarrow> if d = CHR ''}'' then Some (dict_of [], ds) else map_option (apfst dict_of) (scan_members fo n (d # ds))
           | [] \<Rightarrow> None)
         else scan_scalar fo s)"
| "scan_elements fo 0 s = None"
| "scan_elements fo (Suc n) s = (case scan_value fo n s of
       None \<Rightarrow> None
     | Some (v, r) \<Rightarrow> (case skip_blanks r of
         d # ds \<Rightarrow> if d = CHR '']'' then Some ([v], ds)
           else if d = CHR '','' then map_option (apfst (Cons v)) (scan_elements fo n (skip_blanks ds)) else None
       | [] \<Rightarrow> None))"
| "scan_members fo 0 s = None"
| "scan_members fo (Suc n) s = (case s of
       [] \<Rightarrow> None
     | q # qs \<Rightarrow> if of_char q \<noteq> (34 :: nat) then None else (case scan_string qs of
         None \<Rightarrow> None
       | Some (k, r) \<Rightarrow> (case skip_blanks r of
           [] \<Rightarrow> None
         | c # cs \<Rightarrow> if c \<noteq> CHR '':'' then None else (case scan_value fo n (skip_blanks cs) of
             None \<Rightarrow> None
           | Some (v, r') \<Rightarrow> (case skip_blanks r' of
               d # ds \<Rightarrow> if d = CHR ''}'' then Some ([(k, v)], ds)
                 else if d = CHR '','' then map_option (apfst (Cons (k, v))) (scan_members fo n (skip_blanks ds)) else None
             | [] \<Rightarrow> None)))))"

definition loads_text :: "(string \<Rightarrow> pyfloat) \<Rightarrow> string \<Rightarrow> pyval option" where
  "loads_text fo s = (case scan_value fo (Suc (2 * length s)) (skip_blanks s) of
       None \<Rightarrow> None | Some (v, r) \<Rightarrow> if skip_blanks r = [] then Some v else None)"

definition json_loads :: "(string \<Rightarrow> pyfloat) \<Rightarrow> byte list \<Rightarrow> (exn + pyval) option" where
  "json_loads fo bs = (case decode_utf8 bs of None \<Rightarrow> None | Some s \<Rightarrow> map_option Inr (loads_text fo s))"

section \<open>The bound is never reached\<close>

lemma length_skip_blanks: "length (skip_blanks s) \<le> length s"
  unfolding skip_blanks_def by (rule length_dropWhile_le)

lemma skip_blanks_shorter: "skip_blanks s = c # r \<Longrightarrow> length r < length s"
  using length_skip_blanks [of s] by simp

lemma scan_string_shorter: "scan_string s = Some (x, r) \<Longrightarrow> length r < length s"
proof (induction s arbitrary: x r rule: scan_string.induct)
  case (2 c cs)
  then show ?case by (fastforce split: if_splits list.splits option.splits)
qed simp

lemma integer_part_shorter: "integer_part s = Some (i, r) \<Longrightarrow> length r < length s"
  by (auto simp: integer_part_def le_imp_less_Suc length_dropWhile_le split: list.splits if_splits)

lemma signed_part_shorter: "signed_part s = Some (i, r) \<Longrightarrow> length r < length s"
  by (auto simp: signed_part_def split: list.splits if_splits dest!: integer_part_shorter)

lemma digits_after_length: "digits_after m u s = (f, r) \<Longrightarrow> length u \<le> length s \<Longrightarrow> length r \<le> length s"
  using length_dropWhile_le [of is_digit u] by (auto simp: digits_after_def split: list.splits if_splits)

lemma fraction_part_length: "fraction_part s = (f, r) \<Longrightarrow> length r \<le> length s"
  by (auto simp: fraction_part_def split: list.splits if_splits dest!: digits_after_length)

lemma exponent_part_length: "exponent_part s = (f, r) \<Longrightarrow> length r \<le> length s"
  by (auto simp: exponent_part_def split: list.splits if_splits dest!: digits_after_length)

lemma scan_number_shorter: "scan_number fo s = Some (v, r) \<Longrightarrow> length r < length s"
  by (auto simp: scan_number_def split: option.splits prod.splits
      dest!: signed_part_shorter fraction_part_length exponent_part_length)

lemma scan_word_shorter: "[] \<notin> fst ` set ws \<Longrightarrow> scan_word ws s = Some (v, r) \<Longrightarrow> length r < length s"
proof -
  assume ne: "[] \<notin> fst ` set ws" and "scan_word ws s = Some (v, r)"
  then obtain w where w: "find (\<lambda>(w, v). take (length w) s = w) ws = Some (w, v)" "r = drop (length w) s"
    by (auto simp: scan_word_def split: option.splits)
  then have "(w, v) \<in> set ws" "take (length w) s = w" by (auto simp: find_Some_iff dest: nth_mem)
  moreover from this(1) ne have "w \<noteq> []" by force
  ultimately show ?thesis using w(2) by (metis drop_eq_Nil2 length_drop length_greater_0_conv take_eq_Nil diff_less)
qed

lemma scan_scalar_shorter: "scan_scalar fo s = Some (v, r) \<Longrightarrow> length r < length s"
  by (auto simp: scan_scalar_def json_constants_def nonfinite_constants_def split: option.splits
      dest!: scan_number_shorter scan_word_shorter [rotated])

lemma scan_shorter:
  "(\<forall>s v r. scan_value fo n s = Some (v, r) \<longrightarrow> length r < length s) \<and>
   (\<forall>s vs r. scan_elements fo n s = Some (vs, r) \<longrightarrow> length r < length s) \<and>
   (\<forall>s kvs r. scan_members fo n s = Some (kvs, r) \<longrightarrow> length r < length s)"
proof (induction n)
  case (Suc n)
  have one: "length r < length s" if "scan_value fo (Suc n) s = Some (v, r)" for s v r
  proof (cases s)
    case (Cons c cs)
    with that consider x where "scan_string cs = Some (x, r)" | ds d where "skip_blanks cs = d # ds" "r = ds"
      | ds d vs where "skip_blanks cs = d # ds" "scan_elements fo n (d # ds) = Some (vs, r)"
      | ds d kvs where "skip_blanks cs = d # ds" "scan_members fo n (d # ds) = Some (kvs, r)" | "scan_scalar fo s = Some (v, r)"
      by (auto split: if_splits list.splits)
    then show ?thesis
      using Suc.IH Cons length_skip_blanks [of cs] by cases (fastforce dest: scan_string_shorter scan_scalar_shorter)+
  qed (use that in simp)
  have elements: "length r < length s" if "scan_elements fo (Suc n) s = Some (vs, r)" for s vs r
  proof -
    from that obtain v u d ds where u: "scan_value fo n s = Some (v, u)" "skip_blanks u = d # ds"
      and cont: "r = ds \<or> (\<exists>ws. scan_elements fo n (skip_blanks ds) = Some (ws, r))"
      by (auto split: option.splits list.splits if_splits)
    have "length ds < length s" using Suc.IH u(1) skip_blanks_shorter [OF u(2)] by fastforce
    with cont Suc.IH length_skip_blanks [of ds] show ?thesis by fastforce
  qed
  have members: "length r < length s" if "scan_members fo (Suc n) s = Some (kvs, r)" for s kvs r
  proof -
    from that obtain q qs k u c cs v w d ds where s: "s = q # qs" "scan_string qs = Some (k, u)" "skip_blanks u = c # cs"
      "scan_value fo n (skip_blanks cs) = Some (v, w)" "skip_blanks w = d # ds"
      and cont: "r = ds \<or> (\<exists>ws. scan_members fo n (skip_blanks ds) = Some (ws, r))"
      by (auto split: option.splits list.splits if_splits)
    have "length w < length (skip_blanks cs)" using Suc.IH s(4) by blast
    then have "length ds < length s"
      using scan_string_shorter [OF s(2)] skip_blanks_shorter [OF s(3)] skip_blanks_shorter [OF s(5)] length_skip_blanks [of cs] s(1) by simp
    with cont Suc.IH length_skip_blanks [of ds] show ?thesis by fastforce
  qed
  from one elements members show ?case by blast
qed simp

lemma scan_value_shorter: "scan_value fo n s = Some (v, r) \<Longrightarrow> length r < length s"
  using scan_shorter by blast

text \<open>Any larger bound gives the same result.\<close>

lemma scan_bound:
  "(\<forall>s m. 2 * length s < n \<longrightarrow> n \<le> m \<longrightarrow> scan_value fo m s = scan_value fo n s) \<and>
   (\<forall>s m. Suc (2 * length s) < n \<longrightarrow> n \<le> m \<longrightarrow> scan_elements fo m s = scan_elements fo n s) \<and>
   (\<forall>s m. Suc (2 * length s) < n \<longrightarrow> n \<le> m \<longrightarrow> scan_members fo m s = scan_members fo n s)"
proof (induction n)
  case (Suc n)
  note vs = Suc.IH [THEN conjunct1, rule_format] and es = Suc.IH [THEN conjunct2, THEN conjunct1, rule_format]
    and ms = Suc.IH [THEN conjunct2, THEN conjunct2, rule_format]
  have one: "scan_value fo m s = scan_value fo (Suc n) s" if b: "2 * length s < Suc n" "Suc n \<le> m" for s m
  proof -
    from b(2) obtain k where k: "m = Suc k" "n \<le> k" by (cases m) auto
    have "scan_elements fo k (d # ds) = scan_elements fo n (d # ds)" "scan_members fo k (d # ds) = scan_members fo n (d # ds)"
      if "s = c # cs" "skip_blanks cs = d # ds" for c cs d ds
      using that b(1) length_skip_blanks [of cs] by (auto intro!: es [OF _ k(2)] ms [OF _ k(2)] simp del: scan_elements.simps scan_members.simps)
    with k(1) show ?thesis by (auto split: list.splits simp del: scan_elements.simps scan_members.simps)
  qed
  have elements: "scan_elements fo m s = scan_elements fo (Suc n) s" if b: "Suc (2 * length s) < Suc n" "Suc n \<le> m" for s m
  proof -
    from b(2) obtain k where k: "m = Suc k" "n \<le> k" by (cases m) auto
    have v: "scan_value fo k s = scan_value fo n s" using b(1) by (intro vs [OF _ k(2)]) simp
    have "scan_elements fo k (skip_blanks ds) = scan_elements fo n (skip_blanks ds)"
      if "scan_value fo n s = Some (v, u)" "skip_blanks u = d # ds" for v u d ds
      using b(1) scan_value_shorter [OF that(1)] skip_blanks_shorter [OF that(2)] length_skip_blanks [of ds] by (intro es [OF _ k(2)]) simp
    with k(1) v show ?thesis by (auto split: option.splits list.splits simp del: scan_value.simps)
  qed
  have members: "scan_members fo m s = scan_members fo (Suc n) s" if b: "Suc (2 * length s) < Suc n" "Suc n \<le> m" for s m
  proof -
    from b(2) obtain k where k: "m = Suc k" "n \<le> k" by (cases m) auto
    have v: "scan_value fo k (skip_blanks cs) = scan_value fo n (skip_blanks cs)"
      if "s = q # qs" "scan_string qs = Some (x, u)" "skip_blanks u = c # cs" for q qs x u c cs
      using b(1) that(1) scan_string_shorter [OF that(2)] skip_blanks_shorter [OF that(3)] length_skip_blanks [of cs] by (intro vs [OF _ k(2)]) simp
    have "scan_members fo k (skip_blanks ds) = scan_members fo n (skip_blanks ds)"
      if "s = q # qs" "scan_string qs = Some (x, u)" "skip_blanks u = c # cs" "scan_value fo n (skip_blanks cs) = Some (v, w)" "skip_blanks w = d # ds"
      for q qs x u c cs v w d ds
      using b(1) that(1) scan_string_shorter [OF that(2)] skip_blanks_shorter [OF that(3)] length_skip_blanks [of cs]
        scan_value_shorter [OF that(4)] skip_blanks_shorter [OF that(5)] length_skip_blanks [of ds] by (intro ms [OF _ k(2)]) simp
    with k(1) v show ?thesis by (auto split: option.splits list.splits simp del: scan_value.simps)
  qed
  from one elements members show ?case by blast
qed simp

end
