(* ===== verification/Json_Roundtrip.thy ===== *)
theory Json_Roundtrip
  imports Json_Loads
begin

text \<open>
  Canonical JSON reads back: \<open>json.loads\<close> of the canonical bytes is the data they were written from with the keys of every
  object in order.  It follows that two values have the same canonical bytes, and so the same digest, exactly when they are
  the same JSON data up to the order of keys.
\<close>

section \<open>Characters and strings\<close>

lemma of_char_less [simp]: "(of_char c :: nat) < 256"
  by (simp add: of_char_of)

lemma decode_utf8_char: "decode_utf8 (utf8_char c @ bs) = map_option (Cons c) (decode_utf8 bs)"
proof (cases "(of_char c :: nat) < 128")
  case True
  then have "unat (of_nat (of_char c) :: byte) = of_char c" by (simp add: unat_of_nat)
  with True show ?thesis by (simp add: utf8_char_def)
next
  case False
  let ?n = "of_char c :: nat"
  have n: "?n < 256" by (rule of_char_less)
  with False have "?n div 64 = 2 \<or> ?n div 64 = 3" by linarith
  then have "unat (of_nat (192 + ?n div 64) :: byte) = 192 + ?n div 64" "unat (of_nat (128 + ?n mod 64) :: byte) = 128 + ?n mod 64"
    by (auto simp: unat_of_nat simp del: of_nat_add)
  moreover have "?n div 64 * 64 + ?n mod 64 = ?n" by simp
  ultimately show ?thesis
    using False \<open>?n div 64 = 2 \<or> ?n div 64 = 3\<close> by (auto simp: utf8_char_def Let_def simp del: of_nat_add)
qed

lemma decode_utf8_utf8 [simp]: "decode_utf8 (utf8 s) = Some s"
  by (induction s) (simp_all add: utf8_def decode_utf8_char)

lemma hex_value_digit: "n < 16 \<Longrightarrow> hex_value (hex_digit n) = Some n"
proof -
  assume "n < 16"
  then have "n \<in> set [0, 1, 2, 3, 4, 5, 6, 7, 8, 9, 10, 11, 12, 13, 14, 15]" by (simp; presburger)
  then show ?thesis by (auto simp: hex_value_def hex_digit_def Let_def)
qed

lemma scan_string_escaped: "scan_string (escape_char c @ t) = map_option (apfst (Cons c)) (scan_string t)"
proof -
  let ?n = "of_char c :: nat"
  have c: "c = char_of ?n" by simp
  consider "?n = 34 \<or> ?n = 92" | "?n \<in> {8, 12, 10, 13, 9}" | "?n < 32" "?n \<notin> {8, 12, 10, 13, 9}" | "\<not> ?n < 32" "?n \<noteq> 34" "?n \<noteq> 92" by blast
  then show ?thesis
  proof cases
    case 1
    moreover from this have "c \<noteq> CHR ''u''" by auto
    ultimately show ?thesis by (auto simp: escape_char_def simple_escape_def Let_def)
  next
    case 2
    have "simple_escape CHR ''b'' = Some (char_of (8 :: nat))" "simple_escape CHR ''f'' = Some (char_of (12 :: nat))"
      "simple_escape CHR ''n'' = Some (char_of (10 :: nat))" "simple_escape CHR ''r'' = Some (char_of (13 :: nat))"
      "simple_escape CHR ''t'' = Some (char_of (9 :: nat))" by (simp_all add: simple_escape_def)
    moreover obtain k :: nat where "c = char_of k" "k \<in> {8, 12, 10, 13, 9}" using 2 c by blast
    ultimately show ?thesis by (auto simp: escape_char_def Let_def)
  next
    case 3
    have "hex_digit ?n = hex_digit (?n mod 16)" by (simp add: hex_digit_def)
    moreover have "?n div 16 < 16" using 3(1) by simp
    moreover have "hex_value CHR ''0'' = Some 0" by (simp add: hex_value_def Let_def)
    ultimately have "unicode_escape CHR ''0'' CHR ''0'' (hex_digit (?n div 16)) (hex_digit ?n) = Some c"
      using c by (simp add: unicode_escape_def hex_value_digit)
    with 3 show ?thesis by (auto simp: escape_char_def Let_def)
  next
    case 4
    then show ?thesis by (auto simp: escape_char_def Let_def)
  qed
qed

lemma scan_string_quoted: "scan_string (concat (map escape_char s) @ char_of (34 :: nat) # rest) = Some (s, rest)"
  by (induction s) (simp_all add: scan_string_escaped)

section \<open>Numbers\<close>

text \<open>What follows a number and is no part of it.\<close>

definition number_stops :: "string \<Rightarrow> bool" where
  "number_stops s = (case s of [] \<Rightarrow> True | c # _ \<Rightarrow> \<not> is_digit c \<and> c \<notin> {CHR ''.'', CHR ''e'', CHR ''E'', CHR ''+'', CHR ''-''})"

lemma digit_char: "d < 10 \<Longrightarrow> is_digit (char_of (48 + d)) \<and> digit_value (char_of (48 + d)) = d"
  by (simp add: is_digit_def digit_value_def)

lemma nat_of_digits_snoc: "nat_of_digits (s @ [c]) = 10 * nat_of_digits s + digit_value c"
  by (simp add: nat_of_digits_def)

lemma nat_of_digits_nat_digits [simp]: "nat_of_digits (nat_digits n) = n"
proof (induction n rule: nat_digits.induct)
  case (1 n)
  show ?case
  proof (cases "n < 10")
    case True
    then show ?thesis by (subst nat_digits.simps) (simp add: nat_of_digits_def digit_char)
  next
    case False
    with 1 show ?thesis by (subst nat_digits.simps) (simp add: nat_of_digits_snoc digit_char)
  qed
qed

lemma nat_digits_are_digits: "\<forall>c \<in> set (nat_digits n). is_digit c"
proof (induction n rule: nat_digits.induct)
  case (1 n)
  then show ?case by (subst nat_digits.simps) (auto simp: digit_char)
qed

lemma nat_digits_head: "\<exists>c cs. nat_digits n = c # cs \<and> is_digit c \<and> (c = CHR ''0'' \<longrightarrow> cs = [])"
proof (induction n rule: nat_digits.induct)
  case (1 n)
  show ?case
  proof (cases "n < 10")
    case True
    then show ?thesis by (subst nat_digits.simps) (simp add: digit_char)
  next
    case False
    with 1 obtain c cs where IH: "nat_digits (n div 10) = c # cs" "is_digit c" "c = CHR ''0'' \<longrightarrow> cs = []" by blast
    have "c \<noteq> CHR ''0''"
    proof
      assume "c = CHR ''0''"
      with IH have "nat_of_digits (nat_digits (n div 10)) = 0" by (simp add: nat_of_digits_def digit_value_def)
      with False show False by simp
    qed
    with False IH show ?thesis by (subst nat_digits.simps) simp
  qed
qed

lemma takeWhile_digits:
  "\<forall>c \<in> set s. is_digit c \<Longrightarrow> number_stops rest \<Longrightarrow> takeWhile is_digit (s @ rest) = s \<and> dropWhile is_digit (s @ rest) = rest"
  by (induction s) (auto simp: number_stops_def split: list.splits)

lemma integer_part_digits: "number_stops rest \<Longrightarrow> integer_part (nat_digits n @ rest) = Some (nat_digits n, rest)"
proof -
  assume rest: "number_stops rest"
  obtain c cs where head: "nat_digits n = c # cs" "is_digit c" "c = CHR ''0'' \<longrightarrow> cs = []" using nat_digits_head by blast
  have "takeWhile is_digit (nat_digits n @ rest) = nat_digits n \<and> dropWhile is_digit (nat_digits n @ rest) = rest"
    by (rule takeWhile_digits [OF nat_digits_are_digits rest])
  with head show ?thesis unfolding integer_part_def by auto
qed

lemma fraction_stops: "number_stops s \<Longrightarrow> fraction_part s = ([], s) \<and> exponent_part s = ([], s)"
  by (auto simp: number_stops_def fraction_part_def exponent_part_def split: list.splits)

lemma scan_number_int: "number_stops rest \<Longrightarrow> scan_number fo (int_text i @ rest) = Some (PInt i, rest)"
proof -
  assume rest: "number_stops rest"
  let ?n = "nat_digits (nat \<bar>i\<bar>)"
  obtain c cs where head: "?n = c # cs" "is_digit c" using nat_digits_head by blast
  from head(2) have "c \<noteq> CHR ''-''" by (auto simp: is_digit_def)
  then have "signed_part (int_text i @ rest) = Some (int_text i, rest)"
    using integer_part_digits [OF rest, of "nat \<bar>i\<bar>"] head(1) by (auto simp: signed_part_def int_text_def)
  moreover have "int_of_text (int_text i) = i"
    using nat_of_digits_nat_digits [of "nat \<bar>i\<bar>"] head(1) \<open>c \<noteq> CHR ''-''\<close> by (auto simp: int_of_text_def int_text_def)
  ultimately show ?thesis by (simp add: scan_number_def fraction_stops [OF rest])
qed

text \<open>A number that is the whole text is read the same way in front of what stops it.\<close>

lemma digits_append:
  "(dropWhile is_digit s = [] \<Longrightarrow> number_stops t) \<Longrightarrow>
     takeWhile is_digit (s @ t) = takeWhile is_digit s \<and> dropWhile is_digit (s @ t) = dropWhile is_digit s @ t"
  by (induction s) (auto simp: number_stops_def split: list.splits)

lemma digits_after_append: "number_stops t \<Longrightarrow> digits_after m (r @ t) (s @ t) = apsnd (\<lambda>u. u @ t) (digits_after m r s)"
  using digits_append [of r t] by (auto simp: digits_after_def number_stops_def split: list.splits)

lemma part_Nil [simp]: "fraction_part [] = ([], [])" "exponent_part [] = ([], [])"
  by (simp_all add: fraction_part_def exponent_part_def)

lemma fraction_part_append: "number_stops t \<Longrightarrow> fraction_part (s @ t) = apsnd (\<lambda>u. u @ t) (fraction_part s)"
proof (cases s)
  case (Cons c cs)
  assume "number_stops t"
  with Cons show ?thesis by (auto simp: fraction_part_def simp flip: digits_after_append)
qed (simp add: fraction_stops)

lemma exponent_part_append: "number_stops t \<Longrightarrow> exponent_part (s @ t) = apsnd (\<lambda>u. u @ t) (exponent_part s)"
proof (cases s)
  case (Cons c cs)
  assume t: "number_stops t"
  show ?thesis
  proof (cases cs)
    case Nil
    with t Cons show ?thesis by (auto simp: exponent_part_def digits_after_def number_stops_def split: list.splits)
  next
    case (Cons d ds)
    with t \<open>s = c # cs\<close> show ?thesis by (auto simp: exponent_part_def simp flip: digits_after_append)
  qed
qed (simp add: fraction_stops)

lemma integer_part_append: "number_stops t \<Longrightarrow> integer_part s = Some (i, r) \<Longrightarrow> integer_part (s @ t) = Some (i, r @ t)"
  using digits_append [of s t] by (auto simp: integer_part_def split: list.splits if_splits)

lemma signed_part_append: "number_stops t \<Longrightarrow> signed_part s = Some (i, r) \<Longrightarrow> signed_part (s @ t) = Some (i, r @ t)"
  using integer_part_append [of t] by (fastforce simp: signed_part_def split: list.splits if_splits)

lemma scan_number_append: "number_stops t \<Longrightarrow> scan_number fo s = Some (v, r) \<Longrightarrow> scan_number fo (s @ t) = Some (v, r @ t)"
  by (auto simp: scan_number_def signed_part_append fraction_part_append exponent_part_append split: option.splits prod.splits)

section \<open>Values\<close>

text \<open>\<open>float(repr(x)) == x\<close>: the text of a float is read back as that float.\<close>

definition float_reads :: "(string \<Rightarrow> pyfloat) \<Rightarrow> string \<Rightarrow> bool" where
  "float_reads fo r \<longleftrightarrow> scan_number fo r = Some (PFloat (FiniteFloat r), [])"

fun floats_read :: "(string \<Rightarrow> pyfloat) \<Rightarrow> json \<Rightarrow> bool" where
  "floats_read fo (JFloat r) \<longleftrightarrow> float_reads fo r"
| "floats_read fo (JList js) \<longleftrightarrow> (\<forall>j \<in> set js. floats_read fo j)"
| "floats_read fo (JObj kvs) \<longleftrightarrow> (\<forall>kv \<in> set kvs. floats_read fo (snd kv))"
| "floats_read fo _ \<longleftrightarrow> True"

definition reads_back :: "(string \<Rightarrow> pyfloat) \<Rightarrow> json \<Rightarrow> bool" where
  "reads_back fo j \<longleftrightarrow> (\<forall>n rest. length (json_text j) < n \<longrightarrow> number_stops rest \<longrightarrow>
     scan_value fo n (json_text j @ rest) = Some (json_val (sorted_json j), rest))"

lemma scan_number_head: "scan_number fo s = Some x \<Longrightarrow> \<exists>c cs. s = c # cs \<and> (c = CHR ''-'' \<or> is_digit c)"
  by (cases s) (auto simp: scan_number_def signed_part_def integer_part_def is_digit_def split: if_splits option.splits)

lemma scan_value_number:
  assumes "scan_number fo s = Some x"
  shows "scan_value fo (Suc n) s = Some x"
proof -
  obtain c cs where s: "s = c # cs" "c = CHR ''-'' \<or> is_digit c" using scan_number_head [OF assms] by blast
  then have "of_char c \<noteq> (34 :: nat)" "c \<notin> {CHR ''['', CHR ''{'', CHR ''n'', CHR ''t'', CHR ''f''}" by (auto simp: is_digit_def)
  with s(1) assms show ?thesis by (simp add: scan_scalar_def scan_word_def json_constants_def)
qed

lemma scan_value_string: "scan_value fo (Suc n) (quoted s @ rest) = Some (PStr s, rest)"
  by (simp add: quoted_def scan_string_quoted)

lemma scan_value_constant:
  "scan_value fo (Suc n) (''null'' @ rest) = Some (PNone, rest)" "scan_value fo (Suc n) (''true'' @ rest) = Some (PBool True, rest)"
  "scan_value fo (Suc n) (''false'' @ rest) = Some (PBool False, rest)"
  by (simp_all add: scan_scalar_def scan_word_def json_constants_def)

text \<open>No value begins with a blank or a closing bracket.\<close>

definition opens_value :: "string \<Rightarrow> bool" where
  "opens_value s = (case s of [] \<Rightarrow> False | c # _ \<Rightarrow> \<not> is_blank c \<and> c \<noteq> CHR '']'' \<and> c \<noteq> CHR ''}'')"

lemma opens_number: "scan_number fo s = Some x \<Longrightarrow> opens_value s"
  using scan_number_head [of fo s x] by (auto simp: opens_value_def is_blank_def is_digit_def)

lemma quote_char: "char_of (34 :: nat) = CHR 0x22"
proof -
  have "of_char (char_of (34 :: nat)) = (of_char CHR 0x22 :: nat)" by simp
  then show ?thesis by (simp only: of_char_eq_iff)
qed

lemma opens_quoted: "opens_value (quoted s)"
  by (simp add: opens_value_def quoted_def is_blank_def quote_char)

lemma opens_json: "floats_read fo j \<Longrightarrow> opens_value (json_text j)"
  using opens_number [OF scan_number_int [of "[]" fo i for i]] opens_number [of fo] opens_quoted
  by (cases j) (auto simp: float_reads_def number_stops_def opens_value_def is_blank_def)

lemma opens_append: "opens_value s \<Longrightarrow> opens_value (s @ t)"
  by (auto simp: opens_value_def split: list.splits)

lemma opens_skip: "opens_value s \<Longrightarrow> skip_blanks s = s"
  by (auto simp: opens_value_def skip_blanks_def split: list.splits)

lemma skip_blanks_Cons [simp]: "\<not> is_blank c \<Longrightarrow> skip_blanks (c # s) = c # s"
  by (simp add: skip_blanks_def)

lemma punctuation [simp]: "\<not> is_blank CHR '',''" "\<not> is_blank CHR '']''" "\<not> is_blank CHR ''}''" "\<not> is_blank CHR '':''"
  "number_stops (CHR '','' # s)" "number_stops (CHR '']'' # s)" "number_stops (CHR ''}'' # s)"
  by (simp_all add: is_blank_def number_stops_def is_digit_def)

lemma scan_elements_reads:
  assumes "js \<noteq> []" and "\<forall>j \<in> set js. reads_back fo j \<and> floats_read fo j" and "Suc (length (join_commas (map json_text js))) < n"
  shows "scan_elements fo n (join_commas (map json_text js) @ CHR '']'' # rest) = Some (map (\<lambda>j. json_val (sorted_json j)) js, rest)"
  using assms
proof (induction js arbitrary: n rule: list_nonempty_induct)
  case (single j)
  then obtain m where "n = Suc m" "length (json_text j) < m" by (cases n) auto
  with single show ?case by (simp add: reads_back_def)
next
  case (cons j js)
  then obtain k ks where js: "js = k # ks" by (cases js) auto
  have opens: "opens_value (join_commas (map json_text js) @ CHR '']'' # rest)"
    using cons.prems(1) js by (cases ks) (auto intro!: opens_append opens_json)
  obtain m where m: "n = Suc m" "length (json_text j) < m" "Suc (length (join_commas (map json_text js))) < m"
    using cons.prems(2) js by (cases n) auto
  have "scan_value fo m (json_text j @ CHR '','' # join_commas (map json_text js) @ CHR '']'' # rest)
      = Some (json_val (sorted_json j), CHR '','' # join_commas (map json_text js) @ CHR '']'' # rest)"
    using cons.prems(1) m(2) by (simp add: reads_back_def)
  moreover have "scan_elements fo m (join_commas (map json_text js) @ CHR '']'' # rest) = Some (map (\<lambda>j. json_val (sorted_json j)) js, rest)"
    using cons.IH [OF _ m(3)] cons.prems(1) by simp
  ultimately show ?case using m(1) opens js by (simp add: opens_skip)
qed

lemma join_commas_Cons: "ss \<noteq> [] \<Longrightarrow> join_commas (s # ss) = s @ '','' @ join_commas ss"
  by (cases ss) auto

definition member_text :: "string \<times> json \<Rightarrow> string" where
  "member_text kv = quoted (fst kv) @ '':'' @ json_text (snd kv)"

lemma length_member: "length (json_text (snd kv)) < length (member_text kv)"
  by (simp add: member_text_def)

lemma opens_member: "opens_value (member_text kv @ t)"
  unfolding member_text_def append_assoc by (intro opens_append opens_quoted)

lemma opens_members: "kvs \<noteq> [] \<Longrightarrow> opens_value (join_commas (map member_text kvs) @ t)"
  by (cases kvs; cases "tl kvs") (auto simp: join_commas_Cons opens_member)

lemma scan_member:
  assumes "reads_back fo (snd kv)" and "floats_read fo (snd kv)" and "length (json_text (snd kv)) < n" and "c = CHR ''}'' \<or> c = CHR '',''"
  shows "scan_members fo (Suc n) (member_text kv @ c # rest) = (if c = CHR ''}'' then Some ([(fst kv, json_val (sorted_json (snd kv)))], rest)
    else map_option (apfst (Cons (fst kv, json_val (sorted_json (snd kv))))) (scan_members fo n (skip_blanks rest)))"
proof -
  have "scan_value fo n (json_text (snd kv) @ c # rest) = Some (json_val (sorted_json (snd kv)), c # rest)"
    using assms by (auto simp: reads_back_def)
  moreover have "skip_blanks (json_text (snd kv) @ c # rest) = json_text (snd kv) @ c # rest"
    using assms(2) by (intro opens_skip opens_append opens_json)
  ultimately show ?thesis
    using assms(4) scan_string_quoted [of "fst kv" "CHR '':'' # json_text (snd kv) @ c # rest"]
    by (auto simp: member_text_def quoted_def)
qed

lemma scan_members_reads:
  assumes "kvs \<noteq> []" and "\<forall>kv \<in> set kvs. reads_back fo (snd kv) \<and> floats_read fo (snd kv)"
    and "Suc (length (join_commas (map member_text kvs))) < n"
  shows "scan_members fo n (join_commas (map member_text kvs) @ CHR ''}'' # rest)
    = Some (map (\<lambda>kv. (fst kv, json_val (sorted_json (snd kv)))) kvs, rest)"
  using assms
proof (induction kvs arbitrary: n rule: list_nonempty_induct)
  case (single kv)
  then obtain m where "n = Suc m" "length (json_text (snd kv)) < m" by (cases n) (auto simp: member_text_def)
  with single show ?case by (simp add: scan_member del: scan_members.simps)
next
  case (cons kv kvs)
  obtain m where m: "n = Suc m" "length (json_text (snd kv)) < m" "Suc (length (join_commas (map member_text kvs))) < m"
    using cons.prems(2) cons.hyps length_member [of kv] by (cases n) (auto simp: join_commas_Cons)
  have "scan_members fo m (join_commas (map member_text kvs) @ CHR ''}'' # rest)
      = Some (map (\<lambda>kv. (fst kv, json_val (sorted_json (snd kv)))) kvs, rest)"
    using cons.IH [OF _ m(3)] cons.prems(1) by simp
  with m(1,2) cons show ?case by (simp add: join_commas_Cons scan_member opens_skip opens_members del: scan_members.simps)
qed

lemma dict_of_distinct: "distinct (map fst kvs) \<Longrightarrow> dict_of kvs = PMapping (map (\<lambda>kv. (PStr (fst kv), snd kv)) kvs)"
proof -
  have "fold (\<lambda>(k, v). AList.update k v) kvs d = d @ kvs" if "distinct (map fst (d @ kvs))" for d :: "(string \<times> pyval) list"
    using that by (induction kvs arbitrary: d) (auto simp: update_notin)
  from this [of "[]"] show "distinct (map fst kvs) \<Longrightarrow> ?thesis" by (simp add: dict_of_def case_prod_beta')
qed

lemma sort_key_map_snd: "sort_key fst (map (\<lambda>kv. (fst kv, f (snd kv))) kvs) = map (\<lambda>kv. (fst kv, f (snd kv))) (sort_key fst kvs)"
proof (induction kvs)
  case (Cons kv kvs)
  have "insort_key fst (fst kv, f (snd kv)) (map (\<lambda>kv. (fst kv, f (snd kv))) xs) = map (\<lambda>kv. (fst kv, f (snd kv))) (insort_key fst kv xs)" for xs
    by (induction xs) auto
  with Cons show ?case by simp
qed simp

lemma json_text_object: "json_text (JObj kvs) = ''{'' @ join_commas (map member_text (sort_key fst kvs)) @ ''}''"
  by (simp add: sort_key_map_snd comp_def member_text_def [abs_def])

section \<open>Reading back\<close>

lemma list_reads_back:
  assumes "\<forall>j \<in> set js. reads_back fo j \<and> floats_read fo j"
  shows "reads_back fo (JList js)"
  unfolding reads_back_def
proof (intro allI impI)
  fix n rest assume "length (json_text (JList js)) < n"
  then obtain m where m: "n = Suc m" "Suc (length (join_commas (map json_text js))) < m" by (cases n) auto
  show "scan_value fo n (json_text (JList js) @ rest) = Some (json_val (sorted_json (JList js)), rest)"
  proof (cases js)
    case (Cons k ks)
    have opens: "opens_value (join_commas (map json_text js) @ CHR '']'' # rest)"
      using assms Cons by (cases ks) (auto intro!: opens_append opens_json)
    have "scan_elements fo m (join_commas (map json_text js) @ CHR '']'' # rest) = Some (map (\<lambda>j. json_val (sorted_json j)) js, rest)"
      by (rule scan_elements_reads [OF _ assms m(2)]) (simp add: Cons)
    with opens m(1) show ?thesis
      by (auto simp: opens_skip opens_value_def comp_def simp del: scan_elements.simps split: list.splits)
  qed (simp add: m(1))
qed

lemma object_reads_back:
  assumes "distinct (map fst kvs)" and "\<forall>kv \<in> set kvs. reads_back fo (snd kv) \<and> floats_read fo (snd kv)"
  shows "reads_back fo (JObj kvs)"
  unfolding reads_back_def
proof (intro allI impI)
  let ?kvs = "sort_key fst kvs"
  have kvs: "\<forall>kv \<in> set ?kvs. reads_back fo (snd kv) \<and> floats_read fo (snd kv)" using assms(2) by simp
  have "distinct (map fst (map (\<lambda>kv. (fst kv, json_val (sorted_json (snd kv)))) ?kvs))"
    using assms(1) distinct_fst_sort [of kvs] by (simp add: comp_def)
  from dict_of_distinct [OF this] have dict: "dict_of (map (\<lambda>kv. (fst kv, json_val (sorted_json (snd kv)))) ?kvs) = json_val (sorted_json (JObj kvs))"
    by (simp add: sort_key_map_snd comp_def)
  fix n rest assume "length (json_text (JObj kvs)) < n"
  then obtain m where m: "n = Suc m" "Suc (length (join_commas (map member_text ?kvs))) < m" unfolding json_text_object by (cases n) auto
  show "scan_value fo n (json_text (JObj kvs) @ rest) = Some (json_val (sorted_json (JObj kvs)), rest)"
  proof (cases "kvs = []")
    case False
    then have ne: "?kvs \<noteq> []" by (metis length_0_conv length_sort)
    have "opens_value (join_commas (map member_text ?kvs) @ CHR ''}'' # rest)" by (rule opens_members [OF ne])
    with scan_members_reads [OF ne kvs m(2), of rest] m(1) show ?thesis
      unfolding json_text_object dict [symmetric]
      by (auto simp: opens_skip opens_value_def simp del: scan_members.simps split: list.splits)
  qed (simp add: m(1) dict_of_def)
qed

lemma json_reads_back: "wf_json j \<Longrightarrow> floats_read fo j \<Longrightarrow> reads_back fo j"
proof (induction j rule: sorted_json.induct)
  case 1
  then show ?case by (intro list_reads_back) simp
next
  case 2
  then show ?case by (intro object_reads_back) auto
next
  case "3_4"
  then show ?case by (auto simp: reads_back_def float_reads_def scan_number_append gr0_conv_Suc elim!: less_natE intro!: scan_value_number)
next
  case "3_3"
  then show ?case by (auto simp: reads_back_def scan_number_int gr0_conv_Suc elim!: less_natE intro!: scan_value_number)
qed (auto simp: reads_back_def scan_value_string scan_value_constant [unfolded append_Cons append_Nil] elim!: less_natE simp del: scan_value.simps)

lemma loads_canonical:
  assumes "wf_json j" and "floats_read fo j"
  shows "json_loads fo (canonical_json j) = Some (Inr (json_val (sorted_json j)))"
proof -
  have "skip_blanks (json_text j) = json_text j" by (rule opens_skip [OF opens_json [OF assms(2)]])
  moreover have "number_stops []" by (simp add: number_stops_def)
  with json_reads_back [OF assms] have "scan_value fo (Suc (2 * length (json_text j))) (json_text j @ []) = Some (json_val (sorted_json j), [])"
    unfolding reads_back_def by (metis le_add1 less_Suc_eq_le mult_2)
  ultimately show ?thesis by (simp add: json_loads_def canonical_json_def loads_text_def skip_blanks_def del: scan_value.simps)
qed

lemma json_val_inject [simp]: "json_val i = json_val j \<longleftrightarrow> i = j"
proof (induction i arbitrary: j rule: json_val.induct)
  case (6 js)
  have "map json_val js = map json_val ks \<longleftrightarrow> js = ks" for ks
    using 6 by (induction js arbitrary: ks) (auto simp: map_eq_Cons_conv Cons_eq_map_conv)
  then show ?case by (cases j) auto
next
  case (7 kvs)
  have "map (\<lambda>kv. (PStr (fst kv), json_val (snd kv))) kvs = map (\<lambda>kv. (PStr (fst kv), json_val (snd kv))) kws \<longleftrightarrow> kvs = kws" for kws
    using 7 by (induction kvs arbitrary: kws) (auto simp: Cons_eq_map_conv prod_eq_iff)
  then show ?case by (cases j) auto
qed (case_tac j; simp)+

lemma canonical_json_eq_iff:
  assumes "wf_json i" and "wf_json j" and "floats_read fo i" and "floats_read fo j"
  shows "canonical_json i = canonical_json j \<longleftrightarrow> sorted_json i = sorted_json j"
proof
  assume "canonical_json i = canonical_json j"
  with loads_canonical [OF assms(1,3)] loads_canonical [OF assms(2,4)] show "sorted_json i = sorted_json j" by simp
next
  assume "sorted_json i = sorted_json j"
  with json_text_sorted [OF assms(1)] json_text_sorted [OF assms(2)] show "canonical_json i = canonical_json j"
    by (simp add: canonical_json_def)
qed

text \<open>C14: canonical bytes can be read back: \<open>json.loads\<close> of the canonical bytes of a value is its JSON data with the keys of every
  object in order, provided \<open>float\<close> reads the \<open>repr\<close> of each float it contains as that float.\<close>

theorem canonical_bytes_read_back:
  assumes "canonical_json_bytes v = Inr b" and "\<forall>j. json_value v = Inr j \<longrightarrow> floats_read fo j"
  shows "\<exists>j. json_value v = Inr j \<and> json_loads fo b = Some (Inr (json_val (sorted_json j)))"
  using assms loads_canonical json_value_wf(1) by (fastforce simp: canonical_json_bytes_def)

text \<open>C13: canonical bytes identify data: two values have the same canonical bytes exactly when their JSON data are the same up to the
  order of the keys of objects.  Text, numbers, booleans and nesting are never confused.\<close>

theorem canonical_bytes_identify:
  assumes "canonical_json_bytes v = Inr b" and "canonical_json_bytes w = Inr c"
    and "\<forall>j. json_value v = Inr j \<longrightarrow> floats_read fo j" and "\<forall>j. json_value w = Inr j \<longrightarrow> floats_read fo j"
  shows "b = c \<longleftrightarrow> (\<exists>i j. json_value v = Inr i \<and> json_value w = Inr j \<and> sorted_json i = sorted_json j)"
proof -
  from assms(1,2) obtain i j where "json_value v = Inr i" "b = canonical_json i" "json_value w = Inr j" "c = canonical_json j"
    by (auto simp: canonical_json_bytes_def)
  with assms(3,4) canonical_json_eq_iff [of i j fo] json_value_wf(1) show ?thesis by auto
qed

section \<open>Examples\<close>

text \<open>\<open>{"b": [1.5, true], "a": -7}\<close>, written twice with its keys in another order.\<close>

definition written_value :: pyval where
  "written_value = PMapping [(PStr ''b'', PSequence [PFloat (FiniteFloat ''1.5''), PBool True]), (PStr ''a'', PInt (- 7))]"

definition reordered_value :: pyval where
  "reordered_value = PMapping [(PStr ''a'', PInt (- 7)), (PStr ''b'', PSequence [PFloat (FiniteFloat ''1.5''), PBool True])]"

lemma written_data:
  "json_value written_value = Inr (JObj [(''b'', JList [JFloat ''1.5'', JBool True]), (''a'', JInt (- 7))])"
  "json_value reordered_value = Inr (JObj [(''a'', JInt (- 7)), (''b'', JList [JFloat ''1.5'', JBool True])])"
  by (simp_all add: written_value_def reordered_value_def)

lemma written_float: "float_reads FiniteFloat ''1.5''"
  by (simp add: float_reads_def scan_number_def signed_part_def integer_part_def is_digit_def fraction_part_def digits_after_def exponent_part_def)

theorem canonical_bytes_read_back_witness:
  "json_loads FiniteFloat (canonical_json (JObj [(''b'', JList [JFloat ''1.5'', JBool True]), (''a'', JInt (- 7))]))
     = Some (Inr (PMapping [(PStr ''a'', PInt (- 7)), (PStr ''b'', PSequence [PFloat (FiniteFloat ''1.5''), PBool True])]))"
  using canonical_bytes_read_back [of written_value "canonical_json (JObj [(''b'', JList [JFloat ''1.5'', JBool True]), (''a'', JInt (- 7))])" FiniteFloat]
  by (simp add: canonical_json_bytes_def written_data written_float)

theorem canonical_bytes_identify_witness:
  "canonical_json_bytes written_value = canonical_json_bytes reordered_value"
  using canonical_bytes_identify [of written_value "canonical_json (JObj [(''b'', JList [JFloat ''1.5'', JBool True]), (''a'', JInt (- 7))])"
      reordered_value "canonical_json (JObj [(''a'', JInt (- 7)), (''b'', JList [JFloat ''1.5'', JBool True])])" FiniteFloat]
  by (simp add: canonical_json_bytes_def written_data written_float)

end
