(* ===== verification/Timestamps.thy ===== *)
theory Timestamps
  imports Json_Roundtrip Cache_Backend
begin

text \<open>
  The RFC 3339 text of an instant determines the instant: the calendar arithmetic behind \<open>isoformat\<close> is inverted by the
  proleptic Gregorian day count, and the fixed columns of the text give back its fields.  \<open>read_iso\<close> reads the form that
  \<open>isoformat(timespec="microseconds")\<close> writes.
\<close>

section \<open>The calendar\<close>

definition is_leap :: "int \<Rightarrow> bool" where
  "is_leap y \<longleftrightarrow> y mod 4 = 0 \<and> (y mod 100 \<noteq> 0 \<or> y mod 400 = 0)"

text \<open>Days before a year, before a month of it, and the day number of a date (\<open>date.toordinal\<close> less one).\<close>

definition days_before_year :: "int \<Rightarrow> int" where
  "days_before_year y = (y - 1) * 365 + (y - 1) div 4 - (y - 1) div 100 + (y - 1) div 400"

definition month_start :: "int \<Rightarrow> bool \<Rightarrow> int" where
  "month_start m leap = days_before_month ! nat m + (if 2 < m \<and> leap then 1 else 0)"

definition month_length :: "int \<Rightarrow> bool \<Rightarrow> int" where
  "month_length m leap = days_in_month ! nat m + (if m = 2 \<and> leap then 1 else 0)"

definition is_civil :: "int \<times> int \<times> int \<Rightarrow> bool" where
  "is_civil ymd \<longleftrightarrow> (case ymd of (y, m, d) \<Rightarrow> 1 \<le> y \<and> y \<le> 9999 \<and> 1 \<le> m \<and> m \<le> 12 \<and> 1 \<le> d \<and> d \<le> month_length m (is_leap y))"

definition days_of_civil :: "int \<times> int \<times> int \<Rightarrow> int" where
  "days_of_civil ymd = (case ymd of (y, m, d) \<Rightarrow> days_before_year y + month_start m (is_leap y) + (d - 1))"

text \<open>Month and day within a year, from the number of the day in it.\<close>

definition month_day :: "int \<Rightarrow> bool \<Rightarrow> int \<times> int" where
  "month_day n leap = (let m = (n + 50) div 32; prec = days_before_month ! nat m + (if m > 2 \<and> leap then 1 else 0)
     in if prec > n then (m - 1, n - (prec - days_in_month ! nat (m - 1) - (if m - 1 = 2 \<and> leap then 1 else 0)) + 1)
        else (m, n - prec + 1))"

lemma month_day_inverse:
  assumes "0 \<le> n" and "n < (if leap then 366 else 365)" and "month_day n leap = (m, d)"
  shows "1 \<le> m \<and> m \<le> 12 \<and> 1 \<le> d \<and> d \<le> month_length m leap \<and> month_start m leap + (d - 1) = n"
proof -
  define k where "k = (n + 50) div 32"
  have range: "32 * k \<le> n + 50" "n + 50 < 32 * k + 32" unfolding k_def by simp_all
  with assms(1,2) have "1 \<le> k" "k \<le> 12" by (auto split: if_splits)
  then have "k = 1 \<or> k = 2 \<or> k = 3 \<or> k = 4 \<or> k = 5 \<or> k = 6 \<or> k = 7 \<or> k = 8 \<or> k = 9 \<or> k = 10 \<or> k = 11 \<or> k = 12" by presburger
  then show ?thesis
    using range assms unfolding month_day_def month_start_def month_length_def Let_def k_def [symmetric]
    by (elim disjE) (auto simp: days_before_month_def days_in_month_def split: if_splits)
qed

lemma mod_full_cycle: "1 \<le> t \<Longrightarrow> t \<le> k \<Longrightarrow> t mod k = 0 \<longleftrightarrow> t = (k :: int)"
  by (cases "t = k") auto

text \<open>A year by its place in the cycles of 400, 100 and 4 years.\<close>

lemma year_cycles:
  assumes "0 \<le> b" "b \<le> 3" "0 \<le> c" "c \<le> 24" "0 \<le> e" "e \<le> 3"
  shows "days_before_year (400 * a + 1 + 100 * b + 4 * c + e) = 146097 * a + 36524 * b + 1461 * c + 365 * e"
    and "is_leap (400 * a + 1 + 100 * b + 4 * c + e) \<longleftrightarrow> e = 3 \<and> (c \<noteq> 24 \<or> b = 3)"
proof -
  have "(400 * a + 100 * b + 4 * c + e) div 4 = 100 * a + 25 * b + c" "(400 * a + 100 * b + 4 * c + e) div 100 = 4 * a + b"
    "(400 * a + 100 * b + 4 * c + e) div 400 = a"
    using assms by (auto intro!: int_div_pos_eq [where r = e] int_div_pos_eq [where r = "4 * c + e"] int_div_pos_eq [where r = "100 * b + 4 * c + e"])
  then show "days_before_year (400 * a + 1 + 100 * b + 4 * c + e) = 146097 * a + 36524 * b + 1461 * c + 365 * e"
    by (simp add: days_before_year_def algebra_simps)
  let ?y = "400 * a + 1 + 100 * b + 4 * c + e"
  have "?y = (e + 1) + 4 * (100 * a + 25 * b + c)" "?y = (4 * c + e + 1) + 100 * (4 * a + b)" "?y = (100 * b + 4 * c + e + 1) + 400 * a" by simp_all
  then have mods: "?y mod 4 = (e + 1) mod 4" "?y mod 100 = (4 * c + e + 1) mod 100" "?y mod 400 = (100 * b + 4 * c + e + 1) mod 400"
    by (metis mod_mult_self2)+
  have "?y mod 4 = 0 \<longleftrightarrow> e = 3" "?y mod 100 = 0 \<longleftrightarrow> e = 3 \<and> c = 24" "?y mod 400 = 0 \<longleftrightarrow> e = 3 \<and> c = 24 \<and> b = 3"
    unfolding mods using assms by (auto simp: mod_full_cycle) presburger+
  then show "is_leap (400 * a + 1 + 100 * b + 4 * c + e) \<longleftrightarrow> e = 3 \<and> (c \<noteq> 24 \<or> b = 3)" by (auto simp: is_leap_def)
qed

lemma civil_inverse:
  assumes "0 \<le> days" and "days \<le> 3652058" and "civil_of_days days = (y, m, d)"
  shows "days_of_civil (y, m, d) = days \<and> is_civil (y, m, d)"
proof -
  define a r400 where "a = days div 146097" "r400 = days mod 146097"
  define b r100 where "b = r400 div 36524" "r100 = r400 mod 36524"
  define c r4 where "c = r100 div 1461" "r4 = r100 mod 1461"
  define e n where "e = r4 div 365" "n = r4 mod 365"
  note defs = a_r400_def b_r100_def c_r4_def e_n_def
  have days: "days = 146097 * a + 36524 * b + 1461 * c + 365 * e + n" by (simp add: defs)
  have rs: "0 \<le> r400" "r400 < 146097" "0 \<le> r100" "r100 < 36524" "0 \<le> r4" "r4 < 1461" "0 \<le> n" "n < 365" by (simp_all add: defs)
  have eqs: "r400 = 36524 * b + r100" "r100 = 1461 * c + r4" "r4 = 365 * e + n" by (simp_all add: defs)
  have "0 \<le> a" using assms(1) by (simp add: defs pos_imp_zdiv_nonneg_iff)
  moreover have "0 \<le> b" "b \<le> 4" "0 \<le> c" "c \<le> 24" "0 \<le> e" "e \<le> 4" using rs eqs by linarith+
  ultimately have bs: "0 \<le> a" "0 \<le> b" "b \<le> 4" "0 \<le> c" "c \<le> 24" "0 \<le> e" "e \<le> 4" by simp_all
  have civil: "civil_of_days days = (if e = 4 \<or> b = 4 then (400 * a + 100 * b + 4 * c + e, 12, 31)
      else (400 * a + 1 + 100 * b + 4 * c + e, month_day n (e = 3 \<and> (c \<noteq> 24 \<or> b = 3))))"
    unfolding civil_of_days_def month_day_def Let_def defs [symmetric] by (simp add: algebra_simps)
  consider "b = 4" | "b \<le> 3" "e = 4" | "b \<le> 3" "e \<le> 3" using bs by linarith
  then show ?thesis
  proof cases
    case 1
    with rs eqs bs have "r100 = 0" "c = 0" "e = 0" "n = 0" by linarith+
    with 1 civil assms(3) have y: "y = 400 * a + 1 + 100 * 3 + 4 * 24 + 3" "m = 12" "d = 31" by auto
    with 1 days assms(2) \<open>c = 0\<close> \<open>e = 0\<close> \<open>n = 0\<close> bs(1) show ?thesis
      using year_cycles [of 3 24 3 a] by (simp add: days_of_civil_def is_civil_def month_start_def month_length_def days_before_month_def days_in_month_def)
  next
    case 2
    with rs eqs bs have "c \<le> 23" "n = 0" by linarith+
    from 2 civil assms(3) have y: "y = 400 * a + 1 + 100 * b + 4 * c + 3" "m = 12" "d = 31" by auto
    with 2 days assms(2) \<open>c \<le> 23\<close> \<open>n = 0\<close> bs show ?thesis
      using year_cycles [of b c 3 a] by (simp add: days_of_civil_def is_civil_def month_start_def month_length_def days_before_month_def days_in_month_def)
  next
    case 3
    let ?leap = "e = 3 \<and> (c \<noteq> 24 \<or> b = 3)"
    from 3 civil assms(3) have y: "y = 400 * a + 1 + 100 * b + 4 * c + e" and md: "month_day n ?leap = (m, d)" by auto
    from month_day_inverse [OF rs(7) _ md] rs(8) have "1 \<le> m \<and> m \<le> 12 \<and> 1 \<le> d \<and> d \<le> month_length m ?leap \<and> month_start m ?leap + (d - 1) = n" by auto
    with 3 days assms(2) bs rs y show ?thesis
      using year_cycles [of b c e a] by (simp add: days_of_civil_def is_civil_def)
  qed
qed

section \<open>The text\<close>

lemma nat_digits_length: "n < 10 ^ Suc w \<Longrightarrow> length (nat_digits n) \<le> Suc w"
proof (induction w arbitrary: n)
  case (Suc w)
  show ?case
  proof (cases "n < 10")
    case False
    then have "n div 10 < 10 ^ Suc w" using Suc.prems by (simp add: less_mult_imp_div_less)
    from Suc.IH [OF this] False show ?thesis by (subst nat_digits.simps) simp
  qed (simp add: nat_digits.simps)
qed (simp add: nat_digits.simps)

text \<open>A number in a column of a given width.\<close>

definition column :: "nat \<Rightarrow> int \<Rightarrow> string" where
  "column w i = zero_pad w (nat_digits (nat i))"

lemma column_facts:
  assumes "0 \<le> i" and "i < 10 ^ Suc w"
  shows "length (column (Suc w) i) = Suc w" and "int (nat_of_digits (column (Suc w) i)) = i" and "list_all is_digit (column (Suc w) i)"
proof -
  have "nat i < 10 ^ Suc w" using assms by (simp add: nat_less_iff)
  from nat_digits_length [OF this] show "length (column (Suc w) i) = Suc w" by (simp add: column_def zero_pad_def)
  have "fold (\<lambda>c n. 10 * n + digit_value c) (replicate k (CHR ''0'')) 0 = 0" for k
    by (induction k) (simp_all add: digit_value_def)
  then have "nat_of_digits (replicate k (CHR ''0'') @ s) = nat_of_digits s" for k s by (simp add: nat_of_digits_def)
  with assms(1) show "int (nat_of_digits (column (Suc w) i)) = i" by (simp add: column_def zero_pad_def)
  show "list_all is_digit (column (Suc w) i)"
    using nat_digits_are_digits [of "nat i"] by (auto simp: column_def zero_pad_def list_all_iff is_digit_def)
qed

definition field_at :: "nat \<Rightarrow> nat \<Rightarrow> string \<Rightarrow> string" where
  "field_at i w s = take w (drop i s)"

definition number_at :: "nat \<Rightarrow> nat \<Rightarrow> string \<Rightarrow> int" where
  "number_at i w s = int (nat_of_digits (field_at i w s))"

text \<open>\<open>datetime.fromisoformat\<close> on the form \<open>YYYY-MM-DDTHH:MM:SS.ffffff+HH:MM\<close>.\<close>

definition iso_shape :: "string \<Rightarrow> bool" where
  "iso_shape s \<longleftrightarrow> length s = 32 \<and> list_all (\<lambda>(i, w). list_all is_digit (field_at i w s)) [(0, 4), (5, 2), (8, 2), (11, 2), (14, 2), (17, 2), (20, 6), (27, 2), (30, 2)] \<and>
     field_at 4 1 s = ''-'' \<and> field_at 7 1 s = ''-'' \<and> field_at 10 1 s = ''T'' \<and> field_at 13 1 s = '':'' \<and> field_at 16 1 s = '':'' \<and>
     field_at 19 1 s = ''.'' \<and> (field_at 26 1 s = ''+'' \<or> field_at 26 1 s = ''-'') \<and> field_at 29 1 s = '':''"

definition read_isoformat :: "string \<Rightarrow> datetime option" where
  "read_isoformat s =
     (let ymd = (number_at 0 4 s, number_at 5 2 s, number_at 8 2 s);
          h = number_at 11 2 s; mi = number_at 14 2 s; sec = number_at 17 2 s;
          oh = number_at 27 2 s; om = number_at 30 2 s
      in if iso_shape s \<and> is_civil ymd \<and> h < 24 \<and> mi < 60 \<and> sec < 60 \<and> oh < 24 \<and> om < 60
         then Some (DateTime (days_of_civil ymd * 86400000000 + h * 3600000000 + mi * 60000000 + sec * 1000000 + number_at 20 6 s)
           (Some ((if field_at 26 1 s = ''-'' then - 1 else 1) * (oh * 3600000000 + om * 60000000))))
         else None)"

lemma iso_columns:
  assumes "length A = 4" "length B = 2" "length C = 2" "length D = 2" "length E = 2" "length F = 2" "length G = 6"
    and "s = A @ ''-'' @ B @ ''-'' @ C @ ''T'' @ D @ '':'' @ E @ '':'' @ F @ ''.'' @ G @ ''+00:00''"
  shows "field_at 0 4 s = A" "field_at 5 2 s = B" "field_at 8 2 s = C" "field_at 11 2 s = D" "field_at 14 2 s = E" "field_at 17 2 s = F"
    "field_at 20 6 s = G" "field_at 27 2 s = ''00''" "field_at 30 2 s = ''00''" "field_at 26 1 s = ''+''" "length s = 32"
    "field_at 4 1 s = ''-''" "field_at 7 1 s = ''-''" "field_at 10 1 s = ''T''" "field_at 13 1 s = '':''" "field_at 16 1 s = '':''"
    "field_at 19 1 s = ''.''" "field_at 29 1 s = '':''"
  by (simp_all add: field_at_def assms)

lemma read_columns:
  assumes "is_civil (y, mo, d)" and "0 \<le> h" "h < 24" and "0 \<le> mi" "mi < 60" and "0 \<le> sec" "sec < 60" and "0 \<le> us" "us < 1000000"
  shows "read_isoformat (column 4 y @ ''-'' @ column 2 mo @ ''-'' @ column 2 d @ ''T'' @ column 2 h @ '':'' @ column 2 mi @ '':'' @
      column 2 sec @ ''.'' @ column 6 us @ ''+00:00'')
    = Some (utc_datetime (days_of_civil (y, mo, d) * 86400000000 + h * 3600000000 + mi * 60000000 + sec * 1000000 + us))"
    (is "read_isoformat ?s = _")
proof -
  have "d \<le> 31" using assms(1) by (auto simp: is_civil_def month_length_def days_in_month_def nth_Cons' split: if_splits)
  with assms have bounds: "0 \<le> y" "y < 10 ^ Suc 3" "0 \<le> mo" "mo < 10 ^ Suc 1" "0 \<le> d" "d < 10 ^ Suc 1" "h < 10 ^ Suc 1" "mi < 10 ^ Suc 1" "sec < 10 ^ Suc 1"
    "us < 10 ^ Suc 5" by (auto simp: is_civil_def)
  note cols = column_facts [OF bounds(1,2)] column_facts [OF bounds(3,4)] column_facts [OF bounds(5,6)] column_facts [OF assms(2) bounds(7)]
    column_facts [OF assms(4) bounds(8)] column_facts [OF assms(6) bounds(9)] column_facts [OF assms(8) bounds(10)]
  then have cols': "length (column 4 y) = 4" "length (column 2 mo) = 2" "length (column 2 d) = 2" "length (column 2 h) = 2" "length (column 2 mi) = 2"
    "length (column 2 sec) = 2" "length (column 6 us) = 6" by (simp_all add: numeral_eq_Suc)
  note fields = iso_columns [OF cols' refl]
  have zero: "nat_of_digits ''00'' = 0" "list_all is_digit ''00''" by (simp_all add: nat_of_digits_def digit_value_def is_digit_def)
  have "iso_shape ?s" unfolding iso_shape_def using fields cols zero by (simp add: numeral_eq_Suc)
  moreover have "number_at 0 4 ?s = y" "number_at 5 2 ?s = mo" "number_at 8 2 ?s = d" "number_at 11 2 ?s = h" "number_at 14 2 ?s = mi" "number_at 17 2 ?s = sec"
    "number_at 20 6 ?s = us" "number_at 27 2 ?s = 0" "number_at 30 2 ?s = 0"
    using cols zero unfolding number_at_def fields by (simp_all add: numeral_eq_Suc)
  ultimately show ?thesis using assms fields(10) unfolding read_isoformat_def Let_def by simp
qed

section \<open>The round trip\<close>

lemma replace_digits: "list_all is_digit s \<Longrightarrow> concat (map (\<lambda>c. if c = CHR ''Z'' then ''+00:00'' else [c]) s) = s"
  by (induction s) (auto simp: is_digit_def)

lemma read_iso_utc:
  assumes "valid_instant u"
  shows "parse_rfc3339 read_isoformat (iso_utc u) name = Inr u"
proof -
  define days t where "days = u div 86400000000" "t = u mod 86400000000"
  have u: "u = days * 86400000000 + t" "0 \<le> t" "t < 86400000000" by (simp_all add: days_t_def)
  have "0 \<le> days" "days \<le> 3652058" using assms u by (auto simp: valid_instant_def max_instant_def)
  moreover obtain y mo d where civil: "civil_of_days days = (y, mo, d)" by (metis prod_cases3)
  ultimately have inverse: "days_of_civil (y, mo, d) = days" and ok: "is_civil (y, mo, d)" using civil_inverse by blast+
  define h mi sec us where "h = t div 3600000000" "mi = t div 60000000 mod 60" "sec = t div 1000000 mod 60" "us = t mod 1000000"
  note times = h_mi_sec_us_def
  have bounds: "0 \<le> h" "h < 24" "0 \<le> mi" "mi < 60" "0 \<le> sec" "sec < 60" "0 \<le> us" "us < 1000000" using u by (auto simp: times)
  have t: "t = h * 3600000000 + mi * 60000000 + sec * 1000000 + us"
  proof -
    have "t div 60000000 = t div 1000000 div 60" "t div 3600000000 = t div 60000000 div 60" by (simp_all flip: zdiv_zmult2_eq)
    then show ?thesis
      using div_mult_mod_eq [of t 1000000] div_mult_mod_eq [of "t div 1000000" 60] div_mult_mod_eq [of "t div 60000000" 60]
      unfolding times by linarith
  qed
  let ?cols = "\<lambda>z. column 4 y @ ''-'' @ column 2 mo @ ''-'' @ column 2 d @ ''T'' @ column 2 h @ '':'' @ column 2 mi @ '':'' @ column 2 sec @ ''.'' @ column 6 us @ z"
  have layout: "iso_utc u = ?cols ''Z''"
    using civil unfolding iso_utc_def Let_def days_t_def [symmetric] times [symmetric] by (simp add: column_def)
  have digits: "list_all is_digit (column w i)" for w i
    using nat_digits_are_digits [of "nat i"] by (auto simp: column_def zero_pad_def list_all_iff is_digit_def)
  have "concat (map (\<lambda>c. if c = CHR ''Z'' then ''+00:00'' else [c]) (iso_utc u)) = ?cols ''+00:00''"
    unfolding layout map_append concat_append replace_digits [OF digits] by simp
  then show ?thesis
    using read_columns [OF ok bounds] inverse t u(1) assms by (simp add: parse_rfc3339_def add.assoc)
qed

text \<open>C15: timestamps survive their text: the RFC 3339 text of an aware timestamp parses to the instant it was made from, whatever
  offset it had, over the whole range of \<open>datetime\<close>.  Different instants therefore have different texts.\<close>

theorem timestamps_round_trip:
  assumes "rfc3339 d = Inr t"
  shows "\<exists>u. ensure_utc d ''timestamp'' = Inr u \<and> parse_rfc3339 read_isoformat t name = Inr u"
  using assms read_iso_utc ensure_utc_valid by (fastforce simp: rfc3339_def)

text \<open>2024-02-29T23:59:59.999999+02:00.\<close>

theorem timestamps_round_trip_witness:
  "\<exists>u. ensure_utc (DateTime 63844847999999999 (Some 7200000000)) ''timestamp'' = Inr u \<and>
     parse_rfc3339 read_isoformat (iso_utc 63844840799999999) ''createdAt'' = Inr u"
proof -
  have "rfc3339 (DateTime 63844847999999999 (Some 7200000000)) = Inr (iso_utc 63844840799999999)"
    by (simp add: rfc3339_def ensure_utc_def valid_instant_def max_instant_def)
  from timestamps_round_trip [OF this] show ?thesis .
qed

end
