(* ===== verification/Cache_Theorems.thy ===== *)
theory Cache_Theorems
  imports Cache Timestamps
begin

text \<open>
  What a cached read promises.  The specification is a function on the one entry the key has: serve
  it while it is fresh, else return what the source holds and keep that.  The locale states what the
  coordinator relies on in a backend; the coordinator meets the specification over every such
  backend, and the in-memory backend is one.
\<close>

text \<open>Decoding a payload is \<open>json.loads\<close> of its canonical bytes.\<close>

lemma canonical_decode_loads:
  "wf_json j \<Longrightarrow> floats_read fo j \<Longrightarrow> json_loads fo (canonical_json j) = Some (Inr v) \<longleftrightarrow> canonical_decode j w = (Inr v, w)"
  by (auto simp: loads_canonical canonical_decode_def)

section \<open>The specification\<close>

definition version_ok :: "cache_policy \<Rightarrow> version \<Rightarrow> version \<Rightarrow> bool" where
  "version_ok p held required \<longleftrightarrow>
     required = VNone \<or> po_source_version_strategy p = STRATEGY_NONE \<or>
     held \<noteq> VNone \<and> (case (po_source_version_strategy p, int_version held, int_version required) of
       (AT_LEAST, Some c, Some r) \<Rightarrow> r \<le> c | _ \<Rightarrow> version_eq held required)"

text \<open>Entries as the coordinator writes them: created at \<open>c\<close>, expiring at \<open>x\<close>.\<close>

definition stamped :: "cache_policy \<Rightarrow> cache_entry \<Rightarrow> int \<Rightarrow> int \<Rightarrow> bool" where
  "stamped p e c x \<longleftrightarrow> ent_created_at e = Stamp (utc_datetime c) \<and> ent_expires_at e = Some (Stamp (utc_datetime x)) \<and>
     valid_instant c \<and> valid_instant x \<and> valid_instant (c + po_maximum_staleness p)"

definition fresh :: "cache_policy \<Rightarrow> cache_entry \<Rightarrow> version \<Rightarrow> int \<Rightarrow> bool" where
  "fresh p e required now \<longleftrightarrow> ent_serializer_id e = po_serializer_id p \<and>
     ent_schema_fingerprint e = po_schema_fingerprint p \<and>
     (\<exists>c x. stamped p e c x \<and> now < x \<and> now \<le> c + po_maximum_staleness p) \<and>
     version_ok p (ent_source_version e) required"

definition served :: "cache_policy \<Rightarrow> cache_entry \<Rightarrow> version \<Rightarrow> int \<Rightarrow> cache_read option" where
  "served p e required now =
     (if \<not> fresh p e required now then None
      else if is_negative (ent_value e) then Some \<lparr>cr_value = PNone, cr_source_version = ent_source_version e,
        cr_outcome = NEGATIVE_HIT, cr_cache_error = None\<rparr>
      else case payload_of (ent_value e) of Inl _ \<Rightarrow> None
        | Inr j \<Rightarrow> Some \<lparr>cr_value = json_val (sorted_json j), cr_source_version = ent_source_version e,
            cr_outcome = HIT, cr_cache_error = None\<rparr>)"

definition written_entry :: "cache_policy \<Rightarrow> json \<Rightarrow> json \<Rightarrow> version \<Rightarrow> int \<Rightarrow> int \<Rightarrow> cache_entry" where
  "written_entry p key value source_version now ttl =
     \<lparr>ent_key = key, ent_value = value, ent_serializer_id = po_serializer_id p,
      ent_schema_fingerprint = po_schema_fingerprint p, ent_created_at = Stamp (utc_datetime now),
      ent_expires_at = Some (Stamp (utc_datetime (now + ttl))), ent_source_version = source_version\<rparr>"

definition kept_entry :: "cache_policy \<Rightarrow> json \<Rightarrow> (loaded_value \<times> json) option \<Rightarrow> int \<Rightarrow> cache_entry option" where
  "kept_entry p key source now = (case source of
     None \<Rightarrow> map_option (\<lambda>ttl. written_entry p key (JObj [(negative_field, JBool True)]) VNone now ttl) (po_negative_ttl p)
   | Some (lv, j) \<Rightarrow> Some (written_entry p key (JObj [(value_field, j)]) (lv_source_version lv) now (po_default_ttl p)))"

definition spec_read :: "cache_policy \<Rightarrow> json \<Rightarrow> (loaded_value \<times> json) option \<Rightarrow> version \<Rightarrow> int
    \<Rightarrow> cache_entry option \<Rightarrow> cache_read \<times> cache_entry option" where
  "spec_read p key source required now held =
     (case Option.bind held (\<lambda>e. served p e required now) of
        Some r \<Rightarrow> (r, held)
      | None \<Rightarrow> (loaded_read (map_option fst source) MISS None, kept_entry p key source now))"

text \<open>A value of the source with its JSON data.\<close>

definition converted :: "(loaded_value \<times> json) option \<Rightarrow> bool" where
  "converted source \<longleftrightarrow> (\<forall>lv j. source = Some (lv, j) \<longrightarrow> to_json_value (lv_value lv) = Inr j)"

section \<open>The contract of a backend\<close>

locale cache_backend =
  fixes env :: "('v \<times> string list) cache_env" and ready :: "'v \<Rightarrow> bool"
    and view :: "'v \<Rightarrow> string \<times> string \<Rightarrow> cache_entry option"
  assumes get_law: "ready v \<Longrightarrow> sha256_digest key = Inr d \<Longrightarrow>
      \<exists>found. cv_get env res key (v, fl) = (Inr found, (v, fl)) \<and> map_option ve_entry found = view v (res, d)"
    and put_law: "ready v \<Longrightarrow> wf_json (ent_key e) \<Longrightarrow> \<exists>ver v'. cv_put env res e ms (v, fl) = (Inr ver, (v', fl)) \<and> ready v' \<and>
      view v' = (view v)((res, json_digest (ent_key e)) \<mapsto> e)"
    and delete_law: "ready v \<Longrightarrow> sha256_digest key = Inr d \<Longrightarrow>
      \<exists>b v'. cv_delete env res key (v, fl) = (Inr b, (v', fl)) \<and> ready v' \<and> view v' = (view v)((res, d) := None)"
    and encode_law: "cv_encode env = canonical_encode"
    and decode_law: "cv_decode env = canonical_decode"
    and comparator_law: "cv_version_comparator env = None"
    and entry_law: "cv_entry env e = Inr e"
    and sink_law: "cv_evidence env ev s = (Inr (), s)"
begin

lemma version_valid_ok: "version_valid env held required s = (Inr (version_ok (cv_policy env) held required), s)"
  by (auto simp: version_valid_def version_ok_def comparator_law split: option.splits source_version_strategy.splits)

lemma valid_entry_fresh:
  assumes "stamped (cv_policy env) e c x"
  shows "valid_entry env e required now s = (Inr (fresh (cv_policy env) e required now), s)"
  using assms
  by (auto simp: valid_entry_def fresh_def stamped_def instant_of_def add_duration_def version_valid_ok pbind_def not_le not_less)

lemma delete_quietly_law:
  assumes "ready v" and "sha256_digest key = Inr d"
  shows "\<exists>v'. delete_quietly env key st now (v, fl) = (Inr (), (v', fl)) \<and> ready v' \<and>
    view v' = (view v)((po_cache_resource (cv_policy env), d) := None)"
  using delete_law [OF assms, of "po_cache_resource (cv_policy env)" fl]
  by (auto simp: delete_quietly_def pcatch_def pbind_def)

text \<open>What the lookup leaves: the entry it serves, or no entry.\<close>

lemma cached_entry_law:
  assumes "ready v" and "sha256_digest key = Inr d" and "stamped (cv_policy env) e c x"
    and "view v (po_cache_resource (cv_policy env), d) = Some e" and "valid_instant now"
    and "po_source_resource (cv_policy env) \<noteq> []"
  shows "\<exists>v'. cached_entry env key e required now (v, fl) = (Inr (served (cv_policy env) e required now, None), (v', fl)) \<and>
    ready v' \<and> view v' = (view v)((po_cache_resource (cv_policy env), d) :=
      if served (cv_policy env) e required now = None then None else Some e)"
proof -
  have failure: "record_failure env st err now s = (Inr (error_code err), s)" if "st \<noteq> []" for st err s
    using assms(5,6) that
    by (simp add: record_failure_def record_evidence_def LifecycleEvidence_def immutable_mapping_def immutable_value_def
        pbind_def sink_law Let_def)
  have same: "view v = (view v)((po_cache_resource (cv_policy env), d) := Some e)" using assms(4) by auto
  show ?thesis
  proof (cases "fresh (cv_policy env) e required now")
    case False
    then show ?thesis
      using delete_quietly_law [OF assms(1,2), of "''STALE_DELETE_FAILED''" now fl]
      by (auto simp: cached_entry_def pbind_def valid_entry_fresh [OF assms(3)] served_def)
  next
    case True
    show ?thesis
    proof (cases "is_negative (ent_value e)")
      case neg: True
      with True assms(1) same show ?thesis
        by (auto simp: cached_entry_def pbind_def valid_entry_fresh [OF assms(3)] served_def)
    next
      case pos: False
      show ?thesis
      proof (cases "payload_of (ent_value e)")
        case (Inl err)
        then have "is_exception err" by (cases "ent_value e" rule: payload_of.cases) (auto split: if_splits)
        with True pos Inl delete_quietly_law [OF assms(1,2), of "''CORRUPT_DELETE_FAILED''" now fl] show ?thesis
          by (auto simp: cached_entry_def pbind_def pcatch_def valid_entry_fresh [OF assms(3)] served_def failure)
      next
        case (Inr j)
        with True pos assms(1) same show ?thesis
          by (auto simp: cached_entry_def pbind_def pcatch_def valid_entry_fresh [OF assms(3)] served_def
              decode_law canonical_decode_def)
      qed
    qed
  qed
qed

lemma cached_law:
  assumes "ready v" and "sha256_digest key = Inr d" and "valid_instant now" and "po_source_resource (cv_policy env) \<noteq> []"
    and "\<And>e. view v (po_cache_resource (cv_policy env), d) = Some e \<Longrightarrow> \<exists>c x. stamped (cv_policy env) e c x"
  shows "\<exists>v'. cached env key required now (v, fl) =
      (Inr (Option.bind (view v (po_cache_resource (cv_policy env), d)) (\<lambda>e. served (cv_policy env) e required now), None), (v', fl)) \<and>
    ready v' \<and> (Option.bind (view v (po_cache_resource (cv_policy env), d)) (\<lambda>e. served (cv_policy env) e required now) = None \<longrightarrow>
       view v' = (view v)((po_cache_resource (cv_policy env), d) := None)) \<and>
    (Option.bind (view v (po_cache_resource (cv_policy env), d)) (\<lambda>e. served (cv_policy env) e required now) \<noteq> None \<longrightarrow> view v' = view v)"
proof -
  let ?k = "(po_cache_resource (cv_policy env), d)"
  obtain found where found: "cv_get env (po_cache_resource (cv_policy env)) key (v, fl) = (Inr found, (v, fl))"
    and entry: "map_option ve_entry found = view v ?k"
    using get_law [OF assms(1,2), of "po_cache_resource (cv_policy env)" fl] by blast
  then have lookup: "lookup_entry env key now (v, fl) = (Inr (Inr found), (v, fl))"
    by (simp add: lookup_entry_def pcatch_def pbind_def)
  show ?thesis
  proof (cases found)
    case None
    with entry have "view v ?k = None" by simp
    moreover then have "view v = (view v)(?k := None)" by auto
    ultimately show ?thesis using None lookup assms(1) by (auto simp: cached_def pbind_def)
  next
    case (Some f)
    with entry have e: "view v ?k = Some (ve_entry f)" by simp
    obtain c x where "stamped (cv_policy env) (ve_entry f) c x" using assms(5) [OF e] by blast
    from cached_entry_law [OF assms(1,2) this e assms(3,4), of required fl] Some lookup e show ?thesis
      by (auto simp: cached_def pbind_def fun_upd_idem)
  qed
qed

lemma make_entry_law:
  assumes "to_json_value key = Inr k" and "to_json_value value = Inr j" and "valid_instant (now + ttl)"
  shows "make_entry env key value sv now ttl = Inr (written_entry (cv_policy env) k j sv now ttl)"
  using assms by (simp add: make_entry_def written_entry_def entry_law add_duration_def)

lemma new_entry_law:
  assumes "to_json_value key = Inr k" and "converted source"
    and "valid_instant (now + po_default_ttl (cv_policy env))"
    and "\<And>t. po_negative_ttl (cv_policy env) = Some t \<Longrightarrow> valid_instant (now + t)"
  shows "\<exists>made. new_entry env key (map_option fst source) now s = (Inr made, s) \<and>
    map_option fst made = kept_entry (cv_policy env) k source now"
proof (cases source)
  case None
  then show ?thesis
    using assms(1,4) by (cases "po_negative_ttl (cv_policy env)")
      (auto simp: new_entry_def kept_entry_def make_entry_law to_json_value_def pbind_def)
next
  case (Some p)
  obtain lv j where p: "p = (lv, j)" by (cases p)
  with Some assms(2) have j: "json_value (lv_value lv) = Inr j" by (simp add: converted_def to_json_value_def)
  then have "json_value (json_val j) = Inr j" by (rule json_value_idem)
  then have "to_json_value (PMapping [(PStr value_field, json_val j)]) = Inr (JObj [(value_field, j)])"
    by (simp add: to_json_value_def)
  with Some p j assms(1,3) show ?thesis
    by (auto simp: new_entry_def kept_entry_def encode_law canonical_encode_def to_json_value_def
        make_entry_law [unfolded to_json_value_def] pbind_def)
qed

lemma load_value_law:
  assumes "ready v" and "to_json_value key = Inr k" and "wf_json k" and "converted source"
    and "valid_instant (now + po_default_ttl (cv_policy env))"
    and "\<And>t. po_negative_ttl (cv_policy env) = Some t \<Longrightarrow> valid_instant (now + t)"
    and "view v (po_cache_resource (cv_policy env), json_digest k) = None"
  shows "\<exists>v'. load_value env key (pret (map_option fst source)) None now (v, fl) =
      (Inr (loaded_read (map_option fst source) MISS None), (v', fl)) \<and> ready v' \<and>
    view v' = (view v)((po_cache_resource (cv_policy env), json_digest k) := kept_entry (cv_policy env) k source now)"
proof -
  let ?r = "po_cache_resource (cv_policy env)"
  obtain made where made: "new_entry env key (map_option fst source) now (v, fl) = (Inr made, (v, fl))"
    and kept: "map_option fst made = kept_entry (cv_policy env) k source now"
    using new_entry_law [OF assms(2,4-6), of "(v, fl)"] by blast
  show ?thesis
  proof (cases made)
    case None
    with kept assms(7) have "view v = (view v)((?r, json_digest k) := kept_entry (cv_policy env) k source now)" by auto
    with None made assms(1) show ?thesis by (auto simp: load_value_def populate_def pbind_def)
  next
    case (Some p)
    obtain e ttl where p: "p = (e, ttl)" by (cases p)
    with Some kept have e: "kept_entry (cv_policy env) k source now = Some e" by simp
    then have key: "ent_key e = k" by (auto simp: kept_entry_def written_entry_def split: option.splits)
    obtain ver v' where "cv_put env ?r e (ttl_milliseconds ttl) (v, fl) = (Inr ver, (v', fl))" "ready v'"
      "view v' = (view v)((?r, json_digest k) \<mapsto> e)"
      using put_law [OF assms(1), of e ?r "ttl_milliseconds ttl" fl] assms(3) key by auto
    with Some p made e show ?thesis
      by (auto simp: load_value_def populate_def pbind_def pcatch_def)
  qed
qed

lemma read_refines:
  assumes "po_enabled (cv_policy env)" and "po_source_resource (cv_policy env) \<noteq> []"
    and "policy_key (cv_policy env) identity = Inr key" and "to_json_value key = Inr k"
    and "valid_instant now" and "valid_instant (now + po_default_ttl (cv_policy env))"
    and "\<And>t. po_negative_ttl (cv_policy env) = Some t \<Longrightarrow> valid_instant (now + t)"
    and "converted source" and "ready v" and "json_digest k \<notin> set flights"
    and "\<And>e. view v (po_cache_resource (cv_policy env), json_digest k) = Some e \<Longrightarrow> \<exists>c x. stamped (cv_policy env) e c x"
  shows "\<exists>v'. read env identity (pret (map_option fst source)) required (Some (utc_datetime now)) (v, flights) =
      (Inr (fst (spec_read (cv_policy env) k source required now (view v (po_cache_resource (cv_policy env), json_digest k)))),
       (v', flights)) \<and> ready v' \<and>
    view v' = (view v)((po_cache_resource (cv_policy env), json_digest k) :=
      snd (spec_read (cv_policy env) k source required now (view v (po_cache_resource (cv_policy env), json_digest k))))"
proof -
  let ?d = "json_digest k" and ?r = "po_cache_resource (cv_policy env)"
  let ?served = "Option.bind (view v (?r, ?d)) (\<lambda>e. served (cv_policy env) e required now)"
  from assms(4) have wf: "wf_json k" by (simp add: to_json_value_def json_value_wf)
  have d: "sha256_digest key = Inr ?d"
    using assms(4) by (simp add: sha256_digest_def canonical_json_bytes_def to_json_value_def json_digest_def)
  obtain v1 where v1: "cached env key required now (v, flights) = (Inr (?served, None), (v1, flights)) \<and> ready v1 \<and>
      (?served = None \<longrightarrow> view v1 = (view v)((?r, ?d) := None)) \<and> (?served \<noteq> None \<longrightarrow> view v1 = view v)"
    using cached_law [OF assms(9) d assms(5,2,11), of required flights] ..
  then have cached: "cached env key required now (v, flights) = (Inr (?served, None), (v1, flights))" and "ready v1"
    and none: "?served = None \<Longrightarrow> view v1 = (view v)((?r, ?d) := None)" and some: "?served \<noteq> None \<Longrightarrow> view v1 = view v"
    by simp_all
  show ?thesis
  proof (cases ?served)
    case (Some r)
    then have "spec_read (cv_policy env) k source required now (view v (?r, ?d)) = (r, view v (?r, ?d))"
      by (simp add: spec_read_def)
    moreover have "read env identity (pret (map_option fst source)) required (Some (utc_datetime now)) (v, flights) =
        (Inr r, (v1, flights))"
      unfolding read_def current_instant_def
      by (subst pbind_Inr [where x = now and w' = "(v, flights)"])
         (simp_all add: pbind_def assms(1,3,5) cached Some)
    ultimately show ?thesis using some Some \<open>ready v1\<close> by auto
  next
    case None
    with none have empty: "view v1 (?r, ?d) = None" by simp
    obtain v2 where load: "load_value env key (pret (map_option fst source)) None now (v1, flights @ [?d]) =
        (Inr (loaded_read (map_option fst source) MISS None), (v2, flights @ [?d]))" and "ready v2"
      and view: "view v2 = (view v1)((?r, ?d) := kept_entry (cv_policy env) k source now)"
      using load_value_law [OF \<open>ready v1\<close> assms(4) wf assms(8,6,7) empty, of "flights @ [?d]"] by blast
    have rest: "remove1 ?d (flights @ [?d]) = flights" using assms(10) by (simp add: remove1_append)
    have "read env identity (pret (map_option fst source)) required (Some (utc_datetime now)) (v, flights) =
        (Inr (loaded_read (map_option fst source) MISS None), (v2, flights))"
      unfolding read_def current_instant_def
      by (subst pbind_Inr [where x = now and w' = "(v, flights)"])
         (simp_all add: pbind_def assms(1,3,5,10) cached None d join_flight_def finish_flight_def pfinally_def load rest del: pret_run)
    moreover have "spec_read (cv_policy env) k source required now (view v (?r, ?d)) =
        (loaded_read (map_option fst source) MISS None, kept_entry (cv_policy env) k source now)"
      using None by (simp add: spec_read_def)
    ultimately show ?thesis using none [OF None] view \<open>ready v2\<close> by simp
  qed
qed

end

section \<open>The in-memory backend\<close>

text \<open>A coordinator over the in-memory backend with the canonical serializer, no comparator and no sink.\<close>

definition memory_cache :: "cache_policy \<Rightarrow> datetime \<Rightarrow> (cache_store \<times> string list) cache_env" where
  "memory_cache p clock = \<lparr>cv_policy = p, cv_get = (\<lambda>r k. on_world (memory_get r k)),
     cv_put = (\<lambda>r e ms. on_world (memory_put r e ms)),
     cv_put_if_absent = (\<lambda>r e ms. on_world (memory_put_if_absent r e ms)),
     cv_compare_and_set = (\<lambda>r e v ms. on_world (memory_compare_and_set r e v ms)),
     cv_delete = (\<lambda>r k. on_world (memory_delete r k)), cv_invalidate = (\<lambda>r s. on_world (memory_invalidate r s)),
     cv_serializer_id = ''canonical-json-v1'', cv_deterministic = True, cv_encode = canonical_encode,
     cv_decode = canonical_decode, cv_evidence = null_sink, cv_version_comparator = None,
     cv_wait = (\<lambda>_. pret ()), cv_clock = pret clock, cv_entry = Inr, cv_fromisoformat = read_isoformat\<rparr>"

definition held_entry :: "cache_store \<Rightarrow> string \<times> string \<Rightarrow> cache_entry option" where
  "held_entry s k = map_option ve_entry (map_of (st_entries s) k)"

lemma memory_key_json: "wf_json j \<Longrightarrow> memory_key r (json_val j) = Inr (r, json_digest j)"
  by (simp add: memory_key_def sha256_digest_json_val)

lemma memory_put_view:
  assumes "st_available s" and "wf_json (ent_key e)"
  shows "\<exists>v s'. memory_put r e ms s = (Inr v, s') \<and> st_available s' \<and>
    held_entry s' = (held_entry s)((r, json_digest (ent_key e)) \<mapsto> e)"
  using assms
  by (auto simp: memory_put_def pbind_def require_available_def next_version_def store_entry_def memory_key_json
      held_entry_def fun_eq_iff)

lemma memory_delete_view:
  assumes "st_available s" and "sha256_digest key = Inr d"
  shows "\<exists>b s'. memory_delete r key s = (Inr b, s') \<and> st_available s' \<and> held_entry s' = (held_entry s)((r, d) := None)"
  using assms
  by (auto simp: memory_delete_def pbind_def require_available_def memory_key_def held_entry_def fun_eq_iff delete_conv')

interpretation memory: cache_backend "memory_cache p clock" st_available held_entry for p clock
proof unfold_locales
  fix v :: cache_store and key d res fl assume "st_available v" "sha256_digest key = Inr d"
  then show "\<exists>found. cv_get (memory_cache p clock) res key (v, fl) = (Inr found, (v, fl)) \<and>
      map_option ve_entry found = held_entry v (res, d)"
    by (auto simp: memory_cache_def memory_get_def pbind_def on_world_def require_available_def memory_key_def held_entry_def)
next
  fix v :: cache_store and e :: cache_entry and res ms fl assume "st_available v" "wf_json (ent_key e)"
  from memory_put_view [OF this, of res ms] show "\<exists>ver v'. cv_put (memory_cache p clock) res e ms (v, fl) = (Inr ver, (v', fl)) \<and>
      st_available v' \<and> held_entry v' = (held_entry v)((res, json_digest (ent_key e)) \<mapsto> e)"
    by (auto simp: memory_cache_def on_world_def)
next
  fix v :: cache_store and key d res fl assume "st_available v" "sha256_digest key = Inr d"
  from memory_delete_view [OF this, of res] show "\<exists>b v'. cv_delete (memory_cache p clock) res key (v, fl) = (Inr b, (v', fl)) \<and>
      st_available v' \<and> held_entry v' = (held_entry v)((res, d) := None)"
    by (auto simp: memory_cache_def on_world_def)
qed (simp_all add: memory_cache_def null_sink_def)

text \<open>C28: over the in-memory backend a read is the specification: it serves the held entry exactly while the
  serializer and schema match, it has not expired, it is not staler than the policy allows and its
  source version satisfies the caller; otherwise it returns what the source holds and keeps that under
  the policy's time to live, or keeps nothing for an absent value without a negative time to live.
  A corrupt entry is replaced.  No other entry changes, and no flight is left behind.\<close>

theorem read_refines_specification:
  assumes "CachePolicy p = Inr p" and "po_enabled p" and "policy_key p identity = Inr key" and "to_json_value key = Inr k"
    and "valid_instant now" and "valid_instant (now + po_maximum_ttl p)"
    and "converted source" and "st_available s" and "json_digest k \<notin> set flights"
    and "\<forall>e. held_entry s (po_cache_resource p, json_digest k) = Some e \<longrightarrow> (\<exists>c x. stamped p e c x)"
  shows "\<exists>s'. read (memory_cache p clock) identity (pret (map_option fst source)) required (Some (utc_datetime now)) (s, flights) =
      (Inr (fst (spec_read p k source required now (held_entry s (po_cache_resource p, json_digest k)))), (s', flights)) \<and>
    st_available s' \<and> held_entry s' = (held_entry s)((po_cache_resource p, json_digest k) :=
      snd (spec_read p k source required now (held_entry s (po_cache_resource p, json_digest k))))"
proof -
  have p: "cv_policy (memory_cache p clock) = p" by (simp add: memory_cache_def)
  have policy: "po_source_resource p \<noteq> []" "0 < po_default_ttl p" "po_default_ttl p \<le> po_maximum_ttl p"
    "\<And>t. po_negative_ttl p = Some t \<Longrightarrow> 0 < t \<and> t \<le> po_maximum_ttl p"
    using assms(1) by (auto simp: CachePolicy_def)
  have inside: "valid_instant (now + t)" if "0 < t" "t \<le> po_maximum_ttl p" for t
    using assms(5,6) that by (simp add: valid_instant_def)
  have default: "valid_instant (now + po_default_ttl p)" using inside policy(2,3) by blast
  have negative: "valid_instant (now + t)" if "po_negative_ttl p = Some t" for t using inside policy(4) [OF that] by blast
  have stamps: "\<exists>c x. stamped p e c x" if "held_entry s (po_cache_resource p, json_digest k) = Some e" for e
    using assms(10) that by blast
  show ?thesis
    by (rule memory.read_refines [of p clock, unfolded p, OF assms(2) policy(1) assms(3,4,5) default negative assms(7,8,9) stamps])
qed

text \<open>C29: while the backend is down, a policy with fallback makes every read return what the source holds, marked
  as a bypass with the backend's error; a policy without fallback makes it raise \<open>CacheUnavailable\<close>
  instead.  Neither leaves anything behind.\<close>

theorem outage_falls_back_to_source:
  assumes "CachePolicy p = Inr p" and "po_enabled p" and "policy_key p identity = Inr key" and "to_json_value key = Inr k"
    and "valid_instant now" and "valid_instant (now + po_maximum_ttl p)"
    and "converted source" and "\<not> st_available s" and "json_digest k \<notin> set flights"
  shows "read (memory_cache p clock) identity (pret (map_option fst source)) required (Some (utc_datetime now)) (s, flights) =
    (if po_fallback_to_authoritative p then Inr (loaded_read (map_option fst source) BYPASS (Some ''RuntimeError''))
     else Inl (CacheUnavailable ''cache read failed and fallback is disabled''), (s, flights))"
proof -
  let ?env = "memory_cache p clock" and ?d = "json_digest k"
  have p: "cv_policy ?env = p" by (simp add: memory_cache_def)
  have policy: "po_source_resource p \<noteq> []" "0 < po_default_ttl p" "po_default_ttl p \<le> po_maximum_ttl p"
    "\<And>t. po_negative_ttl p = Some t \<Longrightarrow> 0 < t \<and> t \<le> po_maximum_ttl p"
    using assms(1) by (auto simp: CachePolicy_def)
  have inside: "valid_instant (now + t)" if "0 < t" "t \<le> po_maximum_ttl p" for t
    using assms(5,6) that by (simp add: valid_instant_def)
  have default: "valid_instant (now + po_default_ttl p)" using inside policy(2,3) by blast
  have negative: "valid_instant (now + t)" if "po_negative_ttl p = Some t" for t using inside policy(4) [OF that] by blast
  have d: "sha256_digest key = Inr ?d"
    using assms(4) by (simp add: sha256_digest_def canonical_json_bytes_def to_json_value_def json_digest_def)
  have failure: "record_failure ?env st err now s' = (Inr (error_code err), s')" if "st \<noteq> []" for st err s'
    using assms(5) policy(1) that
    by (simp add: record_failure_def record_evidence_def LifecycleEvidence_def immutable_mapping_def immutable_value_def
        pbind_def memory_cache_def null_sink_def Let_def)
  have get: "cv_get ?env r key' (s, fl) = (Inl (RuntimeError ''cache backend unavailable''), (s, fl))" for r key' fl
    using assms(8) by (simp add: memory_cache_def memory_get_def on_world_def pbind_def require_available_def)
  have put: "cv_put ?env r e ms (s, fl) = (Inl (RuntimeError ''cache backend unavailable''), (s, fl))" for r e ms fl
    using assms(8) by (simp add: memory_cache_def memory_put_def on_world_def pbind_def require_available_def)
  have cached: "cached ?env key required now (s, fl) =
      (if po_fallback_to_authoritative p then Inr (None, Some ''RuntimeError'')
       else Inl (CacheUnavailable ''cache read failed and fallback is disabled''), (s, fl))" for fl
    by (simp add: cached_def lookup_entry_def pbind_def pcatch_def get failure p)
  obtain made where made: "new_entry ?env key (map_option fst source) now (s, flights @ [?d]) = (Inr made, (s, flights @ [?d]))"
    using memory.new_entry_law [of key k source now p clock, unfolded p, OF assms(4,7) default negative] by blast
  have load: "load_value ?env key (pret (map_option fst source)) (Some ''RuntimeError'') now (s, flights @ [?d]) =
      (Inr (loaded_read (map_option fst source) BYPASS (Some ''RuntimeError'')), (s, flights @ [?d]))"
    using made by (cases made) (auto simp: load_value_def populate_def pbind_def pcatch_def put failure)
  have rest: "remove1 ?d (flights @ [?d]) = flights" using assms(9) by (simp add: remove1_append)
  show ?thesis
    unfolding read_def current_instant_def
    by (subst pbind_Inr [where x = now and w' = "(s, flights)"])
       (simp_all add: pbind_def p assms(2,3,5,9) cached d join_flight_def finish_flight_def pfinally_def load rest)
qed

section \<open>Versions\<close>

text \<open>Versions are revisions of the store, so a version names one state of one entry.\<close>

definition store_ok :: "cache_store \<Rightarrow> bool" where
  "store_ok s \<longleftrightarrow> distinct (map fst (st_entries s)) \<and>
     (\<forall>(k, v) \<in> set (st_entries s). \<exists>n. ve_version v = VInt n \<and> 0 < n \<and> n \<le> st_revision s)"

lemma store_ok_update:
  assumes "store_ok s" and "0 \<le> st_revision s"
  shows "store_ok (s\<lparr>st_revision := st_revision s + 1,
    st_entries := AList.update k \<lparr>ve_entry = e, ve_version = VInt (st_revision s + 1)\<rparr> (st_entries s)\<rparr>)"
  using assms by (fastforce simp: store_ok_def set_update_distinct distinct_keys_update)


section \<open>Instances\<close>

definition sample_policy :: cache_policy where
  "sample_policy = \<lparr>po_source_resource = ''o'', po_cache_resource = ''c'', po_key_fields = [''id''],
     po_serializer_id = ''canonical-json-v1'', po_schema_fingerprint = json_digest JNull, po_default_ttl = 10,
     po_maximum_ttl = 20, po_maximum_staleness = 5, po_negative_ttl = None, po_source_version_strategy = EXACT,
     po_enabled = True, po_fallback_to_authoritative = True, po_maximum_key_bytes = 64\<rparr>"

abbreviation sample_key :: json where
  "sample_key \<equiv> JList [JStr ''o'', JBool True]"

lemma sample_policy_ok: "CachePolicy sample_policy = Inr sample_policy"
  by (simp add: CachePolicy_def sample_policy_def)

lemma sample_policy_key:
  "policy_key sample_policy [(''id'', PBool True)] = Inr (PSequence [PStr ''o'', PBool True])"
  by (simp add: policy_key_def sample_policy_def canonical_json_bytes_def canonical_json_def utf8_def utf8_char_def
      quoted_def escape_char_def Let_def)

abbreviation sample_source :: "(loaded_value \<times> json) option" where
  "sample_source \<equiv> Some (\<lparr>lv_value = PInt 7, lv_source_version = VInt 3\<rparr>, JInt 7)"

lemma empty_backend [simp]: "st_available InMemoryCacheBackend" "held_entry InMemoryCacheBackend k = None"
  by (simp_all add: InMemoryCacheBackend_def held_entry_def)

theorem read_refines_specification_witness:
  "\<exists>s'. read (memory_cache sample_policy (utc_datetime 0)) [(''id'', PBool True)] (pret (map_option fst sample_source)) VNone
      (Some (utc_datetime 100)) (InMemoryCacheBackend, []) =
    (Inr \<lparr>cr_value = PInt 7, cr_source_version = VInt 3, cr_outcome = MISS, cr_cache_error = None\<rparr>, (s', [])) \<and>
    held_entry s' (''c'', json_digest sample_key) =
      Some (written_entry sample_policy sample_key (JObj [(value_field, JInt 7)]) (VInt 3) 100 10)"
proof -
  have "valid_instant 100" "valid_instant (100 + po_maximum_ttl sample_policy)"
    by (simp_all add: valid_instant_def max_instant_def sample_policy_def)
  moreover have "to_json_value (PSequence [PStr ''o'', PBool True]) = Inr sample_key" by (simp add: to_json_value_def)
  ultimately show ?thesis
    using read_refines_specification [of sample_policy "[(''id'', PBool True)]" "PSequence [PStr ''o'', PBool True]" sample_key
        100 sample_source InMemoryCacheBackend "[]" "utc_datetime 0" VNone, OF sample_policy_ok _ sample_policy_key]
    by (auto simp: converted_def to_json_value_def spec_read_def loaded_read_def kept_entry_def sample_policy_def)
qed

theorem outage_falls_back_to_source_witness:
  "read (memory_cache sample_policy (utc_datetime 0)) [(''id'', PBool True)] (pret (map_option fst sample_source)) VNone
      (Some (utc_datetime 100)) (InMemoryCacheBackend\<lparr>st_available := False\<rparr>, []) =
    (Inr \<lparr>cr_value = PInt 7, cr_source_version = VInt 3, cr_outcome = BYPASS, cr_cache_error = Some ''RuntimeError''\<rparr>,
     (InMemoryCacheBackend\<lparr>st_available := False\<rparr>, []))"
proof -
  have "valid_instant 100" "valid_instant (100 + po_maximum_ttl sample_policy)"
    by (simp_all add: valid_instant_def max_instant_def sample_policy_def)
  moreover have "to_json_value (PSequence [PStr ''o'', PBool True]) = Inr sample_key" by (simp add: to_json_value_def)
  ultimately show ?thesis
    using outage_falls_back_to_source [of sample_policy "[(''id'', PBool True)]" "PSequence [PStr ''o'', PBool True]" sample_key
        100 sample_source "InMemoryCacheBackend\<lparr>st_available := False\<rparr>" "[]" "utc_datetime 0" VNone,
        OF sample_policy_ok _ sample_policy_key]
    by (simp add: converted_def to_json_value_def loaded_read_def sample_policy_def)
qed


end
