(* ===== verification/Cache_Flights.thy ===== *)
theory Cache_Flights
  imports Cache
begin

text \<open>
  Concurrent readers of one coordinator, as far as they share the table of flights.  A reader joins
  the flight of its key, as leader or as follower; a leader finishes its flight when its load ends,
  however it ends; a follower leaves the table alone.  Readers interleave in any order, and a reader
  may start again.
\<close>

datatype reader_phase = Outside | Leading string | Following string | Failed exn

type_synonym readers = "string list \<times> (nat \<Rightarrow> reader_phase)"

inductive reader_step :: "readers \<Rightarrow> readers \<Rightarrow> bool" where
  join: "phases t = Outside \<Longrightarrow> join_flight k ((), flights) = (Inr leader, ((), flights')) \<Longrightarrow>
    reader_step (flights, phases) (flights', phases(t := if leader then Leading k else Following k))"
| finish: "phases t = Leading k \<Longrightarrow> finish_flight k ((), flights) = (r, ((), flights')) \<Longrightarrow>
    reader_step (flights, phases) (flights', phases(t := case r of Inr _ \<Rightarrow> Outside | Inl e \<Rightarrow> Failed e))"
| leave: "phases t = Following k \<Longrightarrow> reader_step (flights, phases) (flights, phases(t := Outside))"

inductive_cases reader_stepE: "reader_step s s'"

definition no_readers :: readers where
  "no_readers = ([], \<lambda>_. Outside)"

text \<open>Every flight in the table has exactly one leader, and every leader a flight in the table.\<close>

definition flights_led :: "readers \<Rightarrow> bool" where
  "flights_led s \<longleftrightarrow> distinct (fst s) \<and>
     (\<forall>k. k \<in> set (fst s) \<longleftrightarrow> (\<exists>t. snd s t = Leading k)) \<and>
     (\<forall>t u k. snd s t = Leading k \<and> snd s u = Leading k \<longrightarrow> t = u) \<and> (\<forall>t e. snd s t \<noteq> Failed e)"

lemma leading_update:
  assumes "\<And>k. phases t = Leading k \<Longrightarrow> k \<in> K"
  shows "k \<notin> K \<Longrightarrow> (\<exists>u. (phases(t := x)) u = Leading k) \<longleftrightarrow> x = Leading k \<or> (\<exists>u. phases u = Leading k)"
  using assms by (metis fun_upd_apply)

lemma flights_led_join:
  assumes led: "flights_led (flights, phases)" and t: "phases t = Outside"
    and join: "join_flight k ((), flights) = (Inr leader, ((), flights'))"
  shows "flights_led (flights', phases(t := if leader then Leading k else Following k))"
proof (cases "k \<in> set flights")
  case True
  with join have "\<not> leader" "flights' = flights" by (auto simp: join_flight_def)
  with led t leading_update [of phases t "{}"] show ?thesis by (auto simp: flights_led_def)
next
  case False
  with join have "leader" "flights' = flights @ [k]" by (auto simp: join_flight_def)
  moreover from False led have "phases u \<noteq> Leading k" for u by (auto simp: flights_led_def)
  ultimately show ?thesis
    using led t False leading_update [of phases t "{}"] unfolding flights_led_def by (auto split: if_splits)
qed

lemma flights_led_finish:
  assumes led: "flights_led (flights, phases)" and t: "phases t = Leading k"
    and finish: "finish_flight k ((), flights) = (r, ((), flights'))"
  shows "r = Inr () \<and> flights_led (flights', phases(t := Outside))"
proof -
  from led t have "k \<in> set flights" "distinct flights" by (auto simp: flights_led_def)
  with finish have "r = Inr ()" "flights' = remove1 k flights" by (auto simp: finish_flight_def)
  moreover have "(\<exists>u. (phases(t := Outside)) u = Leading i) \<longleftrightarrow> i \<in> set (remove1 k flights)" for i
  proof (cases "i = k")
    case True
    with led t \<open>distinct flights\<close> show ?thesis by (auto simp: flights_led_def)
  next
    case False
    with led t leading_update [of phases t "{k}" i Outside] show ?thesis by (auto simp: flights_led_def)
  qed
  ultimately show ?thesis using led t \<open>distinct flights\<close> unfolding flights_led_def by auto
qed

lemma flights_led_step:
  assumes "reader_step s s'" and "flights_led s"
  shows "flights_led s'"
  using assms
proof (cases rule: reader_step.cases)
  case (join phases t k flights leader flights')
  with assms(2) flights_led_join show ?thesis by blast
next
  case (finish phases t k flights r flights')
  with assms(2) flights_led_finish [of flights phases t k r flights'] show ?thesis by auto
next
  case (leave phases t k flights)
  with assms(2) leading_update [of phases t "{}"] show ?thesis by (auto simp: flights_led_def)
qed



end
