(* ===== verification/Portability_Model.thy ===== *)
theory Portability_Model
  imports Outbox_Model
begin

text \<open>
  Model of \<open>portability/model.py\<close>: logical records, export boundaries, metadata and manifests, import
  reports and restore evidence, with the checks of their constructors.
\<close>

section \<open>Enumerations\<close>

definition logical_export_format_version :: string where
  "logical_export_format_version = ''meridian.logical-export.v1''"

definition export_catalogs :: "string list" where
  "export_catalogs = filter (\<lambda>c. c \<noteq> ''cache'') catalog_names"

datatype export_consistency = CONSISTENT_BOUNDARY | LIVE_READ

fun consistency_value :: "export_consistency \<Rightarrow> string" where
  "consistency_value CONSISTENT_BOUNDARY = ''consistent-boundary''"
| "consistency_value LIVE_READ = ''live-read''"

datatype merge_policy = REQUIRE_EMPTY | PRESERVE_NEWER | REPLACE

section \<open>Records\<close>

record 'v logical_record =
  lr_catalog :: string
  lr_namespace :: string
  lr_resource :: string
  lr_schema_ref :: string
  lr_logical_id :: string
  lr_version :: version
  lr_values :: 'v
  lr_object_references :: "'v list"

text \<open>\<open>not isinstance(version, (str, int)) or isinstance(version, bool)\<close>.\<close>

fun is_record_version :: "version \<Rightarrow> bool" where
  "is_record_version (VInt _) = True"
| "is_record_version (VStr _) = True"
| "is_record_version _ = False"

definition LogicalRecord :: "pyval logical_record \<Rightarrow> exn + json logical_record" where
  "LogicalRecord r =
     ebind (require_fields [(''catalog'', lr_catalog r), (''namespace'', lr_namespace r), (''resource'', lr_resource r),
       (''schema_ref'', lr_schema_ref r), (''logical_id'', lr_logical_id r)]) (\<lambda>_.
     ebind (guard (lr_catalog r \<noteq> ''cache'') (ValueError ''cache state is excluded from logical export'')) (\<lambda>_.
     ebind (guard (lr_catalog r \<in> set export_catalogs)
       (ValueError (''unknown export Catalog '' @ py_repr (lr_catalog r)))) (\<lambda>_.
     ebind (guard (is_record_version (lr_version r)) (ValueError ''logical version must be a string or integer'')) (\<lambda>_.
     ebind (immutable_mapping (lr_values r)) (\<lambda>values.
     ebind (emap immutable_mapping (lr_object_references r)) (\<lambda>refs.
     Inr \<lparr>lr_catalog = lr_catalog r, lr_namespace = lr_namespace r, lr_resource = lr_resource r,
       lr_schema_ref = lr_schema_ref r, lr_logical_id = lr_logical_id r, lr_version = lr_version r,
       lr_values = values, lr_object_references = refs\<rparr>))))))"

definition record_to_mapping :: "json logical_record \<Rightarrow> json" where
  "record_to_mapping r = JObj [(''catalog'', JStr (lr_catalog r)), (''namespace'', JStr (lr_namespace r)),
     (''resource'', JStr (lr_resource r)), (''schemaRef'', JStr (lr_schema_ref r)),
     (''logicalId'', JStr (lr_logical_id r)), (''version'', version_json (lr_version r)),
     (''values'', lr_values r), (''objectReferences'', JList (lr_object_references r))]"

fun is_mapping :: "pyval \<Rightarrow> bool" where
  "is_mapping (PMapping _) = True"
| "is_mapping _ = False"

text \<open>The text of a field, \<open>None\<close> when it is absent or no string.\<close>

definition text_field :: "(pyval \<times> pyval) list \<Rightarrow> string \<Rightarrow> string option" where
  "text_field kvs name = (case map_of kvs (PStr name) of Some (PStr s) \<Rightarrow> Some s | _ \<Rightarrow> None)"

definition record_from_mapping :: "(pyval \<times> pyval) list \<Rightarrow> exn + json logical_record" where
  "record_from_mapping value =
     ebind (case map_of value (PStr ''objectReferences'') of
         Some (PSequence refs) \<Rightarrow> if \<forall>r \<in> set refs. is_mapping r then Inr refs
           else Inl (ValueError ''objectReferences must be an array of mappings'')
       | _ \<Rightarrow> Inl (ValueError ''objectReferences must be an array of mappings'')) (\<lambda>object_refs.
     ebind (case map_of value (PStr ''values'') of Some (PMapping kvs) \<Rightarrow> Inr (PMapping kvs)
       | _ \<Rightarrow> Inl (ValueError ''logical Record values must be a mapping'')) (\<lambda>values.
     ebind (case map_of value (PStr ''version'') of Some (PInt i) \<Rightarrow> Inr (VInt i) | Some (PStr s) \<Rightarrow> Inr (VStr s)
       | _ \<Rightarrow> Inl (ValueError ''logical Record version must be a string or integer'')) (\<lambda>version.
     case (text_field value ''catalog'', text_field value ''namespace'', text_field value ''resource'',
       text_field value ''schemaRef'', text_field value ''logicalId'') of
       (Some catalog, Some namespace, Some resource, Some schema_ref, Some logical_id) \<Rightarrow>
         LogicalRecord \<lparr>lr_catalog = catalog, lr_namespace = namespace, lr_resource = resource,
           lr_schema_ref = schema_ref, lr_logical_id = logical_id, lr_version = version,
           lr_values = values, lr_object_references = object_refs\<rparr>
     | _ \<Rightarrow> Inl (ValueError ''logical Record identity fields must be strings''))))"

section \<open>Manifests\<close>

record export_boundary =
  xb_boundary_id :: string
  xb_consistency :: export_consistency
  xb_start_watermark :: string
  xb_end_watermark :: string

definition ExportBoundary :: "export_boundary \<Rightarrow> exn + export_boundary" where
  "ExportBoundary b =
     ebind (guard (xb_boundary_id b \<noteq> [] \<and> xb_start_watermark b \<noteq> [] \<and> xb_end_watermark b \<noteq> [])
       (ValueError ''export boundary fields must be non-empty'')) (\<lambda>_.
     ebind (guard (\<not> (xb_consistency b = CONSISTENT_BOUNDARY \<and> xb_start_watermark b \<noteq> xb_end_watermark b))
       (ValueError ''a consistent export must use one start/end watermark'')) (\<lambda>_. Inr b))"

definition boundary_to_mapping :: "export_boundary \<Rightarrow> json" where
  "boundary_to_mapping b = JObj [(''boundaryId'', JStr (xb_boundary_id b)),
     (''consistency'', JStr (consistency_value (xb_consistency b))),
     (''startWatermark'', JStr (xb_start_watermark b)), (''endWatermark'', JStr (xb_end_watermark b))]"

record 'v export_metadata =
  xm_namespaces :: "'v list"
  xm_schemas :: "'v list"
  xm_resources :: "'v list"
  xm_extensions :: 'v

text \<open>\<open>resource.get("catalog")\<close> of a mapping with string catalogs.\<close>

fun resource_catalog :: "pyval \<Rightarrow> pyval" where
  "resource_catalog (PMapping kvs) = (case map_of kvs (PStr ''catalog'') of None \<Rightarrow> PNone | Some v \<Rightarrow> v)"
| "resource_catalog _ = PNone"

fun check_resource :: "pyval \<Rightarrow> exn + unit" where
  "check_resource r = (case resource_catalog r of
     PNone \<Rightarrow> Inr ()
   | PStr c \<Rightarrow> ebind (guard (c \<noteq> ''cache'') (ValueError ''cache resources are excluded from logical export'')) (\<lambda>_.
       guard (c \<in> set export_catalogs) (ValueError (''unknown export Resource Catalog '' @ py_repr c)))
   | _ \<Rightarrow> Inl (ValueError ''unknown export Resource Catalog''))"

definition ExportMetadata :: "pyval export_metadata \<Rightarrow> exn + json export_metadata" where
  "ExportMetadata m =
     ebind (emap check_resource (xm_resources m)) (\<lambda>_.
     ebind (emap immutable_mapping (xm_namespaces m)) (\<lambda>namespaces.
     ebind (emap immutable_mapping (xm_schemas m)) (\<lambda>schemas.
     ebind (emap immutable_mapping (xm_resources m)) (\<lambda>resources.
     ebind (immutable_mapping (xm_extensions m)) (\<lambda>extensions.
     Inr \<lparr>xm_namespaces = namespaces, xm_schemas = schemas, xm_resources = resources, xm_extensions = extensions\<rparr>)))))"

definition metadata_to_mapping :: "json export_metadata \<Rightarrow> json" where
  "metadata_to_mapping m = JObj [(''namespaces'', JList (xm_namespaces m)), (''schemas'', JList (xm_schemas m)),
     (''resources'', JList (xm_resources m)), (''extensions'', xm_extensions m)]"

record partition_manifest =
  pm_partition_id :: string
  pm_artifact_ref :: string
  pm_count :: int
  pm_bytes :: int
  pm_minimum_logical_id :: "string option"
  pm_maximum_logical_id :: "string option"
  pm_sha256 :: string

definition PartitionManifest :: "partition_manifest \<Rightarrow> exn + partition_manifest" where
  "PartitionManifest p =
     ebind (guard (pm_partition_id p \<noteq> [] \<and> pm_artifact_ref p \<noteq> [])
       (ValueError ''partition identity and artifact reference must be non-empty'')) (\<lambda>_.
     ebind (guard (0 \<le> pm_count p \<and> 0 \<le> pm_bytes p) (ValueError ''partition count and bytes cannot be negative'')) (\<lambda>_.
     ebind (guard (\<not> (pm_count p = 0 \<and> (pm_minimum_logical_id p \<noteq> None \<or> pm_maximum_logical_id p \<noteq> None)))
       (ValueError ''empty partitions cannot have logical id bounds'')) (\<lambda>_.
     ebind (guard (\<not> (0 < pm_count p \<and> (pm_minimum_logical_id p = None \<or> pm_maximum_logical_id p = None)))
       (ValueError ''non-empty partitions require logical id bounds'')) (\<lambda>_.
     ebind (guard (\<not> (0 < pm_count p \<and> pm_bytes p = 0)) (ValueError ''non-empty partitions require non-zero bytes'')) (\<lambda>_.
     ebind (guard (case (pm_minimum_logical_id p, pm_maximum_logical_id p) of
         (Some lo, Some hi) \<Rightarrow> \<not> hi < lo | _ \<Rightarrow> True) (ValueError ''partition logical id bounds are reversed'')) (\<lambda>_.
     ebind (require_sha256 (pm_sha256 p) ''partition sha256'') (\<lambda>_. Inr p)))))))"

fun opt_text :: "string option \<Rightarrow> json" where
  "opt_text None = JNull"
| "opt_text (Some s) = JStr s"

definition partition_to_mapping :: "partition_manifest \<Rightarrow> json" where
  "partition_to_mapping p = JObj [(''partitionId'', JStr (pm_partition_id p)), (''artifactRef'', JStr (pm_artifact_ref p)),
     (''count'', JInt (pm_count p)), (''bytes'', JInt (pm_bytes p)),
     (''minimumLogicalId'', opt_text (pm_minimum_logical_id p)), (''maximumLogicalId'', opt_text (pm_maximum_logical_id p)),
     (''sha256'', JStr (pm_sha256 p))]"

record 't logical_export =
  lx_metadata :: "json export_metadata"
  lx_boundary :: export_boundary
  lx_partitions :: "partition_manifest list"
  lx_export_id :: string
  lx_created_at :: 't
  lx_digest :: string
  lx_format_version :: string

definition export_digest_material :: "int logical_export \<Rightarrow> (string \<times> json) list" where
  "export_digest_material x = [(''formatVersion'', JStr (lx_format_version x)), (''exportId'', JStr (lx_export_id x)),
     (''createdAt'', JStr (iso_utc (lx_created_at x))), (''metadata'', metadata_to_mapping (lx_metadata x)),
     (''boundary'', boundary_to_mapping (lx_boundary x)),
     (''partitions'', JList (map partition_to_mapping (lx_partitions x)))]"

definition export_to_mapping :: "int logical_export \<Rightarrow> json" where
  "export_to_mapping x = JObj (export_digest_material x @ [(''digest'', JStr (lx_digest x))])"

definition LogicalExportV1 :: "datetime logical_export \<Rightarrow> exn + int logical_export" where
  "LogicalExportV1 x =
     ebind (guard (lx_format_version x = logical_export_format_version)
       (ValueError (''format_version must be '' @ py_repr logical_export_format_version))) (\<lambda>_.
     ebind (guard (lx_export_id x \<noteq> []) (ValueError ''export_id must be non-empty'')) (\<lambda>_.
     ebind (guard (distinct (map pm_partition_id (lx_partitions x))) (ValueError ''partition ids must be unique'')) (\<lambda>_.
     ebind (ensure_utc (lx_created_at x) ''created_at'') (\<lambda>created.
     let y = \<lparr>lx_metadata = lx_metadata x, lx_boundary = lx_boundary x, lx_partitions = lx_partitions x,
           lx_export_id = lx_export_id x, lx_created_at = created, lx_digest = lx_digest x,
           lx_format_version = lx_format_version x\<rparr>;
         expected = json_digest (JObj (export_digest_material y))
     in ebind (guard (lx_digest x = [] \<or> lx_digest x = expected)
          (ValueError ''logical export digest does not match canonical content'')) (\<lambda>_.
        Inr (y\<lparr>lx_digest := expected\<rparr>))))))"

record export_request =
  xr_resources :: "string list"
  xr_batch_size :: int

definition ExportRequest :: "export_request \<Rightarrow> exn + export_request" where
  "ExportRequest r =
     ebind (guard (xr_resources r \<noteq> [] \<and> (\<forall>n \<in> set (xr_resources r). n \<noteq> []) \<and> distinct (xr_resources r))
       (ValueError ''export resources must be non-empty and unique'')) (\<lambda>_.
     ebind (guard (1 \<le> xr_batch_size r \<and> xr_batch_size r \<le> 10000)
       (ValueError ''export batch_size must be between 1 and 10000'')) (\<lambda>_. Inr r))"

section \<open>Reports\<close>

record partition_import_result =
  pi_partition_id :: string
  pi_count :: int
  pi_bytes :: int
  pi_sha256 :: string

definition PartitionImportResult :: "partition_import_result \<Rightarrow> exn + partition_import_result" where
  "PartitionImportResult r =
     ebind (guard (pi_partition_id r \<noteq> [] \<and> 0 \<le> pi_count r \<and> 0 \<le> pi_bytes r)
       (ValueError ''partition import result fields are invalid'')) (\<lambda>_.
     ebind (require_sha256 (pi_sha256 r) ''partition import sha256'') (\<lambda>_. Inr r))"

record import_report =
  im_export_digest :: string
  im_target_fingerprint :: string
  im_partitions :: "partition_import_result list"
  im_comparison_digest :: string

definition ImportReport :: "import_report \<Rightarrow> exn + import_report" where
  "ImportReport r =
     ebind (require_sha256 (im_export_digest r) ''export_digest'') (\<lambda>_.
     ebind (require_sha256 (im_target_fingerprint r) ''target_fingerprint'') (\<lambda>_.
     ebind (require_sha256 (im_comparison_digest r) ''comparison_digest'') (\<lambda>_.
     ebind (guard (distinct (map pi_partition_id (im_partitions r)))
       (ValueError ''import report partition ids must be unique'')) (\<lambda>_. Inr r))))"

record 't restore_evidence =
  rs_backup_reference :: string
  rs_export_digest :: string
  rs_target_fingerprint :: string
  rs_validation_digest :: string
  rs_validated_at :: 't

definition RestoreValidationEvidence :: "datetime restore_evidence \<Rightarrow> exn + int restore_evidence" where
  "RestoreValidationEvidence r =
     ebind (guard (rs_backup_reference r \<noteq> []) (ValueError ''backup_reference must be non-empty'')) (\<lambda>_.
     ebind (require_sha256 (rs_export_digest r) ''export_digest'') (\<lambda>_.
     ebind (require_sha256 (rs_target_fingerprint r) ''target_fingerprint'') (\<lambda>_.
     ebind (require_sha256 (rs_validation_digest r) ''validation_digest'') (\<lambda>_.
     ebind (ensure_utc (rs_validated_at r) ''validated_at'') (\<lambda>validated.
     Inr \<lparr>rs_backup_reference = rs_backup_reference r, rs_export_digest = rs_export_digest r,
       rs_target_fingerprint = rs_target_fingerprint r, rs_validation_digest = rs_validation_digest r,
       rs_validated_at = validated\<rparr>)))))"

definition restore_to_mapping :: "int restore_evidence \<Rightarrow> json" where
  "restore_to_mapping r = JObj [(''backupReference'', JStr (rs_backup_reference r)),
     (''exportDigest'', JStr (rs_export_digest r)), (''targetFingerprint'', JStr (rs_target_fingerprint r)),
     (''validationDigest'', JStr (rs_validation_digest r)), (''validatedAt'', JStr (iso_utc (rs_validated_at r)))]"

end
