(* ===== verification/Portability.thy ===== *)
theory Portability
  imports Portability_Model
begin

text \<open>
  Model of \<open>portability/coordinator.py\<close>: the in-memory artifact store, the export of records as
  canonical NDJSON partitions, the import that verifies every partition before it writes, and the
  correlation with a restore validation.  A running \<open>hashlib.sha256()\<close> is the list of the bytes it was
  fed.  \<open>json.loads\<close> is a parameter: \<open>None\<close> is a \<open>UnicodeDecodeError\<close> or a \<open>JSONDecodeError\<close>, \<open>Some (Inl e)\<close>
  any other exception; \<open>Json_Loads\<close> models it and \<open>Portability_Roundtrip\<close> passes that model in.
\<close>

section \<open>In-memory artifacts\<close>

record artifact_store =
  ar_pending :: "(int, byte list) dict"
  ar_artifacts :: "(string, byte list) dict"
  ar_next_handle :: int

definition InMemoryLogicalArtifacts :: artifact_store where
  "InMemoryLogicalArtifacts = \<lparr>ar_pending = [], ar_artifacts = [], ar_next_handle = 0\<rparr>"

text \<open>A handle is an \<open>object\<close>; \<open>isinstance(handle, int)\<close>.\<close>

fun int_handle :: "pyval \<Rightarrow> int option" where
  "int_handle (PInt h) = Some h"
| "int_handle (PBool b) = Some (of_bool b)"
| "int_handle _ = None"

definition artifact_begin :: "string \<Rightarrow> (artifact_store, pyval) prog" where
  "artifact_begin partition_id s = (let h = ar_next_handle s + 1
     in (Inr (PInt h), s\<lparr>ar_next_handle := h, ar_pending := AList.update h [] (ar_pending s)\<rparr>))"

definition artifact_write :: "pyval \<Rightarrow> byte list \<Rightarrow> (artifact_store, unit) prog" where
  "artifact_write handle chunk s = (case int_handle handle of
     None \<Rightarrow> (Inl (TypeError ''in-memory artifact handle must be an integer''), s)
   | Some h \<Rightarrow> (case map_of (ar_pending s) h of
       None \<Rightarrow> (Inl (KeyError (int_text h)), s)
     | Some content \<Rightarrow> (Inr (), s\<lparr>ar_pending := AList.update h (content @ chunk) (ar_pending s)\<rparr>)))"

definition artifact_reference :: "string \<Rightarrow> byte list \<Rightarrow> string" where
  "artifact_reference partition_id content = ''logical://'' @ partition_id @ ''/'' @ hexdigest content"

definition artifact_finish :: "pyval \<Rightarrow> string \<Rightarrow> (artifact_store, string) prog" where
  "artifact_finish handle partition_id s = (case int_handle handle of
     None \<Rightarrow> (Inl (TypeError ''in-memory artifact handle must be an integer''), s)
   | Some h \<Rightarrow> (case map_of (ar_pending s) h of
       None \<Rightarrow> (Inl (KeyError (int_text h)), s)
     | Some content \<Rightarrow> (let reference = artifact_reference partition_id content
         in (Inr reference, s\<lparr>ar_pending := AList.delete h (ar_pending s),
              ar_artifacts := AList.update reference content (ar_artifacts s)\<rparr>))))"

text \<open>A generator: it looks the content up when it is first pulled, and yields it when it is not empty.\<close>

definition artifact_chunks :: "string \<Rightarrow> (artifact_store, (artifact_store, byte list) pulls) prog" where
  "artifact_chunks artifact_ref s = (Inr (case map_of (ar_artifacts s) artifact_ref of
     None \<Rightarrow> ([], praise (KeyError artifact_ref))
   | Some content \<Rightarrow> (if content = [] then [] else [pret content], pret ())), s)"

section \<open>Export\<close>

record 'w export_env =
  xe_begin :: "export_request \<Rightarrow> ('w, export_boundary) prog"
  xe_metadata :: "export_request \<Rightarrow> export_boundary \<Rightarrow> ('w, json export_metadata) prog"
  xe_partition_ids :: "export_request \<Rightarrow> export_boundary \<Rightarrow> ('w, string list) prog"
  xe_records :: "export_request \<Rightarrow> export_boundary \<Rightarrow> string \<Rightarrow> ('w, ('w, json logical_record list) pulls) prog"
  xe_finish :: "export_request \<Rightarrow> export_boundary \<Rightarrow> ('w, export_boundary) prog"
  xe_begin_partition :: "string \<Rightarrow> ('w, pyval) prog"
  xe_write :: "pyval \<Rightarrow> byte list \<Rightarrow> ('w, unit) prog"
  xe_finish_partition :: "pyval \<Rightarrow> string \<Rightarrow> ('w, string) prog"
  xe_evidence :: "'w evidence_sink"
  xe_clock :: "('w, datetime) prog"

text \<open>The local variables of one partition: the bytes digested so far, and the ids seen.\<close>

record progress =
  pr_bytes :: "byte list"
  pr_count :: int
  pr_minimum :: "string option"
  pr_maximum :: "string option"
  pr_previous :: "string option"

definition no_progress :: progress where
  "no_progress = \<lparr>pr_bytes = [], pr_count = 0, pr_minimum = None, pr_maximum = None, pr_previous = None\<rparr>"

definition newline :: byte where
  "newline = 10"

definition record_line :: "json logical_record \<Rightarrow> byte list" where
  "record_line r = canonical_json (record_to_mapping r)"

text \<open>\<open>previous is not None and record.logical_id <= previous\<close>.\<close>

definition out_of_order :: "progress \<Rightarrow> json logical_record \<Rightarrow> bool" where
  "out_of_order p r = (case pr_previous p of None \<Rightarrow> False | Some i \<Rightarrow> lr_logical_id r \<le> i)"

text \<open>\<open>minimum or record.logical_id\<close>: an empty id counts as none.\<close>

definition note_record :: "json logical_record \<Rightarrow> progress \<Rightarrow> progress" where
  "note_record r p = p\<lparr>pr_count := pr_count p + 1,
     pr_minimum := (if pr_minimum p = None \<or> pr_minimum p = Some [] then Some (lr_logical_id r) else pr_minimum p),
     pr_maximum := Some (lr_logical_id r), pr_previous := Some (lr_logical_id r)\<rparr>"

definition export_record :: "'w export_env \<Rightarrow> pyval \<Rightarrow> json logical_record \<Rightarrow> progress \<Rightarrow> ('w, progress) prog" where
  "export_record env handle record p =
     (if out_of_order p record then praise (ValueError ''logical export records must be strictly ordered by id'')
      else let chunk = record_line record @ [newline] in
        pbind (xe_write env handle chunk) (\<lambda>_.
        pret ((note_record record p)\<lparr>pr_bytes := pr_bytes p @ chunk\<rparr>)))"

definition export_batch ::
  "'w export_env \<Rightarrow> export_request \<Rightarrow> ('w, bool) prog \<Rightarrow> pyval \<Rightarrow> ('w, json logical_record list) prog \<Rightarrow> progress
   \<Rightarrow> ('w, progress) prog" where
  "export_batch env request token handle pull p =
     pbind pull (\<lambda>batch.
     if xr_batch_size request < int (length batch)
     then praise (ValueError ''export source exceeded the requested batch size'')
     else pbind (raise_if_cancelled token) (\<lambda>_. pfold (export_record env handle) batch p))"

definition export_partition ::
  "'w export_env \<Rightarrow> export_request \<Rightarrow> export_boundary \<Rightarrow> ('w, bool) prog \<Rightarrow> string \<Rightarrow> ('w, partition_manifest) prog" where
  "export_partition env request boundary token partition_id =
     pbind (raise_if_cancelled token) (\<lambda>_.
     pbind (xe_begin_partition env partition_id) (\<lambda>handle.
     pbind (xe_records env request boundary partition_id) (\<lambda>(pulls, final).
     pbind (pfold (export_batch env request token handle) pulls no_progress) (\<lambda>p.
     pbind final (\<lambda>_.
     pbind (xe_finish_partition env handle partition_id) (\<lambda>artifact_ref.
     plift (PartitionManifest \<lparr>pm_partition_id = partition_id, pm_artifact_ref = artifact_ref, pm_count = pr_count p,
       pm_bytes = int (length (pr_bytes p)), pm_minimum_logical_id = pr_minimum p, pm_maximum_logical_id = pr_maximum p,
       pm_sha256 = ''sha256:'' @ hexdigest (pr_bytes p)\<rparr>)))))))"

definition export ::
  "'w export_env \<Rightarrow> export_request \<Rightarrow> ('w, bool) prog \<Rightarrow> string \<Rightarrow> ('w, int logical_export) prog" where
  "export env request token export_id =
     pbind (xe_begin env request) (\<lambda>boundary.
     pbind (xe_metadata env request boundary) (\<lambda>metadata.
     pbind (xe_partition_ids env request boundary) (\<lambda>partition_ids.
     pbind (plift (guard (distinct partition_ids) (ValueError ''export source returned duplicate partition ids''))) (\<lambda>_.
     pbind (pfold (\<lambda>i ms. pbind (export_partition env request boundary token i) (\<lambda>manifest. pret (ms @ [manifest])))
       partition_ids []) (\<lambda>manifests.
     pbind (xe_finish env request boundary) (\<lambda>final_boundary.
     pbind (plift (guard (xb_boundary_id final_boundary = xb_boundary_id boundary)
       (ValueError ''export source changed the boundary identity during export''))) (\<lambda>_.
     pbind (plift (guard (xb_start_watermark final_boundary = xb_start_watermark boundary)
       (ValueError ''export source changed the start watermark during export''))) (\<lambda>_.
     pbind (xe_clock env) (\<lambda>created.
     pbind (plift (LogicalExportV1 \<lparr>lx_metadata = metadata, lx_boundary = final_boundary, lx_partitions = manifests,
       lx_export_id = export_id, lx_created_at = created, lx_digest = [], lx_format_version = logical_export_format_version\<rparr>)) (\<lambda>manifest.
     pbind (xe_clock env) (\<lambda>occurred.
     pbind (record_evidence (xe_evidence env) ''logical-export'' (lx_export_id manifest) ''COMPLETED''
       (JObj [(''exportDigest'', JStr (lx_digest manifest)), (''partitionCount'', JInt (int (length (lx_partitions manifest)))),
         (''consistency'', JStr (consistency_value (xb_consistency (lx_boundary manifest))))]) occurred) (\<lambda>_.
     pret manifest))))))))))))"

section \<open>Import\<close>

record 'w import_env =
  ie_chunks :: "string \<Rightarrow> ('w, ('w, byte list) pulls) prog"
  ie_preflight :: "json export_metadata \<Rightarrow> merge_policy \<Rightarrow> ('w, unit) prog"
  ie_write :: "json logical_record list \<Rightarrow> merge_policy \<Rightarrow> ('w, unit) prog"
  ie_finalize :: "int logical_export \<Rightarrow> ('w, string) prog"
  ie_object_transfer :: "(json \<Rightarrow> ('w, string) prog) option"
  ie_evidence :: "'w evidence_sink"
  ie_maximum_record_bytes :: int
  ie_clock :: "('w, datetime) prog"
  ie_loads :: "byte list \<Rightarrow> (exn + pyval) option"

definition LogicalImportCoordinator :: "'w import_env \<Rightarrow> exn + 'w import_env" where
  "LogicalImportCoordinator env =
     ebind (guard (1024 \<le> ie_maximum_record_bytes env) (ValueError ''maximum_record_bytes must be at least 1024'')) (\<lambda>_. Inr env)"

record reading =
  rd_progress :: progress
  rd_buffer :: "byte list"
  rd_batch :: "json logical_record list"

definition parse_line :: "'w import_env \<Rightarrow> byte list \<Rightarrow> exn + json logical_record" where
  "parse_line env line =
     ebind (guard (int (length line) \<le> ie_maximum_record_bytes env)
       (IntegrityError ''logical Record exceeds maximum_record_bytes'')) (\<lambda>_.
     ebind (case ie_loads env line of None \<Rightarrow> Inl (IntegrityError ''logical partition contains invalid NDJSON'')
       | Some r \<Rightarrow> r) (\<lambda>raw.
     ebind (case raw of PMapping kvs \<Rightarrow> Inr kvs
       | _ \<Rightarrow> Inl (IntegrityError ''logical partition line must be a JSON object'')) (\<lambda>kvs.
     ebind (record_from_mapping kvs) (\<lambda>record.
     ebind (guard (record_line record = line) (IntegrityError ''logical partition Record is not canonical JSON'')) (\<lambda>_.
     Inr record)))))"

definition transfer_object :: "(json \<Rightarrow> ('w, string) prog) \<Rightarrow> json \<Rightarrow> ('w, unit) prog" where
  "transfer_object transfer reference =
     pbind (transfer reference) (\<lambda>transferred.
     if is_sha256 transferred then pret ()
     else praise (IntegrityError ''object transfer hook returned an invalid digest''))"

definition write_record ::
  "'w import_env \<Rightarrow> merge_policy \<Rightarrow> int \<Rightarrow> json logical_record \<Rightarrow> reading \<Rightarrow> ('w, reading) prog" where
  "write_record env policy batch_size record st =
     (let batch = rd_batch st @ [record] in
      if int (length batch) = batch_size
      then pbind (ie_write env batch policy) (\<lambda>_. pret (st\<lparr>rd_batch := []\<rparr>))
      else pret (st\<lparr>rd_batch := batch\<rparr>))"

definition consume_line ::
  "'w import_env \<Rightarrow> merge_policy \<Rightarrow> int \<Rightarrow> bool \<Rightarrow> byte list \<Rightarrow> reading \<Rightarrow> ('w, reading) prog" where
  "consume_line env policy batch_size wr line st =
     pbind (plift (parse_line env line)) (\<lambda>record.
     if out_of_order (rd_progress st) record
     then praise (IntegrityError ''logical partition records are not strictly ordered'')
     else
       let st = st\<lparr>rd_progress := note_record record (rd_progress st)\<rparr> in
       if \<not> wr then pret st
       else
         pbind (case ie_object_transfer env of None \<Rightarrow> pret ()
           | Some transfer \<Rightarrow> pfor (transfer_object transfer) (lr_object_references record)) (\<lambda>_.
         write_record env policy batch_size record st))"

text \<open>The complete lines of a buffer and what follows the last newline.\<close>

function split_lines :: "byte list \<Rightarrow> byte list list \<times> byte list" where
  "split_lines bs = (if newline \<in> set bs
     then (let (ls, rest) = split_lines (tl (dropWhile (\<lambda>b. b \<noteq> newline) bs))
           in (takeWhile (\<lambda>b. b \<noteq> newline) bs # ls, rest))
     else ([], bs))"
  by pat_completeness auto
termination
proof (relation "measure length")
  fix bs :: "byte list" assume "newline \<in> set bs"
  then have "dropWhile (\<lambda>b. b \<noteq> newline) bs \<noteq> []" by (auto simp: dropWhile_eq_Nil_conv)
  moreover have "length (dropWhile (\<lambda>b. b \<noteq> newline) bs) \<le> length bs" by (rule length_dropWhile_le)
  ultimately show "(tl (dropWhile (\<lambda>b. b \<noteq> newline) bs), bs) \<in> measure length"
    by (cases "dropWhile (\<lambda>b. b \<noteq> newline) bs") auto
qed simp

declare split_lines.simps [simp del]

definition read_chunk ::
  "'w import_env \<Rightarrow> merge_policy \<Rightarrow> int \<Rightarrow> bool \<Rightarrow> ('w, bool) prog \<Rightarrow> ('w, byte list) prog \<Rightarrow> reading \<Rightarrow> ('w, reading) prog" where
  "read_chunk env policy batch_size wr token pull st =
     pbind pull (\<lambda>chunk.
     pbind (raise_if_cancelled token) (\<lambda>_.
     let (ls, rest) = split_lines (rd_buffer st @ chunk);
         st = st\<lparr>rd_progress := (rd_progress st)\<lparr>pr_bytes := pr_bytes (rd_progress st) @ chunk\<rparr>, rd_buffer := rest\<rparr> in
     pbind (pfold (consume_line env policy batch_size wr) (filter (\<lambda>l. l \<noteq> []) ls) st) (\<lambda>st.
     if ie_maximum_record_bytes env < int (length rest)
     then praise (IntegrityError ''logical partition contains an oversized unterminated Record'')
     else pret st)))"

definition check_partition :: "partition_manifest \<Rightarrow> progress \<Rightarrow> exn + partition_import_result" where
  "check_partition m p =
     (let observed = ''sha256:'' @ hexdigest (pr_bytes p) in
      ebind (guard (pr_count p = pm_count m \<and> int (length (pr_bytes p)) = pm_bytes m \<and>
          pr_minimum p = pm_minimum_logical_id m \<and> pr_maximum p = pm_maximum_logical_id m \<and> observed = pm_sha256 m)
        (IntegrityError (''partition '' @ py_repr (pm_partition_id m) @ '' failed manifest validation''))) (\<lambda>_.
      PartitionImportResult \<lparr>pi_partition_id = pm_partition_id m, pi_count = pr_count p,
        pi_bytes = int (length (pr_bytes p)), pi_sha256 = observed\<rparr>))"

definition import_partition ::
  "'w import_env \<Rightarrow> merge_policy \<Rightarrow> int \<Rightarrow> bool \<Rightarrow> ('w, bool) prog \<Rightarrow> partition_manifest \<Rightarrow> ('w, partition_import_result) prog" where
  "import_partition env policy batch_size wr token m =
     pbind (raise_if_cancelled token) (\<lambda>_.
     pbind (ie_chunks env (pm_artifact_ref m)) (\<lambda>(pulls, final).
     pbind (pfold (read_chunk env policy batch_size wr token) pulls
       \<lparr>rd_progress = no_progress, rd_buffer = [], rd_batch = []\<rparr>) (\<lambda>st.
     pbind final (\<lambda>_.
     pbind (plift (guard (rd_buffer st = []) (IntegrityError ''logical partition must end each Record with a newline''))) (\<lambda>_.
     pbind (if wr \<and> rd_batch st \<noteq> [] then ie_write env (rd_batch st) policy else pret ()) (\<lambda>_.
     plift (check_partition m (rd_progress st))))))))"

definition import_partitions ::
  "'w import_env \<Rightarrow> merge_policy \<Rightarrow> int \<Rightarrow> bool \<Rightarrow> ('w, bool) prog \<Rightarrow> partition_manifest list \<Rightarrow> ('w, partition_import_result list) prog" where
  "import_partitions env policy batch_size wr token ms =
     pfold (\<lambda>m rs. pbind (import_partition env policy batch_size wr token m) (\<lambda>r. pret (rs @ [r]))) ms []"

definition comparison_digest :: "string \<Rightarrow> string \<Rightarrow> partition_import_result list \<Rightarrow> string" where
  "comparison_digest export_digest target_fingerprint results = json_digest (JObj [
     (''exportDigest'', JStr export_digest), (''targetFingerprint'', JStr target_fingerprint),
     (''partitions'', JList (map (\<lambda>r. JObj [(''partitionId'', JStr (pi_partition_id r)), (''count'', JInt (pi_count r)),
        (''bytes'', JInt (pi_bytes r)), (''sha256'', JStr (pi_sha256 r))]) results))])"

definition import_export ::
  "'w import_env \<Rightarrow> int logical_export \<Rightarrow> merge_policy \<Rightarrow> int \<Rightarrow> ('w, bool) prog \<Rightarrow> ('w, import_report) prog" where
  "import_export env manifest policy batch_size token =
     pbind (plift (guard (1 \<le> batch_size \<and> batch_size \<le> 10000)
       (ValueError ''import batch_size must be between 1 and 10000''))) (\<lambda>_.
     pbind (raise_if_cancelled token) (\<lambda>_.
     pbind (import_partitions env policy batch_size False token (lx_partitions manifest)) (\<lambda>verified.
     pbind (ie_preflight env (lx_metadata manifest) policy) (\<lambda>_.
     pbind (import_partitions env policy batch_size True token (lx_partitions manifest)) (\<lambda>results.
     pbind (plift (guard (results = verified)
       (IntegrityError ''logical artifacts changed after preflight verification''))) (\<lambda>_.
     pbind (ie_finalize env manifest) (\<lambda>target_fingerprint.
     pbind (plift (guard (is_sha256 target_fingerprint)
       (IntegrityError ''import target returned an invalid fingerprint''))) (\<lambda>_.
     let comparison = comparison_digest (lx_digest manifest) target_fingerprint results in
     pbind (plift (ImportReport \<lparr>im_export_digest = lx_digest manifest, im_target_fingerprint = target_fingerprint,
       im_partitions = results, im_comparison_digest = comparison\<rparr>)) (\<lambda>report.
     pbind (ie_clock env) (\<lambda>occurred.
     pbind (record_evidence (ie_evidence env) ''logical-import'' (lx_export_id manifest) ''COMPLETED''
       (JObj [(''exportDigest'', JStr (lx_digest manifest)), (''targetFingerprint'', JStr target_fingerprint),
         (''comparisonDigest'', JStr comparison)]) occurred) (\<lambda>_.
     pret report)))))))))))"

section \<open>Restore validation\<close>

record 'w recovery_env =
  ve_validate :: "string \<Rightarrow> int logical_export \<Rightarrow> import_report \<Rightarrow> ('w, string) prog"
  ve_evidence :: "'w evidence_sink"
  ve_clock :: "('w, datetime) prog"

definition validate_restore ::
  "'w recovery_env \<Rightarrow> string \<Rightarrow> int logical_export \<Rightarrow> import_report \<Rightarrow> ('w, int restore_evidence) prog" where
  "validate_restore env backup_reference manifest report =
     pbind (plift (guard (backup_reference \<noteq> []) (ValueError ''backup_reference must be non-empty''))) (\<lambda>_.
     pbind (plift (guard (im_export_digest report = lx_digest manifest)
       (IntegrityError ''import report does not reference the supplied logical export''))) (\<lambda>_.
     pbind (ve_validate env backup_reference manifest report) (\<lambda>validation_digest.
     pbind (plift (guard (is_sha256 validation_digest)
       (IntegrityError ''restore validation hook must return a SHA-256 digest''))) (\<lambda>_.
     pbind (ve_clock env) (\<lambda>now.
     pbind (plift (RestoreValidationEvidence \<lparr>rs_backup_reference = backup_reference, rs_export_digest = lx_digest manifest,
       rs_target_fingerprint = im_target_fingerprint report, rs_validation_digest = validation_digest,
       rs_validated_at = now\<rparr>)) (\<lambda>result.
     pbind (record_evidence (ve_evidence env) ''restore-validation'' backup_reference ''VALIDATED''
       (restore_to_mapping result) (utc_datetime (rs_validated_at result))) (\<lambda>_.
     pret result)))))))"

end
