(* ===== verification/Portability_Lines.thy ===== *)
theory Portability_Lines
  imports Portability Json_Roundtrip
begin

text \<open>
  Lines of a logical partition: canonical JSON holds no newline, so the lines of a partition are the
  records it was written from, and reading a line back gives the record that was written.
\<close>

section \<open>Canonical JSON fits on one line\<close>

text \<open>A finite float's \<open>repr\<close> is on one line.\<close>

fun plain_json :: "json \<Rightarrow> bool" where
  "plain_json (JFloat r) \<longleftrightarrow> CHR 0x0A \<notin> set r"
| "plain_json (JList js) \<longleftrightarrow> (\<forall>j \<in> set js. plain_json j)"
| "plain_json (JObj kvs) \<longleftrightarrow> (\<forall>kv \<in> set kvs. plain_json (snd kv))"
| "plain_json _ \<longleftrightarrow> True"

lemma hex_digit_not_newline: "hex_digit n \<noteq> CHR 0x0A"
proof -
  have "is_hex (hex_digit n)" by simp
  then show ?thesis by (auto simp: is_hex_def)
qed

lemma char_of_not_newline: "n < 256 \<Longrightarrow> n \<noteq> 10 \<Longrightarrow> char_of (n :: nat) \<noteq> CHR 0x0A"
proof
  assume n: "n < 256" "n \<noteq> 10" and "char_of n = CHR 0x0A"
  then have "of_char (char_of n) = (of_char CHR 0x0A :: nat)" by simp
  with n show False by simp
qed

lemma escape_char_no_newline: "CHR 0x0A \<notin> set (escape_char c)"
  using hex_digit_not_newline [symmetric] char_of_not_newline [of 92, symmetric]
  by (auto simp: escape_char_def Let_def)

lemma quoted_no_newline: "CHR 0x0A \<notin> set (quoted s)"
  using escape_char_no_newline char_of_not_newline [of 34, symmetric] by (auto simp: quoted_def)

lemma nat_digits_no_newline: "CHR 0x0A \<notin> set (nat_digits n)"
proof (induction n rule: nat_digits.induct)
  case (1 n)
  have digit: "CHR 0x0A \<noteq> char_of (48 + d)" if "d < 10" for d :: nat
    using char_of_not_newline [of "48 + d", symmetric] that by simp
  show ?case
  proof (cases "n < 10")
    case True
    with digit [of n] show ?thesis by (subst nat_digits.simps) auto
  next
    case False
    with 1 digit [of "n mod 10"] show ?thesis by (subst nat_digits.simps) auto
  qed
qed

lemma join_commas_no_newline: "(\<forall>s \<in> set ss. CHR 0x0A \<notin> set s) \<Longrightarrow> CHR 0x0A \<notin> set (join_commas ss)"
  by (induction ss rule: join_commas.induct) auto

lemma json_text_no_newline: "plain_json j \<Longrightarrow> CHR 0x0A \<notin> set (json_text j)"
proof (induction j rule: plain_json.induct)
  case (2 js)
  then have "CHR 0x0A \<notin> set (join_commas (map json_text js))" by (intro join_commas_no_newline) auto
  then show ?case by simp
next
  case (3 kvs)
  have "CHR 0x0A \<notin> set (join_commas (map (\<lambda>kt. quoted (fst kt) @ '':'' @ snd kt)
     (sort_key fst (map (\<lambda>kv. (fst kv, json_text (snd kv))) kvs))))"
    using 3 quoted_no_newline by (intro join_commas_no_newline) auto
  then show ?case by simp
qed (simp_all add: quoted_no_newline int_text_def nat_digits_no_newline)

lemma utf8_char_newline: "newline \<in> set (utf8_char c) \<Longrightarrow> c = CHR 0x0A"
proof -
  assume nl: "newline \<in> set (utf8_char c)"
  define n where "n = (of_char c :: nat)"
  have n: "n < 256" "c = char_of n" by (simp_all add: n_def)
  have small: "(of_nat m :: byte) = 10 \<longleftrightarrow> m = 10" if "m < 256" for m
  proof -
    have "unat (of_nat m :: byte) = m" using that by (simp add: unat_of_nat)
    moreover have "unat (10 :: byte) = 10" by simp
    ultimately show ?thesis by (metis of_nat_numeral)
  qed
  have bytes: "set (utf8_char c) = (if n < 128 then {of_nat n} else {of_nat (192 + n div 64), of_nat (128 + n mod 64)})"
    by (simp only: utf8_char_def Let_def n_def [symmetric] split: if_split) simp
  have "n = 10"
  proof (cases "n < 128")
    case True
    with nl have "of_nat n = (10 :: byte)" by (simp only: bytes newline_def if_True) simp
    with small [of n] n(1) show ?thesis by blast
  next
    case False
    with nl have "of_nat (192 + n div 64) = (10 :: byte) \<or> of_nat (128 + n mod 64) = (10 :: byte)"
      by (simp only: bytes newline_def if_False) (metis insert_iff singletonD)
    moreover have "192 + n div 64 < 256" "128 + n mod 64 < 256" using n(1) by auto
    ultimately show ?thesis using small [of "192 + n div 64"] small [of "128 + n mod 64"] by linarith
  qed
  then have "of_char c = (of_char CHR 0x0A :: nat)" by (simp add: n_def)
  then show ?thesis by (simp only: of_char_eq_iff)
qed

lemma record_line_no_newline: "plain_json (record_to_mapping r) \<Longrightarrow> newline \<notin> set (record_line r)"
  using json_text_no_newline utf8_char_newline by (fastforce simp: record_line_def canonical_json_def utf8_def)

section \<open>Splitting\<close>

lemma split_lines_rest: "newline \<notin> set bs \<Longrightarrow> split_lines bs = ([], bs)"
  by (subst split_lines.simps) simp

lemma split_lines_line:
  assumes "newline \<notin> set l"
  shows "split_lines (l @ newline # bs) = (l # fst (split_lines bs), snd (split_lines bs))"
proof -
  have "\<And>b. b \<in> set l \<Longrightarrow> b \<noteq> newline" using assms by auto
  then have "takeWhile (\<lambda>b. b \<noteq> newline) (l @ newline # bs) = l" "dropWhile (\<lambda>b. b \<noteq> newline) (l @ newline # bs) = newline # bs"
    by (simp_all add: takeWhile_append2 dropWhile_append2)
  then show ?thesis by (subst split_lines.simps) (simp add: split_beta)
qed

lemma split_lines_rest_no_newline: "newline \<notin> set (snd (split_lines bs))"
proof (induction bs rule: split_lines.induct)
  case (1 bs)
  then show ?case by (subst split_lines.simps) (simp add: split_beta)
qed

lemma split_lines_append:
  "split_lines (a @ b) =
     (fst (split_lines a) @ fst (split_lines (snd (split_lines a) @ b)), snd (split_lines (snd (split_lines a) @ b)))"
proof (induction a rule: split_lines.induct)
  case (1 a)
  show ?case
  proof (cases "newline \<in> set a")
    case True
    then obtain l r where a: "a = l @ newline # r" and l: "newline \<notin> set l" by (blast dest: split_list_first)
    have "tl (dropWhile (\<lambda>b. b \<noteq> newline) a) = r"
    proof -
      have "\<And>b. b \<in> set l \<Longrightarrow> b \<noteq> newline" using l by auto
      then show ?thesis by (simp add: a dropWhile_append2)
    qed
    with 1 True have "split_lines (r @ b) = (fst (split_lines r) @ fst (split_lines (snd (split_lines r) @ b)),
        snd (split_lines (snd (split_lines r) @ b)))" by simp
    then show ?thesis using split_lines_line [OF l, of r] split_lines_line [OF l, of "r @ b"] by (simp add: a)
  next
    case False
    then show ?thesis by (simp add: split_lines_rest)
  qed
qed

definition ndjson :: "json logical_record list \<Rightarrow> byte list" where
  "ndjson rs = concat (map (\<lambda>r. record_line r @ [newline]) rs)"

lemma ndjson_simps [simp]: "ndjson [] = []" "ndjson (r # rs) = record_line r @ newline # ndjson rs"
    "ndjson (rs @ rs') = ndjson rs @ ndjson rs'"
  by (simp_all add: ndjson_def)

lemma split_lines_ndjson:
  "\<forall>r \<in> set rs. plain_json (record_to_mapping r) \<Longrightarrow> split_lines (ndjson rs) = (map record_line rs, [])"
  by (induction rs) (simp_all add: split_lines_rest split_lines_line record_line_no_newline)

section \<open>Reading a record back\<close>

fun is_object :: "json \<Rightarrow> bool" where
  "is_object (JObj _) = True"
| "is_object _ = False"

text \<open>A record the constructor has accepted.\<close>

definition wf_record :: "json logical_record \<Rightarrow> bool" where
  "wf_record r \<longleftrightarrow> lr_catalog r \<in> set export_catalogs \<and> lr_namespace r \<noteq> [] \<and> lr_resource r \<noteq> [] \<and>
     lr_schema_ref r \<noteq> [] \<and> lr_logical_id r \<noteq> [] \<and> is_record_version (lr_version r) \<and>
     is_object (lr_values r) \<and> wf_json (lr_values r) \<and>
     (\<forall>j \<in> set (lr_object_references r). is_object j \<and> wf_json j)"

definition sorted_record :: "json logical_record \<Rightarrow> json logical_record" where
  "sorted_record r = r\<lparr>lr_values := sorted_json (lr_values r),
     lr_object_references := map sorted_json (lr_object_references r)\<rparr>"

lemma sorted_record_identity [simp]: "lr_logical_id (sorted_record r) = lr_logical_id r"
  by (simp add: sorted_record_def)

lemma map_of_embedded:
  "map_of (map (\<lambda>kv. (PStr (fst kv), json_val (snd kv))) kvs) (PStr k) = map_option json_val (map_of kvs k)"
  by (induction kvs) auto

lemma is_object_sorted [simp]: "is_object (sorted_json j) = is_object j"
  by (cases j) auto

lemma is_mapping_json_val [simp]: "is_mapping (json_val j) = is_object j"
  by (cases j) auto

definition sorted_fields :: "json logical_record \<Rightarrow> (string \<times> json) list" where
  "sorted_fields r = [(''catalog'', JStr (lr_catalog r)), (''logicalId'', JStr (lr_logical_id r)),
     (''namespace'', JStr (lr_namespace r)), (''objectReferences'', JList (map sorted_json (lr_object_references r))),
     (''resource'', JStr (lr_resource r)), (''schemaRef'', JStr (lr_schema_ref r)),
     (''values'', sorted_json (lr_values r)), (''version'', version_json (lr_version r))]"

lemma record_to_mapping_sorted: "sorted_json (record_to_mapping r) = JObj (sorted_fields r)"
  by (cases "lr_version r") (simp_all add: record_to_mapping_def sorted_fields_def)

lemma wf_record_to_mapping: "wf_record r \<Longrightarrow> wf_json (record_to_mapping r)"
  by (cases "lr_version r") (auto simp: record_to_mapping_def wf_record_def)

lemma record_line_sorted: "wf_record r \<Longrightarrow> record_line (sorted_record r) = record_line r"
proof -
  assume wf: "wf_record r"
  have "join_commas (map (json_text \<circ> sorted_json) (lr_object_references r)) = join_commas (map json_text (lr_object_references r))"
    using wf by (intro arg_cong [where f = join_commas]) (auto simp: wf_record_def json_text_sorted)
  with wf show ?thesis
    by (simp add: record_line_def canonical_json_def record_to_mapping_def sorted_record_def wf_record_def json_text_sorted)
qed

lemma embedded_objects:
  assumes "\<forall>j \<in> set js. is_object j \<and> wf_json j"
  shows "emap immutable_mapping (map json_val (map sorted_json js)) = Inr (map sorted_json js)"
  using assms by (induction js) (auto simp: immutable_mapping_def immutable_value_def wf_sorted_json)

lemma LogicalRecord_sorted:
  assumes "wf_record r"
  shows "LogicalRecord \<lparr>lr_catalog = lr_catalog r, lr_namespace = lr_namespace r, lr_resource = lr_resource r,
      lr_schema_ref = lr_schema_ref r, lr_logical_id = lr_logical_id r, lr_version = lr_version r,
      lr_values = json_val (sorted_json (lr_values r)),
      lr_object_references = map json_val (map sorted_json (lr_object_references r))\<rparr> = Inr (sorted_record r)"
proof -
  have "lr_catalog r \<noteq> []" "lr_catalog r \<noteq> ''cache''" using assms by (auto simp: wf_record_def export_catalogs_def catalog_names_def)
  with assms embedded_objects [of "lr_object_references r"] show ?thesis
    by (simp add: LogicalRecord_def wf_record_def immutable_mapping_def immutable_value_def wf_sorted_json sorted_record_def)
qed

lemma record_from_mapping_sorted:
  assumes "wf_record r"
  shows "record_from_mapping (map (\<lambda>kv. (PStr (fst kv), json_val (snd kv))) (sorted_fields r)) = Inr (sorted_record r)"
proof -
  obtain vs where vs: "sorted_json (lr_values r) = JObj vs"
    using assms by (cases "lr_values r") (auto simp: wf_record_def)
  have version: "json_val (version_json (lr_version r)) = (case lr_version r of VInt i \<Rightarrow> PInt i | VStr s \<Rightarrow> PStr s | _ \<Rightarrow> PNone)"
    "is_record_version (lr_version r)"
    using assms by (cases "lr_version r"; simp add: wf_record_def)+
  have objects: "\<forall>j \<in> set (lr_object_references r). is_object j" using assms by (simp add: wf_record_def)
  show ?thesis
    using LogicalRecord_sorted [OF assms] version objects
    by (cases "lr_version r") (simp_all add: record_from_mapping_def map_of_embedded sorted_fields_def vs text_field_def)
qed

text \<open>\<open>json.loads\<close> reads the canonical text of a record back.\<close>

definition loads_back :: "(byte list \<Rightarrow> (exn + pyval) option) \<Rightarrow> json logical_record \<Rightarrow> bool" where
  "loads_back loads r \<longleftrightarrow> loads (record_line r) = Some (Inr (json_val (sorted_json (record_to_mapping r))))"

lemma parse_line_record:
  assumes "wf_record r" and "loads_back (ie_loads env) r" and "int (length (record_line r)) \<le> ie_maximum_record_bytes env"
  shows "parse_line env (record_line r) = Inr (sorted_record r)"
  using assms record_from_mapping_sorted [OF assms(1)] record_line_sorted [OF assms(1)]
  by (simp add: parse_line_def loads_back_def record_to_mapping_sorted)

lemma json_loads_back: "wf_record r \<Longrightarrow> floats_read fo (record_to_mapping r) \<Longrightarrow> loads_back (json_loads fo) r"
  by (simp add: loads_back_def record_line_def loads_canonical wf_record_to_mapping)

end
