(* ===== verification/Portability_Stream.thy ===== *)
theory Portability_Stream
  imports Portability_Lines Tracing
begin

text \<open>
  Streaming of a partition: how the artifact source cuts a partition into chunks does not matter to an
  import that succeeds, and a partition that passes is the canonical NDJSON of strictly ordered records
  whose digest, length, count and bounds are those of the manifest.
\<close>

section \<open>Folds\<close>

text \<open>Programs are compared here as functions, not run.\<close>

declare pret_run [simp del] praise_run [simp del] plift_run [simp del]

lemma pret_eq [simp]: "pret x w = (r, w') \<longleftrightarrow> r = Inr x \<and> w' = w"
  by (auto simp: pret_run)

lemma praise_eq [simp]: "praise e w = (r, w') \<longleftrightarrow> r = Inl e \<and> w' = w"
  by (auto simp: praise_run)

lemma plift_eq [simp]: "plift v w = (r, w') \<longleftrightarrow> v = r \<and> w' = w"
  by (auto simp: plift_run)

lemma guarded_eq: "pbind (plift (guard b e)) f w = (Inr y, w') \<longleftrightarrow> b \<and> f () w = (Inr y, w')"
  by (auto simp: guard_def)

lemma pbind_assoc: "pbind (pbind m f) g = pbind m (\<lambda>x. pbind (f x) g)"
  by (auto simp: pbind_def fun_eq_iff split: prod.splits sum.splits)

lemma pfold_append: "pfold f (xs @ ys) s = pbind (pfold f xs s) (pfold f ys)"
proof (induction xs arbitrary: s)
  case (Cons x xs)
  then have "pfold f (xs @ ys) = (\<lambda>s. pbind (pfold f xs s) (pfold f ys))" by (simp add: fun_eq_iff)
  then show ?case by (simp add: pbind_assoc)
qed simp

lemma pfold_map: "pfold f (map g xs) s = pfold (\<lambda>x. f (g x)) xs s"
  by (induction xs arbitrary: s) (auto intro!: arg_cong2 [where f = pbind])

text \<open>A change of the local variables that a program neither reads nor undoes.\<close>

definition frames :: "('s \<Rightarrow> 's) \<Rightarrow> ('s \<Rightarrow> ('w, 's) prog) \<Rightarrow> bool" where
  "frames h f \<longleftrightarrow> (\<forall>s. f (h s) = pbind (f s) (\<lambda>s'. pret (h s')))"

lemma frames_pfold: "(\<And>x. frames h (f x)) \<Longrightarrow> frames h (pfold f xs)"
proof (induction xs)
  case (Cons x xs)
  then have "f x (h s) = pbind (f x s) (\<lambda>s'. pret (h s'))" "pfold f xs (h s) = pbind (pfold f xs s) (\<lambda>s'. pret (h s'))" for s
    by (simp_all add: frames_def)
  then show ?case by (simp add: frames_def pbind_assoc)
qed (simp add: frames_def)

lemma fresh_token_pret [simp]: "raise_if_cancelled fresh_token = pret ()"
  by (simp add: raise_if_cancelled_def fresh_token_def)

section \<open>Chunks\<close>

text \<open>The bytes digested so far and the unterminated rest.\<close>

definition feed :: "byte list \<Rightarrow> byte list \<Rightarrow> reading \<Rightarrow> reading" where
  "feed bs rest st = st\<lparr>rd_progress := (rd_progress st)\<lparr>pr_bytes := bs\<rparr>, rd_buffer := rest\<rparr>"

lemma feed_feed [simp]: "feed bs rest (feed bs' rest' st) = feed bs rest st"
  by (simp add: feed_def)

lemma feed_sel [simp]: "rd_buffer (feed bs rest st) = rest" "pr_bytes (rd_progress (feed bs rest st)) = bs"
    "rd_batch (feed bs rest st) = rd_batch st"
  by (simp_all add: feed_def)

lemma feed_self [simp]: "feed (pr_bytes (rd_progress st)) (rd_buffer st) st = st"
  by (cases st) (simp add: feed_def)

lemma note_record_bytes: "note_record r (p\<lparr>pr_bytes := bs\<rparr>) = (note_record r p)\<lparr>pr_bytes := bs\<rparr>"
  by (cases p) (simp add: note_record_def)

lemma frames_consume_line: "frames (feed bs rest) (consume_line env policy n wr line)"
proof -
  have order: "out_of_order (rd_progress (feed bs rest st)) r = out_of_order (rd_progress st) r" for st r
    by (simp add: out_of_order_def feed_def)
  have noted: "(feed bs rest st)\<lparr>rd_progress := note_record r (rd_progress (feed bs rest st))\<rparr>
      = feed bs rest (st\<lparr>rd_progress := note_record r (rd_progress st)\<rparr>)" for st r
    by (cases st) (simp add: feed_def note_record_bytes)
  have writes: "write_record env policy n r (feed bs rest st)
      = pbind (write_record env policy n r st) (\<lambda>s'. pret (feed bs rest s'))" for st r
    by (cases st) (simp add: write_record_def feed_def Let_def pbind_assoc)
  show ?thesis
  proof (cases "parse_line env line")
    case (Inr r)
    then show ?thesis
      unfolding frames_def consume_line_def Let_def by (simp add: order noted writes pbind_assoc)
  qed (simp add: frames_def consume_line_def)
qed

lemma feed_lines:
  "pfold (consume_line env policy n wr) ls (feed bs rest st)
     = pbind (pfold (consume_line env policy n wr) ls st) (\<lambda>st'. pret (feed bs rest st'))"
  using frames_pfold [where f = "consume_line env policy n wr" and h = "feed bs rest", OF frames_consume_line]
  by (simp add: frames_def)

abbreviation lines_of :: "byte list \<Rightarrow> byte list list" where
  "lines_of bs \<equiv> filter (\<lambda>l. l \<noteq> []) (fst (split_lines bs))"

abbreviation rest_of :: "byte list \<Rightarrow> byte list" where
  "rest_of bs \<equiv> snd (split_lines bs)"

lemma read_chunk_eq:
  "read_chunk env policy n wr fresh_token (pret c) st =
     pbind (pfold (consume_line env policy n wr) (lines_of (rd_buffer st @ c)) st) (\<lambda>st'.
       if ie_maximum_record_bytes env < int (length (rest_of (rd_buffer st @ c)))
       then praise (IntegrityError ''logical partition contains an oversized unterminated Record'')
       else pret (feed (pr_bytes (rd_progress st) @ c) (rest_of (rd_buffer st @ c)) st'))"
  by (simp add: read_chunk_def split_beta Let_def feed_def [symmetric] feed_lines pbind_assoc)

lemma lines_of_append: "lines_of (a @ b) = lines_of a @ lines_of (rest_of a @ b)"
  and rest_of_append: "rest_of (a @ b) = rest_of (rest_of a @ b)"
  by (simp_all add: split_lines_append [of a b])

lemma read_chunks_lines:
  assumes "pfold (read_chunk env policy n wr fresh_token) (map pret cs) st w = (Inr st', w')"
    and "newline \<notin> set (rd_buffer st)"
  shows "\<exists>st1. pfold (consume_line env policy n wr) (lines_of (rd_buffer st @ concat cs)) st w = (Inr st1, w') \<and>
     st' = feed (pr_bytes (rd_progress st) @ concat cs) (rest_of (rd_buffer st @ concat cs)) st1"
  using assms
proof (induction cs arbitrary: st w)
  case Nil
  then show ?case by (simp add: split_lines_rest)
next
  case (Cons c cs)
  let ?rest = "rest_of (rd_buffer st @ c)" and ?bs = "pr_bytes (rd_progress st) @ c"
  from Cons.prems(1) obtain st1 w1 where
    first: "pfold (consume_line env policy n wr) (lines_of (rd_buffer st @ c)) st w = (Inr st1, w1)" and
    others: "pfold (read_chunk env policy n wr fresh_token) (map pret cs) (feed ?bs ?rest st1) w1 = (Inr st', w')"
    by (auto simp: read_chunk_eq pbind_eq_Inr split: if_splits)
  from Cons.IH [OF others] split_lines_rest_no_newline [of "rd_buffer st @ c"] obtain st2 where
    "pfold (consume_line env policy n wr) (lines_of (?rest @ concat cs)) (feed ?bs ?rest st1) w1 = (Inr st2, w')"
    "st' = feed (?bs @ concat cs) (rest_of (?rest @ concat cs)) st2"
    by auto
  with first show ?case
    using lines_of_append [of "rd_buffer st @ c" "concat cs"] rest_of_append [of "rd_buffer st @ c" "concat cs"]
    by (auto simp: pfold_append feed_lines pbind_eq_Inr)
qed

lemma long_rest_fails:
  assumes "newline \<notin> set r" and "ie_maximum_record_bytes env < int (length r)" and "0 \<le> ie_maximum_record_bytes env"
    and "rest_of (r @ b) = []"
  shows "pfold (consume_line env policy n wr) (lines_of (r @ b)) st w \<noteq> (Inr st', w')"
proof -
  have "r \<noteq> []" using assms(2,3) by auto
  have "newline \<in> set (r @ b)" using assms(4) \<open>r \<noteq> []\<close> by (metis append_is_Nil_conv snd_conv split_lines_rest)
  then obtain l b' where b: "b = l @ newline # b'" "newline \<notin> set l" using assms(1) split_list_first [of newline b] by auto
  then have "lines_of (r @ b) = (r @ l) # lines_of b'"
    using split_lines_line [of "r @ l" b'] assms(1) \<open>r \<noteq> []\<close> by simp
  moreover have "parse_line env (r @ l) = Inl (IntegrityError ''logical Record exceeds maximum_record_bytes'')"
    using assms(2) by (simp add: parse_line_def)
  ultimately show ?thesis by (simp add: consume_line_def)
qed

lemma lines_read_chunks:
  assumes "pfold (consume_line env policy n wr) (lines_of (rd_buffer st @ concat cs)) st w = (Inr st1, w')"
    and "newline \<notin> set (rd_buffer st)" and "rest_of (rd_buffer st @ concat cs) = []" and "0 \<le> ie_maximum_record_bytes env"
  shows "pfold (read_chunk env policy n wr fresh_token) (map pret cs) st w = (Inr (feed (pr_bytes (rd_progress st) @ concat cs) [] st1), w')"
  using assms
proof (induction cs arbitrary: st w st1)
  case Nil
  then have "rd_buffer st = []" by (simp add: split_lines_rest)
  with Nil show ?case using feed_self [of st1] by (simp add: split_lines_rest)
next
  case (Cons c cs)
  let ?rest = "rest_of (rd_buffer st @ c)" and ?bs = "pr_bytes (rd_progress st) @ c"
  have rest: "rest_of (?rest @ concat cs) = []" "newline \<notin> set ?rest"
    using Cons.prems(3) rest_of_append [of "rd_buffer st @ c" "concat cs"] split_lines_rest_no_newline by auto
  from Cons.prems(1) obtain st2 w1 where
    first: "pfold (consume_line env policy n wr) (lines_of (rd_buffer st @ c)) st w = (Inr st2, w1)" and
    others: "pfold (consume_line env policy n wr) (lines_of (?rest @ concat cs)) st2 w1 = (Inr st1, w')"
    using lines_of_append [of "rd_buffer st @ c" "concat cs"] by (auto simp: pfold_append pbind_eq_Inr)
  have "\<not> ie_maximum_record_bytes env < int (length ?rest)"
    using long_rest_fails [OF rest(2) _ Cons.prems(4) rest(1)] others by blast
  then have step: "read_chunk env policy n wr fresh_token (pret c) st w = (Inr (feed ?bs ?rest st2), w1)"
    using first by (simp add: read_chunk_eq pbind_Inr)
  have "pfold (consume_line env policy n wr) (lines_of (rd_buffer (feed ?bs ?rest st2) @ concat cs)) (feed ?bs ?rest st2) w1
      = (Inr (feed ?bs ?rest st1), w')"
    using others by (simp add: feed_lines pbind_Inr)
  from Cons.IH [OF this] rest Cons.prems(4) show ?case by (simp add: pbind_Inr [where m = "read_chunk env policy n wr fresh_token (pret c) st", OF step])
qed

section \<open>Partitions\<close>

text \<open>A source that delivers the given chunks.\<close>

definition delivering :: "byte list list \<Rightarrow> 'w import_env \<Rightarrow> 'w import_env" where
  "delivering cs env = env\<lparr>ie_chunks := \<lambda>_. pret (map pret cs, pret ())\<rparr>"

abbreviation start_reading :: reading where
  "start_reading \<equiv> \<lparr>rd_progress = no_progress, rd_buffer = [], rd_batch = []\<rparr>"

definition finish_partition ::
  "'w import_env \<Rightarrow> merge_policy \<Rightarrow> bool \<Rightarrow> partition_manifest \<Rightarrow> byte list \<Rightarrow> reading \<Rightarrow> ('w, partition_import_result) prog" where
  "finish_partition env policy wr m bs st =
     pbind (if wr \<and> rd_batch st \<noteq> [] then ie_write env (rd_batch st) policy else pret ()) (\<lambda>_.
     plift (check_partition m ((rd_progress st)\<lparr>pr_bytes := bs\<rparr>)))"

lemma delivering_hooks [simp]:
  "ie_chunks (delivering cs env) = (\<lambda>_. pret (map pret cs, pret ()))" "ie_write (delivering cs env) = ie_write env"
  "ie_maximum_record_bytes (delivering cs env) = ie_maximum_record_bytes env" "ie_loads (delivering cs env) = ie_loads env"
  "ie_object_transfer (delivering cs env) = ie_object_transfer env"
  by (simp_all add: delivering_def)

lemma delivering_consume [simp]: "consume_line (delivering cs env) = consume_line env"
  by (intro ext) (simp only: consume_line_def parse_line_def write_record_def delivering_hooks)

lemma delivering_read [simp]: "read_chunk (delivering cs env) = read_chunk env"
  by (intro ext) (simp only: read_chunk_def delivering_consume delivering_hooks)

lemma import_partition_lines:
  assumes "0 \<le> ie_maximum_record_bytes env"
  shows "import_partition (delivering cs env) policy n wr fresh_token m w = (Inr r, w') \<longleftrightarrow>
    rest_of (concat cs) = [] \<and>
    pbind (pfold (consume_line env policy n wr) (lines_of (concat cs)) start_reading)
      (finish_partition env policy wr m (concat cs)) w = (Inr r, w')"
    (is "?import \<longleftrightarrow> ?rest \<and> ?lines")
proof -
  have fin: "pbind (if wr \<and> rd_batch (feed bs [] st) \<noteq> [] then ie_write env (rd_batch (feed bs [] st)) policy else pret ()) (\<lambda>_.
       plift (check_partition m (rd_progress (feed bs [] st)))) = finish_partition env policy wr m bs st" for bs st
    by (auto simp: finish_partition_def feed_def split: if_splits)
  have import: "?import \<longleftrightarrow> (\<exists>st w1. pfold (read_chunk env policy n wr fresh_token) (map pret cs) start_reading w = (Inr st, w1) \<and>
      rd_buffer st = [] \<and> pbind (if wr \<and> rd_batch st \<noteq> [] then ie_write env (rd_batch st) policy else pret ()) (\<lambda>_.
        plift (check_partition m (rd_progress st))) w1 = (Inr r, w'))"
    by (simp only: import_partition_def fresh_token_pret delivering_hooks delivering_read pbind_pret prod.case guarded_eq
        pbind_eq_Inr [of "pfold (read_chunk env policy n wr fresh_token) (map pret cs) start_reading"])
  show ?thesis
  proof
    assume ?import
    then obtain st w1 where "pfold (read_chunk env policy n wr fresh_token) (map pret cs) start_reading w = (Inr st, w1)"
      and buffer: "rd_buffer st = []" and last: "pbind (if wr \<and> rd_batch st \<noteq> [] then ie_write env (rd_batch st) policy else pret ()) (\<lambda>_.
        plift (check_partition m (rd_progress st))) w1 = (Inr r, w')"
      unfolding import by blast
    from read_chunks_lines [OF this(1)] obtain st1 where
      lines: "pfold (consume_line env policy n wr) (lines_of (concat cs)) start_reading w = (Inr st1, w1)"
      and st: "st = feed (concat cs) (rest_of (concat cs)) st1" by (auto simp: no_progress_def)
    have rest: ?rest using buffer st by simp
    moreover have ?lines using last unfolding st rest fin by (simp add: pbind_Inr [where m = "pfold (consume_line env policy n wr) (lines_of (concat cs)) start_reading", OF lines])
    ultimately show "?rest \<and> ?lines" ..
  next
    assume "?rest \<and> ?lines"
    then obtain st1 w1 where
      lines: "pfold (consume_line env policy n wr) (lines_of (concat cs)) start_reading w = (Inr st1, w1)"
      and last: "finish_partition env policy wr m (concat cs) st1 w1 = (Inr r, w')" and rest: ?rest by (auto simp: pbind_eq_Inr)
    from lines rest have "pfold (read_chunk env policy n wr fresh_token) (map pret cs) start_reading w = (Inr (feed (concat cs) [] st1), w1)"
      using lines_read_chunks [of env policy n wr start_reading cs] assms by (simp add: no_progress_def)
    with last show ?import unfolding import by (intro exI [of _ "feed (concat cs) [] st1"] exI [of _ w1]) (auto simp: finish_partition_def feed_def split: if_splits)
  qed
qed

text \<open>C35: how the artifact source cuts a partition into chunks does not matter.  For a constructed coordinator an
  import of the chunks returns a result and leaves a world exactly when the import of the same bytes in one chunk
  does, both when it only verifies and when it writes; in particular the early check on the unterminated rest
  refuses nothing the whole would have passed.\<close>

theorem chunk_boundaries_are_irrelevant:
  assumes "LogicalImportCoordinator env = Inr env'"
  shows "import_partition (delivering cs env') policy batch_size wr fresh_token m w = (Inr r, w') \<longleftrightarrow>
     import_partition (delivering [concat cs] env') policy batch_size wr fresh_token m w = (Inr r, w')"
proof -
  have "0 \<le> ie_maximum_record_bytes env'" using assms by (auto simp: LogicalImportCoordinator_def)
  then show ?thesis by (simp add: import_partition_lines)
qed

section \<open>What a verified partition is\<close>

text \<open>Identifiers in strict order after an optional previous one.\<close>

fun follows :: "string option \<Rightarrow> string list \<Rightarrow> bool" where
  "follows p [] \<longleftrightarrow> True"
| "follows p (i # is) \<longleftrightarrow> (case p of None \<Rightarrow> True | Some j \<Rightarrow> j < i) \<and> follows (Some i) is"

lemma follows_Some: "follows (Some j) is \<longleftrightarrow> (\<forall>i \<in> set is. j < i) \<and> sorted_wrt (<) is"
  by (induction "is" arbitrary: j) (auto intro: less_trans)

lemma follows_None: "follows None is \<longleftrightarrow> sorted_wrt (<) is"
  by (cases "is") (auto simp: follows_Some)

lemma out_of_order_follows: "\<not> out_of_order p r \<longleftrightarrow> (case pr_previous p of None \<Rightarrow> True | Some j \<Rightarrow> j < lr_logical_id r)"
  by (auto simp: out_of_order_def split: option.splits)

lemma LogicalRecord_id: "LogicalRecord x = Inr r \<Longrightarrow> lr_logical_id r \<noteq> []"
  unfolding LogicalRecord_def by auto

lemma record_from_mapping_id: "record_from_mapping kvs = Inr r \<Longrightarrow> lr_logical_id r \<noteq> []"
  unfolding record_from_mapping_def ebind_eq_Inr
  by (cases "text_field kvs ''catalog''"; cases "text_field kvs ''namespace''"; cases "text_field kvs ''resource''";
      cases "text_field kvs ''schemaRef''"; cases "text_field kvs ''logicalId''") (use LogicalRecord_id in auto)

lemma parse_line_canonical: "parse_line env l = Inr r \<Longrightarrow> record_line r = l \<and> lr_logical_id r \<noteq> []"
  unfolding parse_line_def ebind_eq_Inr guard_eq_Inr using record_from_mapping_id by (metis sum.inject(2))

lemma check_partition_Inr:
  "check_partition m p = Inr r \<Longrightarrow> pr_count p = pm_count m \<and> int (length (pr_bytes p)) = pm_bytes m \<and>
     pr_minimum p = pm_minimum_logical_id m \<and> pr_maximum p = pm_maximum_logical_id m \<and> ''sha256:'' @ hexdigest (pr_bytes p) = pm_sha256 m"
  unfolding check_partition_def Let_def ebind_eq_Inr guard_eq_Inr by auto

lemma pr_previous_note [simp]: "pr_previous (note_record r p) = Some (lr_logical_id r)"
  by (simp add: note_record_def)

lemma consumed_lines:
  assumes "pfold (consume_line env policy n wr) ls st w = (Inr st', w')"
  shows "\<exists>rs. ls = map record_line rs \<and> map (parse_line env) ls = map Inr rs \<and> (\<forall>r \<in> set rs. lr_logical_id r \<noteq> []) \<and>
     follows (pr_previous (rd_progress st)) (map lr_logical_id rs) \<and> rd_progress st' = fold note_record rs (rd_progress st) \<and>
     (\<not> wr \<longrightarrow> w' = w)"
  using assms
proof (induction ls arbitrary: st w)
  case (Cons l ls)
  then obtain st1 w1 where one: "consume_line env policy n wr l st w = (Inr st1, w1)" and
    others: "pfold (consume_line env policy n wr) ls st1 w1 = (Inr st', w')" by (auto simp: pbind_eq_Inr)
  from one obtain r where r: "parse_line env l = Inr r" by (cases "parse_line env l") (auto simp: consume_line_def)
  with one have order: "\<not> out_of_order (rd_progress st) r" and st1: "rd_progress st1 = note_record r (rd_progress st)" "\<not> wr \<longrightarrow> w1 = w"
    by (auto simp: consume_line_def Let_def write_record_def pbind_eq_Inr split: if_splits)
  from Cons.IH [OF others] obtain rs where "ls = map record_line rs" "map (parse_line env) ls = map Inr rs"
    "\<forall>r \<in> set rs. lr_logical_id r \<noteq> []" "follows (pr_previous (rd_progress st1)) (map lr_logical_id rs)"
    "rd_progress st' = fold note_record rs (rd_progress st1)" "\<not> wr \<longrightarrow> w' = w1" by blast
  with r order st1 parse_line_canonical [OF r] show ?case
    by (intro exI [of _ "r # rs"]) (simp add: out_of_order_follows)
qed simp

lemma noted_records:
  assumes "\<forall>r \<in> set rs. lr_logical_id r \<noteq> []" and "rs \<noteq> []"
  shows "pr_minimum (fold note_record rs no_progress) = Some (lr_logical_id (hd rs))"
    "pr_maximum (fold note_record rs no_progress) = Some (lr_logical_id (last rs))"
proof -
  have "pr_minimum (fold note_record rs' p) = pr_minimum p" if "pr_minimum p \<noteq> None" "pr_minimum p \<noteq> Some []" for rs' p
    using that by (induction rs' arbitrary: p) (auto simp: note_record_def)
  moreover have "pr_minimum (note_record (hd rs) no_progress) = Some (lr_logical_id (hd rs))"
    by (simp add: note_record_def no_progress_def)
  ultimately show "pr_minimum (fold note_record rs no_progress) = Some (lr_logical_id (hd rs))"
    using assms by (cases rs) auto
  show "pr_maximum (fold note_record rs no_progress) = Some (lr_logical_id (last rs))"
    using assms(2) by (cases rs rule: rev_cases) (auto simp: note_record_def)
qed

lemma noted_count: "pr_count (fold note_record rs p) = pr_count p + int (length rs)"
  and noted_bytes: "pr_bytes (fold note_record rs p) = pr_bytes p"
  by (induction rs arbitrary: p) (auto simp: note_record_def)


end
