(* ===== verification/Portability_Roundtrip.thy ===== *)
theory Portability_Roundtrip
  imports Portability_Stream
begin

text \<open>
  Export into the in-memory artifact store and import from it: what the target is given is what the source
  had, in order, up to the order of keys inside JSON objects.
\<close>

section \<open>A source and a target\<close>

text \<open>An export source that serves fixed batches, writing to the in-memory artifacts.\<close>

definition memory_export ::
  "export_boundary \<Rightarrow> json export_metadata \<Rightarrow> string list \<Rightarrow> (string \<Rightarrow> json logical_record list list) \<Rightarrow> int
   \<Rightarrow> artifact_store export_env" where
  "memory_export boundary metadata ids batches now = \<lparr>xe_begin = (\<lambda>_. pret boundary), xe_metadata = (\<lambda>_ _. pret metadata),
     xe_partition_ids = (\<lambda>_ _. pret ids), xe_records = (\<lambda>_ _ i. pret (map pret (batches i), pret ())),
     xe_finish = (\<lambda>_ b. pret b), xe_begin_partition = artifact_begin, xe_write = artifact_write,
     xe_finish_partition = artifact_finish, xe_evidence = null_sink, xe_clock = pret (utc_datetime now)\<rparr>"

text \<open>An import target that keeps the batches it is given, reading from the in-memory artifacts.\<close>

type_synonym import_world = "artifact_store \<times> json logical_record list list"

definition memory_import ::
  "(byte list \<Rightarrow> (exn + pyval) option) \<Rightarrow> int \<Rightarrow> string \<Rightarrow> int \<Rightarrow> import_world import_env" where
  "memory_import loads limit fingerprint now = \<lparr>
     ie_chunks = (\<lambda>ref. pbind (on_world (artifact_chunks ref)) (\<lambda>(ps, f). pret (map on_world ps, on_world f))),
     ie_preflight = (\<lambda>_ _. pret ()), ie_write = (\<lambda>b _ w. (Inr (), (fst w, snd w @ [b]))),
     ie_finalize = (\<lambda>_. pret fingerprint), ie_object_transfer = None, ie_evidence = null_sink,
     ie_maximum_record_bytes = limit, ie_clock = pret (utc_datetime now), ie_loads = loads\<rparr>"

section \<open>Export\<close>

definition partition_of :: "string \<Rightarrow> json logical_record list \<Rightarrow> partition_manifest" where
  "partition_of i rs = \<lparr>pm_partition_id = i, pm_artifact_ref = artifact_reference i (ndjson rs), pm_count = int (length rs),
     pm_bytes = int (length (ndjson rs)),
     pm_minimum_logical_id = (if rs = [] then None else Some (lr_logical_id (hd rs))),
     pm_maximum_logical_id = (if rs = [] then None else Some (lr_logical_id (last rs))),
     pm_sha256 = ''sha256:'' @ hexdigest (ndjson rs)\<rparr>"

lemma artifact_reference_inj: "artifact_reference i c = artifact_reference j d \<Longrightarrow> i = j"
  by (simp add: artifact_reference_def append_eq_append_conv)

lemma fold_note_bytes: "fold note_record rs (p\<lparr>pr_bytes := bs\<rparr>) = (fold note_record rs p)\<lparr>pr_bytes := bs\<rparr>"
  by (induction rs arbitrary: p) (auto simp: note_record_bytes)

lemma pr_previous_bytes [simp]: "pr_previous (p\<lparr>pr_bytes := bs\<rparr>) = pr_previous p"
  by simp

lemma export_records:
  assumes "xe_write env = artifact_write" and "map_of (ar_pending s) h = Some c"
    and "follows (pr_previous p) (map lr_logical_id rs)"
  shows "\<exists>s'. pfold (export_record env (PInt h)) rs p s
      = (Inr ((fold note_record rs p)\<lparr>pr_bytes := pr_bytes p @ ndjson rs\<rparr>), s') \<and>
    map_of (ar_pending s') h = Some (c @ ndjson rs) \<and> ar_artifacts s' = ar_artifacts s"
  using assms(2,3)
proof (induction rs arbitrary: p s c)
  case (Cons r rs)
  let ?chunk = "record_line r @ [newline]" and ?p = "(note_record r p)\<lparr>pr_bytes := pr_bytes p @ record_line r @ [newline]\<rparr>"
  let ?s = "s\<lparr>ar_pending := AList.update h (c @ ?chunk) (ar_pending s)\<rparr>"
  have step: "export_record env (PInt h) r p s = (Inr ?p, ?s)"
    using Cons.prems assms(1) by (auto simp: export_record_def out_of_order_follows Let_def artifact_write_def pbind_def pret_run)
  have "\<exists>s'. pfold (export_record env (PInt h)) rs ?p ?s
      = (Inr ((fold note_record rs ?p)\<lparr>pr_bytes := pr_bytes ?p @ ndjson rs\<rparr>), s') \<and>
    map_of (ar_pending s') h = Some ((c @ ?chunk) @ ndjson rs) \<and> ar_artifacts s' = ar_artifacts ?s"
    using Cons.prems(2) by (intro Cons.IH) auto
  then show ?case
    by (auto simp: fold_note_bytes pbind_Inr [where m = "export_record env (PInt h) r p", OF step])
qed (cases p, simp)

lemma export_batches:
  assumes "xe_write env = artifact_write" and "map_of (ar_pending s) h = Some c"
    and "follows (pr_previous p) (map lr_logical_id (concat bs))" and "\<forall>b \<in> set bs. int (length b) \<le> xr_batch_size request"
  shows "\<exists>s'. pfold (export_batch env request fresh_token (PInt h)) (map pret bs) p s
      = (Inr ((fold note_record (concat bs) p)\<lparr>pr_bytes := pr_bytes p @ ndjson (concat bs)\<rparr>), s') \<and>
    map_of (ar_pending s') h = Some (c @ ndjson (concat bs)) \<and> ar_artifacts s' = ar_artifacts s"
proof -
  have "pfold (export_batch env request fresh_token (PInt h)) (map pret bs) p = pfold (export_record env (PInt h)) (concat bs) p"
    using assms(4) by (induction bs arbitrary: p) (auto simp: pfold_append export_batch_def intro!: arg_cong2 [where f = pbind])
  then show ?thesis using export_records [OF assms(1,2,3)] by simp
qed

text \<open>What an export source has to promise: distinct partitions, batches of the requested size, records the
  constructor accepted, strictly ordered by identifier.\<close>

definition ordered_source :: "export_request \<Rightarrow> string list \<Rightarrow> (string \<Rightarrow> json logical_record list list) \<Rightarrow> bool" where
  "ordered_source request ids batches \<longleftrightarrow> distinct ids \<and> (\<forall>i \<in> set ids. i \<noteq> [] \<and>
     sorted_wrt (<) (map lr_logical_id (concat (batches i))) \<and>
     (\<forall>b \<in> set (batches i). int (length b) \<le> xr_batch_size request \<and> (\<forall>r \<in> set b. wf_record r \<and> plain_json (record_to_mapping r))))"

lemma sorted_hd_last: "sorted_wrt (<) (map f rs) \<Longrightarrow> rs \<noteq> [] \<Longrightarrow> \<not> f (last rs) < (f (hd rs) :: string)"
proof (cases rs)
  case (Cons r rs')
  assume "sorted_wrt (<) (map f rs)"
  with Cons have "rs' \<noteq> [] \<longrightarrow> f r < f (last rs')" by (auto simp del: last_in_set intro: last_in_set)
  with Cons show ?thesis by (auto dest: less_asym)
qed simp

lemma ndjson_empty [simp]: "ndjson rs = [] \<longleftrightarrow> rs = []"
  by (cases rs) auto

lemma PartitionManifest_of:
  assumes "i \<noteq> []" and "sorted_wrt (<) (map lr_logical_id rs)"
  shows "PartitionManifest (partition_of i rs) = Inr (partition_of i rs)"
proof -
  have "artifact_reference i (ndjson rs) \<noteq> []" by (simp add: artifact_reference_def)
  then show ?thesis
    using assms sorted_hd_last [OF assms(2)] is_sha256_hexdigest [of "ndjson rs"]
    by (simp add: PartitionManifest_def partition_of_def require_sha256_def guard_def)
qed

lemma pr_count_no_progress: "pr_count no_progress = 0"
  by (simp add: no_progress_def)

lemma noted_bounds:
  assumes "\<forall>r \<in> set rs. lr_logical_id r \<noteq> []"
  shows "pr_minimum (fold note_record rs no_progress) = (if rs = [] then None else Some (lr_logical_id (hd rs)))"
    "pr_maximum (fold note_record rs no_progress) = (if rs = [] then None else Some (lr_logical_id (last rs)))"
  using noted_records [OF assms] by (auto simp: no_progress_def)

lemma export_partition_memory:
  fixes boundary metadata ids batches now
  defines "env \<equiv> memory_export boundary metadata ids batches now"
  assumes "ordered_source request ids batches" and "i \<in> set ids"
  shows "\<exists>s'. export_partition env request b fresh_token i s = (Inr (partition_of i (concat (batches i))), s') \<and>
    ar_artifacts s' = AList.update (artifact_reference i (ndjson (concat (batches i)))) (ndjson (concat (batches i))) (ar_artifacts s)"
proof -
  let ?rs = "concat (batches i)" and ?h = "ar_next_handle s + 1"
  let ?s = "s\<lparr>ar_next_handle := ?h, ar_pending := AList.update ?h [] (ar_pending s)\<rparr>"
  have source: "i \<noteq> []" "sorted_wrt (<) (map lr_logical_id ?rs)" "\<forall>b \<in> set (batches i). int (length b) \<le> xr_batch_size request"
    "\<forall>r \<in> set ?rs. lr_logical_id r \<noteq> []"
    using assms(2,3) by (auto simp: ordered_source_def wf_record_def)
  have hooks: "xe_write env = artifact_write" "xe_begin_partition env = artifact_begin" "xe_finish_partition env = artifact_finish"
    "xe_records env = (\<lambda>_ _ i. pret (map pret (batches i), pret ()))"
    by (simp_all add: env_def memory_export_def)
  have "\<exists>s1. pfold (export_batch env request fresh_token (PInt ?h)) (map pret (batches i)) no_progress ?s
      = (Inr ((fold note_record ?rs no_progress)\<lparr>pr_bytes := ndjson ?rs\<rparr>), s1) \<and>
    map_of (ar_pending s1) ?h = Some (ndjson ?rs) \<and> ar_artifacts s1 = ar_artifacts s"
    using export_batches [OF hooks(1), of ?s ?h "[]" no_progress "batches i" request] source by (simp add: no_progress_def follows_None)
  then obtain s1 where writes: "pfold (export_batch env request fresh_token (PInt ?h)) (map pret (batches i)) no_progress ?s
      = (Inr ((fold note_record ?rs no_progress)\<lparr>pr_bytes := ndjson ?rs\<rparr>), s1)"
    and s1: "map_of (ar_pending s1) ?h = Some (ndjson ?rs)" "ar_artifacts s1 = ar_artifacts s" by blast
  have begun: "artifact_begin i s = (Inr (PInt ?h), ?s)" by (simp add: artifact_begin_def Let_def)
  define s2 where "s2 = s1\<lparr>ar_pending := AList.delete ?h (ar_pending s1),
      ar_artifacts := AList.update (artifact_reference i (ndjson ?rs)) (ndjson ?rs) (ar_artifacts s1)\<rparr>"
  have fin: "artifact_finish (PInt ?h) i s1 = (Inr (artifact_reference i (ndjson ?rs)), s2)"
    using s1 by (simp add: artifact_finish_def Let_def s2_def)
  have "export_partition env request b fresh_token i s
      = plift (PartitionManifest (partition_of i ?rs)) s2"
    unfolding export_partition_def hooks fresh_token_pret pbind_pret prod.case
    by (simp add: pbind_Inr [where m = "artifact_begin i", OF begun] 
        pbind_Inr [where m = "pfold (export_batch env request fresh_token (PInt ?h)) (map pret (batches i)) no_progress", OF writes]
        pbind_Inr [where m = "artifact_finish (PInt ?h) i", OF fin] noted_count pr_count_no_progress noted_bounds [OF source(4)] partition_of_def)
  then show ?thesis using PartitionManifest_of [OF source(1,2)] s1(2) by (simp add: s2_def)
qed

lemma export_partitions_memory:
  fixes boundary metadata ids batches now
  defines "env \<equiv> memory_export boundary metadata ids batches now"
  assumes "ordered_source request ids batches" and "set js \<subseteq> set ids" and "distinct js"
  shows "\<exists>s'. pfold (\<lambda>i ms. pbind (export_partition env request b fresh_token i) (\<lambda>m. pret (ms @ [m]))) js ms s
      = (Inr (ms @ map (\<lambda>i. partition_of i (concat (batches i))) js), s') \<and>
    (\<forall>i \<in> set js. map_of (ar_artifacts s') (artifact_reference i (ndjson (concat (batches i)))) = Some (ndjson (concat (batches i)))) \<and>
    (\<forall>ref. (\<forall>j \<in> set js. \<forall>c. ref \<noteq> artifact_reference j c) \<longrightarrow> map_of (ar_artifacts s') ref = map_of (ar_artifacts s) ref)"
  using assms(3,4)
proof (induction js arbitrary: ms s)
  case (Cons j js)
  let ?step = "\<lambda>i ms. pbind (export_partition env request b fresh_token i) (\<lambda>m. pret (ms @ [m]))"
  let ?c = "ndjson (concat (batches j))"
  have "j \<in> set ids" using Cons.prems by simp
  from export_partition_memory [OF assms(2) this] obtain s1 where
    one: "export_partition env request b fresh_token j s = (Inr (partition_of j (concat (batches j))), s1)" and
    s1: "ar_artifacts s1 = AList.update (artifact_reference j ?c) ?c (ar_artifacts s)"
    unfolding env_def by blast
  have step: "?step j ms s = (Inr (ms @ [partition_of j (concat (batches j))]), s1)"
    by (simp add: pbind_Inr [where m = "export_partition env request b fresh_token j", OF one])
  from Cons.IH [of "ms @ [partition_of j (concat (batches j))]" s1] Cons.prems obtain s2 where
    others: "pfold ?step js (ms @ [partition_of j (concat (batches j))]) s1
      = (Inr ((ms @ [partition_of j (concat (batches j))]) @ map (\<lambda>i. partition_of i (concat (batches i))) js), s2)" and
    stored: "\<forall>i \<in> set js. map_of (ar_artifacts s2) (artifact_reference i (ndjson (concat (batches i)))) = Some (ndjson (concat (batches i)))" and
    kept: "\<forall>ref. (\<forall>j \<in> set js. \<forall>c. ref \<noteq> artifact_reference j c) \<longrightarrow> map_of (ar_artifacts s2) ref = map_of (ar_artifacts s1) ref"
    by auto
  have "map_of (ar_artifacts s2) (artifact_reference j ?c) = Some ?c"
  proof -
    have "\<forall>i \<in> set js. \<forall>c. artifact_reference j ?c \<noteq> artifact_reference i c"
      using Cons.prems(2) artifact_reference_inj by (metis distinct.simps(2))
    with kept s1 show ?thesis by simp
  qed
  moreover have "map_of (ar_artifacts s2) ref = map_of (ar_artifacts s) ref" if "\<forall>j \<in> set (j # js). \<forall>c. ref \<noteq> artifact_reference j c" for ref
    using kept that s1 by simp
  moreover have "pfold ?step (j # js) ms s = (Inr (ms @ map (\<lambda>i. partition_of i (concat (batches i))) (j # js)), s2)"
    using others by (simp add: pbind_Inr [where m = "?step j ms", OF step])
  ultimately show ?case using stored by (intro exI [of _ s2] conjI) auto
qed simp

lemma null_evidence:
  "kind \<noteq> [] \<Longrightarrow> subject \<noteq> [] \<Longrightarrow> state \<noteq> [] \<Longrightarrow> wf_json details \<Longrightarrow> valid_instant u \<Longrightarrow>
   record_evidence null_sink kind subject state details (utc_datetime u) = pret ()"
  by (simp add: record_evidence_def LifecycleEvidence_def immutable_mapping_def immutable_value_def Let_def null_sink_def fun_eq_iff)

text \<open>The manifest an export returns.\<close>

definition exported :: "export_boundary \<Rightarrow> json export_metadata \<Rightarrow> string list \<Rightarrow> (string \<Rightarrow> json logical_record list list)
   \<Rightarrow> string \<Rightarrow> int \<Rightarrow> int logical_export" where
  "exported boundary metadata ids batches export_id now =
     (let x = \<lparr>lx_metadata = metadata, lx_boundary = boundary,
          lx_partitions = map (\<lambda>i. partition_of i (concat (batches i))) ids,
          lx_export_id = export_id, lx_created_at = now, lx_digest = [], lx_format_version = logical_export_format_version\<rparr>
      in x\<lparr>lx_digest := json_digest (JObj (export_digest_material x))\<rparr>)"

lemma export_memory:
  assumes "ordered_source request ids batches" and "export_id \<noteq> []" and "valid_instant now"
  shows "\<exists>s. export (memory_export boundary metadata ids batches now) request fresh_token export_id InMemoryLogicalArtifacts
      = (Inr (exported boundary metadata ids batches export_id now), s) \<and>
    (\<forall>i \<in> set ids. map_of (ar_artifacts s) (artifact_reference i (ndjson (concat (batches i)))) = Some (ndjson (concat (batches i))))"
proof -
  let ?env = "memory_export boundary metadata ids batches now"
  let ?step = "\<lambda>i ms. pbind (export_partition ?env request boundary fresh_token i) (\<lambda>m. pret (ms @ [m]))"
  have ids: "distinct ids" using assms(1) by (simp add: ordered_source_def)
  from export_partitions_memory [OF assms(1) subset_refl ids] obtain s where
    parts: "pfold ?step ids [] InMemoryLogicalArtifacts = (Inr (map (\<lambda>i. partition_of i (concat (batches i))) ids), s)" and
    stored: "\<forall>i \<in> set ids. map_of (ar_artifacts s) (artifact_reference i (ndjson (concat (batches i)))) = Some (ndjson (concat (batches i)))"
    by (metis append_Nil)
  have hooks: "xe_begin ?env = (\<lambda>_. pret boundary)" "xe_metadata ?env = (\<lambda>_ _. pret metadata)" "xe_partition_ids ?env = (\<lambda>_ _. pret ids)"
    "xe_finish ?env = (\<lambda>_ b. pret b)" "xe_evidence ?env = null_sink" "xe_clock ?env = pret (utc_datetime now)"
    by (simp_all add: memory_export_def)
  have ids_of: "map pm_partition_id (map (\<lambda>i. partition_of i (concat (batches i))) ids) = ids"
    by (simp add: partition_of_def comp_def)
  have made: "LogicalExportV1 \<lparr>lx_metadata = metadata, lx_boundary = boundary,
      lx_partitions = map (\<lambda>i. partition_of i (concat (batches i))) ids, lx_export_id = export_id, lx_created_at = utc_datetime now,
      lx_digest = [], lx_format_version = logical_export_format_version\<rparr> = Inr (exported boundary metadata ids batches export_id now)"
    using assms(2,3) ids ids_of by (simp add: LogicalExportV1_def exported_def Let_def)
  have "export ?env request fresh_token export_id InMemoryLogicalArtifacts = (Inr (exported boundary metadata ids batches export_id now), s)"
    unfolding export_def hooks pbind_pret
    using assms(2,3) ids made
    by (simp add: guard_def pbind_Inr [where m = "pfold ?step ids []", OF parts] null_evidence exported_def [unfolded Let_def])
  with stored show ?thesis by blast
qed

section \<open>Import\<close>

lemma note_record_sorted [simp]: "note_record (sorted_record r) = note_record r"
  by (simp add: note_record_def fun_eq_iff)

lemma out_of_order_sorted [simp]: "out_of_order p (sorted_record r) = out_of_order p r"
  by (cases "pr_previous p") (simp_all add: out_of_order_def)

lemma verify_records:
  assumes "\<forall>r \<in> set rs. parse_line env (record_line r) = Inr (sorted_record r)"
    and "follows (pr_previous (rd_progress st)) (map lr_logical_id rs)"
  shows "pfold (consume_line env policy n False) (map record_line rs) st
    = pret (st\<lparr>rd_progress := fold note_record rs (rd_progress st)\<rparr>)"
  using assms
proof (induction rs arbitrary: st)
  case (Cons r rs)
  have order: "\<not> out_of_order (rd_progress st) (sorted_record r)"
    using Cons.prems(2) by (simp add: out_of_order_follows)
  have "consume_line env policy n False (record_line r) st = pret (st\<lparr>rd_progress := note_record r (rd_progress st)\<rparr>)"
    using Cons.prems(1) order by (simp add: consume_line_def Let_def)
  then show ?case using Cons by simp
qed simp

lemma write_records:
  fixes w :: import_world
  assumes "\<forall>r \<in> set rs. parse_line env (record_line r) = Inr (sorted_record r)"
    and "follows (pr_previous (rd_progress st)) (map lr_logical_id rs)" and "int (length (rd_batch st)) < n"
    and "ie_object_transfer env = None" and "ie_write env = (\<lambda>b _ w. (Inr (), (fst w, snd w @ [b])))"
  shows "\<exists>st' bs. pfold (consume_line env policy n True) (map record_line rs) st w = (Inr st', (fst w, snd w @ bs)) \<and>
    concat bs @ rd_batch st' = rd_batch st @ map sorted_record rs \<and> int (length (rd_batch st')) < n \<and>
    (\<forall>b \<in> set bs. int (length b) = n) \<and> rd_progress st' = fold note_record rs (rd_progress st)"
  using assms(1-3)
proof (induction rs arbitrary: st w)
  case Nil
  then show ?case by (intro exI [of _ st] exI [of _ "[]"]) simp
next
  case (Cons r rs)
  let ?batch = "rd_batch st @ [sorted_record r]" and ?st = "st\<lparr>rd_progress := note_record r (rd_progress st)\<rparr>"
  have order: "\<not> out_of_order (rd_progress st) (sorted_record r)"
    using Cons.prems(2) by (simp add: out_of_order_follows)
  have one: "consume_line env policy n True (record_line r) st = write_record env policy n (sorted_record r) ?st"
    using Cons.prems(1) order by (simp add: consume_line_def Let_def assms(4))
  show ?case
  proof (cases "int (length ?batch) = n")
    case True
    then have step: "consume_line env policy n True (record_line r) st w = (Inr (?st\<lparr>rd_batch := []\<rparr>), (fst w, snd w @ [?batch]))"
      by (simp add: one write_record_def Let_def assms(5) pbind_def)
    have "0 < n" using True by auto
    with Cons.IH [of "?st\<lparr>rd_batch := []\<rparr>" "(fst w, snd w @ [?batch])"] Cons.prems obtain st' bs where
      "pfold (consume_line env policy n True) (map record_line rs) (?st\<lparr>rd_batch := []\<rparr>) (fst w, snd w @ [?batch])
        = (Inr st', (fst w, (snd w @ [?batch]) @ bs))"
      "concat bs @ rd_batch st' = map sorted_record rs" "int (length (rd_batch st')) < n" "\<forall>b \<in> set bs. int (length b) = n"
      "rd_progress st' = fold note_record rs (note_record r (rd_progress st))"
      by auto
    with True show ?thesis
      by (intro exI [of _ st'] exI [of _ "?batch # bs"])
        (simp add: pbind_Inr [where m = "consume_line env policy n True (record_line r) st", OF step])
  next
    case False
    then have step: "consume_line env policy n True (record_line r) st w = (Inr (?st\<lparr>rd_batch := ?batch\<rparr>), w)"
      by (simp add: one write_record_def Let_def)
    from False Cons.IH [of "?st\<lparr>rd_batch := ?batch\<rparr>" w] Cons.prems obtain st' bs where
      "pfold (consume_line env policy n True) (map record_line rs) (?st\<lparr>rd_batch := ?batch\<rparr>) w = (Inr st', (fst w, snd w @ bs))"
      "concat bs @ rd_batch st' = ?batch @ map sorted_record rs" "int (length (rd_batch st')) < n" "\<forall>b \<in> set bs. int (length b) = n"
      "rd_progress st' = fold note_record rs (note_record r (rd_progress st))"
      by auto
    then show ?thesis
      by (intro exI [of _ st'] exI [of _ bs])
        (simp add: pbind_Inr [where m = "consume_line env policy n True (record_line r) st", OF step])
  qed
qed

lemma record_line_nonempty [simp]: "record_line r \<noteq> []"
  by (simp add: record_line_def canonical_json_def record_to_mapping_def utf8_def utf8_char_def Let_def)

lemma lines_of_ndjson:
  assumes "\<forall>r \<in> set rs. plain_json (record_to_mapping r)"
  shows "lines_of (ndjson rs) = map record_line rs" and "rest_of (ndjson rs) = []"
  by (simp_all add: split_lines_ndjson [OF assms] filter_id_conv)

text \<open>What the manifest and the import results say of the same records.\<close>

definition result_of :: "string \<Rightarrow> json logical_record list \<Rightarrow> partition_import_result" where
  "result_of i rs = \<lparr>pi_partition_id = i, pi_count = int (length rs), pi_bytes = int (length (ndjson rs)),
     pi_sha256 = ''sha256:'' @ hexdigest (ndjson rs)\<rparr>"

lemma check_partition_of:
  assumes "i \<noteq> []" and "\<forall>r \<in> set rs. lr_logical_id r \<noteq> []"
  shows "check_partition (partition_of i rs) ((fold note_record rs no_progress)\<lparr>pr_bytes := ndjson rs\<rparr>) = Inr (result_of i rs)"
  using assms(1) noted_bounds [OF assms(2)] noted_count [of rs no_progress] is_sha256_hexdigest [of "ndjson rs"]
  by (simp add: check_partition_def Let_def partition_of_def pr_count_no_progress PartitionImportResult_def result_of_def
      require_sha256_def guard_def)

text \<open>Records that can be read back: the constructor accepted them, the limit admits their line, and
  \<open>json.loads\<close> returns what \<open>json.dumps\<close> wrote.\<close>

definition readable :: "(byte list \<Rightarrow> (exn + pyval) option) \<Rightarrow> int \<Rightarrow> json logical_record \<Rightarrow> bool" where
  "readable loads limit r \<longleftrightarrow> wf_record r \<and> plain_json (record_to_mapping r) \<and> loads_back loads r \<and> int (length (record_line r)) \<le> limit"

lemma readable_parse:
  "\<forall>r \<in> set rs. readable loads limit r \<Longrightarrow>
   \<forall>r \<in> set rs. parse_line (memory_import loads limit fp now) (record_line r) = Inr (sorted_record r)"
  by (auto simp: readable_def memory_import_def intro!: parse_line_record)

lemma on_world_pret [simp]: "on_world (pret x) = pret x"
  by (auto simp: on_world_def fun_eq_iff pret_run)

lemma stored_chunks:
  assumes "map_of (ar_artifacts (fst w)) ref = Some content"
  shows "ie_chunks (memory_import loads limit fp now) ref w
    = (Inr (map pret (if content = [] then [] else [content]), pret ()), w)"
  using assms by (cases w) (simp add: memory_import_def pbind_def on_world_def [of "artifact_chunks ref"] artifact_chunks_def)

lemma import_partition_stored:
  assumes "map_of (ar_artifacts (fst w)) (pm_artifact_ref m) = Some content"
  shows "import_partition (memory_import loads limit fp now) policy n wr fresh_token m w
    = import_partition (delivering (if content = [] then [] else [content]) (memory_import loads limit fp now)) policy n wr fresh_token m w"
  unfolding import_partition_def fresh_token_pret pbind_pret delivering_hooks delivering_read
  by (subst pbind_Inr [where m = "ie_chunks (memory_import loads limit fp now) (pm_artifact_ref m)", OF stored_chunks [OF assms]]) simp

text \<open>A partition of the exported records, stored where its manifest says.\<close>

definition stored_partition :: "(byte list \<Rightarrow> (exn + pyval) option) \<Rightarrow> int \<Rightarrow> artifact_store \<Rightarrow> string \<times> json logical_record list \<Rightarrow> bool" where
  "stored_partition loads limit s p \<longleftrightarrow> fst p \<noteq> [] \<and> map_of (ar_artifacts s) (artifact_reference (fst p) (ndjson (snd p))) = Some (ndjson (snd p)) \<and>
     sorted_wrt (<) (map lr_logical_id (snd p)) \<and> (\<forall>r \<in> set (snd p). readable loads limit r)"

lemma stored_partitionD:
  assumes "stored_partition loads limit s (i, rs)"
  shows "i \<noteq> []" and "\<forall>r \<in> set rs. readable loads limit r" and "follows None (map lr_logical_id rs)"
    and "\<forall>r \<in> set rs. lr_logical_id r \<noteq> []"
    and "map_of (ar_artifacts s) (pm_artifact_ref (partition_of i rs)) = Some (ndjson rs)"
  using assms by (auto simp: stored_partition_def follows_None readable_def wf_record_def partition_of_def)

text \<open>Reading the stored bytes is folding over the lines they were written from.\<close>

lemma import_stored_lines:
  fixes w :: "artifact_store \<times> json logical_record list list"
  assumes "stored_partition loads limit (fst w) (i, rs)" and "0 \<le> limit"
  shows "import_partition (memory_import loads limit fp now) policy n wr fresh_token (partition_of i rs) w = (Inr r, w') \<longleftrightarrow>
    pbind (pfold (consume_line (memory_import loads limit fp now) policy n wr) (map record_line rs) start_reading)
      (finish_partition (memory_import loads limit fp now) policy wr (partition_of i rs) (ndjson rs)) w = (Inr r, w')"
proof -
  let ?env = "memory_import loads limit fp now" and ?cs = "if ndjson rs = [] then [] else [ndjson rs]"
  have env: "0 \<le> ie_maximum_record_bytes ?env" using assms(2) by (simp add: memory_import_def)
  have content: "concat ?cs = ndjson rs" by simp
  have lines: "lines_of (ndjson rs) = map record_line rs" "rest_of (ndjson rs) = []"
    using lines_of_ndjson [of rs] stored_partitionD(2) [OF assms(1)] by (simp_all add: readable_def)
  from import_partition_stored [OF stored_partitionD(5) [OF assms(1)]] import_partition_lines [OF env, of ?cs] show ?thesis
    by (simp only: content lines simp_thms)
qed

lemma check_stored_partition:
  assumes "stored_partition loads limit s (i, rs)"
  shows "check_partition (partition_of i rs) ((fold note_record rs no_progress)\<lparr>pr_bytes := ndjson rs\<rparr>) = Inr (result_of i rs)"
  by (rule check_partition_of [OF stored_partitionD(1,4) [OF assms]])

lemma write_stored_partition:
  assumes "stored_partition loads limit (fst w) (i, rs)" and "0 \<le> limit" and "0 < n"
  shows "\<exists>bs. import_partition (memory_import loads limit fp now) policy n True fresh_token (partition_of i rs) w
      = (Inr (result_of i rs), (fst w, snd w @ bs)) \<and> concat bs = map sorted_record rs \<and>
    (\<forall>b \<in> set bs. 0 < length b \<and> int (length b) \<le> n)"
proof -
  let ?env = "memory_import loads limit fp now"
  let ?read = "pfold (consume_line ?env policy n True) (map record_line rs) start_reading"
  have env: "ie_object_transfer ?env = None" "ie_write ?env = (\<lambda>b _ w. (Inr (), (fst w, snd w @ [b])))"
    by (simp_all add: memory_import_def)
  have "\<exists>st bs. ?read w = (Inr st, (fst w, snd w @ bs)) \<and>
      concat bs @ rd_batch st = map sorted_record rs \<and> int (length (rd_batch st)) < n \<and>
      (\<forall>b \<in> set bs. int (length b) = n) \<and> rd_progress st = fold note_record rs no_progress"
    using write_records [where st = start_reading and n = n and policy = policy and w = w, OF readable_parse [OF stored_partitionD(2) [OF assms(1)]]]
      stored_partitionD(3) [OF assms(1)] assms(3) env by (simp add: no_progress_def)
  then obtain st bs where run: "?read w = (Inr st, (fst w, snd w @ bs))"
    and st: "concat bs @ rd_batch st = map sorted_record rs" "int (length (rd_batch st)) < n" "\<forall>b \<in> set bs. int (length b) = n"
      "rd_progress st = fold note_record rs no_progress" by blast
  let ?last = "if rd_batch st = [] then [] else [rd_batch st]"
  have "finish_partition ?env policy True (partition_of i rs) (ndjson rs) st (fst w, snd w @ bs)
      = (Inr (result_of i rs), (fst w, snd w @ bs @ ?last))"
    by (simp add: finish_partition_def st(4) check_stored_partition [OF assms(1)] env(2) pbind_def pret_run plift_run)
  then have "import_partition ?env policy n True fresh_token (partition_of i rs) w = (Inr (result_of i rs), (fst w, snd w @ bs @ ?last))"
    unfolding import_stored_lines [OF assms(1,2)] by (simp only: pbind_Inr [where m = ?read, OF run])
  moreover have "concat (bs @ ?last) = map sorted_record rs" using st(1) by auto
  moreover have "\<forall>b \<in> set (bs @ ?last). 0 < length b \<and> int (length b) \<le> n" using st(2,3) assms(3) by auto
  ultimately show ?thesis by blast
qed

lemma import_stored_partition:
  assumes "stored_partition loads limit (fst w) (i, rs)" and "0 \<le> limit" and "0 < n"
  shows "\<exists>bs. import_partition (memory_import loads limit fp now) policy n wr fresh_token (partition_of i rs) w
      = (Inr (result_of i rs), (fst w, snd w @ bs)) \<and> concat bs = (if wr then map sorted_record rs else []) \<and>
    (\<forall>b \<in> set bs. 0 < length b \<and> int (length b) \<le> n)"
proof (cases wr)
  case True
  then show ?thesis using write_stored_partition [OF assms] by simp
next
  case False
  let ?env = "memory_import loads limit fp now"
  have "pfold (consume_line ?env policy n False) (map record_line rs) start_reading
      = pret (start_reading\<lparr>rd_progress := fold note_record rs no_progress\<rparr>)"
    using verify_records [OF readable_parse [OF stored_partitionD(2) [OF assms(1)]], of start_reading]
      stored_partitionD(3) [OF assms(1)] by (simp add: no_progress_def)
  then have "import_partition ?env policy n wr fresh_token (partition_of i rs) w = (Inr (result_of i rs), w)"
    unfolding import_stored_lines [OF assms(1,2)] using False check_stored_partition [OF assms(1)]
    by (simp add: finish_partition_def)
  then show ?thesis using False by (intro exI [of _ "[]"]) simp
qed

lemma import_stored_partitions:
  assumes "\<forall>p \<in> set ps. stored_partition loads limit (fst w) p" and "0 \<le> limit" and "0 < n"
  shows "\<exists>bs. import_partitions (memory_import loads limit fp now) policy n wr fresh_token (map (\<lambda>p. partition_of (fst p) (snd p)) ps) w
      = (Inr (map (\<lambda>p. result_of (fst p) (snd p)) ps), (fst w, snd w @ bs)) \<and>
    concat bs = (if wr then map sorted_record (concat (map snd ps)) else []) \<and> (\<forall>b \<in> set bs. 0 < length b \<and> int (length b) \<le> n)"
proof -
  let ?step = "\<lambda>m rs. pbind (import_partition (memory_import loads limit fp now) policy n wr fresh_token m) (\<lambda>r. pret (rs @ [r]))"
  have "\<exists>bs. pfold ?step (map (\<lambda>p. partition_of (fst p) (snd p)) ps) acc w
      = (Inr (acc @ map (\<lambda>p. result_of (fst p) (snd p)) ps), (fst w, snd w @ bs)) \<and>
    concat bs = (if wr then map sorted_record (concat (map snd ps)) else []) \<and> (\<forall>b \<in> set bs. 0 < length b \<and> int (length b) \<le> n)" for acc
    using assms(1)
  proof (induction ps arbitrary: acc w)
    case Nil
    then show ?case by (intro exI [of _ "[]"]) simp
  next
    case (Cons p ps)
    let ?m = "partition_of (fst p) (snd p)" and ?r = "result_of (fst p) (snd p)"
    from import_stored_partition [of loads limit w "fst p" "snd p" n fp now policy wr] Cons.prems assms(2,3) obtain bs where
      one: "import_partition (memory_import loads limit fp now) policy n wr fresh_token ?m w = (Inr ?r, (fst w, snd w @ bs))"
      and bs: "concat bs = (if wr then map sorted_record (snd p) else [])" "\<forall>b \<in> set bs. 0 < length b \<and> int (length b) \<le> n" by auto
    have step: "?step ?m acc w = (Inr (acc @ [?r]), (fst w, snd w @ bs))"
      by (simp add: pbind_Inr [where m = "import_partition (memory_import loads limit fp now) policy n wr fresh_token ?m", OF one])
    from Cons.IH [of "(fst w, snd w @ bs)" "acc @ [?r]"] Cons.prems obtain cs where
      "pfold ?step (map (\<lambda>p. partition_of (fst p) (snd p)) ps) (acc @ [?r]) (fst w, snd w @ bs)
        = (Inr ((acc @ [?r]) @ map (\<lambda>p. result_of (fst p) (snd p)) ps), (fst w, (snd w @ bs) @ cs))"
      "concat cs = (if wr then map sorted_record (concat (map snd ps)) else [])" "\<forall>b \<in> set cs. 0 < length b \<and> int (length b) \<le> n"
      by auto
    with bs show ?case
      by (intro exI [of _ "bs @ cs"]) (auto simp: pbind_Inr [where m = "?step ?m acc", OF step])
  qed
  from this [of "[]"] show ?thesis by (simp add: import_partitions_def)
qed

section \<open>The round trip\<close>

lemma concat_concat_eq: "concat (map (\<lambda>i. concat (f i)) is) = concat (concat (map f is))"
  by (induction "is") auto

lemma exported_fields:
  "lx_partitions (exported b md ids batches x now) = map (\<lambda>p. partition_of (fst p) (snd p)) (map (\<lambda>i. (i, concat (batches i))) ids)"
  "lx_export_id (exported b md ids batches x now) = x" "is_sha256 (lx_digest (exported b md ids batches x now))"
  by (simp_all add: exported_def Let_def)

lemma import_exported:
  assumes "\<forall>i \<in> set ids. stored_partition loads limit s (i, concat (batches i))" and "distinct ids" and "0 \<le> limit"
    and "is_sha256 fp" and "valid_instant now" and "1 \<le> n" and "n \<le> 10000" and "export_id \<noteq> []"
  shows "\<exists>report written. import_export (memory_import loads limit fp now) (exported b md ids batches export_id now) policy n fresh_token (s, [])
      = (Inr report, (s, written)) \<and> concat written = map sorted_record (concat (map (\<lambda>i. concat (batches i)) ids)) \<and>
    (\<forall>batch \<in> set written. 0 < length batch \<and> int (length batch) \<le> n) \<and>
    im_export_digest report = lx_digest (exported b md ids batches export_id now) \<and>
    im_partitions report = map (\<lambda>i. result_of i (concat (batches i))) ids"
proof -
  let ?env = "memory_import loads limit fp now" and ?x = "exported b md ids batches export_id now"
  let ?ps = "map (\<lambda>i. (i, concat (batches i))) ids"
  define results where "results = map (\<lambda>p. result_of (fst p) (snd p)) ?ps"
  have ps: "\<forall>p \<in> set ?ps. stored_partition loads limit (fst (s, [] :: json logical_record list list)) p" using assms(1) by auto
  from import_stored_partitions [OF ps assms(3), of n fp now policy False] assms(6) obtain bs where
    "import_partitions ?env policy n False fresh_token (lx_partitions ?x) (s, []) = (Inr results, (s, bs))" "concat bs = []" "\<forall>b \<in> set bs. 0 < length b"
    by (auto simp: exported_fields results_def)
  then have verified: "import_partitions ?env policy n False fresh_token (lx_partitions ?x) (s, []) = (Inr results, (s, []))"
    by (cases bs) auto
  from import_stored_partitions [OF ps assms(3), of n fp now policy True] assms(6) obtain written where
    writes: "import_partitions ?env policy n True fresh_token (lx_partitions ?x) (s, []) = (Inr results, (s, written))"
    and written: "concat written = map sorted_record (concat (map (\<lambda>i. concat (batches i)) ids))"
      "\<forall>batch \<in> set written. 0 < length batch \<and> int (length batch) \<le> n"
    by (auto simp: exported_fields results_def comp_def)
  define cmp where "cmp = comparison_digest (lx_digest ?x) fp results"
  define report where "report = \<lparr>im_export_digest = lx_digest ?x, im_target_fingerprint = fp, im_partitions = results, im_comparison_digest = cmp\<rparr>"
  have made: "ImportReport report = Inr report"
    using assms(2,4) exported_fields(3) by (simp add: ImportReport_def report_def cmp_def comparison_digest_def results_def result_of_def comp_def require_sha256_def guard_def)
  have evidence: "record_evidence null_sink ''logical-import'' (lx_export_id ?x) ''COMPLETED''
       (JObj [(''exportDigest'', JStr (lx_digest ?x)), (''targetFingerprint'', JStr fp), (''comparisonDigest'', JStr cmp)]) (utc_datetime now) = pret ()"
    using assms(5,8) by (intro null_evidence) (simp_all add: exported_fields)
  have hooks: "ie_preflight ?env = (\<lambda>_ _. pret ())" "ie_finalize ?env = (\<lambda>_. pret fp)" "ie_evidence ?env = null_sink" "ie_clock ?env = pret (utc_datetime now)"
    by (simp_all add: memory_import_def)
  have "import_export ?env ?x policy n fresh_token (s, []) = (Inr report, (s, written))"
    unfolding import_export_def hooks fresh_token_pret pbind_pret Let_def
    using assms(4,6,7) made
    by (simp add: guard_def pbind_Inr [where m = "import_partitions ?env policy n False fresh_token (lx_partitions ?x)", OF verified]
        pbind_Inr [where m = "import_partitions ?env policy n True fresh_token (lx_partitions ?x)", OF writes] cmp_def [symmetric] report_def [symmetric] evidence)
  with written show ?thesis by (intro exI [of _ report] exI [of _ written]) (simp add: report_def results_def comp_def)
qed

lemma memory_roundtrip:
  assumes "ordered_source request ids batches" and "\<forall>i \<in> set ids. \<forall>b \<in> set (batches i). \<forall>r \<in> set b. readable loads limit r"
    and "LogicalImportCoordinator (memory_import loads limit fingerprint now) = Inr env"
    and "export_id \<noteq> []" and "valid_instant now" and "is_sha256 fingerprint" and "1 \<le> batch_size" and "batch_size \<le> 10000"
  shows "\<exists>manifest artifacts report written.
    export (memory_export boundary metadata ids batches now) request fresh_token export_id InMemoryLogicalArtifacts = (Inr manifest, artifacts) \<and>
    import_export env manifest policy batch_size fresh_token (artifacts, []) = (Inr report, (artifacts, written)) \<and>
    concat written = map sorted_record (concat (concat (map batches ids))) \<and>
    map record_line (concat written) = map record_line (concat (concat (map batches ids))) \<and>
    (\<forall>batch \<in> set written. 0 < length batch \<and> int (length batch) \<le> batch_size) \<and>
    im_export_digest report = lx_digest manifest"
proof -
  have env: "env = memory_import loads limit fingerprint now" "0 \<le> limit"
    using assms(3) by (auto simp: LogicalImportCoordinator_def memory_import_def)
  from export_memory [OF assms(1,4,5)] obtain s where
    exports: "export (memory_export boundary metadata ids batches now) request fresh_token export_id InMemoryLogicalArtifacts
      = (Inr (exported boundary metadata ids batches export_id now), s)" and
    stored: "\<forall>i \<in> set ids. map_of (ar_artifacts s) (artifact_reference i (ndjson (concat (batches i)))) = Some (ndjson (concat (batches i)))"
    by blast
  have "\<forall>i \<in> set ids. stored_partition loads limit s (i, concat (batches i))" and ids: "distinct ids"
    using stored assms(1,2) by (auto simp: stored_partition_def ordered_source_def)
  from import_exported [OF this env(2) assms(6,5,7,8,4)] obtain report written where
    imported: "import_export env (exported boundary metadata ids batches export_id now) policy batch_size fresh_token (s, []) = (Inr report, (s, written))"
    and written: "concat written = map sorted_record (concat (concat (map batches ids)))" "\<forall>batch \<in> set written. 0 < length batch \<and> int (length batch) \<le> batch_size"
    and digest: "im_export_digest report = lx_digest (exported boundary metadata ids batches export_id now)"
    unfolding env(1) concat_concat_eq by blast
  have "map record_line (map sorted_record (concat (concat (map batches ids)))) = map record_line (concat (concat (map batches ids)))"
    using assms(2) by (auto simp: record_line_sorted readable_def)
  with exports imported written digest show ?thesis by metis
qed

text \<open>C33: an export into the in-memory artifacts returns a manifest whose import succeeds in writing the records
  of every partition in order, as they were up to the order of object keys, in non-empty batches of at most the
  requested size; the report names the digest of the export.  The source gives ordered, valid records in
  batches no larger than requested, whose floats read back from their \<open>repr\<close> and whose lines fit the limit of the import.\<close>

theorem export_import_roundtrip:
  assumes "ordered_source request ids batches"
    and "\<forall>i \<in> set ids. \<forall>b \<in> set (batches i). \<forall>r \<in> set b. floats_read fo (record_to_mapping r) \<and> int (length (record_line r)) \<le> limit"
    and "LogicalImportCoordinator (memory_import (json_loads fo) limit fingerprint now) = Inr env"
    and "export_id \<noteq> []" and "valid_instant now" and "is_sha256 fingerprint" and "1 \<le> batch_size" and "batch_size \<le> 10000"
  shows "\<exists>manifest artifacts report written.
    export (memory_export boundary metadata ids batches now) request fresh_token export_id InMemoryLogicalArtifacts = (Inr manifest, artifacts) \<and>
    import_export env manifest policy batch_size fresh_token (artifacts, []) = (Inr report, (artifacts, written)) \<and>
    concat written = map sorted_record (concat (concat (map batches ids))) \<and>
    map record_line (concat written) = map record_line (concat (concat (map batches ids))) \<and>
    (\<forall>batch \<in> set written. 0 < length batch \<and> int (length batch) \<le> batch_size) \<and>
    im_export_digest report = lx_digest manifest"
proof -
  have "\<forall>i \<in> set ids. \<forall>b \<in> set (batches i). \<forall>r \<in> set b. readable (json_loads fo) limit r"
    using assms(1,2) by (auto simp: ordered_source_def readable_def json_loads_back)
  from memory_roundtrip [OF assms(1) this assms(3-8)] show ?thesis .
qed

end
