(* ===== verification/Portability_Trace.thy ===== *)
theory Portability_Trace
  imports Portability_Roundtrip
begin

text \<open>
  The calls an import makes of its target, whatever the hooks do: nothing is written before every partition
  was verified against the manifest, the target is finalised only after a second pass gave the same
  results, and a report is returned only after that.
\<close>

section \<open>Programs beside a trace\<close>

lemma on_world_pbind: "on_world (pbind m f) = pbind (on_world m) (\<lambda>x. on_world (f x))"
  by (auto simp: on_world_def pbind_def fun_eq_iff split: prod.splits sum.splits)

lemma on_world_basic [simp]: "on_world (praise e) = praise e" "on_world (plift v) = plift v"
  by (auto simp: on_world_def fun_eq_iff praise_run plift_run)

lemma on_world_cancel: "on_world (raise_if_cancelled token) = raise_if_cancelled (on_world token)"
  by (simp add: raise_if_cancelled_def on_world_pbind if_distrib [of on_world] cong: if_cong)

lemma on_world_pfold: "on_world (pfold f xs s) = pfold (\<lambda>x s. on_world (f x s)) xs s"
  by (induction xs arbitrary: s) (simp_all add: on_world_pbind)

text \<open>\<open>emits P m\<close>: the calls \<open>m\<close> adds to the trace all satisfy \<open>P\<close>.\<close>

definition emits :: "('c \<Rightarrow> bool) \<Rightarrow> ('w \<times> 'c list, 'a) prog \<Rightarrow> bool" where
  "emits P m \<longleftrightarrow> (\<forall>w tr r w' tr'. m (w, tr) = (r, (w', tr')) \<longrightarrow> (\<exists>cs. tr' = tr @ cs \<and> (\<forall>c \<in> set cs. P c)))"

lemma emitsD: "emits P m \<Longrightarrow> m (w, tr) = (r, (w', tr')) \<Longrightarrow> \<exists>cs. tr' = tr @ cs \<and> (\<forall>c \<in> set cs. P c)"
  unfolding emits_def by blast

lemma emits_basic [simp]: "emits P (pret x)" "emits P (praise e)" "emits P (plift v)" "emits P (on_world m)"
  by (auto simp: emits_def on_world_eq)

lemma emits_attempt: "P c \<Longrightarrow> emits P (attempt c m)"
  by (auto simp: emits_def attempt_eq)

lemma emits_pbind:
  assumes "emits P m" and "\<And>x. emits P (f x)"
  shows "emits P (pbind m f)"
  unfolding emits_def
proof (intro allI impI)
  fix w tr r w' tr'
  assume run: "pbind m f (w, tr) = (r, (w', tr'))"
  obtain r1 w1 tr1 where m: "m (w, tr) = (r1, (w1, tr1))" by (metis surj_pair)
  from emitsD [OF assms(1) m] obtain cs where cs: "tr1 = tr @ cs" "\<forall>c \<in> set cs. P c" by blast
  show "\<exists>cs. tr' = tr @ cs \<and> (\<forall>c \<in> set cs. P c)"
  proof (cases r1)
    case (Inl e)
    with run m cs show ?thesis by (auto simp: pbind_def)
  next
    case (Inr x)
    with run m have "f x (w1, tr1) = (r, (w', tr'))" by (simp add: pbind_def)
    from emitsD [OF assms(2) this] cs show ?thesis by (auto intro: exI [of _ "cs @ _"])
  qed
qed

lemma emits_pfold: "(\<And>x s. x \<in> set xs \<Longrightarrow> emits P (f x s)) \<Longrightarrow> emits P (pfold f xs s)"
  by (induction xs arbitrary: s) (auto intro: emits_pbind)

lemma emits_pfor: "(\<And>x. emits P (f x)) \<Longrightarrow> emits P (pfor f xs)"
  by (induction xs) (auto intro: emits_pbind)

text \<open>\<open>shadows m m0\<close>: beside its trace, \<open>m\<close> does what \<open>m0\<close> does.\<close>

definition shadows :: "('w \<times> 'c list, 'a) prog \<Rightarrow> ('w, 'a) prog \<Rightarrow> bool" where
  "shadows m m0 \<longleftrightarrow> (\<forall>w tr. \<exists>tr'. m (w, tr) = (fst (m0 w), (snd (m0 w), tr')))"

lemma shadowsD: "shadows m m0 \<Longrightarrow> m0 w = (r, w') \<Longrightarrow> \<exists>tr'. m (w, tr) = (r, (w', tr'))"
  unfolding shadows_def by (metis fst_conv snd_conv)

lemma shadows_basic [simp, intro]: "shadows (pret x) (pret x)" "shadows (praise e) (praise e)" "shadows (plift v) (plift v)"
    "shadows (on_world m) m" "shadows (attempt c m) m"
  by (auto simp: shadows_def pret_run praise_run plift_run on_world_def attempt_def split: prod.splits)

lemma shadows_pbind:
  assumes "shadows m m0" and "\<And>x. shadows (f x) (f0 x)"
  shows "shadows (pbind m f) (pbind m0 f0)"
  unfolding shadows_def
proof (intro allI)
  fix w tr
  obtain r w1 where m0: "m0 w = (r, w1)" by fastforce
  from shadowsD [OF assms(1) this] obtain tr1 where m: "m (w, tr) = (r, (w1, tr1))" by blast
  show "\<exists>tr'. pbind m f (w, tr) = (fst (pbind m0 f0 w), (snd (pbind m0 f0 w), tr'))"
  proof (cases r)
    case (Inr x)
    obtain r2 w2 where "f0 x w1 = (r2, w2)" by fastforce
    with shadowsD [OF assms(2) this] m m0 Inr show ?thesis by (simp add: pbind_def)
  qed (use m m0 in \<open>simp add: pbind_def\<close>)
qed

lemma shadows_pfold: "(\<And>x s. shadows (f x s) (f0 x s)) \<Longrightarrow> shadows (pfold f xs s) (pfold f0 xs s)"
  by (induction xs arbitrary: s) (auto intro: shadows_pbind)

lemma shadows_pfor: "(\<And>x. shadows (f x) (f0 x)) \<Longrightarrow> shadows (pfor f xs) (pfor f0 xs)"
  by (induction xs) (auto intro: shadows_pbind)

lemma shadows_cancel: "shadows (raise_if_cancelled (on_world token)) (raise_if_cancelled token)"
  unfolding raise_if_cancelled_def by (auto intro!: shadows_pbind)

section \<open>A traced import\<close>

datatype import_call = Preflighted | Transferred json | Wrote "json logical_record list" | Finalized | Recorded evidence

definition traced_import :: "'w import_env \<Rightarrow> ('w \<times> import_call list) import_env" where
  "traced_import env = \<lparr>
     ie_chunks = (\<lambda>ref. pbind (on_world (ie_chunks env ref)) (\<lambda>(ps, f). pret (map on_world ps, on_world f))),
     ie_preflight = (\<lambda>md policy. attempt Preflighted (ie_preflight env md policy)),
     ie_write = (\<lambda>b policy. attempt (Wrote b) (ie_write env b policy)),
     ie_finalize = (\<lambda>x. attempt Finalized (ie_finalize env x)),
     ie_object_transfer = map_option (\<lambda>f j. attempt (Transferred j) (f j)) (ie_object_transfer env),
     ie_evidence = (\<lambda>e. attempt (Recorded e) (ie_evidence env e)),
     ie_maximum_record_bytes = ie_maximum_record_bytes env, ie_clock = on_world (ie_clock env), ie_loads = ie_loads env\<rparr>"

lemma traced_import_hooks [simp]:
  "ie_preflight (traced_import env) md policy = attempt Preflighted (ie_preflight env md policy)"
  "ie_write (traced_import env) b policy = attempt (Wrote b) (ie_write env b policy)"
  "ie_finalize (traced_import env) x = attempt Finalized (ie_finalize env x)"
  "ie_evidence (traced_import env) e = attempt (Recorded e) (ie_evidence env e)"
  "ie_maximum_record_bytes (traced_import env) = ie_maximum_record_bytes env"
  "ie_clock (traced_import env) = on_world (ie_clock env)" "ie_loads (traced_import env) = ie_loads env"
  "ie_object_transfer (traced_import env) = map_option (\<lambda>f j. attempt (Transferred j) (f j)) (ie_object_transfer env)"
  "ie_chunks (traced_import env) ref = pbind (on_world (ie_chunks env ref)) (\<lambda>(ps, f). pret (map on_world ps, on_world f))"
  by (simp_all add: traced_import_def)

lemma traced_parse [simp]: "parse_line (traced_import env) = parse_line env"
  by (intro ext) (simp only: parse_line_def traced_import_hooks)

lemma traced_consume: "consume_line (traced_import env) policy n False = (\<lambda>line st. on_world (consume_line env policy n False line st))"
  by (intro ext) (simp add: consume_line_def Let_def on_world_pbind if_distrib [of on_world] cong: if_cong)

lemma traced_read:
  "read_chunk (traced_import env) policy n False (on_world token) (on_world pull) = (\<lambda>st. on_world (read_chunk env policy n False token pull st))"
  by (intro ext) (simp add: read_chunk_def Let_def split_beta on_world_pbind on_world_cancel on_world_pfold traced_consume if_distrib [of on_world] cong: if_cong)

lemma traced_verification:
  "import_partition (traced_import env) policy n False (on_world token) m = on_world (import_partition env policy n False token m)"
proof -
  have "pfold (read_chunk (traced_import env) policy n False (on_world token)) (map on_world ps) st
      = on_world (pfold (read_chunk env policy n False token) ps st)" for ps st
    by (simp add: pfold_map on_world_pfold traced_read)
  then show ?thesis
    by (simp add: import_partition_def on_world_pbind on_world_cancel pbind_assoc split_beta)
qed

lemma traced_verifications:
  "import_partitions (traced_import env) policy n False (on_world token) ms = on_world (import_partitions env policy n False token ms)"
  by (simp add: import_partitions_def traced_verification on_world_pfold on_world_pbind)

section \<open>The writing pass\<close>

fun is_write :: "import_call \<Rightarrow> bool" where
  "is_write (Wrote _) = True"
| "is_write (Transferred _) = True"
| "is_write _ = False"

lemma emits_cancel: "emits P (raise_if_cancelled (on_world token))"
  by (simp add: on_world_cancel [symmetric])

lemma emits_consume: "emits is_write (consume_line (traced_import env) policy n wr line st)"
proof -
  have transfers: "emits is_write (case ie_object_transfer (traced_import env) of None \<Rightarrow> pret ()
      | Some transfer \<Rightarrow> pfor (transfer_object transfer) refs)" for refs
    by (cases "ie_object_transfer env") (auto simp: transfer_object_def intro!: emits_pfor emits_pbind emits_attempt)
  have "emits is_write (write_record (traced_import env) policy n r st')" for r st'
    by (auto simp: write_record_def Let_def intro!: emits_pbind emits_attempt)
  with transfers show ?thesis
    by (auto simp: consume_line_def Let_def intro!: emits_pbind)
qed

lemma emits_read: "emits is_write (read_chunk (traced_import env) policy n wr (on_world token) (on_world pull) st)"
  by (auto simp: read_chunk_def Let_def split_beta intro!: emits_pbind emits_cancel emits_pfold emits_consume)

lemma emits_partition: "emits is_write (import_partition (traced_import env) policy n wr (on_world token) m)"
proof -
  have "emits is_write (pfold (read_chunk (traced_import env) policy n wr (on_world token)) (map on_world ps) st)" for ps st
    by (rule emits_pfold) (auto intro: emits_read)
  then show ?thesis
    by (auto simp: import_partition_def pbind_assoc split_beta intro!: emits_pbind emits_cancel emits_attempt)
qed

lemma emits_partitions: "emits is_write (import_partitions (traced_import env) policy n wr (on_world token) ms)"
  unfolding import_partitions_def by (auto intro!: emits_pfold emits_pbind emits_partition)

section \<open>Tracing changes nothing\<close>

lemma shadows_consume: "shadows (consume_line (traced_import env) policy n wr line st) (consume_line env policy n wr line st)"
proof -
  have transfers: "shadows (case ie_object_transfer (traced_import env) of None \<Rightarrow> pret ()
      | Some transfer \<Rightarrow> pfor (transfer_object transfer) refs)
    (case ie_object_transfer env of None \<Rightarrow> pret () | Some transfer \<Rightarrow> pfor (transfer_object transfer) refs)" for refs
    by (cases "ie_object_transfer env") (auto simp: transfer_object_def intro!: shadows_pfor shadows_pbind)
  have "shadows (write_record (traced_import env) policy n r st') (write_record env policy n r st')" for r st'
    by (auto simp: write_record_def Let_def intro!: shadows_pbind)
  with transfers show ?thesis
    by (auto simp: consume_line_def Let_def intro!: shadows_pbind)
qed

lemma shadows_read:
  "shadows (read_chunk (traced_import env) policy n wr (on_world token) (on_world pull) st) (read_chunk env policy n wr token pull st)"
  by (auto simp: read_chunk_def Let_def split_beta intro!: shadows_pbind shadows_cancel shadows_pfold shadows_consume)

lemma shadows_partition:
  "shadows (import_partition (traced_import env) policy n wr (on_world token) m) (import_partition env policy n wr token m)"
proof -
  have "shadows (pfold (read_chunk (traced_import env) policy n wr (on_world token)) (map on_world ps) st)
      (pfold (read_chunk env policy n wr token) ps st)" for ps st
    unfolding pfold_map by (rule shadows_pfold) (rule shadows_read)
  then show ?thesis
    by (auto simp: import_partition_def pbind_assoc split_beta intro!: shadows_pbind shadows_cancel)
qed

lemma shadows_import:
  "shadows (import_export (traced_import env) x policy n (on_world token)) (import_export env x policy n token)"
  unfolding import_export_def import_partitions_def record_evidence_def Let_def
  by (auto intro!: shadows_pbind shadows_cancel shadows_pfold shadows_partition)

section \<open>Verified partitions\<close>

definition matches :: "partition_manifest \<Rightarrow> partition_import_result \<Rightarrow> bool" where
  "matches m r \<longleftrightarrow> pi_partition_id r = pm_partition_id m \<and> pi_count r = pm_count m \<and> pi_bytes r = pm_bytes m \<and> pi_sha256 r = pm_sha256 m"

lemma import_partition_matches: "import_partition env policy n wr token m w = (Inr r, w') \<Longrightarrow> matches m r"
proof -
  assume "import_partition env policy n wr token m w = (Inr r, w')"
  then obtain p where "check_partition m p = Inr r"
    by (auto simp: import_partition_def pbind_eq_Inr)
  then show "matches m r"
    unfolding check_partition_def Let_def ebind_eq_Inr guard_eq_Inr PartitionImportResult_def by (auto simp: matches_def)
qed

lemma import_partitions_match:
  assumes "import_partitions env policy n wr token ms w = (Inr rs, w')"
  shows "list_all2 matches ms rs"
proof -
  let ?step = "\<lambda>m rs. pbind (import_partition env policy n wr token m) (\<lambda>r. pret (rs @ [r]))"
  have "pfold ?step ms acc w = (Inr rs, w') \<Longrightarrow> \<exists>new. rs = acc @ new \<and> list_all2 matches ms new" for acc w
  proof (induction ms arbitrary: acc w)
    case (Cons m ms)
    then obtain r w1 where r: "import_partition env policy n wr token m w = (Inr r, w1)" and
      others: "pfold ?step ms (acc @ [r]) w1 = (Inr rs, w')" by (auto simp: pbind_eq_Inr)
    from Cons.IH [OF others] import_partition_matches [OF r] show ?case by auto
  qed auto
  from this [of "[]" w] assms show ?thesis by (auto simp: import_partitions_def)
qed

section \<open>Outcomes\<close>

definition finish_import ::
  "'w import_env \<Rightarrow> int logical_export \<Rightarrow> partition_import_result list \<Rightarrow> partition_import_result list \<Rightarrow> ('w, import_report) prog" where
  "finish_import env manifest verified results =
     pbind (plift (guard (results = verified)
       (IntegrityError ''logical artifacts changed after preflight verification''))) (\<lambda>_.
     pbind (ie_finalize env manifest) (\<lambda>target_fingerprint.
     pbind (plift (guard (is_sha256 target_fingerprint)
       (IntegrityError ''import target returned an invalid fingerprint''))) (\<lambda>_.
     let comparison = comparison_digest (lx_digest manifest) target_fingerprint results in
     pbind (plift (ImportReport \<lparr>im_export_digest = lx_digest manifest, im_target_fingerprint = target_fingerprint,
       im_partitions = results, im_comparison_digest = comparison\<rparr>)) (\<lambda>report.
     pbind (ie_clock env) (\<lambda>occurred.
     pbind (record_evidence (ie_evidence env) ''logical-import'' (lx_export_id manifest) ''COMPLETED''
       (JObj [(''exportDigest'', JStr (lx_digest manifest)), (''targetFingerprint'', JStr target_fingerprint),
         (''comparisonDigest'', JStr comparison)]) occurred) (\<lambda>_.
     pret report))))))"

lemma import_export_finish:
  "import_export env manifest policy batch_size token =
     pbind (plift (guard (1 \<le> batch_size \<and> batch_size \<le> 10000)
       (ValueError ''import batch_size must be between 1 and 10000''))) (\<lambda>_.
     pbind (raise_if_cancelled token) (\<lambda>_.
     pbind (import_partitions env policy batch_size False token (lx_partitions manifest)) (\<lambda>verified.
     pbind (ie_preflight env (lx_metadata manifest) policy) (\<lambda>_.
     pbind (import_partitions env policy batch_size True token (lx_partitions manifest)) (finish_import env manifest verified)))))"
  unfolding import_export_def finish_import_def ..

lemma ImportReport_same: "ImportReport r = Inr r' \<Longrightarrow> r' = r"
  by (auto simp: ImportReport_def)

text \<open>What the last part of an import adds to the trace.\<close>

definition closing :: "import_call list \<Rightarrow> bool" where
  "closing cs \<longleftrightarrow> cs = [] \<or> cs = [Finalized] \<or> (\<exists>e. cs = [Finalized, Recorded e])"

lemma finish_import_trace:
  assumes "finish_import (traced_import env) x verified results (w, tr) = (r, (w', tr'))"
  shows "\<exists>cs. tr' = tr @ cs \<and> closing cs \<and> (cs \<noteq> [] \<longrightarrow> results = verified) \<and>
    (\<forall>report. r = Inr report \<longrightarrow> (\<exists>e. cs = [Finalized, Recorded e]) \<and> im_partitions report = verified \<and> im_export_digest report = lx_digest x)"
  using assms
  by (fastforce simp: finish_import_def Let_def pbind_eq guard_def attempt_eq on_world_eq record_evidence_def closing_def
      split: if_splits dest: ImportReport_same)

text \<open>The second pass and what follows it.\<close>

lemma written_import_trace:
  assumes "pbind (import_partitions (traced_import env) policy batch_size True (on_world token) (lx_partitions x))
      (finish_import (traced_import env) x verified) (w2, [Preflighted]) = (r, (w', tr))"
  shows "\<exists>writes cs. tr = Preflighted # writes @ cs \<and> (\<forall>c \<in> set writes. is_write c) \<and> closing cs \<and>
    (cs \<noteq> [] \<longrightarrow> (\<exists>w2 w3. import_partitions (traced_import env) policy batch_size True (on_world token) (lx_partitions x) (w2, [Preflighted])
       = (Inr verified, (w3, Preflighted # writes)))) \<and>
    (\<forall>report. r = Inr report \<longrightarrow> (\<exists>e. cs = [Finalized, Recorded e]) \<and> im_partitions report = verified \<and> im_export_digest report = lx_digest x)"
proof -
  let ?writing = "import_partitions (traced_import env) policy batch_size True (on_world token) (lx_partitions x)"
  obtain res w3 tr3 where writing: "?writing (w2, [Preflighted]) = (res, (w3, tr3))" by (metis surj_pair)
  from emitsD [OF emits_partitions writing] obtain writes where writes: "tr3 = Preflighted # writes" "\<forall>c \<in> set writes. is_write c" by auto
  show ?thesis
  proof (cases res)
    case (Inl e)
    with assms writing have "tr = tr3" "r = Inl e" by (auto simp: pbind_def)
    with writes show ?thesis by (intro exI [of _ writes] exI [of _ "[]"]) (simp add: closing_def)
  next
    case (Inr results)
    with assms writing have "finish_import (traced_import env) x verified results (w3, tr3) = (r, (w', tr))" by (simp add: pbind_def)
    from finish_import_trace [OF this] obtain cs where "tr = tr3 @ cs" "closing cs" "cs \<noteq> [] \<longrightarrow> results = verified"
      "\<forall>report. r = Inr report \<longrightarrow> (\<exists>e. cs = [Finalized, Recorded e]) \<and> im_partitions report = verified \<and> im_export_digest report = lx_digest x"
      by blast
    with writes writing Inr show ?thesis by (intro exI [of _ writes] exI [of _ cs]) auto
  qed
qed

text \<open>C34: whatever the artifacts and the target do, an import touches the target only after every partition was
  verified against its manifest, starting with the preflight; it finalises only after the writing pass gave the
  verified results again, records evidence only after finalising, and returns a report only after that.\<close>

theorem import_outcomes:
  assumes "import_export (traced_import env) x policy batch_size (on_world token) (w, []) = (r, (w', tr))"
  shows "(tr = [] \<and> (\<exists>e. r = Inl e)) \<or>
    (\<exists>verified w1 writes cs.
       pbind (raise_if_cancelled token) (\<lambda>_. import_partitions env policy batch_size False token (lx_partitions x)) w = (Inr verified, w1) \<and>
       list_all2 matches (lx_partitions x) verified \<and> tr = Preflighted # writes @ cs \<and> (\<forall>c \<in> set writes. is_write c) \<and> closing cs \<and>
       (cs \<noteq> [] \<longrightarrow> (\<exists>w2 w3. import_partitions (traced_import env) policy batch_size True (on_world token) (lx_partitions x) (w2, [Preflighted])
          = (Inr verified, (w3, Preflighted # writes)))) \<and>
       (\<forall>report. r = Inr report \<longrightarrow> (\<exists>e. cs = [Finalized, Recorded e]) \<and> im_partitions report = verified \<and> im_export_digest report = lx_digest x))"
proof -
  let ?verify = "pbind (raise_if_cancelled token) (\<lambda>_. import_partitions env policy batch_size False token (lx_partitions x))"
  let ?writing = "import_partitions (traced_import env) policy batch_size True (on_world token) (lx_partitions x)"
  let ?cont = "\<lambda>verified. pbind (attempt Preflighted (ie_preflight env (lx_metadata x) policy)) (\<lambda>_.
      pbind ?writing (finish_import (traced_import env) x verified))"
  from assms have "(\<exists>e. tr = [] \<and> r = Inl e) \<or> pbind (on_world ?verify) ?cont (w, []) = (r, (w', tr))"
    by (auto simp: import_export_finish guard_def on_world_pbind on_world_cancel traced_verifications pbind_assoc split: if_splits)
  then consider "\<exists>e. tr = [] \<and> r = Inl e" | verified w1 where "?verify w = (Inr verified, w1)" "?cont verified (w1, []) = (r, (w', tr))"
    by (auto simp: pbind_eq [of "on_world ?verify"] on_world_eq)
  then show ?thesis
  proof cases
    case 1
    then show ?thesis by blast
  next
    case (2 verified w1)
    have match: "list_all2 matches (lx_partitions x) verified"
      using 2(1) by (auto simp: pbind_eq_Inr dest: import_partitions_match)
    consider e where "tr = [Preflighted]" "r = Inl e"
      | w2 where "pbind ?writing (finish_import (traced_import env) x verified) (w2, [Preflighted]) = (r, (w', tr))"
      using 2(2) by (auto simp: pbind_eq [of "attempt Preflighted m" for m] attempt_eq)
    then show ?thesis
    proof cases
      case 1
      with 2(1) match show ?thesis
        by (intro disjI2 exI [of _ verified] exI [of _ w1] exI [of _ "[]"]) (simp add: closing_def)
    next
      case (2 w2)
      from written_import_trace [OF this] \<open>?verify w = (Inr verified, w1)\<close> match show ?thesis
        by (elim exE conjE) (intro disjI2 exI conjI; assumption)
    qed
  qed
qed

end
