(* ===== verification/Portability_Sample.thy ===== *)
theory Portability_Sample
  imports Portability_Trace
begin

text \<open>
  A concrete export of two partitions and its import, at which the portability theorems are applied.
\<close>

definition sample_record :: "string \<Rightarrow> json logical_record" where
  "sample_record i = \<lparr>lr_catalog = ''structured'', lr_namespace = ''shop'', lr_resource = ''orders'', lr_schema_ref = ''order.v1'',
     lr_logical_id = i, lr_version = VInt 3, lr_values = JObj [(''total'', JInt 7), (''name'', JStr i)],
     lr_object_references = [JObj [(''bucket'', JStr ''b'')]]\<rparr>"

definition sample_batches :: "string \<Rightarrow> json logical_record list list" where
  "sample_batches i = (if i = ''p'' then [[sample_record ''a'', sample_record ''b''], [sample_record ''c'']] else [[sample_record ''d'']])"

abbreviation sample_loads :: "byte list \<Rightarrow> (exn + pyval) option" where
  "sample_loads \<equiv> json_loads FiniteFloat"

definition sample_import :: "import_world import_env" where
  "sample_import = memory_import sample_loads 1024 (json_digest JNull) 0"

definition sample_request :: export_request where
  "sample_request = \<lparr>xr_resources = [''orders''], xr_batch_size = 2\<rparr>"

definition sample_boundary :: export_boundary where
  "sample_boundary = \<lparr>xb_boundary_id = ''boundary'', xb_consistency = LIVE_READ, xb_start_watermark = ''1'', xb_end_watermark = ''2''\<rparr>"

definition sample_metadata :: "json export_metadata" where
  "sample_metadata = \<lparr>xm_namespaces = [], xm_schemas = [], xm_resources = [], xm_extensions = JObj []\<rparr>"

definition sample_export :: "int logical_export" where
  "sample_export = exported sample_boundary sample_metadata [''p'', ''q''] sample_batches ''export-1'' 0"

lemma sample_readable: "i \<in> {''a'', ''b'', ''c'', ''d''} \<Longrightarrow> readable sample_loads 1024 (sample_record i)"
proof -
  assume i: "i \<in> {''a'', ''b'', ''c'', ''d''}"
  have "wf_record (sample_record i)" using i by (auto simp: wf_record_def sample_record_def export_catalogs_def catalog_names_def)
  moreover have "plain_json (record_to_mapping (sample_record i))" by (simp add: sample_record_def record_to_mapping_def)
  moreover have "int (length (record_line (sample_record i))) \<le> 1024"
    using i by (auto simp: record_line_def canonical_json_def sample_record_def record_to_mapping_def utf8_def quoted_def escape_char_def utf8_char_def Let_def
        int_text_def nat_digits.simps)
  moreover from calculation(1) have "loads_back sample_loads (sample_record i)"
    by (rule json_loads_back) (simp add: sample_record_def record_to_mapping_def)
  ultimately show ?thesis by (simp add: readable_def)
qed

lemma sample_source: "ordered_source sample_request [''p'', ''q''] sample_batches"
proof -
  have "wf_record (sample_record i) \<and> plain_json (record_to_mapping (sample_record i))" if "i \<in> {''a'', ''b'', ''c'', ''d''}" for i
    using sample_readable [OF that] by (simp add: readable_def)
  then show ?thesis by (simp add: ordered_source_def sample_batches_def sample_request_def) (simp add: sample_record_def)
qed

lemma sample_coordinator: "LogicalImportCoordinator sample_import = Inr sample_import"
  by (simp add: LogicalImportCoordinator_def sample_import_def memory_import_def)

theorem export_import_roundtrip_witness:
  "\<exists>manifest artifacts report written.
    export (memory_export sample_boundary sample_metadata [''p'', ''q''] sample_batches 0) sample_request fresh_token ''export-1''
      InMemoryLogicalArtifacts = (Inr manifest, artifacts) \<and>
    import_export sample_import manifest REPLACE 3 fresh_token (artifacts, []) = (Inr report, (artifacts, written)) \<and>
    map record_line (concat written) = map (\<lambda>i. record_line (sample_record i)) [''a'', ''b'', ''c'', ''d''] \<and>
    im_export_digest report = lx_digest manifest"
proof -
  have floats: "floats_read FiniteFloat (record_to_mapping (sample_record i))" for i by (simp add: sample_record_def record_to_mapping_def)
  have readable: "\<forall>i \<in> set [''p'', ''q'']. \<forall>b \<in> set (sample_batches i). \<forall>r \<in> set b.
      floats_read FiniteFloat (record_to_mapping r) \<and> int (length (record_line r)) \<le> 1024"
    using sample_readable by (simp add: sample_batches_def floats readable_def)
  have instant: "valid_instant 0" by (simp add: valid_instant_def max_instant_def)
  from export_import_roundtrip [OF sample_source readable sample_coordinator [unfolded sample_import_def] _ instant is_sha256_json_digest,
      of "''export-1''" 3 sample_boundary sample_metadata REPLACE]
  obtain manifest artifacts report written where
    "export (memory_export sample_boundary sample_metadata [''p'', ''q''] sample_batches 0) sample_request fresh_token ''export-1''
      InMemoryLogicalArtifacts = (Inr manifest, artifacts)"
    "import_export sample_import manifest REPLACE 3 fresh_token (artifacts, []) = (Inr report, (artifacts, written))"
    "map record_line (concat written) = map record_line (concat (concat (map sample_batches [''p'', ''q''])))"
    "im_export_digest report = lx_digest manifest"
    by (auto simp: sample_import_def)
  then show ?thesis by (simp add: sample_batches_def)
qed

section \<open>One partition\<close>

abbreviation sample_records :: "json logical_record list" where
  "sample_records \<equiv> [sample_record ''a'', sample_record ''b'', sample_record ''c'']"

abbreviation sample_world :: import_world where
  "sample_world \<equiv> (InMemoryLogicalArtifacts\<lparr>ar_artifacts := [(artifact_reference ''p'' (ndjson sample_records), ndjson sample_records)]\<rparr>, [])"

lemma sample_delivery:
  "\<exists>written. import_partition (delivering [ndjson sample_records] sample_import) REPLACE 2 wr fresh_token (partition_of ''p'' sample_records) sample_world
      = (Inr (result_of ''p'' sample_records), (fst sample_world, written)) \<and> concat written = (if wr then map sorted_record sample_records else [])"
proof -
  have "stored_partition sample_loads 1024 (fst sample_world) (''p'', sample_records)"
    unfolding stored_partition_def using sample_readable by (simp add: sample_record_def)
  from import_stored_partition [OF this, of 2 "json_digest JNull" 0 REPLACE wr] obtain written where
    "import_partition sample_import REPLACE 2 wr fresh_token (partition_of ''p'' sample_records) sample_world
      = (Inr (result_of ''p'' sample_records), (fst sample_world, written))" "concat written = (if wr then map sorted_record sample_records else [])"
    by (auto simp: sample_import_def)
  moreover have "import_partition sample_import REPLACE 2 wr fresh_token (partition_of ''p'' sample_records) sample_world
      = import_partition (delivering [ndjson sample_records] sample_import) REPLACE 2 wr fresh_token (partition_of ''p'' sample_records) sample_world"
    unfolding sample_import_def by (subst import_partition_stored [where content = "ndjson sample_records"]) (simp_all add: partition_of_def)
  ultimately show ?thesis by metis
qed

theorem chunk_boundaries_are_irrelevant_witness:
  "\<exists>written. import_partition (delivering [take 5 (ndjson sample_records), drop 5 (ndjson sample_records)] sample_import) REPLACE 2 True fresh_token
      (partition_of ''p'' sample_records) sample_world = (Inr (result_of ''p'' sample_records), (fst sample_world, written)) \<and>
    concat written = map sorted_record sample_records"
  using sample_delivery [of True]
    chunk_boundaries_are_irrelevant [OF sample_coordinator, of "[take 5 (ndjson sample_records), drop 5 (ndjson sample_records)]" REPLACE 2 True
      "partition_of ''p'' sample_records" sample_world "result_of ''p'' sample_records"]
  by (simp only: concat.simps append_Nil2 append_take_drop_id if_True)


section \<open>A whole import\<close>

theorem import_outcomes_witness:
  "\<exists>artifacts report w' tr writes e.
     export (memory_export sample_boundary sample_metadata [''p'', ''q''] sample_batches 0) sample_request fresh_token ''export-1''
       InMemoryLogicalArtifacts = (Inr sample_export, artifacts) \<and>
     import_export (traced_import sample_import) sample_export REPLACE 3 (on_world fresh_token) ((artifacts, []), []) = (Inr report, (w', tr)) \<and>
     tr = Preflighted # writes @ [Finalized, Recorded e] \<and> (\<forall>c \<in> set writes. is_write c) \<and>
     list_all2 matches (lx_partitions sample_export) (im_partitions report)"
proof -
  have instant: "valid_instant 0" by (simp add: valid_instant_def max_instant_def)
  obtain s where exports: "export (memory_export sample_boundary sample_metadata [''p'', ''q''] sample_batches 0) sample_request fresh_token ''export-1''
       InMemoryLogicalArtifacts = (Inr sample_export, s)"
    and stored: "\<forall>i \<in> set [''p'', ''q'']. map_of (ar_artifacts s) (artifact_reference i (ndjson (concat (sample_batches i)))) = Some (ndjson (concat (sample_batches i)))"
    using export_memory [OF sample_source _ instant, of "''export-1''" sample_boundary sample_metadata] unfolding sample_export_def by blast
  have "\<forall>i \<in> set [''p'', ''q'']. stored_partition sample_loads 1024 s (i, concat (sample_batches i))"
    using stored sample_source by (auto simp: stored_partition_def ordered_source_def sample_batches_def sample_readable)
  from import_exported [OF this _ _ is_sha256_json_digest instant, of 3 "''export-1''" JNull sample_boundary sample_metadata REPLACE]
  obtain report written where "import_export sample_import sample_export REPLACE 3 fresh_token (s, []) = (Inr report, (s, written))"
    unfolding sample_import_def sample_export_def by auto
  from shadowsD [OF shadows_import this, of "[]"] obtain tr where
    run: "import_export (traced_import sample_import) sample_export REPLACE 3 (on_world fresh_token) ((s, []), []) = (Inr report, ((s, written), tr))" by blast
  from import_outcomes [OF run] obtain writes e where "tr = Preflighted # writes @ [Finalized, Recorded e]" "\<forall>c \<in> set writes. is_write c"
    "list_all2 matches (lx_partitions sample_export) (im_partitions report)" by auto
  with exports run show ?thesis by blast
qed

end
