(* ===== verification/Transactional.thy ===== *)
theory Transactional
  imports Runner Tracing
begin

text \<open>
  Model of \<open>outbox/transactional.py\<close>: a source mutation and its outbox intent in one transaction.  The Core
  runtime (catalogs, normalisers, the transaction manager, execution and the registry snapshot) is a
  parameter; a \<open>ResourceRef\<close> is any type \<open>'r\<close> with equality.
\<close>

section \<open>Values of the Core runtime\<close>

record core_expression = expression +
  ex_method :: string

record 'r core_operation =
  op_catalog :: string
  op_resources :: "'r list"
  op_read_only :: bool
  op_contract :: string
  op_version :: string
  op_request_fingerprint :: "string option"
  op_input :: "(string, pyval) dict"

record 'r core_result = operation_result +
  or_catalog :: string
  or_resources :: "'r list"
  or_contract :: string
  or_version :: string
  or_registry_fingerprint :: "string option"

text \<open>\<open>SchemaRef\<close>: its parts, \<open>str(ref)\<close> and \<open>logical_name\<close>.\<close>

record schema_ref =
  sr_catalog :: string
  sr_namespace :: string
  sr_name :: string
  sr_version :: string
  sr_text :: string
  sr_logical_name :: string

text \<open>The registry snapshot a transaction pins: \<open>resource(ref).schema\<close> and \<open>schema(...).definition\<close>.\<close>

record 'r registry_snapshot =
  sn_fingerprint :: "string option"
  sn_resource_schema :: "'r \<Rightarrow> exn + schema_ref option"
  sn_schema_definition :: "schema_ref \<Rightarrow> exn + (pyval \<times> pyval) list"

record ('w, 'r, 's, 'p, 'c, 'n, 'h) meridian =
  me_catalog :: "string \<Rightarrow> ('w, 's) prog"
  me_parse :: "string \<Rightarrow> string \<Rightarrow> exn + 'r"
  me_enter :: "'r \<Rightarrow> ('w, 'h) prog"
  me_exit :: "'h \<Rightarrow> exn option \<Rightarrow> ('w, bool) prog"
  me_provider :: "string \<Rightarrow> ('w, 'p) prog"
  me_operation_for :: "string \<Rightarrow> string \<Rightarrow> ('w, 'c) prog"
  me_normalize :: "'p \<Rightarrow> core_expression \<Rightarrow> ('w, 'n) prog"
  me_validate_operation :: "'n \<Rightarrow> core_expression \<Rightarrow> 'c \<Rightarrow> ('w, 'r core_operation) prog"
  me_execute :: "core_expression \<Rightarrow> ('w, 'r core_result) prog"
  me_put :: "'s \<Rightarrow> string \<Rightarrow> json \<Rightarrow> string \<Rightarrow> ('w, core_expression) prog"
  me_current_transaction :: "('w, 'r registry_snapshot option) prog"

section \<open>Comparison\<close>

text \<open>\<open>_same\<close>: both sides are converted before they are compared.\<close>

definition same_value :: "pyval \<Rightarrow> pyval \<Rightarrow> exn + bool" where
  "same_value left right = ebind (sha256_digest left) (\<lambda>l. ebind (sha256_digest right) (\<lambda>r. Inr (l = r)))"

definition source_record :: "pyval \<Rightarrow> exn + (pyval \<times> pyval) list" where
  "source_record data =
     (case (case data of PSequence [x] \<Rightarrow> x | _ \<Rightarrow> data) of PMapping kvs \<Rightarrow> Inr kvs
      | _ \<Rightarrow> Inl (DataLifecycleValidationError ''source result must identify exactly one Data value''))"

text \<open>\<open>record.get(name)\<close>.\<close>

definition record_get :: "(pyval \<times> pyval) list \<Rightarrow> string \<Rightarrow> pyval" where
  "record_get kvs name = (case map_of kvs (PStr name) of None \<Rightarrow> PNone | Some v \<Rightarrow> v)"

fun version_pyval :: "version \<Rightarrow> pyval" where
  "version_pyval VNone = PNone"
| "version_pyval (VBool b) = PBool b"
| "version_pyval (VInt i) = PInt i"
| "version_pyval (VStr s) = PStr s"

text \<open>\<open>values[0] if len(values) == 1 else values or None\<close>.\<close>

fun identity_of :: "pyval list \<Rightarrow> pyval" where
  "identity_of [] = PNone"
| "identity_of [v] = v"
| "identity_of vs = PSequence vs"

fun identity_fields :: "pyval \<Rightarrow> exn + string list" where
  "identity_fields (PSequence fs) = emap (\<lambda>f. case f of PStr s \<Rightarrow> Inr s
     | _ \<Rightarrow> Inl (DataLifecycleValidationError ''source Schema identity is invalid'')) fs"
| "identity_fields _ = Inl (DataLifecycleValidationError ''source Schema identity is invalid'')"

fun is_source_version :: "pyval \<Rightarrow> bool" where
  "is_source_version (PInt _) = True"
| "is_source_version (PStr _) = True"
| "is_source_version PNone = True"
| "is_source_version _ = False"

text \<open>\<open>if not _same(left, right): raise\<close>.\<close>

definition require_same :: "pyval \<Rightarrow> pyval \<Rightarrow> string \<Rightarrow> exn + unit" where
  "require_same left right message =
     ebind (same_value left right) (\<lambda>same. guard same (DataLifecycleValidationError message))"

section \<open>Validation of the source result\<close>

definition check_operation ::
  "'r core_operation \<Rightarrow> core_expression \<Rightarrow> 'r core_result \<Rightarrow> 'r \<Rightarrow> odata \<Rightarrow> exn + unit" where
  "check_operation operation mutation result source intent =
     ebind (guard (op_catalog operation = od_source_catalog intent \<and> or_catalog result = op_catalog operation)
       (DataLifecycleValidationError ''source Catalog does not match outbox intent'')) (\<lambda>_.
     ebind (guard (op_resources operation = [source] \<and> or_resources result = op_resources operation)
       (DataLifecycleValidationError ''source Resource does not match outbox intent'')) (\<lambda>_.
     guard (\<not> op_read_only operation \<and> ex_method mutation = od_mutation_kind intent)
       (DataLifecycleValidationError ''source mutation kind does not match outbox intent'')))"

definition check_result :: "'r core_operation \<Rightarrow> 'r core_result \<Rightarrow> 'r registry_snapshot \<Rightarrow> exn + unit" where
  "check_result operation result registry =
     guard (or_contract result = op_contract operation \<and> or_version result = op_version operation \<and>
         or_operation_fingerprint result = op_request_fingerprint operation \<and> or_registry_fingerprint result = sn_fingerprint registry)
       (DataLifecycleValidationError ''source result does not match normalized mutation'')"

definition source_fields :: "'r registry_snapshot \<Rightarrow> 'r \<Rightarrow> odata \<Rightarrow> exn + string list" where
  "source_fields registry source intent =
     ebind (sn_resource_schema registry source) (\<lambda>schema.
     ebind (case schema of
         Some ref \<Rightarrow> if od_source_schema intent \<in> {sr_text ref, sr_logical_name ref @ ''@'' @ sr_version ref} then Inr ref
           else Inl (DataLifecycleValidationError ''source Schema does not match outbox intent'')
       | None \<Rightarrow> Inl (DataLifecycleValidationError ''source Schema does not match outbox intent'')) (\<lambda>ref.
     ebind (sn_schema_definition registry ref) (\<lambda>definition.
     identity_fields (case map_of definition (PStr ''identity'') of None \<Rightarrow> PSequence [] | Some v \<Rightarrow> v))))"

definition check_identity :: "(pyval \<times> pyval) list \<Rightarrow> string list \<Rightarrow> odata \<Rightarrow> exn + unit" where
  "check_identity record names intent =
     (let values = map (record_get record) names in
      ebind (guard (PNone \<notin> set values) (DataLifecycleValidationError ''source identity does not match outbox intent'')) (\<lambda>_.
      require_same (identity_of values) (json_val (od_source_identity intent)) ''source identity does not match outbox intent''))"

definition check_version :: "(pyval \<times> pyval) list \<Rightarrow> odata \<Rightarrow> exn + unit" where
  "check_version record intent =
     (let version = record_get record ''recordVersion'' in
      ebind (guard (is_source_version version) (DataLifecycleValidationError ''source version is invalid'')) (\<lambda>_.
      require_same version (version_pyval (od_source_version intent)) ''source version does not match outbox intent''))"

fun check_data :: "pyval option \<Rightarrow> (pyval \<times> pyval) list \<Rightarrow> string list \<Rightarrow> exn + unit" where
  "check_data (Some (PMapping data)) record names = ebind (emap (\<lambda>name. case map_of data (PStr name) of None \<Rightarrow> Inr ()
     | Some v \<Rightarrow> require_same v (record_get record name) ''source identity differs from mutation Data'') names) (\<lambda>_. Inr ())"
| "check_data _ record names = Inr ()"

fun check_payload :: "json option \<Rightarrow> (pyval \<times> pyval) list \<Rightarrow> exn + unit" where
  "check_payload (Some (JObj items)) record = ebind (emap (\<lambda>kv. case map_of record (PStr (fst kv)) of
       None \<Rightarrow> Inl (DataLifecycleValidationError ''source payload does not match result Data'')
     | Some v \<Rightarrow> require_same (json_val (snd kv)) v ''source payload does not match result Data'') items) (\<lambda>_. Inr ())"
| "check_payload _ record = Inr ()"

definition check_record :: "'r core_operation \<Rightarrow> 'r core_result \<Rightarrow> string list \<Rightarrow> odata \<Rightarrow> exn + unit" where
  "check_record operation result names intent =
     ebind (source_record (or_data result)) (\<lambda>record.
     ebind (check_identity record names intent) (\<lambda>_.
     ebind (check_version record intent) (\<lambda>_.
     ebind (check_data (map_of (op_input operation) ''data'') record names) (\<lambda>_.
     check_payload (od_payload intent) record))))"

definition validate_source ::
  "('w, 'r, 's, 'p, 'c, 'n, 'h) meridian \<Rightarrow> 'r core_operation \<Rightarrow> core_expression \<Rightarrow> 'r core_result \<Rightarrow> 'r \<Rightarrow> odata \<Rightarrow> ('w, unit) prog" where
  "validate_source me operation mutation result source intent =
     pbind (plift (check_operation operation mutation result source intent)) (\<lambda>_.
     pbind (me_current_transaction me) (\<lambda>frame.
     case frame of None \<Rightarrow> praise (AssertionError [])
     | Some registry \<Rightarrow>
         plift (ebind (check_result operation result registry) (\<lambda>_.
           ebind (source_fields registry source intent) (\<lambda>names. check_record operation result names intent)))))"

section \<open>The writer\<close>

definition TransactionalOutboxWriter :: "string \<Rightarrow> exn + unit" where
  "TransactionalOutboxWriter outbox_resource = guard (outbox_resource \<noteq> []) (ValueError ''outbox_resource must be non-empty'')"

text \<open>\<open>with manager: body\<close>: the manager is told of every exception and may swallow it.\<close>

definition pwith :: "('w, 'h) prog \<Rightarrow> ('h \<Rightarrow> exn option \<Rightarrow> ('w, bool) prog) \<Rightarrow> ('w, unit) prog \<Rightarrow> ('w, unit) prog" where
  "pwith enter exit body = pbind enter (\<lambda>h w. case body w of
       (Inr _, w1) \<Rightarrow> pbind (exit h None) (\<lambda>_. pret ()) w1
     | (Inl e, w1) \<Rightarrow> pbind (exit h (Some e)) (\<lambda>swallow. if swallow then pret () else praise e) w1)"

text \<open>The local variable is \<open>source_result\<close>.\<close>

definition commit_body ::
  "('w, 'r, 's, 'p, 'c, 'n, 'h) meridian \<Rightarrow> string \<Rightarrow> 's \<Rightarrow> 'r \<Rightarrow> core_expression \<Rightarrow> odata \<Rightarrow> ('w \<times> 'r core_result option, unit) prog" where
  "commit_body me outbox_resource structured source mutation intent =
     pbind (on_world (me_provider me (ex_catalog mutation))) (\<lambda>provider.
     pbind (on_world (me_operation_for me (ex_catalog mutation) (ex_method mutation))) (\<lambda>contract.
     pbind (on_world (me_normalize me provider mutation)) (\<lambda>normalized.
     pbind (on_world (me_validate_operation me normalized mutation contract)) (\<lambda>operation.
     pbind (on_world (me_execute me mutation)) (\<lambda>source_result.
     pbind (set_locals (\<lambda>_. Some source_result)) (\<lambda>_.
     pbind (on_world (validate_source me operation mutation source_result source intent)) (\<lambda>_.
     pbind (on_world (me_put me structured outbox_resource (outbox_to_mapping intent) ''if_absent'')) (\<lambda>expression.
     pbind (on_world (me_execute me expression)) (\<lambda>_.
     pret ())))))))))"

definition unbound_result :: exn where
  "unbound_result = PyError ''builtins'' ''UnboundLocalError''
     ''cannot access local variable 'source_result' where it is not associated with a value''"

definition commit ::
  "('w, 'r, 's, 'p, 'c, 'n, 'h) meridian \<Rightarrow> string \<Rightarrow> core_expression \<Rightarrow> odata \<Rightarrow> ('w, 'r core_result) prog" where
  "commit me outbox_resource mutation intent =
     pbind (me_catalog me ''structured'') (\<lambda>structured.
     pbind (plift (me_parse me (od_source_resource intent) (od_source_catalog intent))) (\<lambda>source.
     pbind (with_locals None (pwith (on_world (me_enter me source)) (\<lambda>h e. on_world (me_exit me h e))
       (commit_body me outbox_resource structured source mutation intent))) (\<lambda>(_, source_result).
     case source_result of Some r \<Rightarrow> pret r
     | None \<Rightarrow> praise unbound_result)))"

section \<open>The calls a commit makes\<close>

datatype 'r commit_call = Entered | Ran core_expression "'r core_result" | Exited "exn option"

definition traced_meridian ::
  "('w, 'r, 's, 'p, 'c, 'n, 'h) meridian \<Rightarrow> ('w \<times> 'r commit_call list, 'r, 's, 'p, 'c, 'n, 'h) meridian" where
  "traced_meridian me = \<lparr>me_catalog = (\<lambda>c. on_world (me_catalog me c)), me_parse = me_parse me,
     me_enter = (\<lambda>r. logged (\<lambda>_. Entered) (me_enter me r)), me_exit = (\<lambda>h e. attempt (Exited e) (me_exit me h e)),
     me_provider = (\<lambda>c. on_world (me_provider me c)), me_operation_for = (\<lambda>c n. on_world (me_operation_for me c n)),
     me_normalize = (\<lambda>p x. on_world (me_normalize me p x)),
     me_validate_operation = (\<lambda>n x c. on_world (me_validate_operation me n x c)),
     me_execute = (\<lambda>x. logged (Ran x) (me_execute me x)), me_put = (\<lambda>s r d mode. on_world (me_put me s r d mode)),
     me_current_transaction = on_world (me_current_transaction me)\<rparr>"

lemma traced_meridian_hooks [simp]:
  "me_catalog (traced_meridian me) c = on_world (me_catalog me c)" "me_parse (traced_meridian me) = me_parse me"
  "me_enter (traced_meridian me) r = logged (\<lambda>_. Entered) (me_enter me r)"
  "me_exit (traced_meridian me) h e = attempt (Exited e) (me_exit me h e)"
  "me_provider (traced_meridian me) c = on_world (me_provider me c)"
  "me_operation_for (traced_meridian me) c n = on_world (me_operation_for me c n)"
  "me_normalize (traced_meridian me) p x = on_world (me_normalize me p x)"
  "me_validate_operation (traced_meridian me) n' x contract = on_world (me_validate_operation me n' x contract)"
  "me_execute (traced_meridian me) x = logged (Ran x) (me_execute me x)"
  "me_put (traced_meridian me) s r' d mode = on_world (me_put me s r' d mode)"
  "me_current_transaction (traced_meridian me) = on_world (me_current_transaction me)"
  by (simp_all add: traced_meridian_def)

text \<open>What a validated source result shares with the intent.\<close>

definition faithful_to :: "core_expression \<Rightarrow> odata \<Rightarrow> 'r core_result \<Rightarrow> bool" where
  "faithful_to mutation intent result \<longleftrightarrow> or_catalog result = od_source_catalog intent \<and> ex_method mutation = od_mutation_kind intent \<and>
     (\<exists>record names. source_record (or_data result) = Inr record \<and> PNone \<notin> set (map (record_get record) names) \<and>
        same_value (identity_of (map (record_get record) names)) (json_val (od_source_identity intent)) = Inr True \<and>
        same_value (record_get record ''recordVersion'') (version_pyval (od_source_version intent)) = Inr True \<and>
        (\<forall>items. od_payload intent = Some (JObj items) \<longrightarrow> (\<forall>kv \<in> set items. \<exists>v. map_of record (PStr (fst kv)) = Some v \<and>
           same_value (json_val (snd kv)) v = Inr True)))"

lemma require_same_Inr: "require_same l r message = Inr u \<longleftrightarrow> same_value l r = Inr True"
  by (auto simp: require_same_def)

lemma emap_Inr_all: "emap f xs = Inr ys \<Longrightarrow> x \<in> set xs \<Longrightarrow> \<exists>y. f x = Inr y"
  by (induction xs arbitrary: ys) auto

lemma check_payload_Inr:
  "check_payload (Some (JObj items)) record = Inr u \<Longrightarrow> kv \<in> set items \<Longrightarrow>
     \<exists>v. map_of record (PStr (fst kv)) = Some v \<and> same_value (json_val (snd kv)) v = Inr True"
  by (auto simp: require_same_Inr split: option.splits dest!: emap_Inr_all [of _ _ _ kv])

lemma validate_source_faithful:
  assumes "validate_source me operation mutation result source intent w = (Inr u, w')"
  shows "faithful_to mutation intent result"
proof -
  from assms obtain names where checked: "check_operation operation mutation result source intent = Inr ()"
      "check_record operation result names intent = Inr ()"
    by (auto simp: validate_source_def pbind_eq_Inr split: option.splits)
  from checked(2) obtain rcd where "source_record (or_data result) = Inr rcd" "check_identity rcd names intent = Inr ()"
      "check_version rcd intent = Inr ()" and pay: "check_payload (od_payload intent) rcd = Inr ()"
    by (auto simp: check_record_def)
  then have "source_record (or_data result) = Inr rcd" "PNone \<notin> set (map (record_get rcd) names)"
      "same_value (identity_of (map (record_get rcd) names)) (json_val (od_source_identity intent)) = Inr True"
      "same_value (record_get rcd ''recordVersion'') (version_pyval (od_source_version intent)) = Inr True"
    by (auto simp: check_identity_def check_version_def Let_def require_same_Inr)
  moreover have "or_catalog result = od_source_catalog intent \<and> ex_method mutation = od_mutation_kind intent"
    using checked(1) by (auto simp: check_operation_def)
  moreover have "\<exists>v. map_of rcd (PStr (fst kv)) = Some v \<and> same_value (json_val (snd kv)) v = Inr True"
    if "od_payload intent = Some (JObj items)" "kv \<in> set items" for items kv
    using pay that by (intro check_payload_Inr) simp_all
  ultimately show ?thesis unfolding faithful_to_def by blast
qed

lemma traced_validate: "validate_source (traced_meridian me) operation mutation result source intent (w, tr) = (r, (w', tr')) \<longleftrightarrow>
    validate_source me operation mutation result source intent w = (r, w') \<and> tr' = tr"
  by (auto simp: validate_source_def pbind_eq on_world_eq split: option.splits)

lemma commit_body_trace:
  assumes "commit_body (traced_meridian me) outbox_resource structured source mutation intent ((w, tr), None) = (res, ((w', tr'), l))"
  shows "(\<exists>e. res = Inl e \<and> (tr' = tr \<or> (\<exists>result. tr' = tr @ [Ran mutation result]))) \<or>
    (\<exists>result expression stored. res = Inr () \<and> l = Some result \<and> tr' = tr @ [Ran mutation result, Ran expression stored] \<and>
       faithful_to mutation intent result \<and>
       (\<exists>w1 w2. me_put me structured outbox_resource (outbox_to_mapping intent) ''if_absent'' w1 = (Inr expression, w2)))"
  using assms unfolding commit_body_def
  by (fastforce simp: pbind_eq on_world_eq logged_eq traced_validate dest: validate_source_faithful)

lemma pwith_trace:
  assumes "\<forall>h e w w'. me_exit me h (Some e) w \<noteq> (Inr True, w')"
    and "pwith (on_world (me_enter (traced_meridian me) source)) (\<lambda>h e. on_world (me_exit (traced_meridian me) h e)) body ((w, tr), l)
      = (res, ((w', tr'), l'))"
  shows "(\<exists>e. res = Inl e \<and> tr' = tr) \<or>
    (\<exists>w0 bres w1 tr1. body ((w0, tr @ [Entered]), l) = (bres, ((w1, tr1), l')) \<and>
       (case bres of Inr _ \<Rightarrow> tr' = tr1 @ [Exited None] \<and> (res = Inr () \<or> (\<exists>e. res = Inl e))
        | Inl e \<Rightarrow> tr' = tr1 @ [Exited (Some e)] \<and> (\<exists>e'. res = Inl e')))"
proof -
  obtain eres w0 where entered: "me_enter me source w = (eres, w0)" by fastforce
  show ?thesis
  proof (cases eres)
    case (Inl e)
    with assms(2) entered show ?thesis by (auto simp: pwith_def pbind_def on_world_def logged_def)
  next
    case (Inr h)
    obtain bres w1 tr1 l1 where b: "body ((w0, tr @ [Entered]), l) = (bres, ((w1, tr1), l1))" by (metis surj_pair)
    obtain xres w2 where x: "me_exit me h (case bres of Inr _ \<Rightarrow> None | Inl e \<Rightarrow> Some e) w1 = (xres, w2)" by fastforce
    have "xres \<noteq> Inr True" if "bres = Inl e" for e using assms(1) x that by fastforce
    with assms(2) entered Inr b x show ?thesis
      by (cases bres; cases xres)
        (auto simp: pwith_def pbind_def on_world_def logged_def attempt_def split: if_splits intro!: exI [of _ w0])
  qed
qed


subsection \<open>A commit\<close>

definition sample_mutation :: core_expression where
  "sample_mutation = \<lparr>ex_catalog = ''structured'', ex_arguments = [], ex_method = ''put''\<rparr>"

definition sample_source_result :: "string core_result" where
  "sample_source_result = \<lparr>or_data = PMapping [(PStr ''id'', PStr ''a''), (PStr ''recordVersion'', PInt 1)], or_operation_fingerprint = None,
     or_catalog = ''structured'', or_resources = [''orders''], or_contract = ''put'', or_version = ''1'', or_registry_fingerprint = None\<rparr>"

definition sample_registry :: "string registry_snapshot" where
  "sample_registry = \<lparr>sn_fingerprint = None,
     sn_resource_schema = (\<lambda>_. Inr (Some \<lparr>sr_catalog = ''structured'', sr_namespace = ''shop'', sr_name = ''order'', sr_version = ''1'',
       sr_text = ''structured:shop.order@1'', sr_logical_name = ''shop.order''\<rparr>)),
     sn_schema_definition = (\<lambda>_. Inr [(PStr ''identity'', PSequence [PStr ''id''])])\<rparr>"

definition sample_meridian :: "(unit, string, unit, unit, unit, unit, unit) meridian" where
  "sample_meridian = \<lparr>me_catalog = (\<lambda>_. pret ()), me_parse = (\<lambda>r _. Inr r), me_enter = (\<lambda>_. pret ()), me_exit = (\<lambda>_ _. pret False),
     me_provider = (\<lambda>_. pret ()), me_operation_for = (\<lambda>_ _. pret ()), me_normalize = (\<lambda>_ _. pret ()),
     me_validate_operation = (\<lambda>_ _ _. pret \<lparr>op_catalog = ''structured'', op_resources = [''orders''], op_read_only = False, op_contract = ''put'',
       op_version = ''1'', op_request_fingerprint = None, op_input = []\<rparr>),
     me_execute = (\<lambda>_. pret sample_source_result), me_put = (\<lambda>_ _ _ _. pret sample_mutation),
     me_current_transaction = pret (Some sample_registry)\<rparr>"

definition sample_intent :: odata where
  "sample_intent = \<lparr>od_source_resource = ''orders'', od_source_schema = ''shop.order@1'', od_source_identity = JStr ''a'', od_mutation_kind = ''put'',
     od_source_version = VInt 1, od_payload = Some (JObj [(''id'', JStr ''a'')]), od_immutable_reference = None, od_target_labels = [],
     od_occurred_at = 0, od_operation_context = JObj [], od_source_catalog = ''structured'', od_event_id = ''e1'', od_digest = [],
     od_format_version = ''meridian.outbox.v1''\<rparr>"

lemma same_value_refl [simp]: "json_value v = Inr j \<Longrightarrow> same_value v v = Inr True"
  by (simp add: same_value_def sha256_digest_def canonical_json_bytes_def)

lemma sample_validated:
  "validate_source sample_meridian \<lparr>op_catalog = ''structured'', op_resources = [''orders''], op_read_only = False, op_contract = ''put'',
     op_version = ''1'', op_request_fingerprint = None, op_input = []\<rparr> sample_mutation sample_source_result ''orders'' sample_intent = pret ()"
  by (simp add: validate_source_def sample_meridian_def sample_registry_def sample_mutation_def sample_source_result_def sample_intent_def
      check_operation_def check_result_def source_fields_def check_record_def source_record_def check_identity_def check_version_def record_get_def
      require_same_def Let_def guard_def pbind_def fun_eq_iff)

lemma sample_meridian_hooks [simp]:
  "me_catalog sample_meridian c = pret ()" "me_parse sample_meridian r c' = Inr r" "me_enter sample_meridian r = pret ()"
  "me_exit sample_meridian h e = pret False" "me_provider sample_meridian c = pret ()" "me_operation_for sample_meridian c k = pret ()"
  "me_normalize sample_meridian p x = pret ()" "me_execute sample_meridian x = pret sample_source_result"
  "me_put sample_meridian s r' d mode = pret sample_mutation"
  "me_validate_operation sample_meridian n x q = pret \<lparr>op_catalog = ''structured'', op_resources = [''orders''], op_read_only = False,
     op_contract = ''put'', op_version = ''1'', op_request_fingerprint = None, op_input = []\<rparr>"
  by (simp_all add: sample_meridian_def)

lemma sample_commit:
  "commit (traced_meridian sample_meridian) ''outbox'' sample_mutation sample_intent ((), []) =
     (Inr sample_source_result, ((), [Entered, Ran sample_mutation sample_source_result, Ran sample_mutation sample_source_result, Exited None]))"
proof -
  let ?op = "\<lparr>op_catalog = ''structured'', op_resources = [''orders''], op_read_only = False, op_contract = ''put'',
     op_version = ''1'', op_request_fingerprint = None, op_input = []\<rparr>"
  have validated: "validate_source (traced_meridian sample_meridian) ?op sample_mutation sample_source_result ''orders'' sample_intent ((), tr)
      = (Inr (), ((), tr))" for tr
    unfolding traced_validate using sample_validated by simp
  have source: "od_source_resource sample_intent = ''orders''" by (simp add: sample_intent_def)
  show ?thesis
    unfolding commit_def commit_body_def pwith_def traced_meridian_hooks source
    by (simp add: pbind_def on_world_def logged_def attempt_def with_locals_def validated)
qed


end
