(* ===== verification/Versioned_Target.thy ===== *)
theory Versioned_Target
  imports Runner
begin

text \<open>
  Model of \<open>examples/versioned_target.py\<close>: the projector that keeps every version of a source as a row of its own
  and the reduction of a complete set of rows to the latest visible one of each source.  Sources are JSON data.
\<close>

section \<open>The projector\<close>

text \<open>\<open>canonical\<close> of JSON data: the normal form of each part is written with sorted keys.\<close>

definition canonical_text :: "json \<Rightarrow> string" where
  "canonical_text value = json_text value"

definition canonical_digest :: "json \<Rightarrow> string" where
  "canonical_digest value = hexdigest (utf8 (canonical_text value))"

fun integer_version :: "pyval \<Rightarrow> exn + int" where
  "integer_version (PInt i) = Inr i"
| "integer_version _ = Inl (ValueError ''the initial projection profile requires integer source versions'')"

definition source_key :: "projection_context \<Rightarrow> json \<Rightarrow> string" where
  "source_key context scope = canonical_digest (JList [JStr (pc_projection context), scope, JStr (pc_source_catalog context),
     JStr (pc_source_resource context), pc_source_identity context])"

text \<open>\<open>source.get("deleted", False)\<close> has to be a \<open>bool\<close>.\<close>

definition deleted_flag :: "(string \<times> json) list \<Rightarrow> exn + bool" where
  "deleted_flag source = (case map_of source ''deleted'' of None \<Rightarrow> Inr False | Some (JBool b) \<Rightarrow> Inr b
     | _ \<Rightarrow> Inl (ValueError ''deleted must be boolean''))"

text \<open>\<open>put\<close> is \<open>structured.put\<close> of the Core.\<close>

definition version_value :: "version \<Rightarrow> pyval" where
  "version_value v = (case v of VNone \<Rightarrow> PNone | VBool b \<Rightarrow> PBool b | VInt i \<Rightarrow> PInt i | VStr s \<Rightarrow> PStr s)"

definition project ::
  "(string \<Rightarrow> string \<Rightarrow> json \<Rightarrow> exn + 'x) \<Rightarrow> string \<Rightarrow> json \<Rightarrow> (string \<times> json) list \<Rightarrow> projection_context \<Rightarrow> exn + 'x" where
  "project put target scope source context =
     ebind (integer_version (version_value (pc_source_version context))) (\<lambda>version.
     let key = source_key context (sorted_json scope) in
     ebind (deleted_flag source) (\<lambda>deleted.
     put target ''upsert'' (JObj [(''id'', JStr (canonical_digest (JList [JStr key, JInt version]))), (''sourceKey'', JStr key),
       (''sourceVersion'', JInt version), (''deleted'', JBool (deleted \<or> pc_mutation_kind context = ''delete'')),
       (''document'', sorted_json (JObj source))])))"

section \<open>The latest visible rows\<close>

type_synonym row = "(string, pyval) dict"

definition row_item :: "row \<Rightarrow> string \<Rightarrow> exn + pyval" where
  "row_item row name = (case map_of row name of None \<Rightarrow> Inl (KeyError name) | Some v \<Rightarrow> Inr v)"

definition invalid_row :: exn where
  "invalid_row = ValueError ''invalid versioned target row''"

text \<open>The key and the version of a row; its flag has to be a \<open>bool\<close>.\<close>

definition row_version :: "row \<Rightarrow> exn + int" where
  "row_version row = ebind (row_item row ''sourceVersion'') integer_version"

definition row_key :: "row \<Rightarrow> exn + string" where
  "row_key row =
     ebind (row_item row ''sourceKey'') (\<lambda>key.
     case key of PStr k \<Rightarrow> ebind (row_item row ''deleted'') (\<lambda>d. case d of PBool _ \<Rightarrow> Inr k | _ \<Rightarrow> Inl invalid_row)
     | _ \<Rightarrow> Inl invalid_row)"

definition latest_step :: "row \<Rightarrow> (string, row) dict \<Rightarrow> exn + (string, row) dict" where
  "latest_step row latest =
     ebind (row_key row) (\<lambda>key.
     ebind (row_version row) (\<lambda>version.
     case map_of latest key of
       None \<Rightarrow> Inr (AList.update key row latest)
     | Some held \<Rightarrow> ebind (row_version held) (\<lambda>v. Inr (if v < version then AList.update key row latest else latest))))"

fun latest_rows :: "row list \<Rightarrow> (string, row) dict \<Rightarrow> exn + (string, row) dict" where
  "latest_rows [] latest = Inr latest"
| "latest_rows (row # rows) latest = ebind (latest_step row latest) (latest_rows rows)"

definition row_deleted :: "row \<Rightarrow> bool" where
  "row_deleted row \<longleftrightarrow> map_of row ''deleted'' = Some (PBool True)"

definition latest_visible :: "row list \<Rightarrow> (row \<Rightarrow> bool) \<Rightarrow> exn + row list" where
  "latest_visible rows matches =
     ebind (latest_rows rows []) (\<lambda>latest.
     Inr (filter (\<lambda>row. \<not> row_deleted row \<and> matches row) (map snd (sort_key fst latest))))"

section \<open>Correctness\<close>

text \<open>The last word on a source: no earlier row has its version, no later row a higher one.\<close>

definition is_latest :: "row list \<Rightarrow> row \<Rightarrow> bool" where
  "is_latest rows row \<longleftrightarrow> (\<exists>before_rows after_rows. rows = before_rows @ row # after_rows \<and>
     (\<forall>r \<in> set before_rows. row_key r = row_key row \<longrightarrow> projr (row_version r) < projr (row_version row)) \<and>
     (\<forall>r \<in> set after_rows. row_key r = row_key row \<longrightarrow> projr (row_version r) \<le> projr (row_version row)))"

definition well_formed_row :: "row \<Rightarrow> bool" where
  "well_formed_row row \<longleftrightarrow> (\<exists>k v. row_key row = Inr k \<and> row_version row = Inr v)"

text \<open>The rows held are the latest of what was read, under their keys.\<close>

definition holds_latest :: "row list \<Rightarrow> (string, row) dict \<Rightarrow> bool" where
  "holds_latest rows latest \<longleftrightarrow> distinct (map fst latest) \<and> (\<forall>k row. map_of latest k = Some row \<longleftrightarrow> is_latest rows row \<and> row_key row = Inr k) \<and>
     (\<forall>r \<in> set rows. \<exists>k held. row_key r = Inr k \<and> map_of latest k = Some held)"

lemma is_latest_snoc:
  "is_latest (rows @ [x]) row \<longleftrightarrow> (row = x \<and> (\<forall>r \<in> set rows. row_key r = row_key x \<longrightarrow> projr (row_version r) < projr (row_version x))) \<or>
     (is_latest rows row \<and> (row_key x = row_key row \<longrightarrow> projr (row_version x) \<le> projr (row_version row)))"
    (is "?l \<longleftrightarrow> ?new \<or> ?old")
proof
  assume ?l
  then obtain bs as where split: "rows @ [x] = bs @ row # as" "\<forall>r \<in> set bs. row_key r = row_key row \<longrightarrow> projr (row_version r) < projr (row_version row)"
    "\<forall>r \<in> set as. row_key r = row_key row \<longrightarrow> projr (row_version r) \<le> projr (row_version row)" unfolding is_latest_def by blast
  show "?new \<or> ?old"
  proof (cases as rule: rev_cases)
    case Nil
    with split show ?thesis by auto
  next
    case (snoc as' y)
    with split have "rows = bs @ row # as'" "y = x" by auto
    with split snoc show ?thesis unfolding is_latest_def by auto
  qed
next
  assume "?new \<or> ?old"
  then show ?l
  proof
    assume ?new
    then show ?l unfolding is_latest_def by (intro exI [of _ rows] exI [of _ "[]"]) auto
  next
    assume old: ?old
    then obtain bs as where "rows = bs @ row # as" "\<forall>r \<in> set bs. row_key r = row_key row \<longrightarrow> projr (row_version r) < projr (row_version row)"
      "\<forall>r \<in> set as. row_key r = row_key row \<longrightarrow> projr (row_version r) \<le> projr (row_version row)" unfolding is_latest_def by blast
    with old show ?l unfolding is_latest_def by (intro exI [of _ bs] exI [of _ "as @ [x]"]) auto
  qed
qed

lemma is_latest_max:
  assumes "is_latest rows row" and "r \<in> set rows" and "row_key r = row_key row"
  shows "projr (row_version r) \<le> projr (row_version row)"
  using assms unfolding is_latest_def by fastforce

text \<open>A row challenges the latest one of its source.\<close>

lemma latest_challenged:
  assumes old: "\<And>row. is_latest rows row \<and> row_key row = Inr k \<longleftrightarrow> row = held"
    and x: "row_key x = Inr k" "row_version x = Inr v" and u: "row_version held = Inr u"
  shows "is_latest (rows @ [x]) row \<and> row_key row = Inr k \<longleftrightarrow> row = (if u < v then x else held)"
proof (cases "u < v")
  case True
  from old have held: "is_latest rows held" "row_key held = Inr k" by blast+
  have "projr (row_version r) < v" if "r \<in> set rows" "row_key r = Inr k" for r
    using is_latest_max [OF held(1) that(1)] that(2) held(2) u True by simp
  then have new: "\<forall>r \<in> set rows. row_key r = row_key x \<longrightarrow> projr (row_version r) < projr (row_version x)" using x by simp
  have "\<not> (is_latest rows row \<and> (row_key x = row_key row \<longrightarrow> projr (row_version x) \<le> projr (row_version row)) \<and> row_key row = Inr k)"
    using old [of row] True x u by force
  with new True x(1) show ?thesis unfolding is_latest_snoc by metis
next
  case False
  from old have held: "is_latest rows held" "row_key held = Inr k" by blast+
  then have "held \<in> set rows" by (auto simp: is_latest_def)
  with False have "\<not> (\<forall>r \<in> set rows. row_key r = row_key x \<longrightarrow> projr (row_version r) < projr (row_version x))"
    using held(2) x u by auto
  moreover have "projr (row_version x) \<le> projr (row_version held)" using False x u by simp
  ultimately show ?thesis using False old [of row] held x(1) unfolding is_latest_snoc by metis
qed

lemma latest_step_holds:
  assumes "holds_latest rows latest" and "latest_step x latest = Inr latest'"
  shows "holds_latest (rows @ [x]) latest' \<and> well_formed_row x"
proof -
  from assms(2) obtain k v where x: "row_key x = Inr k" "row_version x = Inr v" by (auto simp: latest_step_def)
  have others: "is_latest (rows @ [x]) row \<and> row_key row = Inr k' \<longleftrightarrow> is_latest rows row \<and> row_key row = Inr k'" if "k' \<noteq> k" for row k'
    using that x by (auto simp: is_latest_snoc)
  have inv: "distinct (map fst latest)" "\<And>k row. map_of latest k = Some row \<longleftrightarrow> is_latest rows row \<and> row_key row = Inr k"
    "\<And>r. r \<in> set rows \<Longrightarrow> \<exists>k held. row_key r = Inr k \<and> map_of latest k = Some held"
    using assms(1) unfolding holds_latest_def by blast+
  have "\<exists>c. map_of latest' = (map_of latest)(k \<mapsto> c) \<and> distinct (map fst latest') \<and>
      (\<forall>row. is_latest (rows @ [x]) row \<and> row_key row = Inr k \<longleftrightarrow> row = c)"
  proof (cases "map_of latest k")
    case None
    with assms(2) x have latest': "latest' = AList.update k x latest" by (simp add: latest_step_def)
    have new: "row_key r \<noteq> Inr k" if "r \<in> set rows" for r using inv(3) [OF that] None by auto
    have "is_latest (rows @ [x]) row \<and> row_key row = Inr k \<longleftrightarrow> row = x" for row
      using x new None inv(2) [of k row] by (auto simp: is_latest_snoc)
    with inv(1) show ?thesis unfolding latest' by (intro exI [of _ x]) (simp add: distinct_update)
  next
    case (Some held)
    from assms(2) x Some obtain u where u: "row_version held = Inr u" and latest': "latest' = (if u < v then AList.update k x latest else latest)"
      by (auto simp: latest_step_def)
    have "is_latest rows row \<and> row_key row = Inr k \<longleftrightarrow> row = held" for row using inv(2) [of k row] Some by auto
    from latest_challenged [OF this x u] have "is_latest (rows @ [x]) row \<and> row_key row = Inr k \<longleftrightarrow> row = (if u < v then x else held)" for row .
    with inv(1) Some show ?thesis unfolding latest'
      by (intro exI [of _ "if u < v then x else held"]) (auto simp: distinct_update fun_upd_idem)
  qed
  then obtain c where latest': "map_of latest' = (map_of latest)(k \<mapsto> c)" "distinct (map fst latest')"
    and c: "\<And>row. is_latest (rows @ [x]) row \<and> row_key row = Inr k \<longleftrightarrow> row = c" by blast
  have "map_of latest' k' = Some row \<longleftrightarrow> is_latest (rows @ [x]) row \<and> row_key row = Inr k'" for k' row
    using c [of row] others [of k' row] inv(2) [of k' row] by (cases "k' = k") (auto simp: latest'(1))
  moreover have "\<exists>k held. row_key r = Inr k \<and> map_of latest' k = Some held" if "r \<in> set (rows @ [x])" for r
  proof (cases "r \<in> set rows")
    case True
    from inv(3) [OF this] show ?thesis by (auto simp: latest'(1))
  next
    case False
    with that x show ?thesis by (simp add: latest'(1))
  qed
  ultimately show ?thesis using x latest'(2) unfolding holds_latest_def well_formed_row_def by blast
qed

lemma latest_rows_hold:
  "holds_latest seen latest \<Longrightarrow> latest_rows rows latest = Inr latest' \<Longrightarrow> holds_latest (seen @ rows) latest' \<and> (\<forall>r \<in> set rows. well_formed_row r)"
proof (induction rows arbitrary: seen latest)
  case (Cons r rows)
  then obtain next_latest where one: "latest_step r latest = Inr next_latest" and others: "latest_rows rows next_latest = Inr latest'" by auto
  from latest_step_holds [OF Cons.prems(1) one] Cons.IH [OF _ others, of "seen @ [r]"] show ?case by simp
qed simp

lemma latest_step_total: "holds_latest seen latest \<Longrightarrow> well_formed_row r \<Longrightarrow> \<forall>s \<in> set seen. well_formed_row s \<Longrightarrow> \<exists>latest'. latest_step r latest = Inr latest'"
proof -
  assume holds: "holds_latest seen latest" and r: "well_formed_row r" and seen: "\<forall>s \<in> set seen. well_formed_row s"
  from r obtain k v where kv: "row_key r = Inr k" "row_version r = Inr v" by (auto simp: well_formed_row_def)
  show ?thesis
  proof (cases "map_of latest k")
    case (Some held)
    with holds have "held \<in> set seen" by (auto simp: holds_latest_def is_latest_def)
    with seen Some kv show ?thesis by (auto simp: latest_step_def well_formed_row_def)
  qed (simp add: latest_step_def kv)
qed

lemma latest_rows_total:
  "holds_latest seen latest \<Longrightarrow> \<forall>s \<in> set seen. well_formed_row s \<Longrightarrow> \<forall>r \<in> set rows. well_formed_row r \<Longrightarrow> \<exists>latest'. latest_rows rows latest = Inr latest'"
proof (induction rows arbitrary: seen latest)
  case (Cons r rows)
  from latest_step_total [OF Cons.prems(1) _ Cons.prems(2), of r] Cons.prems(3) obtain next_latest where one: "latest_step r latest = Inr next_latest" by auto
  with latest_step_holds [OF Cons.prems(1) one] Cons.IH [of "seen @ [r]" next_latest] Cons.prems show ?case by auto
qed simp

text \<open>C40: the reduction succeeds exactly when every row has a string key, a boolean flag and an integer version.  It
  then returns, ordered by key and once per source, the rows that are the latest of their source, are no tombstone
  and satisfy the predicate: a source whose latest row is deleted or does not match shows nothing, and among rows
  of one version the first read counts.\<close>

theorem latest_visible_contract:
  "case latest_visible rows matches of
     Inl _ \<Rightarrow> \<exists>row \<in> set rows. \<not> well_formed_row row
   | Inr visible \<Rightarrow> (\<forall>row \<in> set rows. well_formed_row row) \<and> sorted_wrt (<) (map (projr \<circ> row_key) visible) \<and>
       set visible = {row. is_latest rows row \<and> \<not> row_deleted row \<and> matches row}"
proof -
  have empty: "holds_latest [] []" by (simp add: holds_latest_def is_latest_def)
  show ?thesis
  proof (cases "latest_rows rows []")
    case (Inl e)
    with latest_rows_total [OF empty, of rows] show ?thesis by (auto simp: latest_visible_def)
  next
    case (Inr latest)
    from latest_rows_hold [OF empty Inr] have inv: "distinct (map fst latest)"
      "\<And>k row. map_of latest k = Some row \<longleftrightarrow> is_latest rows row \<and> row_key row = Inr k"
      and wf: "\<forall>r \<in> set rows. well_formed_row r" unfolding holds_latest_def by simp_all
    have key: "row_key (snd kr) = Inr (fst kr)" if "kr \<in> set latest" for kr
    proof -
      from that inv(1) have "map_of latest (fst kr) = Some (snd kr)" by (intro map_of_is_SomeI) simp_all
      then show ?thesis using inv(2) [of "fst kr" "snd kr"] by blast
    qed
    let ?sorted = "sort_key fst latest" and ?ok = "\<lambda>row. \<not> row_deleted row \<and> matches row"
    have "map (projr \<circ> row_key) (map snd ?sorted) = map fst ?sorted" using key by simp
    moreover have "sorted_wrt (<) (map fst ?sorted)"
      unfolding strict_sorted_iff using inv(1) by (simp only: distinct_fst_sort sorted_sort_key simp_thms)
    ultimately have "sorted_wrt (<) (map (projr \<circ> row_key) (map snd ?sorted))" by (simp only:)
    then have "sorted_wrt (<) (map (projr \<circ> row_key) (filter ?ok (map snd ?sorted)))"
      unfolding sorted_wrt_map [of _ "projr \<circ> row_key"] by (rule sorted_wrt_filter)
    moreover have "snd ` set latest = {row. is_latest rows row}"
    proof -
      have "is_latest rows row \<longleftrightarrow> (\<exists>k. map_of latest k = Some row)" for row
      proof
        assume l: "is_latest rows row"
        then have "row \<in> set rows" by (auto simp: is_latest_def)
        with wf obtain k where "row_key row = Inr k" by (auto simp: well_formed_row_def)
        with l inv(2) show "\<exists>k. map_of latest k = Some row" by blast
      qed (use inv(2) in blast)
      then show ?thesis using inv(1) by (force simp: map_of_eq_Some_iff)
    qed
    ultimately show ?thesis using wf by (auto simp: latest_visible_def Inr)
  qed
qed

definition sample_row :: "string \<Rightarrow> int \<Rightarrow> bool \<Rightarrow> row" where
  "sample_row key version deleted = [(''sourceKey'', PStr key), (''sourceVersion'', PInt version), (''deleted'', PBool deleted)]"

text \<open>A stale row read after the tombstone of its source does not bring the source back.\<close>

theorem latest_visible_contract_witness:
  "latest_visible [sample_row ''b'' 1 False, sample_row ''a'' 2 True, sample_row ''a'' 1 False] (\<lambda>_. True) = Inr [sample_row ''b'' 1 False] \<and>
   {row. is_latest [sample_row ''b'' 1 False, sample_row ''a'' 2 True, sample_row ''a'' 1 False] row \<and> \<not> row_deleted row} = {sample_row ''b'' 1 False}"
proof -
  have run: "latest_visible [sample_row ''b'' 1 False, sample_row ''a'' 2 True, sample_row ''a'' 1 False] (\<lambda>_. True) = Inr [sample_row ''b'' 1 False]"
    by (simp add: latest_visible_def latest_step_def row_key_def row_version_def row_item_def row_deleted_def sample_row_def)
  with latest_visible_contract [of "[sample_row ''b'' 1 False, sample_row ''a'' 2 True, sample_row ''a'' 1 False]" "\<lambda>_. True"]
  show ?thesis by auto
qed

end
