(* ===== verification/Conformance.thy ===== *)
theory Conformance
  imports Runner
begin

text \<open>
  Model of \<open>testing/outbox_conformance.py\<close>: the lifecycle assertions an outbox adapter runs against its port.  The
  harness callbacks are parameters over the adapter's world; a failed \<open>assert\<close> is an \<open>AssertionError\<close>.
  The interpreter runs with assertions on, which the suite requires (\<open>__debug__\<close>).
\<close>

section \<open>Harness\<close>

record 'w conformance_target =
  ct_outbox :: "'w outbox_port"
  ct_seed :: "odata \<Rightarrow> ('w, unit) prog"
  ct_inspect_record :: "string \<Rightarrow> ('w, outbox_record) prog"
  ct_checkpoint :: "string \<Rightarrow> ('w, checkpoint) prog"
  ct_reopen :: "('w, 'w outbox_port) prog"
  ct_source_resource :: string
  ct_source_schema :: string
  ct_target_labels :: "string list"
  ct_source_catalog :: string

record conformance_report =
  cf_checks :: "string list"
  cf_same_owner_completion :: string
  cf_same_owner_release :: string

definition report_to_mapping :: "conformance_report \<Rightarrow> json" where
  "report_to_mapping r = JObj [(''checks'', JList (map JStr (cf_checks r))), (''sameOwnerCompletion'', JStr (cf_same_owner_completion r)),
     (''sameOwnerRelease'', JStr (cf_same_owner_release r)), (''generationFencing'', JStr ''unsupported-by-owner-only-contract''),
     (''durability'', JStr ''requires-adapter-owned-real-storage-and-restart-evidence'')]"

definition passert :: "bool \<Rightarrow> ('w, unit) prog" where
  "passert ok = (if ok then pret () else praise (AssertionError []))"

text \<open>\<open>_reject\<close>; \<open>ce\<close> gives \<open>str(error)\<close>, the text of the assertion that fails on another code.\<close>

definition reject :: "core_errors \<Rightarrow> ('w, 'a) prog \<Rightarrow> string \<Rightarrow> ('w, unit) prog" where
  "reject ce call code w = (case call w of
       (Inr _, w') \<Rightarrow> (Inl (AssertionError (''expected '' @ code)), w')
     | (Inl e, w') \<Rightarrow> if \<not> is_meridian_error e then (Inl e, w')
         else if exn_code e = code then (Inr (), w') else (Inl (AssertionError (ce_str ce e)), w'))"

text \<open>\<open>(x,) = xs\<close>.\<close>

fun unpack_one :: "'a list \<Rightarrow> exn + 'a" where
  "unpack_one [x] = Inr x"
| "unpack_one [] = Inl (ValueError ''not enough values to unpack (expected 1, got 0)'')"
| "unpack_one _ = Inl (ValueError ''too many values to unpack (expected 1)'')"

text \<open>\<open>needle in text\<close>.\<close>

fun contains_text :: "string \<Rightarrow> string \<Rightarrow> bool" where
  "contains_text needle [] \<longleftrightarrow> needle = []"
| "contains_text needle (c # cs) \<longleftrightarrow> take (length needle) (c # cs) = needle \<or> contains_text needle cs"

text \<open>2026-01-01T00:00:00Z.\<close>

definition suite_now :: int where
  "suite_now = 63902822400000000"

definition suite_time :: "int \<Rightarrow> datetime" where
  "suite_time second = utc_datetime (suite_now + 1000000 * second)"

definition suite_fingerprint :: string where
  "suite_fingerprint = ''sha256:'' @ replicate 64 (CHR ''a'')"

definition suite_event :: "'w conformance_target \<Rightarrow> string \<Rightarrow> string \<Rightarrow> int \<Rightarrow> exn + odata" where
  "suite_event t name identity version = OutboxDataV1 \<lparr>od_source_resource = ct_source_resource t, od_source_schema = ct_source_schema t,
     od_source_identity = PStr identity, od_mutation_kind = ''put'', od_source_version = VInt version,
     od_payload = Some (PMapping [(PStr ''id'', PStr identity)]), od_immutable_reference = None, od_target_labels = ct_target_labels t,
     od_occurred_at = suite_time 0, od_operation_context = PMapping [], od_source_catalog = ct_source_catalog t, od_event_id = name,
     od_digest = [], od_format_version = outbox_format_version\<rparr>"

definition suite_claim :: "'w outbox_port \<Rightarrow> string \<Rightarrow> int \<Rightarrow> int \<Rightarrow> ('w, outbox_record list) prog" where
  "suite_claim port owner second duration = port_claim port owner 1 (1000000 * duration) (suite_time second)"

definition suite_complete :: "'w outbox_port \<Rightarrow> odata \<Rightarrow> string \<Rightarrow> int \<Rightarrow> version \<Rightarrow> ('w, checkpoint) prog" where
  "suite_complete port d owner second version = port_complete port (od_event_id d) owner version suite_fingerprint (suite_time second)"

definition suite_release :: "'w outbox_port \<Rightarrow> odata \<Rightarrow> string \<Rightarrow> int \<Rightarrow> ('w, outbox_record) prog" where
  "suite_release port d owner second = port_release port (od_event_id d) owner (RuntimeError ''token=synthetic-secret'') True (suite_time second)"

definition unchanged :: "'w conformance_target \<Rightarrow> odata \<Rightarrow> outbox_record \<Rightarrow> checkpoint \<Rightarrow> ('w, unit) prog" where
  "unchanged t d before_record cp =
     pbind (ct_inspect_record t (od_event_id d)) (\<lambda>r.
     pbind (passert (r = before_record)) (\<lambda>_.
     pbind (ct_checkpoint t (partition_key d)) (\<lambda>c.
     passert (c = cp))))"

text \<open>\<open>assert f(record.lease)\<close> where the lease may be missing.\<close>

definition lease_is :: "outbox_record \<Rightarrow> (int outbox_lease \<Rightarrow> bool) \<Rightarrow> bool" where
  "lease_is r f = (case rec_lease r of None \<Rightarrow> False | Some l \<Rightarrow> f l)"

section \<open>The suite\<close>

abbreviation lease_lost_code :: string where
  "lease_lost_code \<equiv> ''MERIDIAN_OUTBOX_LEASE_LOST''"

definition claim_one :: "'w outbox_port \<Rightarrow> string \<Rightarrow> int \<Rightarrow> int \<Rightarrow> ('w, outbox_record) prog" where
  "claim_one port owner second duration = pbind (suite_claim port owner second duration) (\<lambda>rs. plift (unpack_one rs))"

definition ordering_checks ::
  "'w conformance_target \<Rightarrow> 'w outbox_port \<Rightarrow> odata \<Rightarrow> odata \<Rightarrow> odata \<Rightarrow> ('w, outbox_record) prog" where
  "ordering_checks t port d1 d2 d3 =
     pbind (ct_seed t d1) (\<lambda>_.
     pbind (ct_seed t d2) (\<lambda>_.
     pbind (ct_seed t d3) (\<lambda>_.
     pbind (port_lag port (Some (suite_time 0))) (\<lambda>lag.
     pbind (passert (lag_incomplete_count lag = 3)) (\<lambda>_.
     pbind (claim_one port ''owner-a'' 0 1) (\<lambda>leased.
     pbind (passert (rec_data leased = d1 \<and> rec_state leased = LEASED)) (\<lambda>_.
     pbind (passert (lease_is leased (\<lambda>l. le_attempt l = rec_attempt_count leased \<and> rec_attempt_count leased = 1))) (\<lambda>_.
     pbind (passert (lease_is leased (\<lambda>l. le_owner l = ''owner-a'' \<and> le_acquired_at l = suite_now \<and> le_expires_at l = suite_now + 1000000))) (\<lambda>_.
     pbind (claim_one port ''owner-b'' 0 10) (\<lambda>parallel.
     pbind (passert (rec_data parallel = d3)) (\<lambda>_.
     pbind (suite_claim port ''owner-c'' 0 10) (\<lambda>none.
     pbind (passert (none = [])) (\<lambda>_.
     pbind (suite_complete port d3 ''owner-b'' 0 (VInt 1)) (\<lambda>c.
     pbind (passert (cp_revision c = 1)) (\<lambda>_.
     pret leased)))))))))))))))"

definition rejection_checks ::
  "core_errors \<Rightarrow> 'w conformance_target \<Rightarrow> 'w outbox_port \<Rightarrow> odata \<Rightarrow> outbox_record \<Rightarrow> ('w, checkpoint) prog" where
  "rejection_checks ce t port d1 leased =
     pbind (ct_checkpoint t (partition_key d1)) (\<lambda>cp.
     pbind (passert (cp_revision cp = 0)) (\<lambda>_.
     pbind (reject ce (suite_complete port d1 ''other'' 0 (VInt 1)) lease_lost_code) (\<lambda>_.
     pbind (reject ce (suite_release port d1 ''other'' 0) lease_lost_code) (\<lambda>_.
     pbind (unchanged t d1 leased cp) (\<lambda>_.
     pbind (reject ce (suite_complete port d1 ''owner-a'' 1 (VInt 1)) lease_lost_code) (\<lambda>_.
     pbind (reject ce (suite_release port d1 ''owner-a'' 1) lease_lost_code) (\<lambda>_.
     pbind (unchanged t d1 leased cp) (\<lambda>_.
     pret cp))))))))"

definition version_checks ::
  "core_errors \<Rightarrow> 'w conformance_target \<Rightarrow> odata \<Rightarrow> checkpoint \<Rightarrow> ('w, 'w outbox_port) prog" where
  "version_checks ce t d1 cp =
     pbind (ct_reopen t) (\<lambda>port.
     pbind (claim_one port ''owner-b'' 2 10) (\<lambda>reclaimed.
     pbind (passert (rec_data reclaimed = d1 \<and> rec_attempt_count reclaimed = 2)) (\<lambda>_.
     pbind (passert (lease_is reclaimed (\<lambda>l. le_owner l = ''owner-b''))) (\<lambda>_.
     pbind (reject ce (suite_complete port d1 ''owner-a'' 3 (VInt 1)) lease_lost_code) (\<lambda>_.
     pbind (reject ce (suite_release port d1 ''owner-a'' 3) lease_lost_code) (\<lambda>_.
     pbind (pfor (\<lambda>v. pbind (reject ce (suite_complete port d1 ''owner-b'' 3 v) ''MERIDIAN_CHECKPOINT_CONFLICT'') (\<lambda>_.
         unchanged t d1 reclaimed cp)) [VInt 2, VStr ''1'', VBool True, VNone]) (\<lambda>_.
     pret port)))))))"

definition completion_checks ::
  "core_errors \<Rightarrow> 'w conformance_target \<Rightarrow> 'w outbox_port \<Rightarrow> odata \<Rightarrow> odata \<Rightarrow> ('w, 'w outbox_port) prog" where
  "completion_checks ce t port d1 d2 =
     pbind (suite_complete port d1 ''owner-b'' 3 (VInt 1)) (\<lambda>committed.
     pbind (passert (cp_revision committed = 1 \<and> cp_event_id committed = Some (od_event_id d1))) (\<lambda>_.
     pbind (passert (version_eq (cp_source_version committed) (VInt 1) \<and> cp_target_fingerprint committed = Some suite_fingerprint)) (\<lambda>_.
     pbind (passert (cp_advanced_at committed = Some (suite_now + 3000000))) (\<lambda>_.
     pbind (ct_reopen t) (\<lambda>port.
     pbind (ct_checkpoint t (partition_key d1)) (\<lambda>c.
     pbind (passert (c = committed)) (\<lambda>_.
     pbind (ct_inspect_record t (od_event_id d1)) (\<lambda>finished.
     pbind (passert (rec_state finished = COMPLETED \<and> rec_lease finished = None)) (\<lambda>_.
     pbind (passert (rec_target_fingerprint finished = Some suite_fingerprint \<and> rec_completed_at finished = cp_advanced_at committed)) (\<lambda>_.
     pbind (reject ce (suite_complete port d1 ''owner-b'' 3 (VInt 1)) lease_lost_code) (\<lambda>_.
     pbind (ct_checkpoint t (partition_key d1)) (\<lambda>c.
     pbind (passert (c = committed)) (\<lambda>_.
     pbind (claim_one port ''owner-c'' 4 10) (\<lambda>next_record.
     pbind (passert (rec_data next_record = d2)) (\<lambda>_.
     pbind (suite_complete port d2 ''owner-c'' 5 (VInt 2)) (\<lambda>c.
     pbind (passert (cp_revision c = 2)) (\<lambda>_.
     pret port)))))))))))))))))"

definition poison_checks :: "'w conformance_target \<Rightarrow> 'w outbox_port \<Rightarrow> ('w, 'w outbox_port) prog" where
  "poison_checks t port =
     pbind (plift (suite_event t ''03-poison'' ''03-poison'' 1)) (\<lambda>poison.
     pbind (ct_seed t poison) (\<lambda>_.
     pbind (suite_claim port ''owner-c'' 6 10) (\<lambda>_.
     pbind (suite_release port poison ''owner-c'' 7) (\<lambda>released.
     pbind (passert (rec_state released = RETRYABLE \<and> rec_lease released = None)) (\<lambda>_.
     pbind (ct_checkpoint t (partition_key poison)) (\<lambda>c.
     pbind (passert (cp_revision c = 0)) (\<lambda>_.
     pbind (passert (case rec_failure released of None \<Rightarrow> False | Some f \<Rightarrow> \<not> contains_text ''synthetic-secret'' (fa_redacted_cause f))) (\<lambda>_.
     pbind (ct_reopen t) (\<lambda>port.
     pbind (ct_inspect_record t (od_event_id poison)) (\<lambda>r.
     pbind (passert (r = released)) (\<lambda>_.
     pbind (claim_one port ''owner-d'' 8 10) (\<lambda>retried.
     pbind (passert (rec_attempt_count retried = 2)) (\<lambda>_.
     pbind (suite_release port poison ''owner-d'' 9) (\<lambda>quarantined.
     pbind (passert (rec_state quarantined = QUARANTINED \<and> rec_lease quarantined = None)) (\<lambda>_.
     pbind (ct_reopen t) (\<lambda>port.
     pbind (ct_inspect_record t (od_event_id poison)) (\<lambda>r.
     pbind (passert (r = quarantined)) (\<lambda>_.
     pbind (plift (suite_event t ''04-after-poison'' ''03-poison'' 1)) (\<lambda>follower.
     pbind (ct_seed t follower) (\<lambda>_.
     pbind (suite_claim port ''owner-e'' 10 10) (\<lambda>none.
     pbind (passert (none = [])) (\<lambda>_.
     pbind (ct_checkpoint t (partition_key poison)) (\<lambda>c.
     pbind (passert (cp_revision c = 0)) (\<lambda>_.
     pret port))))))))))))))))))))))))"

text \<open>\<open>try: ... except MeridianError as error: ...\<close> around one action by the owner of a reclaimed lease.\<close>

definition characterized :: "core_errors \<Rightarrow> ('w, unit) prog \<Rightarrow> ('w, string) prog" where
  "characterized ce action w = (case action w of
       (Inr _, w') \<Rightarrow> (Inr ''accepted-indistinguishable-owner'', w')
     | (Inl e, w') \<Rightarrow> if \<not> is_meridian_error e then (Inl e, w')
         else if exn_code e = lease_lost_code then (Inr ''rejected-by-adapter-policy-not-port-guarantee'', w')
         else (Inl (AssertionError []), w'))"

definition same_owner :: "core_errors \<Rightarrow> 'w conformance_target \<Rightarrow> 'w outbox_port \<Rightarrow> string \<Rightarrow> bool \<Rightarrow> ('w, string) prog" where
  "same_owner ce t port name completing =
     pbind (plift (suite_event t name name 1)) (\<lambda>d.
     pbind (ct_seed t d) (\<lambda>_.
     pbind (claim_one port ''reused-owner'' 11 1) (\<lambda>old.
     pbind (claim_one port ''reused-owner'' 13 10) (\<lambda>current.
     pbind (passert (rec_data old = rec_data current \<and> rec_data current = d)) (\<lambda>_.
     pbind (passert (rec_lease old \<noteq> None \<and> rec_lease current \<noteq> None)) (\<lambda>_.
     pbind (passert (lease_is old (\<lambda>l. lease_is current (\<lambda>l'. le_owner l = le_owner l')) \<and> rec_attempt_count current = 2)) (\<lambda>_.
     characterized ce (if completing
       then pbind (suite_complete port d (case rec_lease old of Some l \<Rightarrow> le_owner l | None \<Rightarrow> []) 14 (VInt 1)) (\<lambda>_.
            pbind (ct_checkpoint t (partition_key d)) (\<lambda>c. passert (cp_revision c = 1)))
       else pbind (suite_release port d (case rec_lease old of Some l \<Rightarrow> le_owner l | None \<Rightarrow> []) 14) (\<lambda>_.
            pbind (ct_checkpoint t (partition_key d)) (\<lambda>c. passert (cp_revision c = 0)))))))))))"

definition suite_checks :: "string list" where
  "suite_checks = [''bounded-exclusive-claim-and-source-ordering'', ''wrong-owner-and-exact-expiry-rejection'',
     ''reopen-expiry-reclaim-and-exact-version-acknowledgement'', ''completion-checkpoint-reopen-and-monotonic-revision'',
     ''retry-quarantine-redaction-reopen-and-no-silent-skip'']"

definition run_outbox_conformance :: "core_errors \<Rightarrow> 'w conformance_target \<Rightarrow> ('w, conformance_report) prog" where
  "run_outbox_conformance ce t =
     pbind (plift (suite_event t ''01-first'' ''ordered'' 1)) (\<lambda>d1.
     pbind (plift (suite_event t ''02-second'' ''ordered'' 2)) (\<lambda>d2.
     pbind (plift (suite_event t ''03-independent'' ''03-independent'' 1)) (\<lambda>d3.
     pbind (ordering_checks t (ct_outbox t) d1 d2 d3) (\<lambda>leased.
     pbind (rejection_checks ce t (ct_outbox t) d1 leased) (\<lambda>cp.
     pbind (version_checks ce t d1 cp) (\<lambda>port.
     pbind (completion_checks ce t port d1 d2) (\<lambda>port.
     pbind (poison_checks t port) (\<lambda>port.
     pbind (same_owner ce t port ''05-same-owner'' True) (\<lambda>completion.
     pbind (same_owner ce t port ''06-same-owner'' False) (\<lambda>release.
     pbind (port_lag port (Some (suite_time 15))) (\<lambda>lag.
     pbind (passert (2 \<le> lag_incomplete_count lag)) (\<lambda>_.
     pret \<lparr>cf_checks = suite_checks, cf_same_owner_completion = completion, cf_same_owner_release = release\<rparr>))))))))))))"

end
