(* ===== verification/Conformance_Run.thy ===== *)
theory Conformance_Run
  imports Conformance
begin

text \<open>
  The reference store passes the conformance suite.  The suite is run symbolically: the events are known by
  identifier, version and partition, and only the digests that key their partitions are opaque.
\<close>

section \<open>The reference target\<close>

text \<open>Every call of the suite gives its time, so the wall clock of the store is never read.\<close>

definition reference_port :: "core_errors \<Rightarrow> outbox_store outbox_port" where
  "reference_port ce = \<lparr>port_claim = (\<lambda>owner limit duration now. atomic_claim owner limit duration (Some now) 0),
     port_complete = (\<lambda>eid owner v fp now. outbox_complete eid owner v fp (Some now) 0),
     port_release = (\<lambda>eid owner e b now. outbox_release ce eid owner e b (Some now) 0),
     port_lag = (\<lambda>now. outbox_lag now 0)\<rparr>"

definition reference_target :: "core_errors \<Rightarrow> outbox_store conformance_target" where
  "reference_target ce = \<lparr>ct_outbox = reference_port ce, ct_seed = outbox_append, ct_inspect_record = get_record, ct_checkpoint = checkpoint_of,
     ct_reopen = pret (reference_port ce), ct_source_resource = ''conformance.source'', ct_source_schema = ''conformance.source@1'',
     ct_target_labels = [], ct_source_catalog = ''structured''\<rparr>"

lemma reference_target_hooks [simp]:
  "ct_outbox (reference_target ce) = reference_port ce" "ct_seed (reference_target ce) = outbox_append"
  "ct_inspect_record (reference_target ce) = get_record" "ct_checkpoint (reference_target ce) = checkpoint_of"
  "ct_reopen (reference_target ce) = pret (reference_port ce)"
  by (simp_all add: reference_target_def)

section \<open>Events\<close>

definition source_partition :: "string \<Rightarrow> string" where
  "source_partition i = json_digest (JObj [(''sourceCatalog'', JStr ''structured''), (''sourceResource'', JStr ''conformance.source''),
     (''sourceIdentity'', JStr i)])"

definition suite_data :: "string \<Rightarrow> string \<Rightarrow> int \<Rightarrow> odata" where
  "suite_data name i version =
     (let d = \<lparr>od_source_resource = ''conformance.source'', od_source_schema = ''conformance.source@1'', od_source_identity = JStr i,
        od_mutation_kind = ''put'', od_source_version = VInt version, od_payload = Some (JObj [(''id'', JStr i)]), od_immutable_reference = None,
        od_target_labels = [], od_occurred_at = suite_now, od_operation_context = JObj [], od_source_catalog = ''structured'',
        od_event_id = name, od_digest = [], od_format_version = outbox_format_version\<rparr>
      in d\<lparr>od_digest := json_digest (digest_material d)\<rparr>)"

text \<open>Instants of the suite, in microseconds after its start.\<close>

definition instant_at :: "int \<Rightarrow> int" where
  "instant_at k = suite_now + k"

lemma instant_at_simps [simp]: "instant_at a < instant_at b \<longleftrightarrow> a < b" "instant_at a \<le> instant_at b \<longleftrightarrow> a \<le> b" "instant_at a = instant_at b \<longleftrightarrow> a = b"
    "instant_at a = suite_now \<longleftrightarrow> a = 0" "instant_at a = suite_now + b \<longleftrightarrow> a = b" "instant_at a + b = instant_at (a + b)"
  by (simp_all add: instant_at_def)

lemma suite_time_at: "suite_time s = utc_datetime (instant_at (1000000 * s))"
  by (simp add: suite_time_def instant_at_def)

lemma suite_instant [simp]: "0 \<le> k \<Longrightarrow> k \<le> 1000000000 \<Longrightarrow> valid_instant (instant_at k)"
  by (simp add: valid_instant_def suite_now_def max_instant_def instant_at_def)

lemma suite_instant0 [simp]: "valid_instant suite_now"
  by (simp add: valid_instant_def suite_now_def max_instant_def)

lemma suite_data_simps [simp]:
  "od_event_id (suite_data name i version) = name" "od_occurred_at (suite_data name i version) = suite_now"
  "od_source_version (suite_data name i version) = VInt version" "partition_key (suite_data name i version) = source_partition i"
  by (simp_all add: suite_data_def Let_def partition_key_def source_partition_def)

lemma suite_event_eq: "name \<noteq> [] \<Longrightarrow> suite_event (reference_target ce) name i version = Inr (suite_data name i version)"
  by (simp add: suite_event_def reference_target_def OutboxDataV1_def suite_data_def suite_time_def catalog_names_def
      immutable_value_def immutable_mapping_def Let_def)

section \<open>States of the store\<close>

definition suite_store :: "num \<Rightarrow> outbox_record list \<Rightarrow> (string, checkpoint) dict \<Rightarrow> outbox_store" where
  "suite_store v rs cps = \<lparr>st_poison_threshold = 2, st_visibility_target_seconds = v, st_records = map (\<lambda>r. (event_id r, r)) rs, st_checkpoints = cps\<rparr>"

lemma suite_store_simps [simp]: "st_poison_threshold (suite_store v rs cps) = 2" "st_records (suite_store v rs cps) = map (\<lambda>r. (event_id r, r)) rs"
    "st_checkpoints (suite_store v rs cps) = cps" "st_visibility_target_seconds (suite_store v rs cps) = v"
  by (simp_all add: suite_store_def)

text \<open>Replacing a record in the list of records.\<close>

fun replace_record :: "outbox_record \<Rightarrow> outbox_record list \<Rightarrow> outbox_record list" where
  "replace_record r [] = [r]"
| "replace_record r (s # rs) = (if event_id s = event_id r then r # rs else s # replace_record r rs)"

lemma put_suite_record [simp]: "put_record r (suite_store v rs cps) = suite_store v (replace_record r rs) cps"
  by (induction rs) (auto simp: put_record_def suite_store_def)

lemma put_suite_checkpoint [simp]: "put_checkpoint c (suite_store v rs cps) = suite_store v rs (AList.update (cp_partition_key c) c cps)"
  by (simp add: put_checkpoint_def suite_store_def)

fun find_suite :: "string \<Rightarrow> outbox_record list \<Rightarrow> outbox_record option" where
  "find_suite e [] = None"
| "find_suite e (r # rs) = (if event_id r = e then Some r else find_suite e rs)"

lemma find_suite_record [simp]: "map_of (map (\<lambda>r. (event_id r, r)) rs) e = find_suite e rs"
  by (induction rs) auto

abbreviation pending_rec :: "odata \<Rightarrow> outbox_record" where
  "pending_rec d \<equiv> \<lparr>rec_data = d, rec_state = PENDING, rec_attempt_count = 0, rec_lease = None, rec_failure = None,
     rec_target_fingerprint = None, rec_completed_at = None\<rparr>"

abbreviation leased_rec :: "odata \<Rightarrow> int \<Rightarrow> string \<Rightarrow> int \<Rightarrow> int \<Rightarrow> outbox_record" where
  "leased_rec d n owner a e \<equiv> \<lparr>rec_data = d, rec_state = LEASED, rec_attempt_count = n,
     rec_lease = Some \<lparr>le_owner = owner, le_acquired_at = instant_at a, le_expires_at = instant_at e, le_attempt = n\<rparr>, rec_failure = None,
     rec_target_fingerprint = None, rec_completed_at = None\<rparr>"

abbreviation completed_rec :: "odata \<Rightarrow> int \<Rightarrow> int \<Rightarrow> outbox_record" where
  "completed_rec d n t \<equiv> \<lparr>rec_data = d, rec_state = COMPLETED, rec_attempt_count = n, rec_lease = None, rec_failure = None,
     rec_target_fingerprint = Some suite_fingerprint, rec_completed_at = Some (instant_at t)\<rparr>"

abbreviation failed_rec :: "odata \<Rightarrow> outbox_state \<Rightarrow> int \<Rightarrow> int outbox_failure \<Rightarrow> outbox_record" where
  "failed_rec d s n f \<equiv> \<lparr>rec_data = d, rec_state = s, rec_attempt_count = n, rec_lease = None, rec_failure = Some f,
     rec_target_fingerprint = None, rec_completed_at = None\<rparr>"

abbreviation checkpoint_at :: "string \<Rightarrow> int \<Rightarrow> string \<Rightarrow> int \<Rightarrow> int \<Rightarrow> checkpoint" where
  "checkpoint_at p n e version t \<equiv> \<lparr>cp_partition_key = p, cp_revision = n, cp_event_id = Some e, cp_source_version = VInt version,
     cp_target_fingerprint = Some suite_fingerprint, cp_advanced_at = Some (instant_at t)\<rparr>"

section \<open>Calls\<close>

lemma suite_fingerprint_ok [simp]: "is_sha256 suite_fingerprint"
  by (simp add: is_sha256_def suite_fingerprint_def is_hex_def)

lemma suite_seed:
  "find_suite (od_event_id d) rs = None \<Longrightarrow> outbox_append d (suite_store v rs cps) = (Inr (), suite_store v (rs @ [pending_rec d]) cps)"
proof -
  assume new: "find_suite (od_event_id d) rs = None"
  then have "replace_record (new_record d) rs = rs @ [pending_rec d]"
    by (induction rs) (auto simp: new_record_def split: if_splits)
  with new show ?thesis by (simp add: outbox_append_def)
qed

lemma suite_claim_eq:
  assumes "sorted (map event_id rs)" and "\<forall>r \<in> set rs. od_occurred_at (rec_data r) = suite_now"
    and "owner \<noteq> []" and "0 \<le> s" and "s \<le> 100" and "0 < dur"
  shows "suite_claim (reference_port ce) owner s dur (suite_store v rs cps)
    = claim_loop owner 1 (1000000 * dur) (instant_at (1000000 * s)) rs [] [] (suite_store v rs cps)"
proof -
  have "map order_key rs = map (\<lambda>e. (suite_now, e)) (map event_id rs)" using assms(2) by (simp add: order_key_def)
  moreover have "sorted (map (\<lambda>e. (suite_now, e)) es) = sorted es" for es :: "string list" by (induction es) auto
  ultimately have "sorted (map order_key rs)" using assms(1) by (simp only:)
  then have "ordered_records (suite_store v rs cps) = rs"
    by (simp add: ordered_records_def comp_def sort_key_id_if_sorted)
  with assms show ?thesis
    by (simp add: suite_claim_def reference_port_def atomic_claim_def suite_time_at current_time_def guard_def)
qed

text \<open>One record of the loop.\<close>

lemma claim_pending:
  assumes "owner \<noteq> []" and "0 \<le> s" and "s \<le> 100000000" and "0 < dur" and "dur \<le> 100000000"
  shows "claim_record owner dur (instant_at s) (pending_rec d)
    = (leased_rec d 1 owner s (s + dur), Claimed (leased_rec d 1 owner s (s + dur)))"
  using assms by (simp add: claim_record_def Let_def OutboxLease_def snapshot_def add_duration_def OutboxRecord_def guard_def add.assoc)

lemma claim_retryable:
  assumes "owner \<noteq> []" and "0 \<le> s" and "s \<le> 100000000" and "0 < dur" and "dur \<le> 100000000" and "0 \<le> n"
  shows "claim_record owner dur (instant_at s) (failed_rec d RETRYABLE n f)
    = (leased_rec d (n + 1) owner s (s + dur), Claimed (leased_rec d (n + 1) owner s (s + dur)))"
  using assms by (simp add: claim_record_def Let_def OutboxLease_def snapshot_def add_duration_def OutboxRecord_def guard_def add.assoc)

lemma claim_expired:
  assumes "owner \<noteq> []" and "0 \<le> s" and "s \<le> 100000000" and "0 < dur" and "dur \<le> 100000000" and "0 \<le> n" and "e \<le> s"
  shows "claim_record owner dur (instant_at s) (leased_rec d n o' a e)
    = (leased_rec d (n + 1) owner s (s + dur), Claimed (leased_rec d (n + 1) owner s (s + dur)))"
  using assms by (simp add: claim_record_def Let_def OutboxLease_def snapshot_def add_duration_def OutboxRecord_def guard_def add.assoc)

lemma claim_held: "s < e \<Longrightarrow> claim_record owner dur (instant_at s) (leased_rec d n o' a e) = (leased_rec d n o' a e, Skipped)"
  by (simp add: claim_record_def)

lemma claim_quarantined: "claim_record owner dur (instant_at s) (failed_rec d QUARANTINED n f) = (failed_rec d QUARANTINED n f, Skipped)"
  by (simp add: claim_record_def)

lemmas claim_runs = suite_claim_eq claim_pending claim_retryable claim_expired claim_held claim_quarantined

lemma reference_calls:
  "suite_complete (reference_port ce) d owner s version = outbox_complete (od_event_id d) owner version suite_fingerprint (Some (suite_time s)) 0"
  "suite_release (reference_port ce) d owner s = outbox_release ce (od_event_id d) owner (RuntimeError ''token=synthetic-secret'') True (Some (suite_time s)) 0"
  by (simp_all add: suite_complete_def suite_release_def reference_port_def)

lemma suite_completes:
  assumes "find_suite (od_event_id d) rs = Some (leased_rec d n owner a e)" and "0 \<le> s" and "s \<le> 100" and "1000000 * s < e"
    and "od_source_version d = VInt k" and "0 \<le> (case map_of cps (partition_key d) of None \<Rightarrow> 0 | Some p \<Rightarrow> cp_revision p)"
  shows "suite_complete (reference_port ce) d owner s (VInt k) (suite_store v rs cps) =
    (let c = checkpoint_at (partition_key d) (case map_of cps (partition_key d) of None \<Rightarrow> 1 | Some p \<Rightarrow> cp_revision p + 1) (od_event_id d) k (1000000 * s)
     in (Inr c, suite_store v (replace_record (completed_rec d n (1000000 * s)) rs) (AList.update (partition_key d) c cps)))"
  using assms by (simp add: reference_calls outbox_complete_def suite_time_at current_time_def require_sha256_def Let_def leased_record_def
      Checkpoint_def guard_def split: option.splits)

lemma suite_lease_lost:
  assumes "case find_suite (od_event_id d) rs of None \<Rightarrow> False
      | Some r \<Rightarrow> (case rec_lease r of None \<Rightarrow> True | Some l \<Rightarrow> le_owner l \<noteq> owner \<or> le_expires_at l \<le> instant_at (1000000 * s))"
    and "0 \<le> s" and "s \<le> 100"
  shows "reject ce (suite_complete (reference_port ce) d owner s version) lease_lost_code (suite_store v rs cps) = (Inr (), suite_store v rs cps)"
    and "reject ce (suite_release (reference_port ce) d owner s) lease_lost_code (suite_store v rs cps) = (Inr (), suite_store v rs cps)"
proof -
  have "\<exists>m. leased_record (od_event_id d) owner (instant_at (1000000 * s)) (suite_store v rs cps) = Inl (LeaseLostError m)"
    using assms by (auto simp: leased_record_def split: option.splits)
  then obtain m where "leased_record (od_event_id d) owner (instant_at (1000000 * s)) (suite_store v rs cps) = Inl (LeaseLostError m)" ..
  with assms(2,3) show "reject ce (suite_complete (reference_port ce) d owner s version) lease_lost_code (suite_store v rs cps) = (Inr (), suite_store v rs cps)"
    and "reject ce (suite_release (reference_port ce) d owner s) lease_lost_code (suite_store v rs cps) = (Inr (), suite_store v rs cps)"
    by (simp_all add: reject_def reference_calls outbox_complete_def outbox_release_def suite_time_at current_time_def require_sha256_def package_errors)
qed

lemma suite_wrong_version:
  assumes "find_suite (od_event_id d) rs = Some (leased_rec d n owner a e)" and "0 \<le> s" and "s \<le> 100" and "1000000 * s < e"
    and "\<not> (same_type version (od_source_version d) \<and> version_eq version (od_source_version d))"
  shows "reject ce (suite_complete (reference_port ce) d owner s version) ''MERIDIAN_CHECKPOINT_CONFLICT'' (suite_store v rs cps) = (Inr (), suite_store v rs cps)"
  using assms by (auto simp: reject_def reference_calls outbox_complete_def suite_time_at current_time_def require_sha256_def leased_record_def package_errors)

text \<open>\<open>str(error)\<close> of an exception of the language is its text.\<close>

definition builtin_text :: "core_errors \<Rightarrow> core_errors" where
  "builtin_text ce = ce\<lparr>ce_str := \<lambda>e. case e of PyError _ _ m \<Rightarrow> m | _ \<Rightarrow> ce_str ce e\<rparr>"

definition suite_failure :: "int \<Rightarrow> int outbox_failure" where
  "suite_failure t = \<lparr>fa_code = ''builtins.RuntimeError'', fa_redacted_cause = ''token=<redacted>'', fa_failed_at = instant_at t\<rparr>"

lemma suite_redacted: "redact ''token=synthetic-secret'' = ''token=<redacted>''"
  by (simp add: redact.simps match_sensitive_def sensitive_words_def Let_def is_space_def value_char_def lower_char_def)

lemma suite_releases:
  assumes "find_suite (od_event_id d) rs = Some (leased_rec d n owner a e)" and "0 \<le> s" and "s \<le> 100" and "1000000 * s < e" and "0 \<le> n"
  shows "suite_release (reference_port (builtin_text ce)) d owner s (suite_store v rs cps) =
    (let r = failed_rec d (if 2 \<le> n then QUARANTINED else RETRYABLE) n (suite_failure (1000000 * s))
     in (Inr r, suite_store v (replace_record r rs) cps))"
proof -
  have "strip ''token=<redacted>'' = ''token=<redacted>''" by (simp add: strip_def is_space_def)
  with assms(2,3) have "redacted_failure (builtin_text ce) (RuntimeError ''token=synthetic-secret'') (instant_at (1000000 * s)) = Inr (suite_failure (1000000 * s))"
    by (simp add: redacted_failure_def builtin_text_def suite_redacted Let_def OutboxFailure_def suite_failure_def)
  with assms show ?thesis
    by (simp add: reference_calls outbox_release_def suite_time_at current_time_def leased_record_def snapshot_def OutboxRecord_def guard_def Let_def)
qed

abbreviation fresh_checkpoint :: "string \<Rightarrow> checkpoint" where
  "fresh_checkpoint p \<equiv> \<lparr>cp_partition_key = p, cp_revision = 0, cp_event_id = None, cp_source_version = VNone, cp_target_fingerprint = None, cp_advanced_at = None\<rparr>"

lemma source_partition_nonempty [simp]: "source_partition i \<noteq> []"
  by (simp add: source_partition_def)

lemma suite_checkpoint:
  "p \<noteq> [] \<Longrightarrow> checkpoint_of p (suite_store v rs cps) = (Inr (case map_of cps p of None \<Rightarrow> fresh_checkpoint p | Some c \<Rightarrow> c), suite_store v rs cps)"
  by (simp add: checkpoint_of_def Checkpoint_def)

lemma suite_inspect:
  "find_suite e rs = Some r \<Longrightarrow> 0 \<le> rec_attempt_count r \<Longrightarrow> (rec_state r = LEASED) = (rec_lease r \<noteq> None) \<Longrightarrow>
     get_record e (suite_store v rs cps) = (Inr r, suite_store v rs cps)"
  by (simp add: get_record_def snapshot_def OutboxRecord_def guard_def)

lemma suite_unchanged:
  assumes "find_suite (od_event_id d) rs = Some r" and "0 \<le> rec_attempt_count r" and "(rec_state r = LEASED) = (rec_lease r \<noteq> None)"
    and "map_of cps (partition_key d) = None"
  shows "unchanged (reference_target ce) d r (fresh_checkpoint (partition_key d)) (suite_store v rs cps) = (Inr (), suite_store v rs cps)"
  using suite_inspect [OF assms(1-3)] assms(4) by (simp add: unchanged_def pbind_def passert_def suite_checkpoint)

lemma suite_lag:
  assumes "0 \<le> s" and "s \<le> 100" and "\<not> num_le v (Fin 0)" and "\<forall>r \<in> set rs. od_occurred_at (rec_data r) = suite_now"
  shows "\<exists>lag. port_lag (reference_port ce) (Some (suite_time s)) (suite_store v rs cps) = (Inr lag, suite_store v rs cps) \<and>
    lag_incomplete_count lag = int (length (filter (\<lambda>r. rec_state r \<noteq> COMPLETED) rs))"
  using assms by (auto simp: reference_port_def outbox_lag_def suite_time_at current_time_def ProjectionLag_def guard_def Let_def comp_def filter_map max_def)

lemma suite_bind: "m w = (Inr x, w') \<Longrightarrow> f x w' = res \<Longrightarrow> pbind m f w = res"
  by (simp add: pbind_def)

lemma suite_assert: "b \<Longrightarrow> f () w = res \<Longrightarrow> pbind (passert b) f w = res"
  by (simp add: passert_def)

lemma suite_pret: "f x w = res \<Longrightarrow> pbind (pret x) f w = res"
  by simp

lemma suite_claim_one: "suite_claim port owner s dur w = (Inr [r], w') \<Longrightarrow> claim_one port owner s dur w = (Inr r, w')"
  by (simp add: claim_one_def pbind_def)

section \<open>The run\<close>

abbreviation "d1 \<equiv> suite_data ''01-first'' ''ordered'' 1"
abbreviation "d2 \<equiv> suite_data ''02-second'' ''ordered'' 2"
abbreviation "d3 \<equiv> suite_data ''03-independent'' ''03-independent'' 1"

abbreviation "P1 \<equiv> source_partition ''ordered''"
abbreviation "P3 \<equiv> source_partition ''03-independent''"

abbreviation "after_ordering v \<equiv> suite_store v [leased_rec d1 1 ''owner-a'' 0 1000000, pending_rec d2, completed_rec d3 1 0]
   [(P3, checkpoint_at P3 1 ''03-independent'' 1 0)]"

lemma run_ordering:
  assumes "P1 \<noteq> P3" and "\<not> num_le v (Fin 0)"
  shows "ordering_checks (reference_target ce) (reference_port ce) d1 d2 d3 (suite_store v [] [])
    = (Inr (leased_rec d1 1 ''owner-a'' 0 1000000), after_ordering v)"
proof -
  let ?p = "reference_port ce"
  let ?s0 = "suite_store v [pending_rec d1, pending_rec d2, pending_rec d3] []"
  obtain lag where lag: "port_lag ?p (Some (suite_time 0)) ?s0 = (Inr lag, ?s0)" "lag_incomplete_count lag = 3"
    using suite_lag [of 0 v "[pending_rec d1, pending_rec d2, pending_rec d3]" ce "[]"] assms(2) by auto
  let ?s1 = "suite_store v [leased_rec d1 1 ''owner-a'' 0 1000000, pending_rec d2, pending_rec d3] []"
  have c1: "suite_claim ?p ''owner-a'' 0 1 ?s0 = (Inr [leased_rec d1 1 ''owner-a'' 0 1000000], ?s1)"
    by (simp add: claim_runs)
  let ?s2 = "suite_store v [leased_rec d1 1 ''owner-a'' 0 1000000, pending_rec d2, leased_rec d3 1 ''owner-b'' 0 10000000] []"
  have c2: "suite_claim ?p ''owner-b'' 0 10 ?s1 = (Inr [leased_rec d3 1 ''owner-b'' 0 10000000], ?s2)"
    using assms(1) by (simp add: claim_runs)
  have c3: "suite_claim ?p ''owner-c'' 0 10 ?s2 = (Inr [], ?s2)"
    using assms(1) by (simp add: claim_runs)
  have c4: "suite_complete ?p d3 ''owner-b'' 0 (VInt 1) ?s2 = (Inr (checkpoint_at P3 1 ''03-independent'' 1 0), after_ordering v)"
    by (simp add: suite_completes Let_def)
  have seeds: "outbox_append d1 (suite_store v [] []) = (Inr (), suite_store v [pending_rec d1] [])"
    "outbox_append d2 (suite_store v [pending_rec d1] []) = (Inr (), suite_store v [pending_rec d1, pending_rec d2] [])"
    "outbox_append d3 (suite_store v [pending_rec d1, pending_rec d2] []) = (Inr (), ?s0)"
    by (simp_all add: suite_seed)
  show ?thesis
    unfolding ordering_checks_def reference_target_hooks
    by ((rule suite_assert, simp add: lag lease_is_def) | (rule suite_bind, rule seeds lag(1) c3 c4 suite_claim_one [OF c1] suite_claim_one [OF c2]) | rule pret_run)+
qed

lemma run_rejection:
  assumes "P1 \<noteq> P3"
  shows "rejection_checks ce (reference_target ce) (reference_port ce) d1 (leased_rec d1 1 ''owner-a'' 0 1000000) (after_ordering v)
    = (Inr (fresh_checkpoint P1), after_ordering v)"
proof -
  let ?p = "reference_port ce" and ?s = "after_ordering v"
  have cp: "checkpoint_of (partition_key d1) ?s = (Inr (fresh_checkpoint P1), ?s)" using assms by (simp add: suite_checkpoint)
  have rejected: "reject ce (suite_complete ?p d1 ''other'' 0 (VInt 1)) lease_lost_code ?s = (Inr (), ?s)"
    "reject ce (suite_release ?p d1 ''other'' 0) lease_lost_code ?s = (Inr (), ?s)"
    "reject ce (suite_complete ?p d1 ''owner-a'' 1 (VInt 1)) lease_lost_code ?s = (Inr (), ?s)"
    "reject ce (suite_release ?p d1 ''owner-a'' 1) lease_lost_code ?s = (Inr (), ?s)"
    by (simp_all add: suite_lease_lost)
  have same: "unchanged (reference_target ce) d1 (leased_rec d1 1 ''owner-a'' 0 1000000) (fresh_checkpoint P1) ?s = (Inr (), ?s)"
    using suite_unchanged [of d1 "[leased_rec d1 1 ''owner-a'' 0 1000000, pending_rec d2, completed_rec d3 1 0]"] assms by simp
  show ?thesis
    unfolding rejection_checks_def reference_target_hooks
    by ((rule suite_assert, simp) | (rule suite_bind, rule cp rejected same) | rule pret_run)+
qed

abbreviation "after_reclaim v \<equiv> suite_store v [leased_rec d1 2 ''owner-b'' 2000000 12000000, pending_rec d2, completed_rec d3 1 0]
   [(P3, checkpoint_at P3 1 ''03-independent'' 1 0)]"

lemma suite_for: "f x w = (Inr (), w) \<Longrightarrow> pfor f xs w = res \<Longrightarrow> pfor f (x # xs) w = res"
  by (simp add: pbind_def)

lemma run_version:
  assumes "P1 \<noteq> P3"
  shows "version_checks ce (reference_target ce) d1 (fresh_checkpoint P1) (after_ordering v) = (Inr (reference_port ce), after_reclaim v)"
proof -
  let ?p = "reference_port ce" and ?s = "after_reclaim v" and ?r = "leased_rec d1 2 ''owner-b'' 2000000 12000000"
  have c: "suite_claim ?p ''owner-b'' 2 10 (after_ordering v) = (Inr [?r], ?s)"
    by (simp add: claim_runs)
  have rejected: "reject ce (suite_complete ?p d1 ''owner-a'' 3 (VInt 1)) lease_lost_code ?s = (Inr (), ?s)"
    "reject ce (suite_release ?p d1 ''owner-a'' 3) lease_lost_code ?s = (Inr (), ?s)"
    by (simp_all add: suite_lease_lost)
  have same: "unchanged (reference_target ce) d1 ?r (fresh_checkpoint P1) ?s = (Inr (), ?s)"
    using suite_unchanged [of d1 "[?r, pending_rec d2, completed_rec d3 1 0]"] assms by simp
  have wrong: "pbind (reject ce (suite_complete ?p d1 ''owner-b'' 3 version) ''MERIDIAN_CHECKPOINT_CONFLICT'') (\<lambda>_. unchanged (reference_target ce) d1 ?r (fresh_checkpoint P1)) ?s
      = (Inr (), ?s)" if "version \<in> {VInt 2, VStr ''1'', VBool True, VNone}" for version
  proof -
    have "reject ce (suite_complete ?p d1 ''owner-b'' 3 version) ''MERIDIAN_CHECKPOINT_CONFLICT'' ?s = (Inr (), ?s)"
      using that by (intro suite_wrong_version) auto
    with same show ?thesis by (simp add: pbind_def)
  qed
  have versions: "pfor (\<lambda>version. pbind (reject ce (suite_complete ?p d1 ''owner-b'' 3 version) ''MERIDIAN_CHECKPOINT_CONFLICT'')
      (\<lambda>_. unchanged (reference_target ce) d1 ?r (fresh_checkpoint P1))) [VInt 2, VStr ''1'', VBool True, VNone] ?s = (Inr (), ?s)"
    by (rule suite_for, rule wrong, simp)+ simp
  show ?thesis
    unfolding version_checks_def reference_target_hooks
    by ((rule suite_pret) | (rule suite_assert, simp add: lease_is_def) | (rule suite_bind, rule suite_claim_one [OF c] rejected versions) | rule pret_run)+
qed

abbreviation "checkpoints5 \<equiv> [(P3, checkpoint_at P3 1 ''03-independent'' 1 0), (P1, checkpoint_at P1 2 ''02-second'' 2 5000000)]"
abbreviation "records5 \<equiv> [completed_rec d1 2 3000000, completed_rec d2 1 5000000, completed_rec d3 1 0]"

lemma run_completion:
  assumes "P1 \<noteq> P3"
  shows "completion_checks ce (reference_target ce) (reference_port ce) d1 d2 (after_reclaim v) = (Inr (reference_port ce), suite_store v records5 checkpoints5)"
proof -
  let ?p = "reference_port ce" and ?c = "checkpoint_at P1 1 ''01-first'' 1 3000000"
  let ?cps = "[(P3, checkpoint_at P3 1 ''03-independent'' 1 0), (P1, ?c)]"
  let ?s1 = "suite_store v [completed_rec d1 2 3000000, pending_rec d2, completed_rec d3 1 0] ?cps"
  let ?s2 = "suite_store v [completed_rec d1 2 3000000, leased_rec d2 1 ''owner-c'' 4000000 14000000, completed_rec d3 1 0] ?cps"
  have done1: "suite_complete ?p d1 ''owner-b'' 3 (VInt 1) (after_reclaim v) = (Inr ?c, ?s1)"
    using assms by (simp add: suite_completes Let_def)
  have cp: "checkpoint_of (partition_key d1) ?s1 = (Inr ?c, ?s1)" using assms by (simp add: suite_checkpoint)
  have rec: "get_record (od_event_id d1) ?s1 = (Inr (completed_rec d1 2 3000000), ?s1)" by (simp add: suite_inspect)
  have rejected: "reject ce (suite_complete ?p d1 ''owner-b'' 3 (VInt 1)) lease_lost_code ?s1 = (Inr (), ?s1)"
    by (simp add: suite_lease_lost)
  have c: "suite_claim ?p ''owner-c'' 4 10 ?s1 = (Inr [leased_rec d2 1 ''owner-c'' 4000000 14000000], ?s2)"
    by (simp add: claim_runs)
  have done2: "suite_complete ?p d2 ''owner-c'' 5 (VInt 2) ?s2 = (Inr (checkpoint_at P1 2 ''02-second'' 2 5000000), suite_store v records5 checkpoints5)"
    using assms by (simp add: suite_completes Let_def)
  show ?thesis
    unfolding completion_checks_def reference_target_hooks
    by ((rule suite_pret) | (rule suite_assert, simp add: instant_at_def) | (rule suite_bind, rule suite_claim_one [OF c] rejected cp rec done1 done2) | rule pret_run)+
qed

abbreviation "d4 \<equiv> suite_data ''03-poison'' ''03-poison'' 1"
abbreviation "d5 \<equiv> suite_data ''04-after-poison'' ''03-poison'' 1"
abbreviation "P4 \<equiv> source_partition ''03-poison''"
abbreviation "records10 \<equiv> records5 @ [failed_rec d4 QUARANTINED 2 (suite_failure 9000000), pending_rec d5]"

lemma suite_secret: "\<not> contains_text ''synthetic-secret'' (fa_redacted_cause (suite_failure t))"
  by (simp add: suite_failure_def)

lemma run_poison:
  fixes ce :: core_errors
  defines "ce' \<equiv> builtin_text ce"
  assumes "P4 \<notin> {P1, P3}"
  shows "poison_checks (reference_target ce') (reference_port ce') (suite_store v records5 checkpoints5)
    = (Inr (reference_port ce'), suite_store v records10 checkpoints5)"
proof -
  let ?p = "reference_port ce'"
  let ?s = "\<lambda>rs. suite_store v (records5 @ rs) checkpoints5"
  let ?l1 = "leased_rec d4 1 ''owner-c'' 6000000 16000000" and ?f1 = "failed_rec d4 RETRYABLE 1 (suite_failure 7000000)"
  let ?l2 = "leased_rec d4 2 ''owner-d'' 8000000 18000000" and ?f2 = "failed_rec d4 QUARANTINED 2 (suite_failure 9000000)"
  have events: "plift (suite_event (reference_target ce') ''03-poison'' ''03-poison'' 1) w = (Inr d4, w)"
    "plift (suite_event (reference_target ce') ''04-after-poison'' ''03-poison'' 1) w = (Inr d5, w)" for w :: outbox_store
    by (simp_all add: suite_event_eq)
  have seeds: "outbox_append d4 (suite_store v records5 checkpoints5) = (Inr (), ?s [pending_rec d4])"
    "outbox_append d5 (?s [?f2]) = (Inr (), suite_store v records10 checkpoints5)"
    by (simp_all add: suite_seed)
  have c1: "suite_claim ?p ''owner-c'' 6 10 (?s [pending_rec d4]) = (Inr [?l1], ?s [?l1])"
    using assms by (simp add: claim_runs)
  have r1: "suite_release ?p d4 ''owner-c'' 7 (?s [?l1]) = (Inr ?f1, ?s [?f1])"
    by (simp add: suite_releases ce'_def Let_def)
  have c2: "suite_claim ?p ''owner-d'' 8 10 (?s [?f1]) = (Inr [?l2], ?s [?l2])"
    using assms by (simp add: claim_runs)
  have r2: "suite_release ?p d4 ''owner-d'' 9 (?s [?l2]) = (Inr ?f2, ?s [?f2])"
    by (simp add: suite_releases ce'_def Let_def)
  have c3: "suite_claim ?p ''owner-e'' 10 10 (suite_store v records10 checkpoints5) = (Inr [], suite_store v records10 checkpoints5)"
    using assms by (simp add: claim_runs)
  have cp: "checkpoint_of (partition_key d4) (suite_store v rs checkpoints5) = (Inr (fresh_checkpoint P4), suite_store v rs checkpoints5)" for rs
    using assms by (auto simp: suite_checkpoint)
  have recs: "get_record (od_event_id d4) (?s [?f1]) = (Inr ?f1, ?s [?f1])" "get_record (od_event_id d4) (?s [?f2]) = (Inr ?f2, ?s [?f2])"
    by (simp_all add: suite_inspect)
  show ?thesis
    unfolding poison_checks_def reference_target_hooks
    by ((rule suite_pret) | (rule suite_assert, simp add: suite_secret)
        | (rule suite_bind, rule events seeds c1 r1 r2 c3 cp recs suite_claim_one [OF c2]) | rule pret_run)+
qed

abbreviation "d6 \<equiv> suite_data ''05-same-owner'' ''05-same-owner'' 1"
abbreviation "d7 \<equiv> suite_data ''06-same-owner'' ''06-same-owner'' 1"
abbreviation "P6 \<equiv> source_partition ''05-same-owner''"
abbreviation "P7 \<equiv> source_partition ''06-same-owner''"
abbreviation "records12 \<equiv> records10 @ [completed_rec d6 2 14000000]"
abbreviation "checkpoints12 \<equiv> checkpoints5 @ [(P6, checkpoint_at P6 1 ''05-same-owner'' 1 14000000)]"
abbreviation "records14 \<equiv> records12 @ [failed_rec d7 QUARANTINED 2 (suite_failure 14000000)]"

lemma suite_accepted: "action w = (Inr (), w') \<Longrightarrow> characterized ce action w = (Inr ''accepted-indistinguishable-owner'', w')"
  by (simp add: characterized_def)

lemma suite_confirmed: "b \<Longrightarrow> passert b w = (Inr (), w)"
  by (simp add: passert_def)

lemma run_same_owner_completion:
  assumes "P6 \<notin> {P1, P3, P4}"
  shows "same_owner ce (reference_target ce) (reference_port ce) ''05-same-owner'' True (suite_store v records10 checkpoints5)
    = (Inr ''accepted-indistinguishable-owner'', suite_store v records12 checkpoints12)"
proof -
  let ?p = "reference_port ce"
  let ?s = "\<lambda>rs. suite_store v (records10 @ rs) checkpoints5" and ?s' = "suite_store v records12 checkpoints12"
  let ?c = "checkpoint_at P6 1 ''05-same-owner'' 1 14000000"
  let ?l1 = "leased_rec d6 1 ''reused-owner'' 11000000 12000000" and ?l2 = "leased_rec d6 2 ''reused-owner'' 13000000 23000000"
  have e: "plift (suite_event (reference_target ce) ''05-same-owner'' ''05-same-owner'' 1) w = (Inr d6, w)" for w :: outbox_store
    by (simp add: suite_event_eq)
  have s: "outbox_append d6 (suite_store v records10 checkpoints5) = (Inr (), ?s [pending_rec d6])"
    by (simp add: suite_seed)
  have c1: "suite_claim ?p ''reused-owner'' 11 1 (?s [pending_rec d6]) = (Inr [?l1], ?s [?l1])"
    using assms by (simp add: claim_runs)
  have c2: "suite_claim ?p ''reused-owner'' 13 10 (?s [?l1]) = (Inr [?l2], ?s [?l2])"
    using assms by (simp add: claim_runs)
  have d: "suite_complete ?p d6 ''reused-owner'' 14 (VInt 1) (?s [?l2]) = (Inr ?c, ?s')"
    using assms by (auto simp: suite_completes Let_def)
  have cp: "checkpoint_of P6 ?s' = (Inr ?c, ?s')"
    using assms by (auto simp: suite_checkpoint)
  show ?thesis
    unfolding same_owner_def reference_target_hooks
    by ((rule suite_assert, simp add: lease_is_def) | (rule suite_bind, rule e s suite_claim_one [OF c1] suite_claim_one [OF c2])
        | (rule suite_accepted, simp only: if_True if_False option.case outbox_record.simps outbox_lease.simps suite_data_simps) | (rule suite_bind, rule d cp) | (rule suite_confirmed, simp))+
qed

lemma run_same_owner_release:
  fixes ce :: core_errors
  defines "ce' \<equiv> builtin_text ce"
  assumes "P7 \<notin> {P1, P3, P4, P6}"
  shows "same_owner ce' (reference_target ce') (reference_port ce') ''06-same-owner'' False (suite_store v records12 checkpoints12)
    = (Inr ''accepted-indistinguishable-owner'', suite_store v records14 checkpoints12)"
proof -
  let ?p = "reference_port ce'"
  let ?s = "\<lambda>rs. suite_store v (records12 @ rs) checkpoints12" and ?s' = "suite_store v records14 checkpoints12"
  let ?l1 = "leased_rec d7 1 ''reused-owner'' 11000000 12000000" and ?l2 = "leased_rec d7 2 ''reused-owner'' 13000000 23000000"
  have e: "plift (suite_event (reference_target ce') ''06-same-owner'' ''06-same-owner'' 1) w = (Inr d7, w)" for w :: outbox_store
    by (simp add: suite_event_eq)
  have s: "outbox_append d7 (suite_store v records12 checkpoints12) = (Inr (), ?s [pending_rec d7])"
    by (simp add: suite_seed)
  have c1: "suite_claim ?p ''reused-owner'' 11 1 (?s [pending_rec d7]) = (Inr [?l1], ?s [?l1])"
    using assms by (simp add: claim_runs)
  have c2: "suite_claim ?p ''reused-owner'' 13 10 (?s [?l1]) = (Inr [?l2], ?s [?l2])"
    using assms by (simp add: claim_runs)
  have r: "suite_release ?p d7 ''reused-owner'' 14 (?s [?l2]) = (Inr (failed_rec d7 QUARANTINED 2 (suite_failure 14000000)), ?s')"
    by (simp add: suite_releases ce'_def Let_def)
  have cp: "checkpoint_of P7 ?s' = (Inr (fresh_checkpoint P7), ?s')"
    using assms by (auto simp: suite_checkpoint)
  show ?thesis
    unfolding same_owner_def reference_target_hooks
    by ((rule suite_assert, simp add: lease_is_def) | (rule suite_bind, rule e s suite_claim_one [OF c1] suite_claim_one [OF c2])
        | (rule suite_accepted, simp only: if_True if_False option.case outbox_record.simps outbox_lease.simps suite_data_simps) | (rule suite_bind, rule r cp) | (rule suite_confirmed, simp))+
qed

section \<open>The reference store conforms\<close>

lemma not_inj_on_pair: "\<not> inj_on f A \<Longrightarrow> \<exists>i j. {i, j} \<subseteq> A \<and> i \<noteq> j \<and> f i = f j"
  by (auto simp: inj_on_def)

text \<open>C39: a new reference store with a poison threshold of two passes the whole conformance suite: unless two of the five source
  identities of the suite share a SHA-256 partition key, the run returns the report with all five checks, and it records that both the
  stale completion and the stale release of a re-used owner were accepted.\<close>

theorem reference_store_conforms:
  "(\<exists>i j. {i, j} \<subseteq> {''ordered'', ''03-independent'', ''03-poison'', ''05-same-owner'', ''06-same-owner''} \<and> i \<noteq> j \<and>
      source_partition i = source_partition j) \<or>
   (\<exists>st0 st. InMemoryOutboxStore 2 (Fin 30) = Inr st0 \<and>
      run_outbox_conformance (builtin_text ce) (reference_target (builtin_text ce)) st0 =
        (Inr \<lparr>cf_checks = suite_checks, cf_same_owner_completion = ''accepted-indistinguishable-owner'',
              cf_same_owner_release = ''accepted-indistinguishable-owner''\<rparr>, st))"
proof (cases "distinct [P1, P3, P4, P6, P7]")
  case True
  let ?ce = "builtin_text ce"
  let ?p = "reference_port ?ce" and ?t = "reference_target ?ce" and ?v = "Fin 30"
  have new: "InMemoryOutboxStore 2 ?v = Inr (suite_store ?v [] [])" by (simp add: InMemoryOutboxStore_def suite_store_def)
  have events: "plift (suite_event ?t ''01-first'' ''ordered'' 1) w = (Inr d1, w)" "plift (suite_event ?t ''02-second'' ''ordered'' 2) w = (Inr d2, w)"
    "plift (suite_event ?t ''03-independent'' ''03-independent'' 1) w = (Inr d3, w)" for w :: outbox_store
    by (simp_all add: suite_event_eq)
  have runs: "P1 \<noteq> P3" "P4 \<notin> {P1, P3}" "P6 \<notin> {P1, P3, P4}" "P7 \<notin> {P1, P3, P4, P6}" using True by auto
  obtain lag where lag: "port_lag ?p (Some (suite_time 15)) (suite_store ?v records14 checkpoints12) = (Inr lag, suite_store ?v records14 checkpoints12)"
      "lag_incomplete_count lag = 3"
    using suite_lag [of 15 ?v records14 ?ce checkpoints12] by auto
  have ordering: "ordering_checks ?t (ct_outbox ?t) d1 d2 d3 (suite_store ?v [] []) = (Inr (leased_rec d1 1 ''owner-a'' 0 1000000), after_ordering ?v)"
    using run_ordering [OF runs(1), of ?v ?ce] by simp
  have "run_outbox_conformance ?ce ?t (suite_store ?v [] []) =
      (Inr \<lparr>cf_checks = suite_checks, cf_same_owner_completion = ''accepted-indistinguishable-owner'',
            cf_same_owner_release = ''accepted-indistinguishable-owner''\<rparr>, suite_store ?v records14 checkpoints12)"
    unfolding run_outbox_conformance_def reference_target_hooks
    by ((rule suite_assert, simp add: lag) | (rule suite_bind, rule events ordering [unfolded reference_target_hooks] lag run_rejection [OF runs(1)] run_version [OF runs(1)]
          run_completion [OF runs(1)] run_poison [OF runs(2)] run_same_owner_completion [OF runs(3)] run_same_owner_release [OF runs(4)]) | rule pret_run)+
  with new show ?thesis by blast
next
  case False
  let ?is = "[''ordered'', ''03-independent'', ''03-poison'', ''05-same-owner'', ''06-same-owner'']"
  from False have "\<not> distinct (map source_partition ?is)" by simp
  then have "\<not> inj_on source_partition (set ?is)" unfolding distinct_map by simp
  from not_inj_on_pair [OF this] show ?thesis by (simp only: list.set) blast
qed

end
