(* ===== verification/Runner_Stop.thy ===== *)
theory Runner_Stop
  imports Runner_Theorems
begin

text \<open>
  Termination of \<open>ProjectionRunner.run_until_stopped\<close>.  The loop has no bound of its own: it returns when the host's
  stop event is set, so what the host promises about the event is a measure that every unstopped cycle
  decreases in the worlds it expects.
\<close>

section \<open>The host's promise\<close>

definition stops_within :: "('w \<Rightarrow> bool) \<Rightarrow> ('w \<Rightarrow> nat) \<Rightarrow> 'w runner \<Rightarrow> ('w \<Rightarrow> bool \<times> 'w) \<Rightarrow> ('w \<Rightarrow> 'w) \<Rightarrow> bool" where
  "stops_within expected patience r is_set wait \<longleftrightarrow>
     (\<forall>w w1 run w2. expected w \<and> is_set w = (False, w1) \<and> run_once r None w1 = (Inr run, w2) \<longrightarrow>
       (let w3 = if run_claimed run = 0 then wait w2 else w2 in expected w3 \<and> patience w3 < patience w))"

text \<open>The event's own methods leave the outbox to the workers.\<close>

definition calm_event :: "(outbox_store \<times> 'e \<Rightarrow> bool \<times> outbox_store \<times> 'e) \<Rightarrow> (outbox_store \<times> 'e \<Rightarrow> outbox_store \<times> 'e) \<Rightarrow> bool" where
  "calm_event is_set wait \<longleftrightarrow> (\<forall>w. mem_evolves w (snd (is_set w)) \<and> mem_evolves w (wait w))"

lemma stopsD:
  assumes "stops_within expected patience r is_set wait" and "expected w" and "is_set w = (False, w1)" and "run_once r None w1 = (Inr run, w2)"
  shows "expected (if run_claimed run = 0 then wait w2 else w2)" and "patience (if run_claimed run = 0 then wait w2 else w2) < patience w"
  using assms unfolding stops_within_def Let_def by blast+

section \<open>The loop\<close>

definition stop_outcome :: "'w runner \<Rightarrow> ('w \<Rightarrow> bool \<times> 'w) \<Rightarrow> exn + projection_run \<Rightarrow> 'w \<Rightarrow> bool" where
  "stop_outcome r is_set res w' \<longleftrightarrow> (case res of
       Inl e \<Rightarrow> \<exists>w1. run_once r None w1 = (Inl e, w')
     | Inr run \<Rightarrow> (\<exists>w1. is_set w1 = (True, w')) \<and> run_claimed run = run_completed run + run_retryable run + run_quarantined run)"

lemma stop_outcomeI:
  "is_set w = (True, w') \<Longrightarrow> run_claimed run = run_completed run + run_retryable run + run_quarantined run \<Longrightarrow> stop_outcome r is_set (Inr run) w'"
  "run_once r None w = (Inl e, w') \<Longrightarrow> stop_outcome r is_set (Inl e) w'"
  unfolding stop_outcome_def by auto

text \<open>The three ways one iteration goes.\<close>

lemma stop_loop_iteration:
  "is_set w = (True, w1) \<Longrightarrow> stop_loop r is_set wait acc w = Some (Inr acc, w1)"
  "is_set w = (False, w1) \<Longrightarrow> run_once r None w1 = (Inl e, w2) \<Longrightarrow> stop_loop r is_set wait acc w = Some (Inl e, w2)"
  "is_set w = (False, w1) \<Longrightarrow> run_once r None w1 = (Inr run, w2) \<Longrightarrow>
     stop_loop r is_set wait acc w = stop_loop r is_set wait (run_add acc run) (if run_claimed run = 0 then wait w2 else w2)"
  by (subst stop_loop.simps, simp)+

lemma stop_loop_returns:
  assumes hooks: "store_hooks r" "ru_outbox r = memory_port ce wall" and stops: "stops_within expected patience r is_set wait"
    and calm: "calm_event is_set wait"
    and "mem_ok w" and "expected w" and "run_claimed acc = run_completed acc + run_retryable acc + run_quarantined acc"
  shows "\<exists>res w'. stop_loop r is_set wait acc w = Some (res, w') \<and> stop_outcome r is_set res w'"
  using assms(5-7)
proof (induction "patience w" arbitrary: w acc rule: less_induct)
  case less
  obtain stopped w1 where polled: "is_set w = (stopped, w1)" by (cases "is_set w")
  have ok1: "mem_ok w1"
    using calm less.prems(1) polled mem.evolves_ok unfolding calm_event_def by (metis snd_conv)
  obtain res w2 where cycle: "run_once r None w1 = (res, w2)" by (cases "run_once r None w1")
  consider "stopped" | e where "\<not> stopped" "res = Inl e" | run where "\<not> stopped" "res = Inr run" by (cases res) auto
  then show ?case
  proof cases
    case 1
    with polled less.prems(3) show ?thesis by (auto simp only: stop_loop_iteration(1) intro!: exI stop_outcomeI(1))
  next
    case 2
    with polled cycle show ?thesis by (auto simp only: stop_loop_iteration(2) intro!: exI stop_outcomeI(2))
  next
    case run: 3
    note counts = mem.run_once_counts [OF hooks(1) [unfolded store_hooks_def] hooks(2) ok1 cycle [unfolded run(2)]]
    let ?w3 = "if run_claimed run = 0 then wait w2 else w2"
    have "patience ?w3 < patience w" and "expected ?w3"
      using stopsD [OF stops less.prems(2), of w1 run w2] polled cycle run by simp_all
    moreover have "mem_ok ?w3"
      using counts ok1 calm mem.evolves_ok unfolding calm_event_def by (metis (full_types))
    moreover have "run_claimed (run_add acc run) = run_completed (run_add acc run) + run_retryable (run_add acc run) + run_quarantined (run_add acc run)"
      using counts less.prems(3) by (simp add: run_add_def)
    ultimately have "\<exists>res w'. stop_loop r is_set wait (run_add acc run) ?w3 = Some (res, w') \<and> stop_outcome r is_set res w'"
      using less.hyps by blast
    with polled cycle run show ?thesis by (simp only: stop_loop_iteration(3))
  qed
qed


section \<open>A sample host\<close>

text \<open>The event is set after a number of waits.\<close>

lemma sample_cycle:
  "run_once (sample_runner null_sink) None (empty_store, n) = (Inr empty_run, (empty_store, n))"
  by (simp add: run_once_def process_all_def pbind_def with_locals_def sample_runner_def memory_port_def
      on_world_def atomic_claim_def ordered_records_def empty_store_def empty_run_def)


end
