(* ===== verification/Spec2Isabelle.thy ===== *)
theory Spec2Isabelle
  imports Outbox_Theorems Runner_Drain Rebuild_Theorems Migration_Sample Migration_Planning Cache_Theorems Cache_Flights
    Portability_Sample Transactional Versioned_Target Conformance_Run Runner_Stop
    Timestamps
begin

text \<open>
  Verification of the Meridian data-lifecycle package (\<open>src/src/meridian_storage/projection\<close>, Python).

  \<^bold>\<open>The program.\<close>  A host changes a source Resource and stores an immutable intent in an outbox within one transaction
  (\<open>outbox/transactional.py\<close>).  Workers lease intents from the outbox (\<open>outbox/store.py\<close> behind the port of
  \<open>outbox/model.py\<close>), project them to a target and acknowledge the exact source version (\<open>runner/runner.py\<close>).  A
  projection can be rebuilt beside the running one and cut over (\<open>rebuild\<close>), a Schema migrated by a planned,
  checkpointed and locked execution (\<open>migration\<close>), a source read through a cache (\<open>cache\<close>), and data moved between
  deployments as verified NDJSON partitions (\<open>portability\<close>).  All of them report to an evidence sink and poll a
  cancellation token (\<open>evidence.py\<close>, \<open>control.py\<close>), raise the exceptions of \<open>errors.py\<close>, and fingerprint values by
  canonical JSON and SHA-256 (\<open>_canonical.py\<close>).

  \<^bold>\<open>How the code is modelled.\<close>  A frozen dataclass is a record and its constructor a function from raw arguments to the
  record \<open>__post_init__\<close> leaves or the exception it raises.  Pure code that may raise has type \<open>exn + 'a\<close>; a method with
  effects is a program \<open>('w, 'a) prog\<close> from a world to a result or an exception and the next world, with
  \<open>try\<close>/\<open>except\<close>/\<open>finally\<close>, \<open>with\<close> and loops as combinators (\<open>Prelude\<close>).  Injected objects (adapters, hooks, projectors,
  sinks, clocks, the Core runtime) are parameters: arbitrary programs over the world, so that theorems about what a
  coordinator does hold whatever they return, raise or do to shared state.  \<open>json.loads\<close> and \<open>fromisoformat\<close> are
  arguments of the operations that call them; the round trips are stated for the models of \<open>Json_Loads\<close> and
  \<open>Timestamps\<close>.
  Methods that run under a lock are one atomic step.  Instants and durations are integers of microseconds with the
  range of \<open>datetime\<close> written out, Python integers are unbounded, quotients that the code computes in double precision
  are rounded as IEEE does, and text is a list of the code points 0 to 255.

  \<^bold>\<open>Theories and sources.\<close>
  \<^item> \<open>Prelude\<close>, \<open>Tracing\<close>: exceptions, programs and a Hoare calculus for them, dictionaries, instants, recorded hooks.
  \<^item> \<open>Sha256\<close>, \<open>Canonical\<close>: \<open>hashlib.sha256\<close> and \<open>_canonical.py\<close>; canonical bytes do not depend on the order in
    which a mapping was built, conversion is idempotent, every digest is well formed.  \<open>Json_Loads\<close> models \<open>json.loads\<close>,
    \<open>Json_Roundtrip\<close> shows that canonical bytes read back and identify the data they were written from, \<open>Timestamps\<close>
    that the RFC 3339 text of an instant parses to that instant.
  \<^item> \<open>Lifecycle\<close>: \<open>errors.py\<close>, \<open>control.py\<close>, \<open>evidence.py\<close>.
  \<^item> \<open>Outbox_Model\<close>, \<open>Outbox_Store\<close>: \<open>outbox/model.py\<close> and \<open>outbox/store.py\<close>.  \<open>Outbox_Claim\<close> gives the operations as
    equations, \<open>Outbox_Steps\<close> the store as a step relation with its invariants, \<open>Outbox_Properties\<close> and
    \<open>Outbox_Theorems\<close> what holds of every run: claims return the oldest claimable partition heads, only the holder of a
    running lease completes or releases, completion is final, checkpoints count completions, one lease per partition
    under ordered appends, what late appends and overflowing leases break, redaction, lag.
  \<^item> \<open>Runner\<close>: \<open>runner/runner.py\<close>.  \<open>Runner_Port\<close> states the contract of an outbox port as the locale
    \<open>outbox_contract\<close> and proves the runner from it; \<open>Runner_Theorems\<close> interprets it on the in-memory store (batches are
    accounted for, completion follows an exact acknowledgement), \<open>Runner_Drain\<close> shows that an outbox is drained and
    \<open>Runner_Stop\<close> that \<open>run_until_stopped\<close> returns once the host sets its event.
  \<^item> \<open>Transactional\<close>: \<open>outbox/transactional.py\<close>; the intent is stored exactly after a validated mutation, in the same
    transaction, and every failure reaches the transaction manager.
  \<^item> \<open>Rebuild\<close>, \<open>Rebuild_Theorems\<close>: \<open>rebuild/coordinator.py\<close>; every outcome as the list of calls the adapter sees.
  \<^item> \<open>Migration_Model\<close>, \<open>Migration_Planning\<close>: \<open>migration/model.py\<close> and \<open>planner.py\<close>; when a plan becomes a bundle, and
    that a bundle is fixed by its digest.  \<open>Migration\<close>, \<open>Migration_Trace\<close>, \<open>Migration_Recorder\<close>,
    \<open>Migration_Theorems\<close>, \<open>Migration_Sample\<close>: \<open>migration/executor.py\<close>; the outcomes of an execution, and over the locale
    \<open>migration_history\<close> (interpreted on the in-memory recorder) that histories only grow and completion is final.
  \<^item> \<open>Cache_Model\<close>, \<open>Cache_Backend\<close>, \<open>Cache\<close>: \<open>cache/model.py\<close>, \<open>backends.py\<close>, \<open>coordinator.py\<close>.  \<open>Cache_Theorems\<close>
    refines a specification of a cached read over the locale \<open>cache_backend\<close> (interpreted on the in-memory backend),
    \<open>Cache_Flights\<close> interleaves readers over the table of flights.
  \<^item> \<open>Portability_Model\<close>, \<open>Portability\<close>: \<open>portability/model.py\<close> and \<open>coordinator.py\<close>.  \<open>Portability_Lines\<close> and
    \<open>Portability_Stream\<close> show that chunk boundaries do not matter and that a verified partition is canonical,
    \<open>Portability_Roundtrip\<close> that an export imports back, \<open>Portability_Trace\<close> what an import does to its target on every
    exit; \<open>Portability_Sample\<close> is a concrete export.
  \<^item> \<open>Conformance\<close>, \<open>Conformance_Run\<close>: \<open>testing/outbox_conformance.py\<close>; the in-memory store passes the suite.
  \<^item> \<open>Versioned_Target\<close>: \<open>examples/versioned_target.py\<close>; the reduction of all versions to the latest visible rows.

  \<^bold>\<open>Loops and bounds.\<close>  Loops over finite sequences are structural recursion; an iterable of a hook is a finite list of
  pulls, each of which may raise.  \<open>run_until_idle\<close> is bounded by its own \<open>max_cycles\<close>, and one more cycle than there are
  incomplete events suffices.  \<open>run_until_stopped\<close> is a partial function whose value is \<open>None\<close> when it never returns; that
  it returns is proved from the host's measure.  The scanner of
  \<open>json.loads\<close> has fuel \<open>Suc (2 * length)\<close>, which \<open>scan_bound\<close> shows is never exhausted.  Collision resistance of SHA-256 is never
  assumed: a theorem that depends on it has a collision as one of its alternatives.

  \<^bold>\<open>Not modelled.\<close>  The decimal text of a float (a parameter whose numerals are assumed to read back as the float they
  were written from), \<open>fromisoformat\<close> on texts other than those \<open>isoformat\<close> writes, text beyond the code points 0 to 255,
  random identifiers and the wall clock (parameters), the blocking of threads on the coordinator's events (a parameter
  that returns).  The package's \<open>__init__\<close> files and the
  version constant have no behaviour.  \<open>scripts/verify.py\<close>, \<open>conformance/postgresql\<close> and \<open>conformance/record_artifacts.py\<close> are
  build tooling and test hosts over processes, files and a database.
\<close>

end
